(* ===== verification/Console_Prelude.thy ===== *)
theory Console_Prelude
  imports Main "HOL-Library.AList" "HOL-Library.Sublist" "HOL-Library.Multiset"
begin

text \<open>
  The vocabulary shared by every component of the Nacos console front end
  (\<^verbatim>\<open>console/src/main/resources/static/console-fe/src\<close>): JavaScript values, strings and
  plain objects, with the generic lemmas on splitting, joining and updating them.

  \<^item> A JavaScript string is a \<^typ>\<open>string\<close>, one \<^typ>\<open>char\<close> per code unit. Code units above
    255 are outside the model; the few operations that could produce one
    (\<open>decodeURIComponent\<close>, \<open>JSON.parse\<close>) report \<open>OutsideModel\<close> instead.
  \<^item> A plain object is an association list in insertion order with distinct keys.
  \<^item> A number is an exact decimal \<open>Num m k\<close>, that is \<open>m * 10 ^ (- k)\<close>.
  \<^item> A throw is the left summand of a sum type over \<open>js_error\<close>.
\<close>

named_theorems js_simps \<open>unfolding of the JavaScript vocabulary\<close>
named_theorems page_defs \<open>definitions of page handlers, unfolded together\<close>

section \<open>JavaScript values\<close>

datatype jv =
    Undefined
  | Null
  | Bool bool
  | Num int nat
  | Str string
  | Arr "jv list"
  | Obj "(string \<times> jv) list"

datatype js_error = SyntaxError | URIError | TypeError | OutsideModel | OutOfFuel

type_synonym 'v obj = "(string \<times> 'v) list"

abbreviation num :: "int \<Rightarrow> jv" where
  "num n \<equiv> Num n 0"

text \<open>
  Truthiness. A decimal is falsy when it rounds to the double zero, which happens up to
  half of the least subnormal, \<open>2 ^ (- 1075)\<close> (ties go to the even significand).
\<close>

fun truthy :: "jv \<Rightarrow> bool" where
  "truthy Undefined = False"
| "truthy Null = False"
| "truthy (Bool b) = b"
| "truthy (Num m k) = (\<not> (m = 0 \<or> \<bar>m\<bar> * 2 ^ 1075 \<le> 10 ^ k))"
| "truthy (Str s) = (s \<noteq> [])"
| "truthy (Arr xs) = True"
| "truthy (Obj kvs) = True"

text \<open>\<open>a || b\<close> on values, and \<open>s || d\<close> where the left operand is a string or null.\<close>

definition js_or :: "jv \<Rightarrow> jv \<Rightarrow> jv" where
  "js_or a b = (if truthy a then a else b)"

definition str_or :: "string option \<Rightarrow> string \<Rightarrow> string" where
  "str_or a b = (case a of None \<Rightarrow> b | Some s \<Rightarrow> if s = [] then b else s)"

text \<open>\<open>Object.prototype.toString.call(v) === '[object Object]'\<close>.\<close>

fun is_obj :: "jv \<Rightarrow> bool" where
  "is_obj (Obj _) = True"
| "is_obj _ = False"

text \<open>\<open>typeof v === 'object'\<close>: true of objects, arrays and null.\<close>

fun typeof_object :: "jv \<Rightarrow> bool" where
  "typeof_object (Obj _) = True"
| "typeof_object (Arr _) = True"
| "typeof_object Null = True"
| "typeof_object _ = False"

section \<open>Strings\<close>

subsection \<open>Decimal printing\<close>

definition digit_char :: "nat \<Rightarrow> char" where
  "digit_char d = char_of (48 + d)"

fun nat_str :: "nat \<Rightarrow> string" where
  "nat_str n = (if n < 10 then [digit_char n] else nat_str (n div 10) @ [digit_char (n mod 10)])"

declare nat_str.simps [simp del]

definition int_str :: "int \<Rightarrow> string" where
  "int_str i = (if i < 0 then CHR ''-'' # nat_str (nat (- i)) else nat_str (nat i))"

definition is_digit :: "char \<Rightarrow> bool" where
  "is_digit c \<longleftrightarrow> 48 \<le> (of_char c :: nat) \<and> (of_char c :: nat) \<le> 57"

definition digit_val :: "char \<Rightarrow> nat" where
  "digit_val c = of_char c - 48"

subsection \<open>Splitting and joining\<close>

text \<open>\<open>s.split(c)\<close> for a one-character separator, and \<open>xs.join(sep)\<close>.\<close>

fun split_on :: "'a \<Rightarrow> 'a list \<Rightarrow> 'a list list" where
  "split_on c [] = [[]]"
| "split_on c (x # xs) =
     (if x = c then [] # split_on c xs
      else (case split_on c xs of [] \<Rightarrow> [[x]] | p # ps \<Rightarrow> (x # p) # ps))"

fun join :: "'a list \<Rightarrow> 'a list list \<Rightarrow> 'a list" where
  "join sep [] = []"
| "join sep [x] = x"
| "join sep (x # y # ys) = x @ sep @ join sep (y # ys)"

text \<open>Array access \<open>xs[i]\<close> with a default, as destructuring writes it.\<close>

definition nth_or :: "'a list \<Rightarrow> nat \<Rightarrow> 'a \<Rightarrow> 'a" where
  "nth_or xs i d = (if i < length xs then xs ! i else d)"

text \<open>\<open>s.indexOf(t) !== -1\<close>, \<open>s.startsWith(t)\<close> are \<^const>\<open>sublist\<close> and \<^const>\<open>prefix\<close>.\<close>

definition str_includes :: "string \<Rightarrow> string \<Rightarrow> bool" where
  "str_includes s t \<longleftrightarrow> sublist t s"

text \<open>\<open>s.trim()\<close>: the white space and line terminators below code unit 256.\<close>

definition is_ws :: "char \<Rightarrow> bool" where
  "is_ws c \<longleftrightarrow> (of_char c :: nat) \<in> {9, 10, 11, 12, 13, 32, 160}"

definition trim :: "string \<Rightarrow> string" where
  "trim s = rev (dropWhile is_ws (rev (dropWhile is_ws s)))"

text \<open>ASCII case folding, as \<open>toLowerCase\<close> and the regular expression flag \<open>i\<close> use it.\<close>

definition lower :: "char \<Rightarrow> char" where
  "lower c = (if 65 \<le> (of_char c :: nat) \<and> (of_char c :: nat) \<le> 90 then char_of (of_char c + 32 :: nat) else c)"

section \<open>Plain objects\<close>

text \<open>
  \<open>o[k] = v\<close> keeps the position of an existing key and appends a new one. Assigning a
  primitive to \<open>__proto__\<close> has no effect on the own properties.
\<close>

definition obj_put :: "string \<Rightarrow> 'v \<Rightarrow> 'v obj \<Rightarrow> 'v obj" where
  "obj_put k v kvs = (if k = ''__proto__'' then kvs else AList.update k v kvs)"

text \<open>\<open>Object.assign(a, b)\<close> and the spread \<open>{...a, ...b}\<close>.\<close>

definition obj_assign :: "'v obj \<Rightarrow> 'v obj \<Rightarrow> 'v obj" where
  "obj_assign a b = fold (\<lambda>(k, v). obj_put k v) b a"

text \<open>\<open>o.k\<close> on a value; a missing property reads \<open>undefined\<close>.\<close>

definition field :: "jv \<Rightarrow> string \<Rightarrow> jv" where
  "field v k = (case v of Obj kvs \<Rightarrow> (case map_of kvs k of None \<Rightarrow> Undefined | Some x \<Rightarrow> x)
                        | _ \<Rightarrow> Undefined)"

text \<open>
  \<open>Object.keys\<close> lists the array-index keys in ascending order and then the others in
  insertion order.
\<close>

definition key_num :: "string \<Rightarrow> nat" where
  "key_num k = foldl (\<lambda>n c. 10 * n + digit_val c) 0 k"

definition is_index_key :: "string \<Rightarrow> bool" where
  "is_index_key k \<longleftrightarrow> k \<noteq> [] \<and> list_all is_digit k \<and> (k = ''0'' \<or> hd k \<noteq> CHR ''0'')
     \<and> key_num k < 2 ^ 32 - 1"

definition key_order :: "'v obj \<Rightarrow> 'v obj" where
  "key_order kvs = sort_key (\<lambda>kv. key_num (fst kv)) (filter (\<lambda>kv. is_index_key (fst kv)) kvs)
                   @ filter (\<lambda>kv. \<not> is_index_key (fst kv)) kvs"

definition obj_keys :: "'v obj \<Rightarrow> string list" where
  "obj_keys kvs = map fst (key_order kvs)"

text \<open>Template literals and \<open>join\<close> print a value; \<open>join\<close> prints null and undefined as empty.\<close>

fun to_str :: "jv \<Rightarrow> string" where
  "to_str Undefined = ''undefined''"
| "to_str Null = ''null''"
| "to_str (Bool b) = (if b then ''true'' else ''false'')"
| "to_str (Num m k) = (if k = 0 then int_str m else
     (let d = nat_str (nat \<bar>m\<bar>); e = replicate (Suc k - length d) (CHR ''0'') @ d in
      (if m < 0 then ''-'' else []) @ take (length e - k) e @ ''.'' @ drop (length e - k) e))"
| "to_str (Str s) = s"
| "to_str (Arr xs) = join '','' (map (\<lambda>x. if x = Undefined \<or> x = Null then [] else to_str x) xs)"
| "to_str (Obj _) = ''[object Object]''"

section \<open>Lemmas\<close>

subsection \<open>Splitting and joining\<close>

lemma split_on_not_Nil [simp]: "split_on c xs \<noteq> []"
  by (induction xs) (auto split: list.splits)

lemma split_on_free: "c \<notin> set xs \<Longrightarrow> split_on c xs = [xs]"
  by (induction xs) auto

lemma split_on_append_sep:
  "c \<notin> set xs \<Longrightarrow> split_on c (xs @ c # ys) = xs # split_on c ys"
  by (induction xs) auto

lemma split_on_pieces_free: "p \<in> set (split_on c xs) \<Longrightarrow> c \<notin> set p"
proof (induction xs arbitrary: p)
  case Nil
  then show ?case by simp
next
  case (Cons x xs)
  then show ?case by (cases "split_on c xs") (auto split: if_splits)
qed

lemma split_on_pieces_subset: "p \<in> set (split_on c xs) \<Longrightarrow> set p \<subseteq> set xs"
proof (induction xs arbitrary: p)
  case Nil
  then show ?case by simp
next
  case (Cons x xs)
  then show ?case by (cases "split_on c xs") (fastforce split: if_splits)+
qed

lemma join_Cons: "join sep (x # xs) = (if xs = [] then x else x @ sep @ join sep xs)"
  by (cases xs) auto

lemma join_split_on: "join [c] (split_on c xs) = xs"
proof (induction xs)
  case Nil
  then show ?case by simp
next
  case (Cons x xs)
  then show ?case by (cases "split_on c xs") (auto simp: join_Cons)
qed

lemma split_on_join:
  assumes "ps \<noteq> []" and "\<forall>p \<in> set ps. c \<notin> set p"
  shows "split_on c (join [c] ps) = ps"
  using assms
proof (induction ps)
  case Nil
  then show ?case by simp
next
  case (Cons p ps)
  then show ?case by (cases ps) (auto simp: split_on_free split_on_append_sep join_Cons)
qed

lemma split_on_length_1: "length (split_on c xs) = 1 \<longleftrightarrow> c \<notin> set xs"
proof
  assume "length (split_on c xs) = 1"
  then obtain p where "split_on c xs = [p]" by (auto simp: length_Suc_conv)
  then show "c \<notin> set xs"
    using join_split_on[of c xs] split_on_pieces_free[of p c xs] by simp
qed (simp add: split_on_free)

lemma set_join: "set (join sep ps) \<subseteq> set sep \<union> (\<Union>p \<in> set ps. set p)"
  by (induction sep ps rule: join.induct) auto

lemma join_free: "c \<notin> set sep \<Longrightarrow> \<forall>p \<in> set ps. c \<notin> set p \<Longrightarrow> c \<notin> set (join sep ps)"
  using set_join[of sep ps] by auto

lemma join_append:
  "xs \<noteq> [] \<Longrightarrow> ys \<noteq> [] \<Longrightarrow> join sep (xs @ ys) = join sep xs @ sep @ join sep ys"
  by (induction xs) (auto simp: join_Cons)

lemma nth_or_simps [simp]:
  "nth_or [] i d = d"
  "nth_or (x # xs) 0 d = x"
  "nth_or (x # xs) (Suc i) d = nth_or xs i d"
  by (simp_all add: nth_or_def)

subsection \<open>Plain objects\<close>

lemma map_of_obj_put:
  "map_of (obj_put k v kvs) = (if k = ''__proto__'' then map_of kvs else (map_of kvs)(k \<mapsto> v))"
  by (simp add: obj_put_def update_conv')

lemma distinct_obj_put: "distinct (map fst kvs) \<Longrightarrow> distinct (map fst (obj_put k v kvs))"
  by (simp add: obj_put_def distinct_update)

lemma keys_obj_put:
  "set (map fst (obj_put k v kvs)) = set (map fst kvs) \<union> (if k = ''__proto__'' then {} else {k})"
  by (auto simp: obj_put_def dom_update)

lemma obj_assign_simps [simp]:
  "obj_assign a [] = a"
  "obj_assign a (kv # b) = obj_assign (obj_put (fst kv) (snd kv) a) b"
  by (simp_all add: obj_assign_def case_prod_unfold)

lemma map_of_obj_assign:
  assumes "distinct (map fst b)"
  shows "map_of (obj_assign a b) k =
    (case map_of b k of None \<Rightarrow> map_of a k
     | Some v \<Rightarrow> if k = ''__proto__'' then map_of a k else Some v)"
  using assms
proof (induction b arbitrary: a)
  case Nil
  then show ?case by simp
next
  case (Cons kv b)
  then have "map_of b (fst kv) = None" by (simp add: map_of_eq_None_iff)
  with Cons show ?case by (auto simp: map_of_obj_put split: option.splits)
qed

lemma distinct_obj_assign:
  "distinct (map fst a) \<Longrightarrow> distinct (map fst (obj_assign a b))"
  by (induction b arbitrary: a) (auto simp: distinct_obj_put)

lemma set_key_order [simp]: "set (key_order kvs) = set kvs"
  by (auto simp: key_order_def)

lemma set_obj_keys [simp]: "set (obj_keys kvs) = fst ` set kvs"
  by (simp add: obj_keys_def)

lemma mset_key_order: "mset (key_order kvs) = mset kvs"
  using multiset_partition[of "mset kvs" "\<lambda>kv. is_index_key (fst kv)"] by (simp add: key_order_def)

lemma distinct_key_order: "distinct (map fst kvs) \<Longrightarrow> distinct (map fst (key_order kvs))"
  using mset_key_order[of kvs] by (metis mset_eq_imp_distinct_iff mset_map)

lemma map_of_key_order: "distinct (map fst kvs) \<Longrightarrow> map_of (key_order kvs) = map_of kvs"
  by (rule map_of_inject_set[THEN iffD2]) (simp_all add: distinct_key_order)

lemma key_order_plain: "\<forall>kv \<in> set kvs. \<not> is_index_key (fst kv) \<Longrightarrow> key_order kvs = kvs"
  by (auto simp: key_order_def filter_empty_conv)

lemma update_fresh: "k \<notin> fst ` set kvs \<Longrightarrow> AList.update k v kvs = kvs @ [(k, v)]"
  by (induction kvs) auto

subsection \<open>Decimal printing\<close>

lemma digit_char_digit: "d < 10 \<Longrightarrow> is_digit (digit_char d)"
  by (auto simp: digit_char_def is_digit_def)

lemma digit_val_char: "d < 10 \<Longrightarrow> digit_val (digit_char d) = d"
  by (auto simp: digit_char_def digit_val_def)

lemma nat_str_not_Nil [simp]: "nat_str n \<noteq> []"
  by (subst nat_str.simps) simp

lemma nat_str_digits: "list_all is_digit (nat_str n)"
proof (induction n rule: nat_str.induct)
  case (1 n)
  then show ?case by (subst nat_str.simps) (auto simp: digit_char_digit)
qed

lemma key_num_snoc: "key_num (xs @ [c]) = 10 * key_num xs + digit_val c"
  by (simp add: key_num_def)

lemma key_num_nat_str: "key_num (nat_str n) = n"
proof (induction n rule: nat_str.induct)
  case (1 n)
  show ?case
  proof (cases "n < 10")
    case True
    then show ?thesis
      by (subst nat_str.simps) (simp add: key_num_def digit_val_char)
  next
    case False
    with 1 have "key_num (nat_str (n div 10)) = n div 10" by simp
    with False show ?thesis
      by (subst nat_str.simps) (simp add: key_num_snoc digit_val_char)
  qed
qed

end
