(* ===== verification/Js_Json.thy ===== *)
theory Js_Json
  imports Console_Prelude
begin

text \<open>
  The two operations of the \<open>JSON\<close> object the console uses: \<open>JSON.parse\<close>, as a recursive
  descent over the text, and \<open>JSON.stringify\<close> with one argument. Both belong to the
  language, not to the repository; the login token, the menu and the content validator rest
  on them. Fuel \<open>2 * length s + 1\<close> is enough for \<open>parse_json\<close> (\<open>parse_json_fuel\<close>).
\<close>

section \<open>JSON.parse\<close>

definition json_ws :: "char \<Rightarrow> bool" where
  "json_ws c \<longleftrightarrow> c = CHR '' '' \<or> c = CHR 9 \<or> c = CHR 10 \<or> c = CHR 13"

definition skip_ws :: "string \<Rightarrow> string" where
  "skip_ws = dropWhile json_ws"

definition hex_val :: "char \<Rightarrow> nat option" where
  "hex_val c = (let n = of_char c :: nat in
     if 48 \<le> n \<and> n \<le> 57 then Some (n - 48)
     else if 97 \<le> n \<and> n \<le> 102 then Some (n - 87)
     else if 65 \<le> n \<and> n \<le> 70 then Some (n - 55) else None)"

definition hex4 :: "string \<Rightarrow> nat option" where
  "hex4 s = (if length s = 4 \<and> list_all (\<lambda>c. hex_val c \<noteq> None) s
             then Some (foldl (\<lambda>n c. 16 * n + the (hex_val c)) 0 s) else None)"

definition unescape :: "char \<Rightarrow> char option" where
  "unescape e = map_of [(CHR 34, CHR 34), (CHR 92, CHR 92), (CHR ''/'', CHR ''/''), (CHR ''b'', CHR 8),
     (CHR ''f'', CHR 12), (CHR ''n'', CHR 10), (CHR ''r'', CHR 13), (CHR ''t'', CHR 9)] e"

definition emit :: "char \<Rightarrow> js_error + string \<times> string \<Rightarrow> js_error + string \<times> string" where
  "emit c r = (case r of Inl e \<Rightarrow> Inl e | Inr (s, rest) \<Rightarrow> Inr (c # s, rest))"

text \<open>The text of a string literal after its opening quote.\<close>

fun parse_chars :: "string \<Rightarrow> js_error + string \<times> string" where
  "parse_chars [] = Inl SyntaxError"
| "parse_chars (c # cs) =
     (if c = CHR 34 then Inr ([], cs)
      else if c = CHR 92 then
        (case cs of
           [] \<Rightarrow> Inl SyntaxError
         | e # es \<Rightarrow>
             if e = CHR ''u'' then
               (case hex4 (take 4 es) of
                  None \<Rightarrow> Inl SyntaxError
                | Some n \<Rightarrow>
                    if n < 256 then emit (char_of n) (parse_chars (drop 4 es))
                    else (case parse_chars (drop 4 es) of Inl e \<Rightarrow> Inl e | Inr _ \<Rightarrow> Inl OutsideModel))
             else (case unescape e of None \<Rightarrow> Inl SyntaxError | Some x \<Rightarrow> emit x (parse_chars es)))
      else if (of_char c :: nat) < 32 then Inl SyntaxError
      else emit c (parse_chars cs))"

text \<open>Numbers, as exact decimals in the normal form of \<open>Num\<close>.\<close>

fun strip_zeros :: "int \<Rightarrow> nat \<Rightarrow> jv" where
  "strip_zeros m 0 = Num m 0"
| "strip_zeros m (Suc k) = (if m mod 10 = 0 then strip_zeros (m div 10) k else Num m (Suc k))"

definition mk_num :: "int \<Rightarrow> int \<Rightarrow> jv" where
  "mk_num m e = (if 0 \<le> e then Num (m * 10 ^ nat e) 0 else strip_zeros m (nat (- e)))"

definition parse_exp :: "string \<Rightarrow> js_error + int \<times> string" where
  "parse_exp s =
     (case s of
        c # r \<Rightarrow>
          if c = CHR ''e'' \<or> c = CHR ''E'' then
            (let (sg, r) = (case r of d # q \<Rightarrow> if d = CHR ''-'' then (- 1, q) else if d = CHR ''+'' then (1, q) else (1, r)
                                     | [] \<Rightarrow> (1, r));
                 ds = takeWhile is_digit r
             in if ds = [] then Inl SyntaxError
                else Inr (sg * int (key_num ds), dropWhile is_digit r))
          else Inr (0, s)
      | [] \<Rightarrow> Inr (0, s))"

definition parse_frac :: "string \<Rightarrow> js_error + string \<times> string" where
  "parse_frac s =
     (case s of
        c # r \<Rightarrow>
          if c = CHR ''.'' then
            (let fs = takeWhile is_digit r
             in if fs = [] then Inl SyntaxError else Inr (fs, dropWhile is_digit r))
          else Inr ([], s)
      | [] \<Rightarrow> Inr ([], s))"

definition parse_unsigned :: "int \<Rightarrow> string \<Rightarrow> js_error + jv \<times> string" where
  "parse_unsigned sg r =
     (let ds = takeWhile is_digit r
      in if ds = [] \<or> (hd ds = CHR ''0'' \<and> length ds > 1) then Inl SyntaxError
         else (case parse_frac (dropWhile is_digit r) of
                 Inl e \<Rightarrow> Inl e
               | Inr (fs, r2) \<Rightarrow>
                   (case parse_exp r2 of
                      Inl e \<Rightarrow> Inl e
                    | Inr (e, r3) \<Rightarrow>
                        Inr (mk_num (sg * int (key_num (ds @ fs))) (e - int (length fs)), r3))))"

definition parse_number :: "string \<Rightarrow> js_error + jv \<times> string" where
  "parse_number s =
     (case s of
        [] \<Rightarrow> Inl SyntaxError
      | c # q \<Rightarrow> if c = CHR ''-'' then parse_unsigned (- 1) q else parse_unsigned 1 s)"

definition parse_word :: "string \<Rightarrow> jv \<Rightarrow> string \<Rightarrow> js_error + jv \<times> string" where
  "parse_word w v s = (if prefix w s then Inr (v, drop (length w) s) else Inl SyntaxError)"

fun parse_value :: "nat \<Rightarrow> string \<Rightarrow> js_error + jv \<times> string"
and parse_elems :: "nat \<Rightarrow> jv list \<Rightarrow> string \<Rightarrow> js_error + jv \<times> string"
and parse_members :: "nat \<Rightarrow> jv obj \<Rightarrow> string \<Rightarrow> js_error + jv \<times> string"
where
  "parse_value 0 s = Inl OutOfFuel"
| "parse_value (Suc n) s =
     (case skip_ws s of
        [] \<Rightarrow> Inl SyntaxError
      | c # r \<Rightarrow>
          if c = CHR 34 then
            (case parse_chars r of Inl e \<Rightarrow> Inl e | Inr (t, q) \<Rightarrow> Inr (Str t, q))
          else if c = CHR ''['' then
            (case skip_ws r of
               d # q \<Rightarrow> if d = CHR '']'' then Inr (Arr [], q) else parse_elems n [] (d # q)
             | [] \<Rightarrow> Inl SyntaxError)
          else if c = CHR ''{'' then
            (case skip_ws r of
               d # q \<Rightarrow> if d = CHR ''}'' then Inr (Obj [], q) else parse_members n [] (d # q)
             | [] \<Rightarrow> Inl SyntaxError)
          else if c = CHR ''n'' then parse_word ''null'' Null (c # r)
          else if c = CHR ''t'' then parse_word ''true'' (Bool True) (c # r)
          else if c = CHR ''f'' then parse_word ''false'' (Bool False) (c # r)
          else parse_number (c # r))"
| "parse_elems 0 acc s = Inl OutOfFuel"
| "parse_elems (Suc n) acc s =
     (case parse_value n s of
        Inl e \<Rightarrow> Inl e
      | Inr (v, r) \<Rightarrow>
          (case skip_ws r of
             c # q \<Rightarrow> if c = CHR '','' then parse_elems n (acc @ [v]) q
                      else if c = CHR '']'' then Inr (Arr (acc @ [v]), q) else Inl SyntaxError
           | [] \<Rightarrow> Inl SyntaxError))"
| "parse_members 0 acc s = Inl OutOfFuel"
| "parse_members (Suc n) acc s =
     (case skip_ws s of
        c # r \<Rightarrow>
          if c \<noteq> CHR 34 then Inl SyntaxError
          else (case parse_chars r of
                  Inl e \<Rightarrow> Inl e
                | Inr (k, r) \<Rightarrow>
                    (case skip_ws r of
                       d # r \<Rightarrow>
                         if d \<noteq> CHR '':'' then Inl SyntaxError
                         else (case parse_value n r of
                                 Inl e \<Rightarrow> Inl e
                               | Inr (v, r) \<Rightarrow>
                                   (case skip_ws r of
                                      c # q \<Rightarrow>
                                        if c = CHR '','' then parse_members n (AList.update k v acc) q
                                        else if c = CHR ''}'' then Inr (Obj (AList.update k v acc), q)
                                        else Inl SyntaxError
                                    | [] \<Rightarrow> Inl SyntaxError))
                     | [] \<Rightarrow> Inl SyntaxError))
      | [] \<Rightarrow> Inl SyntaxError)"

definition parse_json :: "string \<Rightarrow> js_error + jv" where
  "parse_json s =
     (case parse_value (Suc (2 * length s)) s of
        Inl e \<Rightarrow> Inl e
      | Inr (v, r) \<Rightarrow> if skip_ws r = [] then Inr v else Inl SyntaxError)"

section \<open>JSON.stringify\<close>

text \<open>
  \<open>Omit\<close> is the \<open>undefined\<close> that stringifying \<open>undefined\<close> gives; \<open>NoText\<close> marks a number
  whose shortest decimal the model does not compute.
\<close>

datatype js_text = Omit | NoText | Text string

definition hex_digit :: "nat \<Rightarrow> char" where
  "hex_digit n = (if n < 10 then char_of (48 + n) else char_of (87 + n))"

definition quote_char :: "char \<Rightarrow> string" where
  "quote_char c =
     (if c = CHR 34 then [CHR 92, CHR 34] else if c = CHR 92 then [CHR 92, CHR 92]
      else if c = CHR 8 then [CHR 92, CHR ''b''] else if c = CHR 12 then [CHR 92, CHR ''f'']
      else if c = CHR 10 then [CHR 92, CHR ''n''] else if c = CHR 13 then [CHR 92, CHR ''r'']
      else if c = CHR 9 then [CHR 92, CHR ''t'']
      else if (of_char c :: nat) < 32 then
        [CHR 92, CHR ''u'', CHR ''0'', CHR ''0'', hex_digit (of_char c div 16), hex_digit (of_char c mod 16)]
      else [c])"

definition quote :: "string \<Rightarrow> string" where
  "quote s = CHR 34 # concat (map quote_char s) @ [CHR 34]"

definition safe_int :: "int \<Rightarrow> bool" where
  "safe_int m \<longleftrightarrow> \<bar>m\<bar> \<le> 2 ^ 53"

fun elems_text :: "js_text list \<Rightarrow> string list option" where
  "elems_text [] = Some []"
| "elems_text (Omit # ts) = map_option ((#) ''null'') (elems_text ts)"
| "elems_text (NoText # ts) = None"
| "elems_text (Text t # ts) = map_option ((#) t) (elems_text ts)"

fun members_text :: "js_text obj \<Rightarrow> string list option" where
  "members_text [] = Some []"
| "members_text ((k, Omit) # ts) = members_text ts"
| "members_text ((k, NoText) # ts) = None"
| "members_text ((k, Text t) # ts) = map_option ((#) (quote k @ '':'' @ t)) (members_text ts)"

primrec stringify :: "jv \<Rightarrow> js_text" where
  "stringify Undefined = Omit"
| "stringify Null = Text ''null''"
| "stringify (Bool b) = Text (if b then ''true'' else ''false'')"
| "stringify (Num m k) = (if k = 0 \<and> safe_int m then Text (int_str m) else NoText)"
| "stringify (Str s) = Text (quote s)"
| "stringify (Arr xs) =
     (case elems_text (map stringify xs) of
        None \<Rightarrow> NoText | Some ts \<Rightarrow> Text (''['' @ join '','' ts @ '']''))"
| "stringify (Obj kvs) =
     (case members_text (key_order (map (map_prod id stringify) kvs)) of
        None \<Rightarrow> NoText | Some ts \<Rightarrow> Text (''{'' @ join '','' ts @ ''}''))"

text \<open>The values JSON carries faithfully: no undefined, whole numbers, distinct keys that are not array indices.\<close>

primrec plain_json :: "jv \<Rightarrow> bool" where
  "plain_json Undefined = False"
| "plain_json Null = True"
| "plain_json (Bool b) = True"
| "plain_json (Num m k) = (k = 0 \<and> safe_int m)"
| "plain_json (Str s) = True"
| "plain_json (Arr xs) = list_all id (map plain_json xs)"
| "plain_json (Obj kvs) =
     (distinct (map fst kvs) \<and> list_all (\<lambda>k. \<not> is_index_key k) (map fst kvs)
      \<and> list_all snd (map (map_prod id plain_json) kvs))"

section \<open>The fuel is enough\<close>

lemma skip_ws_le: "length (skip_ws s) \<le> length s"
  by (simp add: skip_ws_def length_dropWhile_le)

lemma skip_ws_Cons_less: "skip_ws s = c # r \<Longrightarrow> length r < length s"
  using skip_ws_le[of s] by simp

lemma emit_Inr: "emit c r = Inr (t, q) \<Longrightarrow> \<exists>t'. r = Inr (t', q) \<and> t = c # t'"
  by (auto simp: emit_def split: sum.splits prod.splits)

lemma emit_Inl: "emit c r = Inl e \<Longrightarrow> r = Inl e"
  by (auto simp: emit_def split: sum.splits prod.splits)

text \<open>One step of \<open>parse_chars\<close>: it stops, fails, or emits a character and goes on with a shorter text.\<close>

lemma parse_chars_step:
  "(\<exists>cs. s = CHR 34 # cs \<and> parse_chars s = Inr ([], cs)) \<or> parse_chars s = Inl SyntaxError \<or>
   (\<exists>r x. length r < length s \<and> parse_chars s = emit x (parse_chars r)) \<or>
   (\<exists>r. length r < length s \<and>
      parse_chars s = (case parse_chars r of Inl e \<Rightarrow> Inl e | Inr _ \<Rightarrow> Inl OutsideModel))"
proof (cases s)
  case Nil
  then show ?thesis by simp
next
  case (Cons c cs)
  consider "c = CHR 34" | "c = CHR 92" "cs = []" | e es where "c = CHR 92" "cs = e # es"
    | "c \<noteq> CHR 34" "c \<noteq> CHR 92" by (cases cs) auto
  then show ?thesis
  proof cases
    case (3 e es)
    have less: "length (drop 4 es) < length s" "length es < length s" using 3 Cons by auto
    consider "parse_chars s = Inl SyntaxError"
      | n :: nat where "parse_chars s = emit (char_of n) (parse_chars (drop 4 es))"
      | "parse_chars s = (case parse_chars (drop 4 es) of Inl e \<Rightarrow> Inl e | Inr _ \<Rightarrow> Inl OutsideModel)"
      | x where "parse_chars s = emit x (parse_chars es)"
      using 3 Cons
      by (cases "e = CHR ''u''"; cases "hex4 (take 4 es)"; cases "unescape e"; cases "the (hex4 (take 4 es)) < 256")
        auto
    then show ?thesis
    proof cases
      case 1
      then show ?thesis by simp
    next
      case (2 n)
      show ?thesis
        by (rule disjI2[OF disjI2[OF disjI1]]) (intro exI conjI, rule less(1), rule 2)
    next
      case 3
      show ?thesis
        by (rule disjI2[OF disjI2[OF disjI2]]) (intro exI conjI, rule less(1), rule 3)
    next
      case (4 x)
      show ?thesis
        by (rule disjI2[OF disjI2[OF disjI1]]) (intro exI conjI, rule less(2), rule 4)
    qed
  next
    case 4
    with Cons have "length cs < length s" by simp
    with 4 Cons show ?thesis by (auto intro!: exI[of _ cs])
  qed (use Cons in auto)
qed

lemma parse_chars_less: "parse_chars s = Inr (t, r) \<Longrightarrow> length r < length s"
proof (induction s arbitrary: t r rule: length_induct)
  case (1 s)
  then show ?case
    using parse_chars_step[of s] by (fastforce dest!: emit_Inr split: sum.splits)
qed

lemma parse_chars_fuel: "parse_chars s \<noteq> Inl OutOfFuel"
proof (induction s rule: length_induct)
  case (1 s)
  then show ?case
    using parse_chars_step[of s] by (fastforce dest!: emit_Inl split: sum.splits)
qed

lemma dropWhile_le: "length (dropWhile P s) \<le> length s"
  by (rule length_dropWhile_le)

lemma parse_frac_le: "parse_frac s = Inr (f, r) \<Longrightarrow> length r \<le> length s"
  by (auto simp: parse_frac_def Let_def le_SucI dropWhile_le split: list.splits if_splits)

lemma parse_exp_le: "parse_exp s = Inr (e, r) \<Longrightarrow> length r \<le> length s"
  by (auto simp: parse_exp_def Let_def le_SucI dropWhile_le split: list.splits if_splits)

lemma takeWhile_less: "takeWhile P s \<noteq> [] \<Longrightarrow> length (dropWhile P s) < length s"
  by (metis append_eq_conv_conj dropWhile_le le_neq_implies_less length_0_conv length_append
      takeWhile_dropWhile_id add_cancel_right_left)

lemma parse_unsigned_less:
  assumes "parse_unsigned sg s = Inr (v, r)"
  shows "length r < length s"
proof -
  from assms have d: "takeWhile is_digit s \<noteq> []" by (auto simp: parse_unsigned_def)
  with assms obtain f r2 e where "parse_frac (dropWhile is_digit s) = Inr (f, r2)" "parse_exp r2 = Inr (e, r)"
    by (auto simp: parse_unsigned_def Let_def split: if_split_asm sum.splits)
  then have "length r \<le> length (dropWhile is_digit s)"
    by (auto dest!: parse_frac_le parse_exp_le)
  with takeWhile_less[OF d] show ?thesis by simp
qed

lemma parse_number_less: "parse_number s = Inr (v, r) \<Longrightarrow> length r < length s"
  by (auto simp: parse_number_def split: list.splits if_split_asm dest!: parse_unsigned_less)

lemma parse_number_fuel: "parse_number s \<noteq> Inl OutOfFuel"
  by (auto simp: parse_number_def parse_unsigned_def parse_frac_def parse_exp_def Let_def
      split: list.splits if_splits sum.splits)

lemma parse_word_less: "parse_word w v s = Inr (u, r) \<Longrightarrow> w \<noteq> [] \<Longrightarrow> length r < length s"
  by (cases s; cases w) (auto simp: parse_word_def split: if_split_asm)

lemmas parse_less = parse_chars_less parse_number_less parse_word_less skip_ws_Cons_less

lemma parse_less_all:
  "parse_value n s = Inr (v, r) \<Longrightarrow> length r < length s"
  "parse_elems n vs s = Inr (v, r) \<Longrightarrow> length r < length s"
  "parse_members n kvs s = Inr (v, r) \<Longrightarrow> length r < length s"
proof (induction n s and n vs s and n kvs s arbitrary: v r and v r and v r
    rule: parse_value_parse_elems_parse_members.induct)
  case (2 n s)
  then show ?case
    by (auto split: list.splits if_split_asm sum.splits dest!: parse_less) fastforce+
next
  case (4 n acc s)
  then show ?case
    by (auto split: list.splits if_split_asm sum.splits dest!: skip_ws_Cons_less) fastforce+
next
  case (6 n acc s)
  then show ?case
    by (auto split: list.splits if_split_asm sum.splits dest!: skip_ws_Cons_less parse_chars_less) fastforce+
qed simp_all

lemma parse_word_fuel: "parse_word w v s \<noteq> Inl OutOfFuel"
  by (simp add: parse_word_def)

lemma sum_case_fuel:
  "r \<noteq> Inl OutOfFuel \<Longrightarrow> (\<And>x. r = Inr x \<Longrightarrow> f x \<noteq> Inl OutOfFuel) \<Longrightarrow>
   (case r of Inl e \<Rightarrow> Inl e | Inr x \<Rightarrow> f x) \<noteq> Inl OutOfFuel"
  by (cases r) auto

lemma list_case_fuel:
  "(\<And>c q. s = c # q \<Longrightarrow> f c q \<noteq> Inl OutOfFuel) \<Longrightarrow>
   (case s of [] \<Rightarrow> Inl SyntaxError | c # q \<Rightarrow> f c q) \<noteq> Inl OutOfFuel"
  by (cases s) auto

lemma prod_case_fuel:
  "(\<And>a b. x = (a, b) \<Longrightarrow> f a b \<noteq> Inl OutOfFuel) \<Longrightarrow> (case x of (a, b) \<Rightarrow> f a b) \<noteq> Inl OutOfFuel"
  by (cases x) simp

lemma if_fuel:
  "(b \<Longrightarrow> x \<noteq> Inl OutOfFuel) \<Longrightarrow> (\<not> b \<Longrightarrow> y \<noteq> Inl OutOfFuel) \<Longrightarrow> (if b then x else y) \<noteq> Inl OutOfFuel"
  by simp

lemma parse_fuel_all:
  "2 * length s < n \<Longrightarrow> parse_value n s \<noteq> Inl OutOfFuel"
  "Suc (2 * length s) < n \<Longrightarrow> parse_elems n vs s \<noteq> Inl OutOfFuel"
  "Suc (2 * length s) < n \<Longrightarrow> parse_members n kvs s \<noteq> Inl OutOfFuel"
proof (induction n s and n vs s and n kvs s rule: parse_value_parse_elems_parse_members.induct)
  case (2 n s)
  show ?case
  proof (simp only: parse_value.simps, rule list_case_fuel)
    fix c r assume r: "skip_ws s = c # r"
    have less: "Suc (2 * length (d # q)) < n" if "skip_ws r = d # q" for d q
      using skip_ws_Cons_less[OF r] skip_ws_le[of r] that 2(3) by simp
    show "(if c = CHR 34 then case parse_chars r of Inl e \<Rightarrow> Inl e | Inr (t, q) \<Rightarrow> Inr (Str t, q)
      else if c = CHR ''['' then case skip_ws r of [] \<Rightarrow> Inl SyntaxError
        | d # q \<Rightarrow> if d = CHR '']'' then Inr (Arr [], q) else parse_elems n [] (d # q)
      else if c = CHR ''{'' then case skip_ws r of [] \<Rightarrow> Inl SyntaxError
        | d # q \<Rightarrow> if d = CHR ''}'' then Inr (Obj [], q) else parse_members n [] (d # q)
      else if c = CHR ''n'' then parse_word ''null'' Null (c # r)
      else if c = CHR ''t'' then parse_word ''true'' (Bool True) (c # r)
      else if c = CHR ''f'' then parse_word ''false'' (Bool False) (c # r)
      else parse_number (c # r)) \<noteq> Inl OutOfFuel"
      by (intro if_fuel sum_case_fuel list_case_fuel parse_chars_fuel parse_number_fuel parse_word_fuel)
        (use 2(1,2) r less in \<open>auto split: prod.splits\<close>)
  qed
next
  case (4 n acc s)
  have less: "Suc (2 * length q) < n" if "parse_value n s = Inr (v, r)" "skip_ws r = c # q" for v r c q
    using parse_less_all(1)[OF that(1)] skip_ws_Cons_less[OF that(2)] 4(3) by simp
  have "parse_value n s \<noteq> Inl OutOfFuel" using 4(1,3) by simp
  then show ?case
    by (simp only: parse_elems.simps, intro sum_case_fuel)
      (use 4(2) less in \<open>auto split: prod.split if_split_asm intro!: list_case_fuel\<close>)
next
  case (6 n acc s)
  have less: "2 * length r2 < n" if "skip_ws s = c # r" "parse_chars r = Inr (k, r1)" "skip_ws r1 = d # r2"
    for c r k r1 d r2
    using skip_ws_Cons_less[OF that(1)] parse_chars_less[OF that(2)] skip_ws_Cons_less[OF that(3)] 6(3) by simp
  have less': "Suc (2 * length q) < n" if "2 * length r2 < n" "parse_value n r2 = Inr (v, r3)" "skip_ws r3 = e # q"
    for r2 v r3 e q
    using parse_less_all(1)[OF that(2)] skip_ws_Cons_less[OF that(3)] that(1) by simp
  have pv: "parse_value n r2 \<noteq> Inl OutOfFuel"
    if "skip_ws s = CHR 34 # r" "parse_chars r = Inr (k, r1)" "skip_ws r1 = CHR '':'' # r2" for r k r1 r2
    by (rule 6(1)[OF that(1) _ that(2) refl that(3)]) (use less[OF that] in simp_all)
  have pm: "parse_members n (AList.update k v acc) q \<noteq> Inl OutOfFuel"
    if "skip_ws s = CHR 34 # r" "parse_chars r = Inr (k, r1)" "skip_ws r1 = CHR '':'' # r2"
      "parse_value n r2 = Inr (v, r3)" "skip_ws r3 = CHR '','' # q" for r k r1 r2 v r3 q
    by (rule 6(2)[OF that(1) _ that(2) refl that(3) _ that(4) refl that(5)])
      (use less'[OF less[OF that(1,2,3)] that(4,5)] in simp_all)
  show ?case
    unfolding parse_members.simps
    by (intro list_case_fuel if_fuel sum_case_fuel prod_case_fuel parse_chars_fuel)
      (auto dest: pv pm)
qed simp_all

lemma parse_json_fuel: "parse_json s \<noteq> Inl OutOfFuel"
  using parse_fuel_all(1)[of s "Suc (2 * length s)"]
  by (auto simp: parse_json_def split: sum.splits prod.splits)

text \<open>Beyond that bound the amount of fuel makes no difference.\<close>

lemmas parse_simps = parse_value.simps parse_elems.simps parse_members.simps

lemma parse_mono_all:
  "parse_value n s \<noteq> Inl OutOfFuel \<Longrightarrow> parse_value (Suc n) s = parse_value n s"
  "parse_elems n vs s \<noteq> Inl OutOfFuel \<Longrightarrow> parse_elems (Suc n) vs s = parse_elems n vs s"
  "parse_members n kvs s \<noteq> Inl OutOfFuel \<Longrightarrow> parse_members (Suc n) kvs s = parse_members n kvs s"
proof (induction n s and n vs s and n kvs s rule: parse_value_parse_elems_parse_members.induct)
  case (2 n s)
  show ?case
    using 2(3) unfolding parse_value.simps(2)[of "Suc n" s] parse_value.simps(2)[of n s]
    by (auto simp: 2(1,2) simp del: parse_simps split: list.split if_split)
next
  case (4 n acc s)
  have v: "parse_value n s \<noteq> Inl OutOfFuel" using 4(3) by (auto simp: parse_elems.simps(2)[of n acc s])
  show ?case
    using 4(3) unfolding parse_elems.simps(2)[of "Suc n" acc s] parse_elems.simps(2)[of n acc s] 4(1)[OF v]
    by (auto simp: 4(2) simp del: parse_simps split: list.split sum.split prod.split if_split)
next
  case (6 n acc s)
  have v: "parse_value (Suc n) r2 = parse_value n r2"
    if "skip_ws s = CHR 34 # r" "parse_chars r = Inr (k, r1)" "skip_ws r1 = CHR '':'' # r2" for r k r1 r2
    by (rule 6(1)[OF that(1) _ that(2) refl that(3)]) (use 6(3) that in \<open>auto simp: parse_members.simps(2)[of n acc s]\<close>)
  show ?case
    using 6(3) unfolding parse_members.simps(2)[of "Suc n" acc s] parse_members.simps(2)[of n acc s]
    by (auto simp: v 6(2) simp del: parse_simps split: list.split sum.split prod.split if_split)
qed simp_all

definition parse_with :: "nat \<Rightarrow> string \<Rightarrow> js_error + jv" where
  "parse_with n s =
     (case parse_value n s of
        Inl e \<Rightarrow> Inl e
      | Inr (v, r) \<Rightarrow> if skip_ws r = [] then Inr v else Inl SyntaxError)"

lemma parse_with_enough:
  assumes "2 * length s < n"
  shows "parse_with n s = parse_json s"
proof -
  have "parse_value (Suc (2 * length s) + k) s = parse_value (Suc (2 * length s)) s" for k
  proof (induction k)
    case (Suc k)
    have "parse_value (Suc (2 * length s) + k) s \<noteq> Inl OutOfFuel" by (rule parse_fuel_all) simp
    from parse_mono_all(1)[OF this] Suc show ?case by simp
  qed simp
  from this[of "n - Suc (2 * length s)"] assms show ?thesis by (simp add: parse_with_def parse_json_def)
qed

section \<open>Parsing what was printed\<close>

lemma hex_val_digit: "n < 16 \<Longrightarrow> hex_val (hex_digit n) = Some n"
  by (auto simp: hex_val_def hex_digit_def Let_def)

lemma hex4_low:
  "n < 256 \<Longrightarrow> hex4 [CHR ''0'', CHR ''0'', hex_digit (n div 16), hex_digit (n mod 16)] = Some n"
  by (auto simp: hex4_def hex_val_digit less_mult_imp_div_less) (simp_all add: hex_val_def)

lemma parse_chars_quote_char: "parse_chars (quote_char c @ cs) = emit c (parse_chars cs)"
proof -
  have n: "(of_char c :: nat) < 256" by simp
  show ?thesis
    using hex4_low[of "of_char c"]
    by (auto simp: quote_char_def unescape_def)
qed

lemma parse_chars_quote: "parse_chars (concat (map quote_char t) @ CHR 34 # r) = Inr (t, r)"
  by (induction t) (simp_all add: parse_chars_quote_char emit_def)

text \<open>What may follow a printed number without being read as part of it.\<close>

definition num_stop :: "string \<Rightarrow> bool" where
  "num_stop r \<longleftrightarrow> (case r of [] \<Rightarrow> True
     | c # _ \<Rightarrow> \<not> is_digit c \<and> c \<noteq> CHR ''.'' \<and> c \<noteq> CHR ''e'' \<and> c \<noteq> CHR ''E'')"

lemma takeWhile_digits:
  assumes "list_all is_digit ds" "num_stop r"
  shows "takeWhile is_digit (ds @ r) = ds" "dropWhile is_digit (ds @ r) = r"
  using assms by (auto simp: list_all_iff num_stop_def takeWhile_append dropWhile_append split: list.splits)

lemma nat_str_no_zero: "0 < n \<Longrightarrow> hd (nat_str n) \<noteq> CHR ''0''"
proof (induction n rule: nat_str.induct)
  case (1 n)
  show ?case
  proof (cases "n < 10")
    case True
    with 1(2) have "n \<in> {1,2,3,4,5,6,7,8,9}" by auto
    with True show ?thesis by (subst nat_str.simps) (auto simp: digit_char_def char_of_def)
  next
    case False
    with 1 have "hd (nat_str (n div 10)) \<noteq> CHR ''0''" by simp
    with False show ?thesis by (subst nat_str.simps) simp
  qed
qed

lemma parse_unsigned_nat:
  assumes "num_stop r"
  shows "parse_unsigned sg (nat_str n @ r) = Inr (Num (sg * int n) 0, r)"
proof -
  have "\<not> (hd (nat_str n) = CHR ''0'' \<and> length (nat_str n) > 1)"
  proof (cases "n = 0")
    case True
    then show ?thesis by (simp add: nat_str.simps[of 0])
  next
    case False
    then show ?thesis using nat_str_no_zero[of n] by simp
  qed
  moreover have "parse_frac r = Inr ([], r)" "parse_exp r = Inr (0, r)"
    using assms by (auto simp: parse_frac_def parse_exp_def num_stop_def split: list.splits)
  ultimately show ?thesis
    by (simp add: parse_unsigned_def Let_def takeWhile_digits[OF nat_str_digits assms] key_num_nat_str mk_num_def)
qed

lemma nat_str_hd_digit: "is_digit (hd (nat_str n))"
  using nat_str_digits[of n] by (cases "nat_str n") (auto dest: nat_str_not_Nil[THEN notE])

lemma parse_number_int:
  assumes "num_stop r"
  shows "parse_number (int_str m @ r) = Inr (Num m 0, r)"
proof (cases "m < 0")
  case True
  with parse_unsigned_nat[OF assms, of "- 1" "nat (- m)"] show ?thesis
    by (simp add: parse_number_def int_str_def)
next
  case False
  have "hd (nat_str (nat m)) \<noteq> CHR ''-''"
    using nat_str_hd_digit[of "nat m"] by (auto simp: is_digit_def)
  with False parse_unsigned_nat[OF assms, of 1 "nat m"] show ?thesis
    by (cases "nat_str (nat m)") (auto simp: parse_number_def int_str_def dest: nat_str_not_Nil[THEN notE])
qed

lemma int_str_hd: "int_str m \<noteq> []" "hd (int_str m) = CHR ''-'' \<or> is_digit (hd (int_str m))"
  by (auto simp: int_str_def nat_str_hd_digit)

text \<open>The first character of a printed value decides the branch of \<open>parse_value\<close>.\<close>

definition value_start :: "char \<Rightarrow> bool" where
  "value_start c \<longleftrightarrow> \<not> json_ws c \<and> c \<noteq> CHR '']'' \<and> c \<noteq> CHR ''}''"

lemma stringify_start: "stringify v = Text t \<Longrightarrow> t \<noteq> [] \<and> value_start (hd t)"
  using int_str_hd[of "case v of Num m k \<Rightarrow> m | _ \<Rightarrow> 0"]
  by (cases v) (auto simp: value_start_def json_ws_def quote_def is_digit_def
      split: if_splits option.splits)

lemma skip_ws_start: "value_start c \<Longrightarrow> skip_ws (c # s) = c # s"
  by (simp add: skip_ws_def value_start_def)

lemma elems_text_Some:
  assumes "\<forall>x \<in> set xs. plain_json x" "elems_text (map stringify xs) = Some ts"
  shows "list_all2 (\<lambda>x t. stringify x = Text t) xs ts"
  using assms
proof (induction xs arbitrary: ts)
  case Nil
  then show ?case by simp
next
  case (Cons x xs)
  then show ?case by (cases x; cases "stringify x") (auto split: if_splits option.splits)
qed

lemma members_text_Some:
  assumes "\<forall>kv \<in> set kvs. plain_json (snd kv)" "members_text (map (map_prod id stringify) kvs) = Some ts"
  shows "list_all2 (\<lambda>kv t. \<exists>u. stringify (snd kv) = Text u \<and> t = quote (fst kv) @ '':'' @ u) kvs ts"
  using assms
proof (induction kvs arbitrary: ts)
  case Nil
  then show ?case by simp
next
  case (Cons kv kvs)
  obtain k x where kv: "kv = (k, x)" by (cases kv)
  with Cons show ?case by (cases x; cases "stringify x") (auto split: if_splits option.splits)
qed

definition reads_back :: "jv \<Rightarrow> bool" where
  "reads_back v \<longleftrightarrow> (\<forall>n t r. stringify v = Text t \<longrightarrow> 2 * length (t @ r) < n \<longrightarrow> num_stop r \<longrightarrow>
     parse_value n (t @ r) = Inr (v, r))"

lemma num_stop_delims [simp]:
  "num_stop (CHR '','' # r)" "num_stop (CHR '']'' # r)" "num_stop (CHR ''}'' # r)" "num_stop []"
  by (auto simp: num_stop_def is_digit_def)

lemma skip_ws_delims [simp]:
  "skip_ws (CHR '','' # r) = CHR '','' # r" "skip_ws (CHR '']'' # r) = CHR '']'' # r"
  "skip_ws (CHR ''}'' # r) = CHR ''}'' # r" "skip_ws (CHR '':'' # r) = CHR '':'' # r"
  "skip_ws (CHR 34 # r) = CHR 34 # r" "skip_ws (CHR ''['' # r) = CHR ''['' # r"
  "skip_ws (CHR ''{'' # r) = CHR ''{'' # r"
  by (simp_all add: skip_ws_def json_ws_def)

lemma parse_elems_printed:
  assumes "list_all2 (\<lambda>x t. stringify x = Text t) xs ts" "xs \<noteq> []" "\<forall>x \<in> set xs. reads_back x"
    "Suc (2 * length (join '','' ts @ CHR '']'' # r)) < n"
  shows "parse_elems n acc (join '','' ts @ CHR '']'' # r) = Inr (Arr (acc @ xs), r)"
  using assms
proof (induction xs ts arbitrary: acc n rule: list_all2_induct)
  case Nil
  then show ?case by simp
next
  case (Cons x xs t ts)
  obtain m where n: "n = Suc m" using Cons(6) by (cases n) auto
  let ?r = "if xs = [] then CHR '']'' # r else CHR '','' # join '','' ts @ CHR '']'' # r"
  have ne: "xs = [] \<longleftrightarrow> ts = []" using Cons(2) by auto
  have j: "join '','' (t # ts) @ CHR '']'' # r = t @ ?r" using ne by (simp add: join_Cons)
  have "parse_value m (t @ ?r) = Inr (x, ?r)"
    using Cons(1,5,6) n unfolding j reads_back_def by simp
  then show ?case
    using Cons(3)[of m "acc @ [x]"] Cons(5,6) n ne unfolding j by auto
qed

lemma quote_member: "quote k @ '':'' @ u = CHR 34 # concat (map quote_char k) @ CHR 34 # CHR '':'' # u"
  by (simp add: quote_def)

lemma parse_members_printed:
  assumes "list_all2 (\<lambda>kv t. \<exists>u. stringify (snd kv) = Text u \<and> t = quote (fst kv) @ '':'' @ u) kvs ts"
    "kvs \<noteq> []" "\<forall>kv \<in> set kvs. reads_back (snd kv)" "distinct (map fst (acc @ kvs))"
    "Suc (2 * length (join '','' ts @ CHR ''}'' # r)) < n"
  shows "parse_members n acc (join '','' ts @ CHR ''}'' # r) = Inr (Obj (acc @ kvs), r)"
  using assms
proof (induction kvs ts arbitrary: acc n rule: list_all2_induct)
  case Nil
  then show ?case by simp
next
  case (Cons kv kvs t ts)
  obtain m where n: "n = Suc m" using Cons(7) by (cases n) auto
  obtain k x where kv: "kv = (k, x)" by (cases kv)
  obtain u where u: "stringify x = Text u" "t = quote k @ '':'' @ u" using Cons(1) kv by auto
  let ?r = "if kvs = [] then CHR ''}'' # r else CHR '','' # join '','' ts @ CHR ''}'' # r"
  have ne: "kvs = [] \<longleftrightarrow> ts = []" using Cons(2) by auto
  have j: "join '','' (t # ts) @ CHR ''}'' # r = CHR 34 # concat (map quote_char k) @ CHR 34 # CHR '':'' # u @ ?r"
    using ne u(2) by (simp add: join_Cons quote_def)
  have "2 * length (u @ ?r) < m" using Cons(7) n unfolding j by simp
  then have pv: "parse_value m (u @ ?r) = Inr (x, ?r)"
    using Cons(5) kv u(1) unfolding reads_back_def by simp
  have up: "AList.update k x acc = acc @ [(k, x)]"
    by (rule update_fresh) (use Cons(6) kv in auto)
  have "parse_members (Suc m) acc (join '','' (t # ts) @ CHR ''}'' # r) =
    (case ?r of c # q \<Rightarrow> if c = CHR '','' then parse_members m (acc @ [(k, x)]) q
       else if c = CHR ''}'' then Inr (Obj (acc @ [(k, x)]), q) else Inl SyntaxError | [] \<Rightarrow> Inl SyntaxError)"
    unfolding j using pv by (simp add: parse_chars_quote up)
  then show ?case
    using Cons(3)[of "acc @ [(k, x)]" m] Cons(5,6,7) n ne kv unfolding j by auto
qed

lemma reads_back_num: "plain_json (Num m k) \<Longrightarrow> reads_back (Num m k)"
  unfolding reads_back_def
proof (intro allI impI)
  fix n t r
  assume a: "plain_json (Num m k)" "stringify (Num m k) = Text t" "2 * length (t @ r) < n" "num_stop r"
  obtain n' where n: "n = Suc n'" using a(3) by (cases n) auto
  from a have t: "t = int_str m" and k: "k = 0" by (auto split: if_splits)
  obtain c q where c: "int_str m = c # q" using int_str_hd(1)[of m] by (cases "int_str m") auto
  with int_str_hd(2)[of m] have d: "c = CHR ''-'' \<or> is_digit c" by simp
  then have "skip_ws (t @ r) = c # q @ r"
    using t c by (auto simp: skip_ws_def json_ws_def is_digit_def)
  with d parse_number_int[OF a(4), of m] show "parse_value n (t @ r) = Inr (Num m k, r)"
    by (auto simp: n c k is_digit_def)
qed

lemma reads_back_str: "reads_back (Str s)"
  unfolding reads_back_def
proof (intro allI impI)
  fix n t r
  assume "stringify (Str s) = Text t" "2 * length (t @ r) < n" "num_stop r"
  then show "parse_value n (t @ r) = Inr (Str s, r)"
    by (cases n) (auto simp: quote_def parse_chars_quote)
qed

lemma reads_back_const: "v = Null \<or> v = Bool b \<Longrightarrow> reads_back v"
  unfolding reads_back_def
proof (intro allI impI)
  fix n t r
  assume "v = Null \<or> v = Bool b" "stringify v = Text t" "2 * length (t @ r) < n" "num_stop r"
  then show "parse_value n (t @ r) = Inr (v, r)"
    by (cases n) (auto simp: skip_ws_def json_ws_def parse_word_def)
qed

lemma join_start:
  assumes "list_all2 P xs ts" "xs \<noteq> []" "\<And>x t. P x t \<Longrightarrow> t \<noteq> [] \<and> value_start (hd t)"
  shows "\<exists>d q. join sep ts = d # q \<and> value_start d"
proof -
  from assms obtain t ts' where ts: "ts = t # ts'" "t \<noteq> []" "value_start (hd t)"
    by (cases xs; cases ts) (auto dest!: assms(3))
  then show ?thesis by (cases t) (auto simp: join_Cons)
qed

lemma reads_back_arr:
  assumes "\<forall>x \<in> set xs. plain_json x \<and> reads_back x"
  shows "reads_back (Arr xs)"
  unfolding reads_back_def
proof (intro allI impI)
  fix n t r
  assume a: "stringify (Arr xs) = Text t" "2 * length (t @ r) < n" "num_stop r"
  then obtain ts where ts: "elems_text (map stringify xs) = Some ts" and t: "t = ''['' @ join '','' ts @ '']''"
    by (auto split: option.splits)
  obtain m where n: "n = Suc m" using a(2) by (cases n) auto
  have l: "list_all2 (\<lambda>x t. stringify x = Text t) xs ts"
    using elems_text_Some[OF _ ts] assms by auto
  show "parse_value n (t @ r) = Inr (Arr xs, r)"
  proof (cases "xs = []")
    case True
    with l have "ts = []" by simp
    with t n True show ?thesis by simp
  next
    case False
    have start: "\<exists>d q. join '','' ts = d # q \<and> value_start d"
      by (rule join_start[OF l False]) (rule stringify_start)
    have "parse_elems m [] (join '','' ts @ CHR '']'' # r) = Inr (Arr ([] @ xs), r)"
      by (rule parse_elems_printed[OF l False]) (use assms a(2) t n in auto)
    with start t n show ?thesis
      by (auto simp: skip_ws_start value_start_def[of "CHR '']''"])
  qed
qed

lemma reads_back_obj:
  assumes "\<forall>kv \<in> set kvs. plain_json (snd kv) \<and> reads_back (snd kv)" "plain_json (Obj kvs)"
  shows "reads_back (Obj kvs)"
  unfolding reads_back_def
proof (intro allI impI)
  fix n t r
  assume a: "stringify (Obj kvs) = Text t" "2 * length (t @ r) < n" "num_stop r"
  have "key_order (map (map_prod id stringify) kvs) = map (map_prod id stringify) kvs"
    by (rule key_order_plain) (use assms(2) in \<open>auto simp: list_all_iff\<close>)
  with a obtain ts where ts: "members_text (map (map_prod id stringify) kvs) = Some ts"
    and t: "t = ''{'' @ join '','' ts @ ''}''"
    by (auto split: option.splits)
  obtain m where n: "n = Suc m" using a(2) by (cases n) auto
  have l: "list_all2 (\<lambda>kv t. \<exists>u. stringify (snd kv) = Text u \<and> t = quote (fst kv) @ '':'' @ u) kvs ts"
    using members_text_Some[OF _ ts] assms by auto
  show "parse_value n (t @ r) = Inr (Obj kvs, r)"
  proof (cases "kvs = []")
    case True
    with l have "ts = []" by simp
    with t n True show ?thesis by simp
  next
    case False
    have start: "\<exists>d q. join '','' ts = d # q \<and> value_start d"
      by (rule join_start[OF l False]) (auto simp: quote_def value_start_def json_ws_def)
    have "parse_members m [] (join '','' ts @ CHR ''}'' # r) = Inr (Obj ([] @ kvs), r)"
      by (rule parse_members_printed[OF l False]) (use assms a(2) t n in auto)
    with start t n show ?thesis
      by (auto simp: skip_ws_start) (auto simp: value_start_def)
  qed
qed

lemma plain_json_reads_back: "plain_json v \<Longrightarrow> reads_back v"
proof (induction v)
  case (Obj kvs)
  then have "\<forall>kv \<in> set kvs. plain_json (snd kv) \<and> reads_back (snd kv)"
    by (auto simp: list_all_iff snds.simps)
  then show ?case using Obj(2) by (rule reads_back_obj)
next
  case (Arr xs)
  then show ?case by (intro reads_back_arr) (auto simp: list_all_iff)
qed (auto intro: reads_back_num reads_back_str reads_back_const)

lemma plain_json_text: "plain_json v \<Longrightarrow> \<exists>t. stringify v = Text t"
proof (induction v)
  case (Arr xs)
  then have "\<forall>x \<in> set xs. \<exists>t. stringify x = Text t" by (auto simp: list_all_iff)
  then have "\<exists>ts. elems_text (map stringify xs) = Some ts" by (induction xs) fastforce+
  then show ?case by auto
next
  case (Obj kvs)
  have k: "key_order (map (map_prod id stringify) kvs) = map (map_prod id stringify) kvs"
    by (rule key_order_plain) (use Obj(2) in \<open>auto simp: list_all_iff\<close>)
  have "\<forall>kv \<in> set kvs. \<exists>t. stringify (snd kv) = Text t"
    using Obj by (auto simp: list_all_iff snds.simps)
  then have "\<exists>ts. members_text (map (map_prod id stringify) kvs) = Some ts"
    by (induction kvs) fastforce+
  then show ?case by (auto simp: k)
qed auto

text \<open>Printing a plain value and parsing the text gives the value back.\<close>

lemma parse_stringify:
  assumes "plain_json v"
  shows "\<exists>t. stringify v = Text t \<and> parse_json t = Inr v"
proof -
  obtain t where t: "stringify v = Text t" using plain_json_text[OF assms] ..
  have "parse_value (Suc (2 * length t)) (t @ []) = Inr (v, [])"
    using plain_json_reads_back[OF assms] t unfolding reads_back_def by (metis append_Nil2 lessI num_stop_delims(4))
  with t show ?thesis by (simp add: parse_json_def skip_ws_def)
qed

end
