(* ===== verification/Validate_Content.thy ===== *)
theory Validate_Content
  imports Js_Json
begin

text \<open>
  The syntax check a configuration passes before it is published,
  \<^verbatim>\<open>utils/validateContent.js\<close>: the checker of one \<^verbatim>\<open>.properties\<close> entry, the character
  state machine that cuts a text into entries, and a line-oriented reference semantics the
  state machine is proved to implement.
\<close>

section \<open>One property\<close>

abbreviation backslash :: char where "backslash \<equiv> CHR 92"
abbreviation tab :: char where "tab \<equiv> CHR 9"
abbreviation formfeed :: char where "formfeed \<equiv> CHR 12"
abbreviation newline :: char where "newline \<equiv> CHR 10"
abbreviation return :: char where "return \<equiv> CHR 13"

definition is_blank :: "char \<Rightarrow> bool" where
  "is_blank c \<longleftrightarrow> c = CHR '' '' \<or> c = tab \<or> c = formfeed"

definition is_sep :: "char \<Rightarrow> bool" where
  "is_sep c \<longleftrightarrow> c = CHR ''='' \<or> c = CHR '':''"

text \<open>
  The first \<open>while\<close> of \<open>validateProperty\<close>: it returns \<open>keyLen\<close>, \<open>valueStart\<close> and \<open>hasSep\<close>.
\<close>

function key_loop :: "string \<Rightarrow> nat \<Rightarrow> bool \<Rightarrow> nat \<times> nat \<times> bool" where
  "key_loop property keyLen precedingBackslash =
     (if keyLen < length property then
        let c = property ! keyLen in
        if is_sep c \<and> \<not> precedingBackslash then (keyLen, keyLen + 1, True)
        else if is_blank c \<and> \<not> precedingBackslash then (keyLen, keyLen + 1, False)
        else key_loop property (keyLen + 1)
               (if c = backslash then \<not> precedingBackslash else False)
      else (keyLen, length property, False))"
  by pat_completeness auto
termination
  by (relation "measure (\<lambda>(property, keyLen, _). length property - keyLen)") auto

text \<open>The second \<open>while\<close>: the final \<open>valueStart\<close>.\<close>

function value_loop :: "string \<Rightarrow> nat \<Rightarrow> bool \<Rightarrow> nat" where
  "value_loop property valueStart hasSep =
     (if valueStart < length property then
        let c = property ! valueStart in
        if \<not> is_blank c then
          if \<not> hasSep \<and> is_sep c then value_loop property (valueStart + 1) True
          else valueStart
        else value_loop property (valueStart + 1) hasSep
      else valueStart)"
  by pat_completeness auto
termination
  by (relation "measure (\<lambda>(property, valueStart, _). length property - valueStart)") auto

text \<open>
  \<open>isPropertyEscape(c = '')\<close>: reading past the end gives \<open>undefined\<close>, hence the empty
  string, which every string includes.
\<close>

definition isPropertyEscape :: "char option \<Rightarrow> bool" where
  "isPropertyEscape c = (case c of None \<Rightarrow> True
     | Some x \<Rightarrow> x \<in> set (''abfnrt'' @ [backslash, CHR 34, CHR 39] @ ''0! #:=u''))"

definition is_hex :: "char \<Rightarrow> bool" where
  "is_hex c \<longleftrightarrow> is_digit c \<or> (97 \<le> (of_char c :: nat) \<and> (of_char c :: nat) \<le> 102)
     \<or> (65 \<le> (of_char c :: nat) \<and> (of_char c :: nat) \<le> 70)"

definition char_at :: "'a list \<Rightarrow> nat \<Rightarrow> 'a option" where
  "char_at xs i = (if i < length xs then Some (xs ! i) else None)"

text \<open>The \<open>while\<close> of \<open>validateKeyOrValueForProperty\<close>.\<close>

function escape_loop :: "string \<Rightarrow> nat \<Rightarrow> bool" where
  "escape_loop property index =
     (if index < length property then
        if property ! index \<noteq> backslash then escape_loop property (index + 1)
        else let c = char_at property (index + 1) in
          if \<not> isPropertyEscape c then False
          else if c = Some (CHR ''u'') then
            let unicode = take 4 (drop (index + 2) property) in
            if length unicode = 4 \<and> list_all is_hex unicode
            then escape_loop property (index + 6) else False
          else escape_loop property (index + 2)
      else True)"
  by pat_completeness auto
termination
  by (relation "measure (\<lambda>(property, index). length property - index)") auto

definition validateKeyOrValueForProperty :: "string \<Rightarrow> nat \<Rightarrow> nat \<Rightarrow> bool" where
  "validateKeyOrValueForProperty property start end =
     (if end \<le> start then False else escape_loop property 0)"

definition validateProperty :: "string \<Rightarrow> bool" where
  "validateProperty property =
     (let (keyLen, valueStart, hasSep) = key_loop property 0 False;
          valueStart = value_loop property valueStart hasSep
      in validateKeyOrValueForProperty property 0 keyLen \<and>
         validateKeyOrValueForProperty property valueStart (length property))"

declare key_loop.simps [simp del] value_loop.simps [simp del] escape_loop.simps [simp del]

section \<open>The text: a state machine over characters\<close>

record prop_state =
  isNewLine :: bool
  isCommentLine :: bool
  isSkipWhiteSpace :: bool
  precedingBackslash :: bool
  appendedLineBegin :: bool
  skipLF :: bool
  hasProperty :: bool
  property :: string

definition init_state :: prop_state where
  "init_state = \<lparr>isNewLine = True, isCommentLine = False, isSkipWhiteSpace = True,
     precedingBackslash = False, appendedLineBegin = False, skipLF = False,
     hasProperty = False, property = []\<rparr>"

text \<open>
  The body of the \<open>for\<close> loop from the comment test on; \<open>None\<close> is \<open>return false\<close>. The
  parts before it (\<open>skipLF\<close>, leading white space) are \<open>prop_step\<close> below.
\<close>

definition prop_step_body :: "prop_state \<Rightarrow> char \<Rightarrow> prop_state option" where
  "prop_step_body s c =
     (if isNewLine s \<and> (c = CHR ''#'' \<or> c = CHR ''!'') then
        Some (s\<lparr>isNewLine := False, isCommentLine := True\<rparr>)
      else let s = s\<lparr>isNewLine := False\<rparr> in
      if c \<noteq> newline \<and> c \<noteq> return then
        Some (s\<lparr>property := property s @ [c],
                precedingBackslash := (if c = backslash then \<not> precedingBackslash s else False)\<rparr>)
      else if isCommentLine s \<or> property s = [] then
        Some (s\<lparr>isNewLine := True, isCommentLine := False, isSkipWhiteSpace := True, property := []\<rparr>)
      else if precedingBackslash s then
        Some (s\<lparr>property := butlast (property s), precedingBackslash := False,
                isSkipWhiteSpace := True, appendedLineBegin := True,
                skipLF := (if c = return then True else skipLF s)\<rparr>)
      else if \<not> validateProperty (property s) then None
      else Some (s\<lparr>hasProperty := True, property := [], isNewLine := True, isSkipWhiteSpace := True\<rparr>))"

definition prop_step :: "prop_state \<Rightarrow> char \<Rightarrow> prop_state option" where
  "prop_step s c =
     (if skipLF s \<and> c = newline then Some (s\<lparr>skipLF := False\<rparr>)
      else let s = s\<lparr>skipLF := False\<rparr> in
      if isSkipWhiteSpace s then
        if is_blank c then Some s
        else if \<not> appendedLineBegin s \<and> (c = return \<or> c = newline) then Some s
        else prop_step_body (s\<lparr>appendedLineBegin := False, isSkipWhiteSpace := False\<rparr>) c
      else prop_step_body s c)"

fun prop_loop :: "prop_state \<Rightarrow> string \<Rightarrow> bool" where
  "prop_loop s [] =
     (if property s \<noteq> [] \<and> \<not> isCommentLine s then validateProperty (property s) else hasProperty s)"
| "prop_loop s (c # cs) = (case prop_step s c of None \<Rightarrow> False | Some s' \<Rightarrow> prop_loop s' cs)"

definition validateProperties :: "string \<Rightarrow> bool" where
  "validateProperties str = prop_loop init_state str"

section \<open>The other formats and the dispatch\<close>

text \<open>
  \<open>JSON.parse\<close> is \<^const>\<open>parse_json\<close>. The YAML parser (package \<^verbatim>\<open>yamljs\<close>) and the XML
  facilities of the browser are parameters: \<open>yaml_parse\<close> gives \<open>None\<close> where the parser
  throws; \<open>DomParser f\<close> counts the \<open>parsererror\<close> elements (\<open>None\<close> for a throw) and
  \<open>ActiveX f\<close> says whether loading succeeds without a throw.
\<close>

datatype xml_env = DomParser "string \<Rightarrow> nat option" | ActiveX "string \<Rightarrow> bool" | NoXml

definition validateJson :: "string \<Rightarrow> js_error + jv" where
  "validateJson str =
     (case parse_json str of
        Inr v \<Rightarrow> Inr (Bool (truthy v))
      | Inl e \<Rightarrow> if e = OutsideModel then Inl OutsideModel else Inr (Bool False))"

definition validateXml :: "xml_env \<Rightarrow> string \<Rightarrow> jv" where
  "validateXml env str =
     (case env of
        DomParser f \<Rightarrow> (case f str of None \<Rightarrow> Bool False | Some n \<Rightarrow> Bool (n = 0))
      | ActiveX f \<Rightarrow> if f str then Obj [] else Bool False
      | NoXml \<Rightarrow> Undefined)"

definition validateYaml :: "(string \<Rightarrow> jv option) \<Rightarrow> string \<Rightarrow> jv" where
  "validateYaml yaml_parse str = (case yaml_parse str of None \<Rightarrow> Bool False | Some v \<Rightarrow> v)"

text \<open>
  \<open>validate({ content, type })\<close>. The table is a plain object; a type named like a member of
  \<open>Object.prototype\<close> is outside the model.
\<close>

definition validate :: "(string \<Rightarrow> jv option) \<Rightarrow> xml_env \<Rightarrow> string \<Rightarrow> string \<Rightarrow> js_error + jv" where
  "validate yaml_parse env content type =
     (if type = ''json'' then validateJson content
      else if type = ''xml'' \<or> type = ''text/html'' \<or> type = ''html'' then Inr (validateXml env content)
      else if type = ''properties'' then Inr (Bool (validateProperties content))
      else if type = ''yaml'' then Inr (validateYaml yaml_parse content)
      else Inr (Bool True))"

section \<open>Reference semantics\<close>

text \<open>
  One entry, read structurally: the key runs to the first unescaped separator or blank;
  the value starts after the blanks and at most one separator; every backslash of the
  entry starts a known escape.
\<close>

fun key_len :: "bool \<Rightarrow> string \<Rightarrow> nat" where
  "key_len esc [] = 0"
| "key_len esc (c # cs) =
     (if (is_sep c \<or> is_blank c) \<and> \<not> esc then 0 else Suc (key_len (c = backslash \<and> \<not> esc) cs))"

definition value_part :: "string \<Rightarrow> string" where
  "value_part r = (case dropWhile is_blank r of [] \<Rightarrow> []
     | c # cs \<Rightarrow> if is_sep c then dropWhile is_blank cs else c # cs)"

fun escapes_ok :: "string \<Rightarrow> bool" where
  "escapes_ok [] = True"
| "escapes_ok (c # cs) =
     (if c \<noteq> backslash then escapes_ok cs
      else case cs of [] \<Rightarrow> True
        | e # es \<Rightarrow> isPropertyEscape (Some e) \<and>
            (if e = CHR ''u''
             then length (take 4 es) = 4 \<and> list_all is_hex (take 4 es) \<and> escapes_ok (drop 4 es)
             else escapes_ok es))"

definition entry_ok :: "string \<Rightarrow> bool" where
  "entry_ok p \<longleftrightarrow> key_len False p \<noteq> 0 \<and> value_part (drop (key_len False p) p) \<noteq> [] \<and> escapes_ok p"

text \<open>
  A text, read line by line: line ends are normalised, blank lines and comments dropped,
  and a line with an odd run of backslashes at its end continues on the next one.
\<close>

fun norm_nl :: "string \<Rightarrow> string" where
  "norm_nl [] = []"
| "norm_nl (c # cs) =
     (if c = return
      then newline # (case cs of [] \<Rightarrow> [] | d # ds \<Rightarrow> if d = newline then norm_nl ds else norm_nl cs)
      else c # norm_nl cs)"

definition continues :: "string \<Rightarrow> bool" where
  "continues l \<longleftrightarrow> odd (length (takeWhile (\<lambda>c. c = backslash) (rev l)))"

definition is_comment :: "string \<Rightarrow> bool" where
  "is_comment l \<longleftrightarrow> (case dropWhile is_blank l of [] \<Rightarrow> False | c # _ \<Rightarrow> c = CHR ''#'' \<or> c = CHR ''!'')"

fun entries :: "string list \<Rightarrow> string list" and entry_from :: "string \<Rightarrow> string list \<Rightarrow> string list" where
  "entries [] = []"
| "entries (l # ls) =
     (if dropWhile is_blank l = [] \<or> is_comment l then entries ls else entry_from (dropWhile is_blank l) ls)"
| "entry_from p [] = (if p = [] then [] else [p])"
| "entry_from p (l # ls) =
     (if continues p then entry_from (butlast p @ dropWhile is_blank l) ls
      else (if p = [] then [] else [p]) @ entries (l # ls))"

definition text_lines :: "string \<Rightarrow> string list" where
  "text_lines s = split_on newline (norm_nl s)"

definition properties_ok :: "string \<Rightarrow> bool" where
  "properties_ok s \<longleftrightarrow> entries (text_lines s) \<noteq> [] \<and> (\<forall>p \<in> set (entries (text_lines s)). entry_ok p)"

section \<open>One property: the loops compute the reference\<close>

lemma key_loop_spec:
  "key_loop p i esc =
     (let k = i + key_len esc (drop i p) in
      if k < length p then (k, Suc k, is_sep (p ! k)) else (k, length p, False))"
  if "i \<le> length p"
  using that
proof (induction p i esc rule: key_loop.induct)
  case (1 p i esc)
  show ?case
  proof (cases "i < length p")
    case True
    then have d: "drop i p = p ! i # drop (Suc i) p" by (simp add: Cons_nth_drop_Suc)
    show ?thesis
    proof (cases "(is_sep (p ! i) \<or> is_blank (p ! i)) \<and> \<not> esc")
      case stop: True
      with True d show ?thesis by (subst key_loop.simps) (auto simp: Let_def)
    next
      case False
      with True "1.IH"[OF True refl] have
        "key_loop p (Suc i) (if p ! i = backslash then \<not> esc else False) =
          (let k = Suc i + key_len (if p ! i = backslash then \<not> esc else False) (drop (Suc i) p) in
           if k < length p then (k, Suc k, is_sep (p ! k)) else (k, length p, False))"
        by auto
      with True False d show ?thesis
        by (subst key_loop.simps) (auto simp: Let_def)
    qed
  next
    case False
    with "1.prems" show ?thesis by (subst key_loop.simps) (simp add: Let_def)
  qed
qed

lemma value_loop_blank:
  "value_loop p i sep = i + length (takeWhile is_blank (drop i p))" if "i \<le> length p" "sep"
  using that
proof (induction p i sep rule: value_loop.induct)
  case (1 p i sep)
  show ?case
  proof (cases "i < length p")
    case True
    then have d: "drop i p = p ! i # drop (Suc i) p" by (simp add: Cons_nth_drop_Suc)
    from 1 True show ?thesis by (subst value_loop.simps) (auto simp: Let_def d)
  next
    case False
    with 1 show ?thesis by (subst value_loop.simps) simp
  qed
qed

lemma drop_takeWhile: "drop (length (takeWhile P xs)) xs = dropWhile P xs"
  by (induction xs) auto

lemma value_loop_drop:
  "drop (value_loop p i sep) p =
     (if sep then dropWhile is_blank (drop i p) else value_part (drop i p))" if "i \<le> length p"
  using that
proof (induction p i sep rule: value_loop.induct)
  case (1 p i sep)
  show ?case
  proof (cases "i < length p")
    case True
    then have d: "drop i p = p ! i # drop (Suc i) p" by (simp add: Cons_nth_drop_Suc)
    have s: "drop (value_loop p (Suc i) True) p = dropWhile is_blank (drop (Suc i) p)" if "i < length p"
      using that drop_takeWhile[of is_blank "drop (Suc i) p"]
      by (simp add: value_loop_blank add.commute)
    from 1 True s show ?thesis
      by (subst value_loop.simps) (auto simp: Let_def d value_part_def)
  next
    case False
    with 1 show ?thesis by (subst value_loop.simps) (simp add: value_part_def)
  qed
qed

lemma value_loop_le: "i \<le> length p \<Longrightarrow> value_loop p i sep \<le> length p"
proof (induction p i sep rule: value_loop.induct)
  case (1 p i sep)
  then show ?case by (subst value_loop.simps) (auto simp: Let_def)
qed

lemma escape_loop_spec: "escape_loop p i = escapes_ok (drop i p)"
proof (induction p i rule: escape_loop.induct)
  case (1 p i)
  show ?case
  proof (cases "i < length p")
    case True
    then have d: "drop i p = p ! i # drop (Suc i) p" by (simp add: Cons_nth_drop_Suc)
    show ?thesis
    proof (cases "Suc i < length p")
      case two: True
      then have e: "drop (Suc i) p = p ! Suc i # drop (i + 2) p" by (simp add: Cons_nth_drop_Suc)
      have "drop 4 (drop (i + 2) p) = drop (i + 6) p" by (simp add: add.commute)
      with 1 True two d e show ?thesis
        by (subst escape_loop.simps) (auto simp: Let_def char_at_def)
    next
      case False
      with 1 True d show ?thesis
        by (subst escape_loop.simps) (auto simp: Let_def char_at_def isPropertyEscape_def)
    qed
  next
    case False
    then show ?thesis by (subst escape_loop.simps) simp
  qed
qed

lemma key_len_le: "key_len esc p \<le> length p"
  by (induction esc p rule: key_len.induct) auto

lemma key_len_at: "key_len esc p < length p \<Longrightarrow> is_sep (p ! key_len esc p) \<or> is_blank (p ! key_len esc p)"
  by (induction esc p rule: key_len.induct) auto

lemma value_part_at_key:
  assumes "k < length p" and "is_sep (p ! k) \<or> is_blank (p ! k)"
  shows "value_part (drop k p) =
    (if is_sep (p ! k) then dropWhile is_blank (drop (Suc k) p) else value_part (drop (Suc k) p))"
proof -
  from assms(1) have "drop k p = p ! k # drop (Suc k) p" by (simp add: Cons_nth_drop_Suc)
  with assms(2) show ?thesis by (auto simp: value_part_def is_sep_def is_blank_def)
qed

text \<open>
  The two index loops of \<open>validateProperty\<close> and its escape check accept exactly the entries
  with a key, a value and known escapes.
\<close>

lemma validateProperty_entry_ok: "validateProperty p = entry_ok p"
proof -
  let ?k = "key_len False p"
  have k: "key_loop p 0 False =
      (if ?k < length p then (?k, Suc ?k, is_sep (p ! ?k)) else (?k, length p, False))"
    by (simp add: key_loop_spec Let_def)
  have v: "value_loop p i s < length p \<longleftrightarrow>
      (if s then dropWhile is_blank (drop i p) else value_part (drop i p)) \<noteq> []" if "i \<le> length p" for i s
    using value_loop_drop[OF that, of s] value_loop_le[OF that, of s]
    by (metis drop_eq_Nil linorder_not_le)
  show ?thesis
  proof (cases "?k < length p")
    case True
    then show ?thesis
      by (auto simp: validateProperty_def k validateKeyOrValueForProperty_def escape_loop_spec
          entry_ok_def v value_part_at_key[OF True key_len_at[OF True]] simp flip: not_less)
  next
    case False
    with key_len_le[of False p] have "?k = length p" by simp
    then show ?thesis
      by (auto simp: validateProperty_def k validateKeyOrValueForProperty_def entry_ok_def
          value_part_def value_loop.simps[of p "length p"])
  qed
qed

section \<open>The text: the state machine computes the reference\<close>

subsection \<open>Line ends\<close>

text \<open>Invariant of the loop: the begin of an appended line is only marked while skipping blanks.\<close>

definition loop_inv :: "prop_state \<Rightarrow> bool" where
  "loop_inv s \<longleftrightarrow> (appendedLineBegin s \<longrightarrow> isSkipWhiteSpace s)"

lemma prop_step_body_inv: "loop_inv s \<Longrightarrow> prop_step_body s c = Some t \<Longrightarrow> loop_inv t"
  unfolding prop_step_body_def Let_def loop_inv_def by (simp split: if_split_asm) (auto split: if_split_asm)

lemma prop_step_inv:
  assumes "loop_inv s" "prop_step s c = Some t"
  shows "loop_inv t"
proof (cases "isSkipWhiteSpace s")
  case True
  then show ?thesis
    using assms prop_step_body_inv[of "s\<lparr>skipLF := False, appendedLineBegin := False, isSkipWhiteSpace := False\<rparr>" c t]
    unfolding prop_step_def Let_def by (auto simp: loop_inv_def split: if_split_asm)
next
  case False
  then show ?thesis
    using assms prop_step_body_inv[of "s\<lparr>skipLF := False\<rparr>" c t]
    unfolding prop_step_def Let_def by (auto simp: loop_inv_def split: if_split_asm)
qed

lemmas prop_step_defs = prop_step_def prop_step_body_def Let_def is_blank_def

text \<open>A carriage return acts as a newline, but for the pending \<open>skipLF\<close>.\<close>

lemma prop_step_body_return:
  assumes "\<not> skipLF s" "\<not> appendedLineBegin s" "\<not> isSkipWhiteSpace s"
  shows "(prop_step_body s return = None \<and> prop_step_body s newline = None) \<or>
    (\<exists>t. prop_step_body s return = Some t \<and> prop_step_body s newline = Some (t\<lparr>skipLF := False\<rparr>)
       \<and> prop_step t newline = Some (t\<lparr>skipLF := False\<rparr>))"
proof -
  consider "isCommentLine s \<or> property s = []"
    | "\<not> isCommentLine s" "property s \<noteq> []" "precedingBackslash s"
    | "\<not> isCommentLine s" "property s \<noteq> []" "\<not> precedingBackslash s"
    by blast
  then show ?thesis
    by cases (use assms in \<open>simp_all add: prop_step_defs\<close>)
qed

lemma prop_step_return:
  assumes "loop_inv s" and "\<not> skipLF s"
  shows "(prop_step s return = None \<and> prop_step s newline = None) \<or>
    (\<exists>t. prop_step s return = Some t \<and> prop_step s newline = Some (t\<lparr>skipLF := False\<rparr>)
       \<and> prop_step t newline = Some (t\<lparr>skipLF := False\<rparr>))"
proof (cases "isSkipWhiteSpace s \<and> \<not> appendedLineBegin s")
  case True
  with assms(2) show ?thesis by (simp add: prop_step_def Let_def is_blank_def)
next
  case False
  let ?s = "s\<lparr>skipLF := False, appendedLineBegin := False, isSkipWhiteSpace := False\<rparr>"
  have "prop_step s c = prop_step_body ?s c" if "c = return \<or> c = newline" for c
    using False that assms by (cases s) (auto simp: prop_step_def Let_def is_blank_def loop_inv_def)
  with prop_step_body_return[of ?s] show ?thesis by simp
qed

lemma prop_loop_skipLF:
  assumes "cs = [] \<or> hd cs \<noteq> newline"
  shows "prop_loop (s\<lparr>skipLF := b\<rparr>) cs = prop_loop s cs"
  using assms by (cases cs) (auto simp: prop_step_def Let_def)

lemma prop_step_skipLF: "prop_step s c = Some t \<Longrightarrow> c \<noteq> return \<Longrightarrow> \<not> skipLF t"
  by (auto simp: prop_step_def prop_step_body_def Let_def split: if_splits)

lemma prop_loop_norm_nl:
  "loop_inv s \<Longrightarrow> \<not> skipLF s \<Longrightarrow> prop_loop s cs = prop_loop s (norm_nl cs)"
proof (induction cs arbitrary: s rule: norm_nl.induct)
  case 1
  then show ?case by simp
next
  case (2 c cs)
  show ?case
  proof (cases "c = return")
    case False
    with 2 show ?thesis
      by (auto split: option.splits dest: prop_step_inv prop_step_skipLF)
  next
    case True
    note ret = prop_step_return[OF 2(4,5)]
    show ?thesis
    proof (cases "prop_step s newline")
      case None
      with ret True show ?thesis by auto
    next
      case (Some u)
      with ret obtain t where t: "prop_step s return = Some t" "u = t\<lparr>skipLF := False\<rparr>"
        "prop_step t newline = Some u" by auto
      have u: "loop_inv u" "\<not> skipLF u" using Some prop_step_inv[OF 2(4)] t(2) by auto
      show ?thesis
      proof (cases "cs \<noteq> [] \<and> hd cs = newline")
        case lf: True
        then obtain ds where "cs = newline # ds" by (cases cs) auto
        with 2(1)[OF True, of newline ds] True t Some u show ?thesis by auto
      next
        case no: False
        then have "prop_loop t cs = prop_loop u cs"
          using prop_loop_skipLF[where s = t and b = False and cs = cs] t(2) by auto
        moreover have "prop_loop u cs = prop_loop u (norm_nl cs)"
          using 2(2)[OF True] no u by (cases cs) auto
        moreover have "norm_nl (c # cs) = newline # norm_nl cs"
          using no True by (cases cs) auto
        ultimately show ?thesis using True t(1) Some by simp
      qed
    qed
  qed
qed

lemma norm_nl_no_return: "return \<notin> set (norm_nl s)"
  by (induction s rule: norm_nl.induct) (auto split: list.splits)

subsection \<open>One line at a time\<close>

definition fresh :: "bool \<Rightarrow> prop_state" where
  "fresh h = init_state\<lparr>hasProperty := h\<rparr>"

definition in_line :: "bool \<Rightarrow> bool \<Rightarrow> bool \<Rightarrow> string \<Rightarrow> prop_state" where
  "in_line h cmt pb p = init_state\<lparr>isNewLine := False, isCommentLine := cmt, isSkipWhiteSpace := False,
     precedingBackslash := pb, hasProperty := h, property := p\<rparr>"

definition continued :: "bool \<Rightarrow> string \<Rightarrow> prop_state" where
  "continued h p = init_state\<lparr>isNewLine := False, appendedLineBegin := True,
     hasProperty := h, property := p\<rparr>"

lemmas line_states = fresh_def in_line_def continued_def init_state_def

definition parity :: "bool \<Rightarrow> string \<Rightarrow> bool" where
  "parity b l = foldl (\<lambda>b c. c = backslash \<and> \<not> b) b l"

lemma parity_simps [simp]:
  "parity b [] = b"
  "parity b (c # l) = parity (c = backslash \<and> \<not> b) l"
  by (simp_all add: parity_def)

lemma parity_snoc: "parity b (l @ [c]) = (c = backslash \<and> \<not> parity b l)"
  by (simp add: parity_def)

lemma parity_continues: "parity False l = continues l"
  by (induction l rule: rev_induct) (auto simp: parity_snoc continues_def)

lemma parity_append_even: "\<not> continues p \<Longrightarrow> continues (p @ l) = continues l"
  by (simp flip: parity_continues add: parity_def)

lemma continues_butlast: "continues p \<Longrightarrow> \<not> continues (butlast p)"
  by (cases p rule: rev_cases) (auto simp: parity_snoc simp flip: parity_continues)

definition line_text :: "string \<Rightarrow> bool" where
  "line_text l \<longleftrightarrow> newline \<notin> set l \<and> return \<notin> set l"

lemma line_text_simps [simp]:
  "line_text []"
  "line_text (c # l) \<longleftrightarrow> c \<noteq> newline \<and> c \<noteq> return \<and> line_text l"
  by (auto simp: line_text_def)

lemma loop_in_line:
  "line_text l \<Longrightarrow>
   prop_loop (in_line h cmt pb p) (l @ cs) = prop_loop (in_line h cmt (parity pb l) (p @ l)) cs"
proof (induction l arbitrary: pb p)
  case Nil
  then show ?case by simp
next
  case (Cons c l)
  then have "prop_step (in_line h cmt pb p) c = Some (in_line h cmt (c = backslash \<and> \<not> pb) (p @ [c]))"
    by (auto simp: prop_step_def prop_step_body_def line_states Let_def)
  with Cons show ?case by simp
qed

lemma loop_fresh_blanks:
  "list_all is_blank b \<Longrightarrow> prop_loop (fresh h) (b @ cs) = prop_loop (fresh h) cs"
  by (induction b) (auto simp: prop_step_def line_states)

lemma loop_continued_blanks:
  "list_all is_blank b \<Longrightarrow> prop_loop (continued h p) (b @ cs) = prop_loop (continued h p) cs"
  by (induction b) (auto simp: prop_step_def line_states)

lemma blank_split: "l = takeWhile is_blank l @ dropWhile is_blank l" "list_all is_blank (takeWhile is_blank l)"
  by (auto simp: list_all_iff dest: set_takeWhileD)

lemma loop_fresh_skip: "prop_loop (fresh h) (l @ cs) = prop_loop (fresh h) (dropWhile is_blank l @ cs)"
  using loop_fresh_blanks[OF blank_split(2), of h l "dropWhile is_blank l @ cs"]
  by (simp flip: append_assoc)

lemma loop_continued_skip:
  "prop_loop (continued h p) (l @ cs) = prop_loop (continued h p) (dropWhile is_blank l @ cs)"
  using loop_continued_blanks[OF blank_split(2), of h p l "dropWhile is_blank l @ cs"]
  by (simp flip: append_assoc)

lemma line_text_dropWhile: "line_text l \<Longrightarrow> line_text (dropWhile P l)"
  by (auto simp: line_text_def dest: set_dropWhileD)

lemma loop_fresh_newline: "prop_loop (fresh h) (newline # cs) = prop_loop (fresh h) cs"
  by (auto simp: prop_step_defs line_states)

lemma loop_fresh_blank_line:
  assumes "dropWhile is_blank l = []"
  shows "prop_loop (fresh h) (l @ newline # cs) = prop_loop (fresh h) cs" "prop_loop (fresh h) l = h"
  using loop_fresh_skip[of h l "newline # cs"] loop_fresh_skip[of h l "[]"]
  by (simp_all only: assms append_Nil append_Nil2 loop_fresh_newline) (simp add: line_states)

lemma continues_dropWhile:
  "dropWhile is_blank l \<noteq> [] \<Longrightarrow> continues (dropWhile is_blank l) = continues l"
proof (induction l)
  case Nil
  then show ?case by simp
next
  case (Cons c l)
  have "continues (c # l) = continues l" if "is_blank c"
    using parity_append_even[of "[c]" l] that by (auto simp: continues_def is_blank_def)
  with Cons show ?case by auto
qed

lemma loop_fresh_comment:
  assumes "line_text l" "is_comment l" "\<not> continues l"
  shows "prop_loop (fresh h) (l @ newline # cs) = prop_loop (fresh h) cs" "prop_loop (fresh h) l = h"
proof -
  from assms(2) obtain c t where t: "dropWhile is_blank l = c # t" and c: "c = CHR ''#'' \<or> c = CHR ''!''"
    by (auto simp: is_comment_def split: list.splits)
  have lt: "line_text t" using line_text_dropWhile[OF assms(1), of is_blank] t by simp
  have "continues (c # t) = continues l" using continues_dropWhile[of l] t by simp
  with assms(3) c parity_append_even[of "[c]" t] have nc: "\<not> parity False t"
    by (auto simp: parity_continues continues_def)
  have st: "prop_step (fresh h) c = Some (in_line h True False [])"
    using c by (auto simp: prop_step_defs line_states)
  have "prop_loop (fresh h) (l @ ds) = prop_loop (in_line h True False t) ds" for ds
    using loop_fresh_skip[of h l ds] st loop_in_line[OF lt, of h True False "[]" ds] nc
    by (simp add: t)
  from this[of "newline # cs"] this[of "[]"]
  show "prop_loop (fresh h) (l @ newline # cs) = prop_loop (fresh h) cs" "prop_loop (fresh h) l = h"
    by (auto simp: prop_step_defs line_states)
qed

lemma loop_fresh_entry:
  assumes "line_text l" "\<not> is_comment l" "dropWhile is_blank l \<noteq> []"
  shows "prop_loop (fresh h) (l @ cs) =
    prop_loop (in_line h False (continues (dropWhile is_blank l)) (dropWhile is_blank l)) cs"
proof -
  from assms(3) obtain c t where t: "dropWhile is_blank l = c # t" by (cases "dropWhile is_blank l") auto
  with assms(2) have c: "c \<noteq> CHR ''#''" "c \<noteq> CHR ''!''" by (auto simp: is_comment_def)
  have b: "\<not> is_blank c" using hd_dropWhile[of is_blank l] t by simp
  have lt: "line_text (c # t)" using line_text_dropWhile[OF assms(1), of is_blank] t by simp
  have "prop_step (fresh h) c = Some (in_line h False (c = backslash) [c])"
    using c b lt by (auto simp: prop_step_def prop_step_body_def Let_def line_states)
  then show ?thesis
    using loop_fresh_skip[of h l cs] loop_in_line[of t h False "c = backslash" "[c]" cs] lt
    by (simp add: t flip: parity_continues)
qed

lemma loop_in_line_end: "prop_loop (in_line h False pb p) [] = (if p \<noteq> [] then entry_ok p else h)"
  by (simp add: line_states validateProperty_entry_ok)

lemma loop_in_line_newline:
  "prop_loop (in_line h False (continues p) p) (newline # cs) =
     (if p = [] then prop_loop (fresh h) cs
      else if continues p then prop_loop (continued h (butlast p)) cs
      else entry_ok p \<and> prop_loop (fresh True) cs)"
  by (auto simp: prop_step_def prop_step_body_def Let_def line_states validateProperty_entry_ok continues_def)

lemma loop_continued_exit:
  assumes "cs = [] \<or> hd cs = newline"
  shows "prop_loop (continued h p) cs = prop_loop (in_line h False False p) cs"
proof (cases cs)
  case Nil
  then show ?thesis by (simp add: line_states)
next
  case (Cons c ds)
  with assms have "prop_step (continued h p) c = prop_step (in_line h False False p) c"
    by (simp add: prop_step_def line_states is_blank_def)
  with Cons show ?thesis by simp
qed

lemma loop_continued_line:
  assumes "line_text l" "\<not> continues p" "cs = [] \<or> hd cs = newline"
  shows "prop_loop (continued h p) (l @ cs) =
    prop_loop (in_line h False (continues (p @ dropWhile is_blank l)) (p @ dropWhile is_blank l)) cs"
proof (cases "dropWhile is_blank l")
  case Nil
  then show ?thesis
    using loop_continued_skip[of h p l cs] assms(2,3) loop_continued_exit[of cs h p]
    by (simp del: dropWhile_eq_Nil_conv)
next
  case (Cons c t)
  have b: "\<not> is_blank c" using hd_dropWhile[of is_blank l] Cons by simp
  have lt: "line_text (c # t)" using line_text_dropWhile[OF assms(1), of is_blank] Cons by simp
  have "prop_step (continued h p) c = Some (in_line h False (c = backslash) (p @ [c]))"
    using b lt by (auto simp: prop_step_def prop_step_body_def Let_def line_states)
  then show ?thesis
    using loop_continued_skip[of h p l cs] loop_in_line[of t h False "c = backslash" "p @ [c]" cs] lt
      parity_append_even[OF assms(2), of "c # t"]
    by (simp add: Cons flip: parity_continues)
qed

subsection \<open>All lines\<close>

definition plain_comments :: "string list \<Rightarrow> bool" where
  "plain_comments ls \<longleftrightarrow> (\<forall>l \<in> set ls. is_comment l \<longrightarrow> \<not> continues l)"

definition good_lines :: "string list \<Rightarrow> bool" where
  "good_lines ls \<longleftrightarrow> list_all line_text ls \<and> plain_comments ls"

definition tail_text :: "string list \<Rightarrow> string" where
  "tail_text ls = (if ls = [] then [] else newline # join [newline] ls)"

lemma join_tail: "join [newline] (l # ls) = l @ tail_text ls"
  by (simp add: join_Cons tail_text_def)

lemma good_lines_Cons [simp]:
  "good_lines (l # ls) \<longleftrightarrow> line_text l \<and> (is_comment l \<longrightarrow> \<not> continues l) \<and> good_lines ls"
  by (auto simp: good_lines_def plain_comments_def)

lemma loop_skipped_line:
  assumes "prop_loop (fresh h) l = h"
    and "\<And>cs. prop_loop (fresh h) (l @ newline # cs) = prop_loop (fresh h) cs"
  shows "prop_loop (fresh h) (l @ tail_text ls) = (if ls = [] then h else prop_loop (fresh h) (join [newline] ls))"
  using assms by (simp add: tail_text_def)

lemma loop_entries:
  "good_lines ls \<Longrightarrow> ls \<noteq> [] \<Longrightarrow> prop_loop (fresh h) (join [newline] ls) \<longleftrightarrow>
     (\<forall>q \<in> set (entries ls). entry_ok q) \<and> (h \<or> entries ls \<noteq> [])"
  "good_lines ls \<Longrightarrow> prop_loop (in_line h False (continues p) p) (tail_text ls) \<longleftrightarrow>
     (\<forall>q \<in> set (entry_from p ls). entry_ok q) \<and> (h \<or> entry_from p ls \<noteq> [])"
proof (induction ls and p ls arbitrary: h and h rule: entries_entry_from.induct)
  case 1
  then show ?case by simp
next
  case (2 l ls)
  show ?case
  proof (cases "dropWhile is_blank l = [] \<or> is_comment l")
    case True
    have sk: "prop_loop (fresh h) l = h"
      "\<And>cs. prop_loop (fresh h) (l @ newline # cs) = prop_loop (fresh h) cs"
      using True 2 loop_fresh_blank_line[of l h] loop_fresh_comment[of l h] by auto
    show ?thesis
      using loop_skipped_line[OF sk, of ls] 2(1)[OF True, of h] 2(3) True
      by (cases "ls = []") (simp_all add: join_tail sk)
  next
    case False
    then show ?thesis
      using 2(2)[OF False, of h] 2(3) loop_fresh_entry[of l h "tail_text ls"] by (simp add: join_tail del: dropWhile_eq_Nil_conv)
  qed
next
  case (3 p)
  then show ?case by (simp add: tail_text_def loop_in_line_end del: prop_loop.simps)
next
  case (4 p l ls)
  have tl: "tail_text (l # ls) = newline # join [newline] (l # ls)" by (simp add: tail_text_def)
  show ?case
  proof (cases "continues p")
    case True
    then have "p \<noteq> []" by (auto simp: continues_def)
    moreover have "prop_loop (continued h (butlast p)) (l @ tail_text ls) =
      prop_loop (in_line h False (continues (butlast p @ dropWhile is_blank l)) (butlast p @ dropWhile is_blank l)) (tail_text ls)"
      by (rule loop_continued_line) (use 4(3) True in \<open>auto simp: continues_butlast tail_text_def\<close>)
    ultimately show ?thesis
      using True 4(1)[OF True, of h] 4(3) loop_in_line_newline[of h p "join [newline] (l # ls)"]
      by (simp only: tl join_tail) simp
  next
    case False
    then show ?thesis
      using 4(2)[OF False, of True] 4(2)[OF False, of h] 4(3) loop_in_line_newline[of h p "join [newline] (l # ls)"]
      by (simp only: tl) (auto simp del: entries.simps)
  qed
qed

lemma text_lines_text: "list_all line_text (text_lines s)"
  using norm_nl_no_return[of s] split_on_pieces_free[of _ newline "norm_nl s"]
    split_on_pieces_subset[of _ newline "norm_nl s"]
  by (fastforce simp: text_lines_def list_all_iff line_text_def)

lemma text_lines_not_Nil: "text_lines s \<noteq> []"
  by (simp add: text_lines_def)

lemma init_fresh: "init_state = fresh False"
  by (simp add: line_states)

lemma validateProperties_reference:
  assumes "plain_comments (text_lines s)"
  shows "validateProperties s = properties_ok s"
proof -
  have "loop_inv (fresh False)" "\<not> skipLF (fresh False)"
    by (simp_all add: loop_inv_def line_states)
  then have "validateProperties s = prop_loop (fresh False) (join [newline] (text_lines s))"
    using prop_loop_norm_nl[of "fresh False" s]
    by (simp add: validateProperties_def init_fresh text_lines_def join_split_on)
  also have "\<dots> = properties_ok s"
    using loop_entries(1)[of "text_lines s" False] assms text_lines_text[of s] text_lines_not_Nil[of s]
    by (simp add: properties_ok_def good_lines_def conj_commute)
  finally show ?thesis .
qed

text \<open>
  C2: the character state machine of \<open>validateProperties\<close> accepts a text exactly when the
  line-oriented reading of the \<^verbatim>\<open>.properties\<close> format finds at least one entry and every
  entry has a key, a value and known escapes, provided no comment line ends in an odd run
  of backslashes.
\<close>

theorem validateProperties_correct:
  assumes "plain_comments (text_lines s)"
  shows "validateProperties s = properties_ok s"
  by (rule validateProperties_reference[OF assms])

text \<open>A text with a comment, a continued entry with a carriage return, and a unicode escape.\<close>

definition sample_text :: string where
  "sample_text = ''# note'' @ [newline] @ '' a : b '' @ [backslash, return, newline] @ ''  c''
     @ [newline, newline] @ ''k='' @ [backslash] @ ''u00e9''"

theorem validateProperties_correct_witness:
  "plain_comments (text_lines sample_text) \<and> validateProperties sample_text = properties_ok sample_text
   \<and> properties_ok sample_text"
proof -
  have c: "plain_comments (text_lines sample_text)" by code_simp
  have p: "properties_ok sample_text" by code_simp
  from c p validateProperties_correct[OF c] show ?thesis by simp
qed

definition stale_text :: string where
  "stale_text = ''# c'' @ [backslash, newline, backslash, newline] @ ''k=v''"

text \<open>
  without that proviso the two readings differ. The parity of backslashes at the end of a
  comment line is not reset, so a comment that ends in a backslash turns the continuation mark
  at the start of the next line into an ordinary character.
\<close>

theorem comment_backslash_leaks:
  "properties_ok stale_text \<and> \<not> validateProperties stale_text"
  by code_simp

text \<open>
  the JSON check of a printed value. A text that \<open>JSON.stringify\<close> produces is legal JSON,
  and \<open>validateJson\<close> accepts it exactly when the value is truthy: the texts \<^verbatim>\<open>0\<close>, \<^verbatim>\<open>false\<close>,
  \<^verbatim>\<open>null\<close> and the empty string literal are reported as illegal.
\<close>

theorem validateJson_printed:
  assumes "plain_json v" and "stringify v = Text t"
  shows "validateJson t = Inr (Bool (truthy v))"
  using parse_stringify[OF assms(1)] assms(2) by (auto simp: validateJson_def)

theorem validateJson_printed_witness:
  "plain_json (Obj [(''a'', Arr [num 1, Null])]) \<and>
   (\<exists>t. stringify (Obj [(''a'', Arr [num 1, Null])]) = Text t \<and> validateJson t = Inr (Bool True)) \<and>
   plain_json Null \<and> validateJson ''null'' = Inr (Bool False)"
proof -
  let ?v = "Obj [(''a'', Arr [num 1, Null])]"
  have p: "plain_json ?v" by code_simp
  obtain t where t: "stringify ?v = Text t" using plain_json_text[OF p] ..
  have "validateJson t = Inr (Bool True)" using validateJson_printed[OF p t] by simp
  moreover have "validateJson ''null'' = Inr (Bool False)"
    using validateJson_printed[of Null "''null''"] by simp
  ultimately show ?thesis using p t by auto
qed

lemma validate_properties:
  assumes "plain_comments (text_lines content)"
  shows "validate yp env content ''properties'' = Inr (Bool (properties_ok content))"
  using validateProperties_reference[OF assms] by (simp add: validate_def)

end
