(* ===== verification/Event_Bus.thy ===== *)
theory Event_Bus
  imports Console_Prelude
begin

text \<open>
  The publish/subscribe object \<open>nacosEvent\<close> and the loading counter \<open>nacosUtils\<close> of
  \<^verbatim>\<open>globalLib.js\<close>. A callback is a name; what running it does is the parameter \<open>run\<close>, a function
  on the whole state, of which the bus is a part: a callback may itself listen, remove or trigger, and
  open or close the loading indicator. The bus records every callback call in \<open>calls\<close>.
\<close>

section \<open>The event bus\<close>

text \<open>
  A callback argument is a function, another truthy value (which \<open>listen\<close> accepts and
  \<open>trigger\<close> drops) or a falsy value.
\<close>

datatype 'f callback = Fn 'f | Other nat | Falsy

record 'f listener =
  cb :: "'f callback"
  once_only :: bool

text \<open>\<open>eventListObj[e]\<close> is null or undefined where \<open>eventListObj e = None\<close>.\<close>

record ('f, 'a) bus =
  eventListObj :: "string \<Rightarrow> 'f listener list option"
  ignoreEventListObj :: "string \<Rightarrow> (string \<times> 'a list) list option"
  calls :: "('f \<times> 'a list) list"

definition empty_bus :: "('f, 'a) bus" where
  "empty_bus = \<lparr>eventListObj = (\<lambda>_. None), ignoreEventListObj = (\<lambda>_. None), calls = []\<rparr>"

definition listen :: "string \<Rightarrow> 'f callback \<Rightarrow> bool \<Rightarrow> ('f, 'a, 'z) bus_scheme \<Rightarrow> ('f, 'a, 'z) bus_scheme" where
  "listen eventName callback once b =
     (if eventName = [] \<or> callback = Falsy then b
      else let ls = (case eventListObj b eventName of None \<Rightarrow> [] | Some ls \<Rightarrow> ls)
      in b\<lparr>eventListObj := (eventListObj b)(eventName \<mapsto> ls @ [\<lparr>cb = callback, once_only = once\<rparr>])\<rparr>)"

definition once :: "string \<Rightarrow> 'f callback \<Rightarrow> ('f, 'a, 'z) bus_scheme \<Rightarrow> ('f, 'a, 'z) bus_scheme" where
  "once eventName callback b = listen eventName callback True b"

text \<open>
  \<open>forEach\<close> walks the array it was called on: listeners pushed during the walk are not
  visited, and the list is replaced by \<open>newList\<close> at the end.
\<close>

fun dispatch :: "('f \<Rightarrow> 'a list \<Rightarrow> ('f, 'a, 'z) bus_scheme \<Rightarrow> ('f, 'a, 'z) bus_scheme) \<Rightarrow> 'a list \<Rightarrow> 'f listener list \<Rightarrow>
    'f listener list \<Rightarrow> ('f, 'a, 'z) bus_scheme \<Rightarrow> 'f listener list \<times> ('f, 'a, 'z) bus_scheme" where
  "dispatch run args [] newList b = (newList, b)"
| "dispatch run args (obj # objs) newList b =
     (case cb obj of
        Fn f \<Rightarrow> dispatch run args objs (if once_only obj then newList else newList @ [obj])
                  (run f args (b\<lparr>calls := calls b @ [(f, args)]\<rparr>))
      | _ \<Rightarrow> dispatch run args objs newList b)"

definition trigger :: "('f \<Rightarrow> 'a list \<Rightarrow> ('f, 'a, 'z) bus_scheme \<Rightarrow> ('f, 'a, 'z) bus_scheme) \<Rightarrow> string \<Rightarrow> 'a list \<Rightarrow>
    ('f, 'a, 'z) bus_scheme \<Rightarrow> ('f, 'a, 'z) bus_scheme" where
  "trigger run eventName args b =
     (case eventListObj b eventName of
        None \<Rightarrow>
          (let q = (case ignoreEventListObj b eventName of None \<Rightarrow> [] | Some q \<Rightarrow> q)
           in b\<lparr>ignoreEventListObj := (ignoreEventListObj b)(eventName \<mapsto> q @ [(eventName, args)])\<rparr>)
      | Some ls \<Rightarrow>
          (let (newList, b') = dispatch run args ls [] b
           in b'\<lparr>eventListObj := (eventListObj b')(eventName \<mapsto> newList)\<rparr>))"

text \<open>\<open>listenAllTask\<close> registers the listener and replays the last unconsumed message.\<close>

definition listenAllTask :: "('f \<Rightarrow> 'a list \<Rightarrow> ('f, 'a, 'z) bus_scheme \<Rightarrow> ('f, 'a, 'z) bus_scheme) \<Rightarrow> string \<Rightarrow> 'f callback \<Rightarrow> bool \<Rightarrow>
    ('f, 'a, 'z) bus_scheme \<Rightarrow> ('f, 'a, 'z) bus_scheme" where
  "listenAllTask run eventName callback single b =
     (if eventName = [] then b
      else let b = listen eventName callback single b in
      case ignoreEventListObj b eventName of
        Some q \<Rightarrow>
          if q \<noteq> [] then
            trigger run (fst (last q)) (snd (last q))
              (b\<lparr>ignoreEventListObj := (ignoreEventListObj b)(eventName \<mapsto> butlast q)\<rparr>)
          else b
      | None \<Rightarrow> b)"

definition remove :: "string \<Rightarrow> 'f callback \<Rightarrow> ('f, 'a, 'z) bus_scheme \<Rightarrow> ('f, 'a, 'z) bus_scheme" where
  "remove eventName callback b =
     (if eventName = [] then b
      else case eventListObj b eventName of
        None \<Rightarrow> b
      | Some ls \<Rightarrow>
          if callback = Falsy then b\<lparr>eventListObj := (eventListObj b)(eventName := None)\<rparr>
          else let newList = filter (\<lambda>obj. cb obj \<noteq> callback) ls
          in b\<lparr>eventListObj := (eventListObj b)(eventName := (if newList = [] then None else Some newList))\<rparr>)"

section \<open>The loading counter\<close>

text \<open>
  \<open>loadingState\<close> is the address of an object: the events carry a reference to it, so later
  changes are seen through earlier messages.
\<close>

record 'f loading = "('f, nat) bus" +
  loadingCount :: int
  loadingState :: nat
  heap :: "nat \<Rightarrow> jv obj"
  nextRef :: nat

definition init_loading :: "'f loading" where
  "init_loading = \<lparr>eventListObj = (\<lambda>_. None), ignoreEventListObj = (\<lambda>_. None), calls = [], loadingCount = 0, loadingState = 0,
     heap = (\<lambda>_. [])(0 := [(''visible'', Bool False), (''shape'', Str ''flower''), (''tip'', Str ''loading...'')]),
     nextRef = 1\<rparr>"

text \<open>
  \<open>Object.assign({}, loadingCount, obj)\<close>: a number contributes no properties, so the new
  state is a copy of \<open>obj\<close> alone.
\<close>

definition changeLoadingAttr :: "jv \<Rightarrow> 'f loading \<Rightarrow> 'f loading" where
  "changeLoadingAttr v u =
     (case v of
        Obj kvs \<Rightarrow> u\<lparr>heap := (heap u)(nextRef u := obj_assign [] kvs), loadingState := nextRef u,
                     nextRef := nextRef u + 1\<rparr>
      | _ \<Rightarrow> u)"

definition set_visible :: "bool \<Rightarrow> jv obj \<Rightarrow> jv obj" where
  "set_visible on kvs = obj_assign kvs [(''visible'', Bool on), (''spinning'', Bool on)]"

definition show_loading :: "('f \<Rightarrow> nat list \<Rightarrow> 'f loading \<Rightarrow> 'f loading) \<Rightarrow> bool \<Rightarrow> 'f loading \<Rightarrow> 'f loading" where
  "show_loading run on u =
     (let u = u\<lparr>heap := (heap u)(loadingState u := set_visible on (heap u (loadingState u)))\<rparr>
      in trigger run ''nacosLoadingEvent'' [loadingState u] u)"

definition openLoading :: "('f \<Rightarrow> nat list \<Rightarrow> 'f loading \<Rightarrow> 'f loading) \<Rightarrow> 'f loading \<Rightarrow> 'f loading" where
  "openLoading run u = show_loading run True (u\<lparr>loadingCount := loadingCount u + 1\<rparr>)"

definition closeLoading :: "('f \<Rightarrow> nat list \<Rightarrow> 'f loading \<Rightarrow> 'f loading) \<Rightarrow> 'f loading \<Rightarrow> 'f loading" where
  "closeLoading run u =
     (let u = u\<lparr>loadingCount := loadingCount u - 1\<rparr>
      in if loadingCount u \<le> 0 then show_loading run False (u\<lparr>loadingCount := 0\<rparr>) else u)"

definition closeAllLoading :: "('f \<Rightarrow> nat list \<Rightarrow> 'f loading \<Rightarrow> 'f loading) \<Rightarrow> 'f loading \<Rightarrow> 'f loading" where
  "closeAllLoading run u = show_loading run False (u\<lparr>loadingCount := 0\<rparr>)"

definition getURISource :: "string \<Rightarrow> string" where
  "getURISource url = url"

section \<open>Properties of the bus\<close>

text \<open>Callbacks that do nothing, and callbacks that do not use the bus, whatever else they do.\<close>

abbreviation inert :: "'f \<Rightarrow> 'a list \<Rightarrow> ('f, 'a, 'z) bus_scheme \<Rightarrow> ('f, 'a, 'z) bus_scheme" where
  "inert \<equiv> \<lambda>_ _ b. b"

definition off_bus :: "('f \<Rightarrow> 'a list \<Rightarrow> ('f, 'a, 'z) bus_scheme \<Rightarrow> ('f, 'a, 'z) bus_scheme) \<Rightarrow> bool" where
  "off_bus run \<longleftrightarrow> (\<forall>f args b. eventListObj (run f args b) = eventListObj b \<and>
     ignoreEventListObj (run f args b) = ignoreEventListObj b \<and> calls (run f args b) = calls b)"

lemma off_bus_inert [simp]: "off_bus inert"
  by (simp add: off_bus_def)

fun fns :: "'f listener list \<Rightarrow> 'f list" where
  "fns [] = []"
| "fns (l # ls) = (case cb l of Fn f \<Rightarrow> f # fns ls | _ \<Rightarrow> fns ls)"

definition is_fn :: "'f listener \<Rightarrow> bool" where
  "is_fn l \<longleftrightarrow> (case cb l of Fn _ \<Rightarrow> True | _ \<Rightarrow> False)"

lemma dispatch_off_bus:
  assumes "off_bus run"
  shows "\<exists>b'. dispatch run args ls newList b = (newList @ filter (\<lambda>l. is_fn l \<and> \<not> once_only l) ls, b') \<and>
    eventListObj b' = eventListObj b \<and> ignoreEventListObj b' = ignoreEventListObj b \<and>
    calls b' = calls b @ map (\<lambda>f. (f, args)) (fns ls)"
proof (induction ls arbitrary: newList b)
  case Nil
  then show ?case by simp
next
  case (Cons l ls)
  show ?case
  proof (cases "cb l")
    case (Fn f)
    let ?b = "run f args (b\<lparr>calls := calls b @ [(f, args)]\<rparr>)"
    have "eventListObj ?b = eventListObj b" "ignoreEventListObj ?b = ignoreEventListObj b" "calls ?b = calls b @ [(f, args)]"
      using assms by (simp_all add: off_bus_def)
    with Cons[of "if once_only l then newList else newList @ [l]" ?b] Fn show ?thesis by (auto simp: is_fn_def)
  qed (use Cons[of newList b] in \<open>auto simp: is_fn_def\<close>)
qed

lemma trigger_off_bus:
  assumes "off_bus run" "eventListObj b e = Some ls"
  shows "eventListObj (trigger run e args b) = (eventListObj b)(e \<mapsto> filter (\<lambda>l. is_fn l \<and> \<not> once_only l) ls)"
    "ignoreEventListObj (trigger run e args b) = ignoreEventListObj b"
    "calls (trigger run e args b) = calls b @ map (\<lambda>f. (f, args)) (fns ls)"
proof -
  obtain b' where "dispatch run args ls [] b = (filter (\<lambda>l. is_fn l \<and> \<not> once_only l) ls, b')"
      "eventListObj b' = eventListObj b" "ignoreEventListObj b' = ignoreEventListObj b"
      "calls b' = calls b @ map (\<lambda>f. (f, args)) (fns ls)"
    using dispatch_off_bus[OF assms(1), of args ls "[]" b] by auto
  then show "eventListObj (trigger run e args b) = (eventListObj b)(e \<mapsto> filter (\<lambda>l. is_fn l \<and> \<not> once_only l) ls)"
    "ignoreEventListObj (trigger run e args b) = ignoreEventListObj b"
    "calls (trigger run e args b) = calls b @ map (\<lambda>f. (f, args)) (fns ls)"
    using assms(2) by (simp_all add: trigger_def)
qed

lemma fns_filter: "fns (filter (\<lambda>l. is_fn l \<and> \<not> once_only l) ls) = fns (filter (\<lambda>l. \<not> once_only l) ls)"
  by (induction ls) (auto simp: is_fn_def split: callback.splits)

definition triggering :: "string \<Rightarrow> 'f \<Rightarrow> 'f \<Rightarrow> 'a list \<Rightarrow> ('f, 'a, 'z) bus_scheme \<Rightarrow> ('f, 'a, 'z) bus_scheme" where
  "triggering e g h args b = (if h = g then trigger inert e args b else b)"

text \<open>
  C35: listeners that do not use the bus themselves: two triggers in a row call every registered function
  once in registration order, and then the persistent ones again, so that a listener registered with
  \<open>once\<close> runs exactly once; an event with a listener list is never queued. A listener that triggers
  the event again while it is dispatched breaks this: the list still holds the once listener, which
  runs a second time.
\<close>

theorem once_listener_runs_once:
  assumes "off_bus run" and "eventListObj b e = Some ls"
    and "eventListObj b2 e = Some [\<lparr>cb = Fn f, once_only = True\<rparr>, \<lparr>cb = Fn g, once_only = False\<rparr>]" and "f \<noteq> g"
  shows "calls (trigger run e args2 (trigger run e args1 b)) =
      calls b @ map (\<lambda>f. (f, args1)) (fns ls) @ map (\<lambda>f. (f, args2)) (fns (filter (\<lambda>l. \<not> once_only l) ls))
    \<and> ignoreEventListObj (trigger run e args2 (trigger run e args1 b)) = ignoreEventListObj b
    \<and> calls (trigger (triggering e g) e args1 b2) = calls b2 @ [(f, args1), (g, args1), (f, args1), (g, args1)]"
proof -
  have "eventListObj (trigger run e args1 b) e = Some (filter (\<lambda>l. is_fn l \<and> \<not> once_only l) ls)"
    by (simp add: trigger_off_bus[OF assms(1,2)])
  note second = trigger_off_bus[OF assms(1) this]
  show ?thesis
    using assms(3,4)
    by (simp add: second trigger_off_bus[OF assms(1,2)] fns_filter) (simp add: trigger_def triggering_def)
qed

theorem once_listener_runs_once_witness:
  "calls (trigger inert ''e'' [2] (trigger inert ''e'' [1] (listen ''e'' (Fn ''p'') False (once ''e'' (Fn ''o'') empty_bus))))
     = [(''o'', [1]), (''p'', [1]), (''p'', [2 :: nat])] \<and>
   calls (trigger (triggering ''e'' ''p'') ''e'' [1] (listen ''e'' (Fn ''p'') False (once ''e'' (Fn ''o'') empty_bus)))
     = [(''o'', [1]), (''p'', [1]), (''o'', [1]), (''p'', [1 :: nat])]"
proof -
  let ?b = "listen ''e'' (Fn ''p'') False (once ''e'' (Fn ''o'') (empty_bus :: (string, nat) bus))"
  have l: "eventListObj ?b ''e'' = Some [\<lparr>cb = Fn ''o'', once_only = True\<rparr>, \<lparr>cb = Fn ''p'', once_only = False\<rparr>]"
    by (simp add: listen_def once_def empty_bus_def)
  have c: "calls ?b = []" by (simp add: listen_def once_def empty_bus_def)
  from once_listener_runs_once[OF off_bus_inert l l, of "[2]" "[1]"] c show ?thesis by simp
qed

fun trigger_all :: "('f \<Rightarrow> 'a list \<Rightarrow> ('f, 'a, 'z) bus_scheme \<Rightarrow> ('f, 'a, 'z) bus_scheme) \<Rightarrow> string \<Rightarrow> 'a list list \<Rightarrow>
    ('f, 'a, 'z) bus_scheme \<Rightarrow> ('f, 'a, 'z) bus_scheme" where
  "trigger_all run e [] b = b"
| "trigger_all run e (m # ms) b = trigger_all run e ms (trigger run e m b)"

lemma trigger_all_unheard:
  assumes "eventListObj b e = None"
  shows "trigger_all run e ms b = (if ms = [] then b else b\<lparr>ignoreEventListObj := (ignoreEventListObj b)
    (e \<mapsto> (case ignoreEventListObj b e of None \<Rightarrow> [] | Some q \<Rightarrow> q) @ map (Pair e) ms)\<rparr>)"
  using assms
proof (induction ms arbitrary: b)
  case Nil
  then show ?case by simp
next
  case (Cons m ms)
  then show ?case by (simp add: trigger_def Let_def)
qed

text \<open>
  messages triggered while an event has no listener are kept, and a later \<open>listenAllTask\<close>
  delivers one of them, the most recent; the older ones stay queued.
\<close>

theorem listenAllTask_replays_last:
  assumes "e \<noteq> []" and "eventListObj b e = None" and "ignoreEventListObj b e = None"
  shows "let b' = listenAllTask inert e (Fn f) o1 (trigger_all inert e (ms @ [m]) b) in
    calls b' = calls b @ [(f, m)] \<and> ignoreEventListObj b' e = Some (map (Pair e) ms)"
  using assms
  by (simp add: trigger_all_unheard listenAllTask_def listen_def trigger_off_bus)

theorem listenAllTask_replays_last_witness:
  "let b' = listenAllTask inert ''e'' (Fn ''f'') False (trigger_all inert ''e'' [[1], [2 :: nat]] empty_bus) in
    calls b' = [(''f'', [2])] \<and> ignoreEventListObj b' ''e'' = Some [(''e'', [1])]"
proof -
  have h: "''e'' \<noteq> []" "eventListObj empty_bus ''e'' = None" "ignoreEventListObj empty_bus ''e'' = None"
    by (simp_all add: empty_bus_def)
  from listenAllTask_replays_last[OF h, of "''f''" False "[[1]]" "[2 :: nat]"] show ?thesis
    by (simp add: empty_bus_def)
qed

definition registering :: "string \<Rightarrow> 'f \<Rightarrow> 'f \<Rightarrow> 'f \<Rightarrow> 'a list \<Rightarrow> ('f, 'a, 'z) bus_scheme \<Rightarrow> ('f, 'a, 'z) bus_scheme" where
  "registering e f g h args b = (if h = f then listen e (Fn g) False b else b)"

text \<open>
  a listener that a callback registers for the event being dispatched is lost: the list it
  was pushed to is replaced when the dispatch ends.
\<close>

theorem listener_added_in_dispatch_lost:
  assumes "e \<noteq> []" and "eventListObj b e = Some [\<lparr>cb = Fn f, once_only = False\<rparr>]"
  shows "eventListObj (trigger (registering e f g) e args b) e = Some [\<lparr>cb = Fn f, once_only = False\<rparr>]
    \<and> eventListObj (registering e f g f args b) e
        = Some [\<lparr>cb = Fn f, once_only = False\<rparr>, \<lparr>cb = Fn g, once_only = False\<rparr>]"
  using assms by (simp add: trigger_def registering_def listen_def)

theorem listener_added_in_dispatch_lost_witness:
  "eventListObj (trigger (registering ''e'' ''f'' ''g'') ''e'' [0 :: nat] (listen ''e'' (Fn ''f'') False empty_bus)) ''e''
     = Some [\<lparr>cb = Fn ''f'', once_only = False\<rparr>]"
proof -
  have "eventListObj (listen ''e'' (Fn ''f'') False (empty_bus :: (string, nat) bus)) ''e''
      = Some [\<lparr>cb = Fn ''f'', once_only = False\<rparr>]"
    by (simp add: listen_def empty_bus_def)
  from listener_added_in_dispatch_lost[OF _ this, of "''g''" "[0]"] show ?thesis by simp
qed

text \<open>
  Removing the last listener of an event queues later messages again; an event whose once
  listeners have all run keeps an empty list and drops them.
\<close>

lemma trigger_after_remove:
  assumes "e \<noteq> []" "eventListObj b e = Some ls" "\<forall>l \<in> set ls. cb l = c" "c \<noteq> Falsy"
  shows "calls (trigger run e args (remove e c b)) = calls b \<and>
    (\<exists>q. ignoreEventListObj (trigger run e args (remove e c b)) e = Some (q @ [(e, args)]))"
  using assms by (auto simp: remove_def trigger_def filter_empty_conv Let_def)

section \<open>Properties of the loading counter\<close>

text \<open>
  What a callback may do: any of the operations of the two objects except \<open>changeLoadingAttr\<close>, each
  chosen from the state it finds. \<open>run_at d\<close> runs a callback whose operations may call listeners again,
  nested at most \<open>d\<close> deep; callbacks that would be nested deeper are left out, so that every execution
  that ends is one of these for a large enough \<open>d\<close>.
\<close>

datatype 'f load_op =
    Open
  | Close
  | CloseAll
  | Listen string "'f callback" bool
  | ListenAll string "'f callback" bool
  | Remove string "'f callback"
  | Trigger string "nat list"
  | Rest

fun load_step :: "('f \<Rightarrow> nat list \<Rightarrow> 'f loading \<Rightarrow> 'f loading) \<Rightarrow> 'f load_op \<Rightarrow> 'f loading \<Rightarrow> 'f loading" where
  "load_step run Open u = openLoading run u"
| "load_step run Close u = closeLoading run u"
| "load_step run CloseAll u = closeAllLoading run u"
| "load_step run (Listen e c single) u = listen e c single u"
| "load_step run (ListenAll e c single) u = listenAllTask run e c single u"
| "load_step run (Remove e c) u = remove e c u"
| "load_step run (Trigger e refs) u = trigger run e refs u"
| "load_step run Rest u = u"

type_synonym 'f behaviour = "'f \<Rightarrow> nat list \<Rightarrow> ('f loading \<Rightarrow> 'f load_op) list"

fun run_at :: "nat \<Rightarrow> 'f behaviour \<Rightarrow> 'f \<Rightarrow> nat list \<Rightarrow> 'f loading \<Rightarrow> 'f loading" where
  "run_at 0 behave f args u = u"
| "run_at (Suc d) behave f args u = fold (\<lambda>next u. load_step (run_at d behave) (next u) u) (behave f args) u"

inductive loading_reachable :: "'f behaviour \<Rightarrow> 'f loading \<Rightarrow> bool" for behave where
  init: "loading_reachable behave init_loading"
| step: "loading_reachable behave u \<Longrightarrow> loading_reachable behave (load_step (run_at d behave) op u)"

definition loading_visible :: "'f loading \<Rightarrow> jv" where
  "loading_visible u = field (Obj (heap u (loadingState u))) ''visible''"

definition loading_inv :: "'f loading \<Rightarrow> bool" where
  "loading_inv u \<longleftrightarrow> 0 \<le> loadingCount u \<and> loading_visible u = Bool (0 < loadingCount u)"

lemma loading_inv_bus [simp]:
  "loading_inv (u\<lparr>eventListObj := l\<rparr>) = loading_inv u" "loading_inv (u\<lparr>ignoreEventListObj := q\<rparr>) = loading_inv u"
  "loading_inv (u\<lparr>calls := c\<rparr>) = loading_inv u"
  by (simp_all add: loading_inv_def loading_visible_def)

lemma dispatch_inv:
  assumes "\<And>f args u. loading_inv u \<Longrightarrow> loading_inv (run f args u)" "loading_inv u"
  shows "loading_inv (snd (dispatch run args ls newList u))"
  using assms(2)
proof (induction ls arbitrary: newList u)
  case (Cons l ls)
  then show ?case by (cases "cb l") (simp_all add: assms(1))
qed simp

lemma trigger_inv:
  assumes "\<And>f args u. loading_inv u \<Longrightarrow> loading_inv (run f args u)" "loading_inv u"
  shows "loading_inv (trigger run e args u)"
proof (cases "eventListObj u e")
  case None
  then show ?thesis using assms(2) by (simp add: trigger_def Let_def)
next
  case (Some ls)
  have "loading_inv (snd (dispatch run args ls [] u))" using assms by (rule dispatch_inv)
  then show ?thesis by (simp add: trigger_def Some split_def Let_def)
qed

lemma show_inv:
  assumes "\<And>f args u. loading_inv u \<Longrightarrow> loading_inv (run f args u)" "0 \<le> loadingCount u" "on = (0 < loadingCount u)"
  shows "loading_inv (show_loading run on u)"
  unfolding show_loading_def Let_def
  by (rule trigger_inv[OF assms(1)])
    (use assms(2,3) in \<open>simp_all add: loading_inv_def loading_visible_def set_visible_def field_def map_of_obj_put\<close>)

lemma load_step_inv:
  assumes "\<And>f args u. loading_inv u \<Longrightarrow> loading_inv (run f args u)" "loading_inv u"
  shows "loading_inv (load_step run op u)"
proof (cases op)
  case Open
  have "0 \<le> loadingCount u" using assms(2) by (simp add: loading_inv_def)
  then show ?thesis using Open by (auto simp: openLoading_def intro!: show_inv assms(1))
next
  case Close
  have "loading_inv (u\<lparr>loadingCount := loadingCount u - 1\<rparr>)" if "0 < loadingCount u - 1"
    using that assms(2) by (simp add: loading_inv_def loading_visible_def)
  then show ?thesis using Close by (auto simp: closeLoading_def Let_def intro!: show_inv assms(1))
next
  case CloseAll
  then show ?thesis by (auto simp: closeAllLoading_def intro!: show_inv assms(1))
qed (use assms in \<open>auto simp: listen_def remove_def listenAllTask_def Let_def intro!: trigger_inv split: option.splits\<close>)

lemma run_at_inv: "loading_inv u \<Longrightarrow> loading_inv (run_at d behave f args u)"
proof (induction d arbitrary: f args u)
  case (Suc d)
  have "loading_inv (fold (\<lambda>next u. load_step (run_at d behave) (next u) u) ops u)" for ops
    using Suc.prems by (induction ops arbitrary: u) (simp_all add: load_step_inv Suc.IH)
  then show ?case by simp
qed simp

text \<open>
  C3: whatever the sequence of \<open>openLoading\<close>, \<open>closeLoading\<close> and \<open>closeAllLoading\<close>, also when listeners
  call them again, register, remove or trigger, the counter never goes below zero and the indicator is
  visible exactly while the counter is positive: the last \<open>closeLoading\<close> closes it at zero, not below
  zero as the comment on it says. The attributes are not replaced meanwhile (\<open>changeLoadingAttr\<close> drops
  the visibility).
\<close>

theorem loading_visible_iff_open:
  assumes "loading_reachable behave u"
  shows "0 \<le> loadingCount u \<and> loading_visible u = Bool (0 < loadingCount u)"
  using assms
proof (induction rule: loading_reachable.induct)
  case init
  then show ?case by (simp add: init_loading_def loading_visible_def field_def)
next
  case (step u d op)
  have "loading_inv (run_at d behave f args u)" if "loading_inv u" for f args u using run_at_inv[OF that] .
  from load_step_inv[where u = u and op = op, OF this] step show ?case by (simp add: loading_inv_def)
qed

text \<open>A listener that closes the indicator again once two requests are open.\<close>

definition closing :: "string behaviour" where
  "closing f args = [\<lambda>u. if 1 < loadingCount u then Close else Rest]"

theorem loading_visible_iff_open_witness:
  "\<exists>u. load_step (run_at 2 closing) Open (load_step (run_at 2 closing) Open
      (load_step (run_at 2 closing) (Listen ''nacosLoadingEvent'' (Fn ''f'') False) init_loading)) = u \<and>
     loadingCount u = 1 \<and> loading_visible u = Bool True"
proof -
  let ?u = "load_step (run_at 2 closing) Open (load_step (run_at 2 closing) Open
      (load_step (run_at 2 closing) (Listen ''nacosLoadingEvent'' (Fn ''f'') False) init_loading))"
  have r: "loading_reachable closing ?u" by (intro step init)
  have "loadingCount ?u = 1"
    by (simp add: openLoading_def closeLoading_def show_loading_def trigger_def listen_def init_loading_def closing_def numeral_2_eq_2 Let_def)
  with loading_visible_iff_open[OF r] show ?thesis by simp
qed

text \<open>
  \<open>changeLoadingAttr\<close> forgets the current attributes. After setting only the tip, the state
  has neither the shape nor the visibility it had before.
\<close>

theorem changeLoadingAttr_drops_state:
  "field (Obj (heap u' (loadingState u'))) k = (if k = ''tip'' then v else Undefined)"
  if "u' = changeLoadingAttr (Obj [(''tip'', v)]) u"
  using that by (simp add: changeLoadingAttr_def field_def obj_put_def)

theorem changeLoadingAttr_drops_state_witness:
  "\<exists>u'. u' = changeLoadingAttr (Obj [(''tip'', Str ''wait'')]) (init_loading :: string loading) \<and>
     field (Obj (heap u' (loadingState u'))) ''shape'' = Undefined"
  using changeLoadingAttr_drops_state[OF refl, of "Str ''wait''" "init_loading :: string loading" "''shape''"] by simp

end
