(* ===== verification/Js_Uri.thy ===== *)
theory Js_Uri
  imports Js_Json
begin

text \<open>
  \<open>encodeURIComponent\<close>, \<open>encodeURI\<close> and \<open>decodeURIComponent\<close> of the language, on the code units below 256:
  a code unit from 128 on is two UTF-8 bytes. Decoding a longer sequence, or a two-byte one
  beyond the model's code units, is \<open>OutsideModel\<close>.
\<close>

definition uri_unreserved :: "char \<Rightarrow> bool" where
  "uri_unreserved c \<longleftrightarrow> is_digit c \<or> (65 \<le> (of_char c :: nat) \<and> (of_char c :: nat) \<le> 90)
     \<or> (97 \<le> (of_char c :: nat) \<and> (of_char c :: nat) \<le> 122)
     \<or> c \<in> set (''-_.!~*()'' @ [CHR 39])"

definition upper_hex :: "nat \<Rightarrow> char" where
  "upper_hex n = (if n < 10 then char_of (48 + n) else char_of (55 + n))"

definition percent :: "nat \<Rightarrow> string" where
  "percent b = [CHR ''%'', upper_hex (b div 16), upper_hex (b mod 16)]"

definition encode_char :: "char \<Rightarrow> string" where
  "encode_char c = (let n = of_char c :: nat in
     if uri_unreserved c then [c]
     else if n < 128 then percent n
     else percent (192 + n div 64) @ percent (128 + n mod 64))"

definition encodeURIComponent :: "string \<Rightarrow> string" where
  "encodeURIComponent s = concat (map encode_char s)"

definition byte :: "char \<Rightarrow> char \<Rightarrow> nat option" where
  "byte h l = (case (hex_val h, hex_val l) of (Some a, Some b) \<Rightarrow> Some (16 * a + b) | _ \<Rightarrow> None)"

definition js_cons :: "char \<Rightarrow> js_error + string \<Rightarrow> js_error + string" where
  "js_cons c r = (case r of Inl e \<Rightarrow> Inl e | Inr s \<Rightarrow> Inr (c # s))"

text \<open>The second byte of a two-byte sequence, at the start of the text.\<close>

definition cont_byte :: "string \<Rightarrow> nat option" where
  "cont_byte s = (case s of p # h # l # _ \<Rightarrow>
       if p = CHR ''%'' then
         (case byte h l of Some b \<Rightarrow> if 128 \<le> b \<and> b < 192 then Some (b - 128) else None | None \<Rightarrow> None)
       else None
     | _ \<Rightarrow> None)"

fun decodeURIComponent :: "string \<Rightarrow> js_error + string" where
  "decodeURIComponent [] = Inr []"
| "decodeURIComponent (c # cs) =
     (if c \<noteq> CHR ''%'' then js_cons c (decodeURIComponent cs)
      else case cs of h # l # r \<Rightarrow>
        (case byte h l of
           None \<Rightarrow> Inl URIError
         | Some b \<Rightarrow>
             if b < 128 then js_cons (char_of b) (decodeURIComponent r)
             else if b = 194 \<or> b = 195 then
               (case cont_byte r of
                  None \<Rightarrow> Inl URIError
                | Some d \<Rightarrow> js_cons (char_of (64 * (b - 192) + d)) (decodeURIComponent (drop 3 r)))
             else if b < 194 \<or> 247 < b then Inl URIError
             else Inl OutsideModel)
      | _ \<Rightarrow> Inl URIError)"

section \<open>Lemmas\<close>

lemma hex_val_upper: "n < 16 \<Longrightarrow> hex_val (upper_hex n) = Some n"
  by (auto simp: hex_val_def upper_hex_def Let_def)

lemma byte_percent: "b < 256 \<Longrightarrow> byte (upper_hex (b div 16)) (upper_hex (b mod 16)) = Some b"
  by (simp add: byte_def hex_val_upper less_mult_imp_div_less)

lemma decode_percent:
  "b < 128 \<Longrightarrow> decodeURIComponent (percent b @ r) = js_cons (char_of b) (decodeURIComponent r)"
  by (simp add: percent_def byte_percent)

lemma decode_two_bytes:
  assumes "128 \<le> n" "n < 256"
  shows "decodeURIComponent (percent (192 + n div 64) @ percent (128 + n mod 64) @ r) =
    js_cons (char_of n) (decodeURIComponent r)"
proof -
  let ?b = "192 + n div 64" and ?d = "128 + n mod 64"
  have b: "?b = 194 \<or> ?b = 195" "?b < 256" using assms by auto
  have d: "?d < 256" "?d < 192" by (auto intro: less_trans[of _ "128 + 64"])
  have c: "cont_byte (percent ?d @ r) = Some (n mod 64)"
    using byte_percent[OF d(1)] d(2) by (simp add: cont_byte_def percent_def)
  have p: "percent ?b = [CHR ''%'', upper_hex (?b div 16), upper_hex (?b mod 16)]"
    by (simp add: percent_def)
  have "64 * (?b - 192) + n mod 64 = n" by simp
  then have "decodeURIComponent (percent ?b @ percent ?d @ r) =
      js_cons (char_of n) (decodeURIComponent (drop 3 (percent ?d @ r)))"
    using b(1) by (subst p) (simp only: append_Cons append_Nil decodeURIComponent.simps byte_percent[OF b(2)]
        list.case option.case c, auto)
  then show ?thesis by (simp add: percent_def)
qed

lemma percent_not_unreserved: "\<not> uri_unreserved (CHR ''%'')"
  by (simp add: uri_unreserved_def is_digit_def)

lemma decode_encode_char: "decodeURIComponent (encode_char c @ r) = js_cons c (decodeURIComponent r)"
proof (cases "uri_unreserved c")
  case True
  then have "c \<noteq> CHR ''%''" using percent_not_unreserved by auto
  with True show ?thesis by (simp add: encode_char_def)
next
  case False
  then show ?thesis
    using decode_percent[of "of_char c" r] decode_two_bytes[of "of_char c" r]
    by (simp add: encode_char_def Let_def)
qed

lemma decode_encode: "decodeURIComponent (encodeURIComponent s) = Inr s"
  by (induction s) (simp_all add: encodeURIComponent_def decode_encode_char js_cons_def)

lemma upper_hex_chars: "n < 16 \<Longrightarrow> uri_unreserved (upper_hex n)"
  by (auto simp: upper_hex_def uri_unreserved_def is_digit_def)

lemma percent_chars: "b < 256 \<Longrightarrow> x \<in> set (percent b) \<Longrightarrow> x = CHR ''%'' \<or> uri_unreserved x"
  by (auto simp: percent_def upper_hex_chars less_mult_imp_div_less)

lemma encode_char_chars: "x \<in> set (encode_char c) \<Longrightarrow> x = CHR ''%'' \<or> uri_unreserved x"
proof -
  have "(of_char c :: nat) < 256" by simp
  then have "192 + (of_char c :: nat) div 64 < 256" "128 + (of_char c :: nat) mod 64 < 256"
    by linarith+
  then show "x \<in> set (encode_char c) \<Longrightarrow> x = CHR ''%'' \<or> uri_unreserved x"
    using percent_chars[of "of_char c" x] percent_chars[of "192 + of_char c div 64" x]
      percent_chars[of "128 + of_char c mod 64" x]
    by (simp add: encode_char_def Let_def split: if_splits) blast
qed

text \<open>An encoded component holds no delimiter of a query string.\<close>

lemma encode_no_delims:
  assumes "x \<in> set (encodeURIComponent s)"
  shows "x \<noteq> CHR ''&'' \<and> x \<noteq> CHR ''='' \<and> x \<noteq> CHR ''?'' \<and> x \<noteq> CHR ''#''"
proof -
  from assms obtain c where "x \<in> set (encode_char c)" by (auto simp: encodeURIComponent_def)
  then have "x = CHR ''%'' \<or> uri_unreserved x" by (rule encode_char_chars)
  then show ?thesis by (auto simp: uri_unreserved_def is_digit_def)
qed

section \<open>encodeURI\<close>

text \<open>\<open>encodeURI\<close> keeps the reserved characters, so a value may still hold delimiters.\<close>

definition uri_kept :: "char \<Rightarrow> bool" where
  "uri_kept c \<longleftrightarrow> uri_unreserved c \<or> c \<in> set '';/?:@&=+$,#''"

definition encodeURI :: "string \<Rightarrow> string" where
  "encodeURI s = concat (map (\<lambda>c. if uri_kept c then [c] else encode_char c) s)"

lemma decode_encodeURI: "decodeURIComponent (encodeURI s) = Inr s"
proof (induction s)
  case Nil
  then show ?case by (simp add: encodeURI_def)
next
  case (Cons c s)
  have "c \<noteq> CHR ''%''" if "uri_kept c" using that percent_not_unreserved by (auto simp: uri_kept_def)
  with Cons show ?case by (auto simp: encodeURI_def decode_encode_char js_cons_def)
qed

lemma encodeURI_free:
  assumes "x \<notin> set s" "x \<in> set ''&?=#''"
  shows "x \<notin> set (encodeURI s)"
proof -
  have "x \<noteq> CHR ''%''" "\<not> uri_unreserved x" using assms(2) by (auto simp: uri_unreserved_def is_digit_def)
  then have "x \<notin> set (encode_char c)" for c using encode_char_chars by blast
  then show ?thesis using assms(1) by (auto simp: encodeURI_def)
qed

end
