(* ===== verification/Url_Params.thy ===== *)
theory Url_Params
  imports Js_Uri
begin

text \<open>
  The browser as the console sees it, and the helpers of \<^verbatim>\<open>globalLib.js\<close> that read and write
  the query part of the location hash: \<open>getParams\<close>, \<open>setParams\<close>, \<open>removeParams\<close>, the cookie
  lookup and the jump to the login page.
\<close>

section \<open>The browser\<close>

text \<open>
  \<open>originHref\<close> is the value \<open>location.href.split('#')[0]\<close> captured when the script loads;
  \<open>parentHash\<close> is \<open>window.parent.location.hash\<close>; \<open>canReplace\<close> says whether
  \<open>history.replaceState\<close> exists; \<open>storage\<close> is \<open>localStorage\<close>; \<open>nownamespace\<close> and
  \<open>namespaceShowName\<close> are the globals of these names, empty where unset; \<open>namespaceList\<close> is the
  global list of namespaces. A URL assigned to
  the location is kept as it is written.
\<close>

record browser =
  href :: string
  originHref :: string
  parentHash :: string
  canReplace :: bool
  cookie :: string
  storage :: "string obj"
  host :: string
  nownamespace :: string
  namespaceShowName :: string
  namespaceList :: jv

definition getItem :: "browser \<Rightarrow> string \<Rightarrow> string option" where
  "getItem b k = map_of (storage b) k"

definition setItem :: "string \<Rightarrow> string \<Rightarrow> browser \<Rightarrow> browser" where
  "setItem k v b = b\<lparr>storage := AList.update k v (storage b)\<rparr>"

definition removeItem :: "string \<Rightarrow> browser \<Rightarrow> browser" where
  "removeItem k b = b\<lparr>storage := AList.delete k (storage b)\<rparr>"

definition clearStorage :: "browser \<Rightarrow> browser" where
  "clearStorage b = b\<lparr>storage := []\<rparr>"

text \<open>\<open>location.hash\<close>: the fragment with its number sign, empty for an empty fragment.\<close>

definition hash_of :: "string \<Rightarrow> string" where
  "hash_of url = (let f = dropWhile (\<lambda>c. c \<noteq> CHR ''#'') url in if length f \<le> 1 then [] else f)"

definition hash :: "browser \<Rightarrow> string" where
  "hash b = hash_of (href b)"

definition base_url :: "string \<Rightarrow> string" where
  "base_url url = nth_or (split_on (CHR ''#'') url) 0 []"

text \<open>\<open>location.hash = h\<close> on a browser without \<open>replaceState\<close>.\<close>

definition assign_hash :: "string \<Rightarrow> browser \<Rightarrow> browser" where
  "assign_hash h b = b\<lparr>href := base_url (href b) @ ''#'' @ (if prefix ''#'' h then tl h else h)\<rparr>"

definition goLogin :: "browser \<Rightarrow> browser" where
  "goLogin b = (removeItem ''token'' b)\<lparr>href := base_url (href b) @ ''#/login''\<rparr>"

section \<open>Cookies\<close>

definition cookie_value :: "string \<Rightarrow> string \<Rightarrow> string \<Rightarrow> string" where
  "cookie_value keyName result str =
     (let parts = split_on (CHR ''='') str; name = nth_or parts 0 []; v = nth_or parts 1 []
      in if str_includes (trim name) keyName then v else result)"

definition aliwareGetCookieByKeyName :: "browser \<Rightarrow> string \<Rightarrow> string" where
  "aliwareGetCookieByKeyName b keyName =
     trim (foldl (cookie_value keyName) []
       (if cookie b = [] then [] else split_on (CHR '';'') (cookie b)))"

section \<open>Query parameters of the hash\<close>

text \<open>
  \<open>getParams\<close> builds the regular expression \<^verbatim>\<open>(^|&)name=([^&]*)(&|$)\<close> with the flag \<^verbatim>\<open>i\<close>. For a
  name of word characters its leftmost match is the first piece between ampersands that
  starts with the name and an equals sign, up to ASCII case. Other names are patterns,
  which the console never passes.
\<close>

definition word_char :: "char \<Rightarrow> bool" where
  "word_char c \<longleftrightarrow> is_digit c \<or> (65 \<le> (of_char c :: nat) \<and> (of_char c :: nat) \<le> 90)
     \<or> (97 \<le> (of_char c :: nat) \<and> (of_char c :: nat) \<le> 122) \<or> c = CHR ''_''"

definition hits :: "string \<Rightarrow> string \<Rightarrow> bool" where
  "hits name piece \<longleftrightarrow>
     map lower (take (Suc (length name)) piece) = map lower name @ ''=''"

definition match_param :: "string \<Rightarrow> string \<Rightarrow> string option" where
  "match_param name query =
     (case filter (hits name) (split_on (CHR ''&'') query) of
        [] \<Rightarrow> None | p # _ \<Rightarrow> Some (drop (Suc (length name)) p))"

definition getParams :: "browser \<Rightarrow> string \<Rightarrow> js_error + string option" where
  "getParams b name =
     (if \<not> list_all word_char name then Inl OutsideModel
      else let result = split_on (CHR ''?'') (if hash b \<noteq> [] then hash b else href b);
               result = (if length result = 1 then split_on (CHR ''?'') (parentHash b) else result)
      in if length result > 1 then
           (case match_param name (result ! 1) of
              None \<Rightarrow> Inr None
            | Some r2 \<Rightarrow> (case decodeURIComponent r2 of Inl e \<Rightarrow> Inl e | Inr v \<Rightarrow> Inr (Some v)))
         else Inr None)"

text \<open>\<open>hashArr[1] = x\<close> on the array of pieces; a hole joins as the empty string.\<close>

definition set_piece1 :: "string \<Rightarrow> string list \<Rightarrow> string list" where
  "set_piece1 x hashArr = (case hashArr of [] \<Rightarrow> [[], x] | h # rest \<Rightarrow> h # x # tl rest)"

definition hash_pieces :: "browser \<Rightarrow> string list" where
  "hash_pieces b = (if hash b = [] then [] else split_on (CHR ''?'') (hash b))"

definition param_pieces :: "string list \<Rightarrow> string list" where
  "param_pieces hashArr = (if nth_or hashArr 1 [] = [] then [] else split_on (CHR ''&'') (hashArr ! 1))"

text \<open>The loop that reads the present parameters into an object; \<open>decodeURIComponent\<close> may throw.\<close>

fun read_params :: "string list \<Rightarrow> jv obj \<Rightarrow> js_error + jv obj" where
  "read_params [] paramObj = Inr paramObj"
| "read_params (p # ps) paramObj =
     (let tmpArr = split_on (CHR ''='') p in
      case decodeURIComponent (nth_or tmpArr 1 []) of
        Inl e \<Rightarrow> Inl e
      | Inr v \<Rightarrow> read_params ps (obj_put (nth_or tmpArr 0 []) (Str v) paramObj))"

definition param_text :: "string \<times> jv \<Rightarrow> string" where
  "param_text kv = fst kv @ ''='' @ encodeURIComponent (to_str (js_or (snd kv) (Str [])))"

definition write_hash :: "string list \<Rightarrow> browser \<Rightarrow> browser" where
  "write_hash hashArr b =
     (let hashStr = join ''?'' hashArr in
      if canReplace b then b\<lparr>href := originHref b @ hashStr\<rparr> else assign_hash hashStr b)"

definition setParamsObj :: "jv obj \<Rightarrow> browser \<Rightarrow> js_error + browser" where
  "setParamsObj obj b =
     (let hashArr = hash_pieces b in
      case read_params (param_pieces hashArr) [] of
        Inl e \<Rightarrow> Inl e
      | Inr paramObj \<Rightarrow>
          (let paramObj = obj_assign paramObj obj;
               resArr = map param_text (key_order paramObj)
           in Inr (write_hash (set_piece1 (join ''&'' resArr) hashArr) b)))"

definition setParams :: "string \<Rightarrow> jv \<Rightarrow> browser \<Rightarrow> js_error + browser" where
  "setParams name value b = (if name = [] then Inr b else setParamsObj [(name, value)] b)"

definition setParam :: "string \<Rightarrow> jv \<Rightarrow> browser \<Rightarrow> js_error + browser" where
  "setParam = setParams"

text \<open>\<open>removeParams\<close> takes a name, an array of names or an object whose keys are the names.\<close>

definition remove_list :: "jv \<Rightarrow> string list option" where
  "remove_list name = (case name of Str s \<Rightarrow> Some [s]
     | Arr xs \<Rightarrow> Some [s. Str s \<leftarrow> xs] | Obj kvs \<Rightarrow> Some (obj_keys kvs) | _ \<Rightarrow> None)"

definition removeParams :: "jv \<Rightarrow> browser \<Rightarrow> browser" where
  "removeParams name b =
     (case remove_list name of
        None \<Rightarrow> b
      | Some removeList \<Rightarrow>
          (let hashArr = hash_pieces b;
               paramArr = filter (\<lambda>val. nth_or (split_on (CHR ''='') val) 0 [] \<notin> set removeList)
                            (param_pieces hashArr)
           in write_hash (set_piece1 (join ''&'' paramArr) hashArr) b))"

section \<open>The interface the pages rely on\<close>

text \<open>
  A page treats the hash as a small store of named strings. \<open>shows b kvs\<close> says that the
  location of \<open>b\<close> carries exactly the parameters \<open>kvs\<close>; the two laws say what a read
  returns and what a write leaves behind, for the names in use.
\<close>

text \<open>
  A run of writes and removals against such a store, and what it means for the map of parameters
  the page has in mind.
\<close>

datatype param_op = Put_Param string string | Del_Param string

fun op_name :: "param_op \<Rightarrow> string" where
  "op_name (Put_Param n v) = n"
| "op_name (Del_Param n) = n"

fun run_ops :: "(string \<Rightarrow> string \<Rightarrow> 'b \<Rightarrow> js_error + 'b) \<Rightarrow> (string \<Rightarrow> 'b \<Rightarrow> 'b) \<Rightarrow> param_op list \<Rightarrow> 'b
    \<Rightarrow> js_error + 'b" where
  "run_ops put del [] b = Inr b"
| "run_ops put del (Put_Param n v # ops) b =
     (case put n v b of Inl e \<Rightarrow> Inl e | Inr b' \<Rightarrow> run_ops put del ops b')"
| "run_ops put del (Del_Param n # ops) b = run_ops put del ops (del n b)"

fun spec_ops :: "param_op list \<Rightarrow> (string \<rightharpoonup> string) \<Rightarrow> (string \<rightharpoonup> string)" where
  "spec_ops [] m = m"
| "spec_ops (Put_Param n v # ops) m = spec_ops ops (m(n \<mapsto> v))"
| "spec_ops (Del_Param n # ops) m = spec_ops ops (m(n := None))"

locale query_store =
  fixes shows_params :: "'b \<Rightarrow> string obj \<Rightarrow> bool"
    and get :: "'b \<Rightarrow> string \<Rightarrow> js_error + string option"
    and put :: "string \<Rightarrow> string \<Rightarrow> 'b \<Rightarrow> js_error + 'b"
    and del :: "string \<Rightarrow> 'b \<Rightarrow> 'b"
    and names :: "string set"
  assumes get_law: "shows_params b kvs \<Longrightarrow> n \<in> names \<Longrightarrow> get b n = Inr (map_of kvs n)"
    and put_law: "shows_params b kvs \<Longrightarrow> n \<in> names \<Longrightarrow>
      \<exists>b'. put n v b = Inr b' \<and> shows_params b' (AList.update n v kvs)"
    and del_law: "shows_params b kvs \<Longrightarrow> shows_params (del n b) (AList.delete n kvs)"
begin

lemma get_after_put:
  assumes "shows_params b kvs" "n \<in> names" "m \<in> names"
  shows "\<exists>b'. put n v b = Inr b' \<and> get b' m = (if m = n then Inr (Some v) else get b m)"
proof -
  obtain b' where b': "put n v b = Inr b'" "shows_params b' (AList.update n v kvs)"
    using put_law[OF assms(1,2)] by blast
  show ?thesis
    using get_law[OF b'(2) assms(3)] get_law[OF assms(1,3)] b'(1) by (auto simp: update_conv')
qed

lemma get_after_del:
  assumes "shows_params b kvs" "m \<in> names"
  shows "get (del n b) m = (if m = n then Inr None else get b m)"
  using get_law[OF del_law[OF assms(1), of n] assms(2)] get_law[OF assms]
  by (auto simp: delete_conv')

lemma put_twice:
  assumes "shows_params b kvs" "n \<in> names"
  shows "\<exists>b1 b2. put n v b = Inr b1 \<and> put n w b1 = Inr b2 \<and> shows_params b2 (AList.update n w kvs)"
proof -
  obtain b1 where b1: "put n v b = Inr b1" "shows_params b1 (AList.update n v kvs)"
    using put_law[OF assms] by blast
  obtain b2 where "put n w b1 = Inr b2" "shows_params b2 (AList.update n w (AList.update n v kvs))"
    using put_law[OF b1(2) assms(2)] by blast
  with b1 show ?thesis by (auto simp: update_last)
qed

lemma run_refines:
  assumes "shows_params b kvs" "op_name ` set ops \<subseteq> names"
  shows "\<exists>b' kvs'. run_ops put del ops b = Inr b' \<and> shows_params b' kvs' \<and> map_of kvs' = spec_ops ops (map_of kvs)"
  using assms
proof (induction ops arbitrary: b kvs)
  case Nil
  then show ?case by auto
next
  case (Cons op ops)
  show ?case
  proof (cases op)
    case (Put_Param n v)
    with Cons.prems(2) have n: "n \<in> names" "op_name ` set ops \<subseteq> names" by simp_all
    obtain b' where b': "put n v b = Inr b'" "shows_params b' (AList.update n v kvs)"
      using put_law[OF Cons.prems(1) n(1)] by blast
    from Cons.IH[OF b'(2) n(2)] show ?thesis unfolding Put_Param run_ops.simps spec_ops.simps b'(1) sum.case update_conv' .
  next
    case (Del_Param n)
    with Cons.prems(2) have "op_name ` set ops \<subseteq> names" by simp
    from Cons.IH[OF del_law[OF Cons.prems(1), of n] this] show ?thesis
      unfolding Del_Param run_ops.simps spec_ops.simps delete_conv' .
  qed
qed

end

section \<open>The hash implements the interface\<close>

definition ptext :: "string \<times> string \<Rightarrow> string" where
  "ptext kv = fst kv @ ''='' @ encodeURIComponent (snd kv)"

text \<open>
  Names that can share a hash: word characters only, pairwise different up to case, none an
  array index or \<open>__proto__\<close>.
\<close>

definition good_name :: "string \<Rightarrow> bool" where
  "good_name k \<longleftrightarrow> k \<noteq> [] \<and> list_all word_char k \<and> k \<noteq> ''__proto__'' \<and> \<not> is_index_key k"

definition console_params :: "string list" where
  "console_params = [''namespace'', ''namespaceShowName'', ''serverId'', ''dataId'', ''group'', ''appName'',
     ''edasAppId'', ''edasAppName'', ''pageNo'', ''pageSize'', ''searchDataId'', ''searchGroup'',
     ''nid'', ''name'', ''groupName'', ''serviceName'', ''historyServerId'', ''historyDataId'', ''historyGroup'']"

definition hash_shows :: "string \<Rightarrow> browser \<Rightarrow> string obj \<Rightarrow> bool" where
  "hash_shows path b kvs \<longleftrightarrow>
     canReplace b \<and> CHR ''#'' \<notin> set (originHref b) \<and> prefix ''#'' path \<and> length path > 1
     \<and> CHR ''?'' \<notin> set path \<and> distinct (map fst kvs) \<and> fst ` set kvs \<subseteq> set console_params
     \<and> href b = originHref b @ path @ ''?'' @ join ''&'' (map ptext kvs)"

lemma console_params_good: "k \<in> set console_params \<Longrightarrow> good_name k"
proof -
  have "list_all good_name console_params" by code_simp
  then show "k \<in> set console_params \<Longrightarrow> good_name k" by (simp add: list_all_iff)
qed

lemma console_params_ci:
  "k \<in> set console_params \<Longrightarrow> j \<in> set console_params \<Longrightarrow> map lower k = map lower j \<Longrightarrow> k = j"
proof -
  have "distinct (map (map lower) console_params)" by code_simp
  then show "k \<in> set console_params \<Longrightarrow> j \<in> set console_params \<Longrightarrow> map lower k = map lower j \<Longrightarrow> k = j"
    by (simp add: distinct_map inj_on_def)
qed

lemma good_name_free:
  "good_name k \<Longrightarrow> CHR ''&'' \<notin> set k \<and> CHR ''='' \<notin> set k \<and> CHR ''?'' \<notin> set k \<and> CHR ''#'' \<notin> set k"
  by (auto simp: good_name_def list_all_iff word_char_def is_digit_def)

lemma encode_free:
  "CHR ''&'' \<notin> set (encodeURIComponent v)" "CHR ''='' \<notin> set (encodeURIComponent v)"
  "CHR ''?'' \<notin> set (encodeURIComponent v)"
  using encode_no_delims by blast+

lemma ptext_free:
  assumes "good_name (fst kv)"
  shows "CHR ''&'' \<notin> set (ptext kv)" "CHR ''?'' \<notin> set (ptext kv)"
  using good_name_free[OF assms] encode_free[of "snd kv"] by (auto simp: ptext_def)

lemma ptext_split: "good_name (fst kv) \<Longrightarrow> split_on (CHR ''='') (ptext kv) = [fst kv, encodeURIComponent (snd kv)]"
  using good_name_free[of "fst kv"] encode_free(2)[of "snd kv"]
  by (simp add: ptext_def split_on_append_sep split_on_free)

lemma join_ptext_split:
  assumes "\<forall>kv \<in> set kvs. good_name (fst kv)" "kvs \<noteq> []"
  shows "split_on (CHR ''&'') (join ''&'' (map ptext kvs)) = map ptext kvs"
  using assms by (intro split_on_join) (auto simp: ptext_free)

lemma join_ptext_no_qmark:
  "\<forall>kv \<in> set kvs. good_name (fst kv) \<Longrightarrow> CHR ''?'' \<notin> set (join ''&'' (map ptext kvs))"
  by (rule join_free) (auto simp: ptext_free)

lemma join_ptext_Nil: "join ''&'' (map ptext kvs) = [] \<longleftrightarrow> kvs = []"
  by (cases kvs) (auto simp: join_Cons ptext_def)

lemma hash_of_append: "CHR ''#'' \<notin> set o1 \<Longrightarrow> prefix ''#'' h \<Longrightarrow> length h > 1 \<Longrightarrow> hash_of (o1 @ h) = h"
  by (cases h) (auto simp: hash_of_def dropWhile_append Let_def)

lemma shows_hash:
  assumes "hash_shows path b kvs"
  shows "hash_pieces b = [path, join ''&'' (map ptext kvs)]" "hash b \<noteq> []"
proof -
  let ?q = "join ''&'' (map ptext kvs)"
  have g: "\<forall>kv \<in> set kvs. good_name (fst kv)"
    using assms by (auto simp: hash_shows_def intro: console_params_good)
  have h: "hash b = path @ ''?'' @ ?q"
    using assms hash_of_append[of "originHref b" "path @ ''?'' @ ?q"]
    by (cases path) (auto simp: hash_shows_def hash_def)
  have "split_on (CHR ''?'') (path @ ''?'' @ ?q) = [path, ?q]"
    using assms join_ptext_no_qmark[OF g] by (simp add: hash_shows_def split_on_append_sep split_on_free)
  with h show "hash_pieces b = [path, ?q]" "hash b \<noteq> []" by (simp_all add: hash_pieces_def)
qed

lemma shows_pieces:
  assumes "hash_shows path b kvs"
  shows "param_pieces (hash_pieces b) = map ptext kvs"
proof -
  have g: "\<forall>kv \<in> set kvs. good_name (fst kv)"
    using assms by (auto simp: hash_shows_def intro: console_params_good)
  show ?thesis
    using join_ptext_split[OF g] by (auto simp: shows_hash[OF assms] param_pieces_def join_ptext_Nil nth_or_def)
qed

lemma read_params_ptext:
  assumes "\<forall>kv \<in> set kvs. good_name (fst kv)" "distinct (map fst (acc @ map (\<lambda>kv. (fst kv, Str (snd kv))) kvs))"
  shows "read_params (map ptext kvs) acc = Inr (acc @ map (\<lambda>kv. (fst kv, Str (snd kv))) kvs)"
  using assms
proof (induction kvs arbitrary: acc)
  case Nil
  then show ?case by simp
next
  case (Cons kv kvs)
  have "obj_put (fst kv) (Str (snd kv)) acc = acc @ [(fst kv, Str (snd kv))]"
    using Cons(2,3) by (auto simp: obj_put_def good_name_def intro!: update_fresh)
  with Cons show ?case by (simp add: ptext_split decode_encode)
qed

lemma update_map_Str:
  "AList.update k (Str v) (map (\<lambda>kv. (fst kv, Str (snd kv))) kvs) =
   map (\<lambda>kv. (fst kv, Str (snd kv))) (AList.update k v kvs)"
  by (induction kvs) auto

lemma param_text_Str: "param_text (k, Str v) = ptext (k, v)"
  by (simp add: param_text_def ptext_def js_or_def)

lemma update_keys: "fst ` set (AList.update k v kvs) = insert k (fst ` set kvs)"
  using dom_update[of k v kvs] by simp

lemma write_hash_shows:
  assumes "hash_shows path b kvs" "distinct (map fst kvs')" "fst ` set kvs' \<subseteq> set console_params"
  shows "hash_shows path (write_hash (set_piece1 (join ''&'' (map ptext kvs')) (hash_pieces b)) b) kvs'"
  using assms by (simp add: shows_hash[OF assms(1)] set_piece1_def write_hash_def) (simp add: hash_shows_def)

definition put_all :: "string obj \<Rightarrow> string obj \<Rightarrow> string obj" where
  "put_all ps kvs = fold (\<lambda>kv. AList.update (fst kv) (snd kv)) ps kvs"

lemma put_all_simps [simp]: "put_all [] kvs = kvs" "put_all (p # ps) kvs = put_all ps (AList.update (fst p) (snd p) kvs)"
  by (simp_all add: put_all_def)

lemma put_all_keys: "fst ` set (put_all ps kvs) = fst ` set ps \<union> fst ` set kvs"
  by (induction ps arbitrary: kvs) (auto simp: update_keys)

lemma distinct_put_all: "distinct (map fst kvs) \<Longrightarrow> distinct (map fst (put_all ps kvs))"
  by (induction ps arbitrary: kvs) (auto simp: distinct_update)

text \<open>The text a value leaves in the location: falsy values print as the empty string.\<close>

definition pval :: "jv \<Rightarrow> string" where
  "pval v = to_str (js_or v (Str []))"

abbreviation ptexts :: "jv obj \<Rightarrow> string obj" where
  "ptexts ps \<equiv> map (\<lambda>kv. (fst kv, pval (snd kv))) ps"

lemma pval_simps [simp]: "pval (Str s) = s" "pval Null = []" "pval Undefined = []"
  by (simp_all add: pval_def js_or_def)

lemma param_text_pval: "param_text kv = ptext (fst kv, pval (snd kv))"
  by (simp add: param_text_def ptext_def pval_def)

lemma ptexts_update: "ptexts (AList.update k v kvs) = AList.update k (pval v) (ptexts kvs)"
  by (induction kvs) auto

lemma ptexts_assign:
  assumes "\<forall>kv \<in> set ps. good_name (fst kv)"
  shows "ptexts (obj_assign acc ps) = put_all (ptexts ps) (ptexts acc)"
  using assms by (induction ps arbitrary: acc) (auto simp: obj_put_def good_name_def ptexts_update)

text \<open>Several parameters written by one call; only the address changes.\<close>

lemma setParamsObj_href:
  assumes "hash_shows path b kvs" "fst ` set ps \<subseteq> set console_params"
  shows "\<exists>h. setParamsObj ps b = Inr (b\<lparr>href := h\<rparr>) \<and> hash_shows path (b\<lparr>href := h\<rparr>) (put_all (ptexts ps) kvs)"
proof -
  let ?S = "map (\<lambda>kv. (fst kv, Str (snd kv))) kvs" and ?new = "put_all (ptexts ps) kvs"
  have sub: "fst ` set ?new \<subseteq> set console_params"
    using assms by (simp add: put_all_keys hash_shows_def image_image)
  have gp: "\<forall>kv \<in> set ps. good_name (fst kv)" using assms(2) by (auto intro: console_params_good)
  have "\<forall>kv \<in> set kvs. good_name (fst kv)" by (meson assms(1) hash_shows_def console_params_good image_subset_iff)
  then have r: "read_params (param_pieces (hash_pieces b)) [] = Inr ?S"
    using assms(1) read_params_ptext[of kvs "[]"] by (simp add: shows_pieces[OF assms(1)] hash_shows_def o_def)
  have n: "ptexts (obj_assign ?S ps) = ?new" using ptexts_assign[OF gp, of ?S] by (simp add: o_def)
  have "fst ` set (ptexts (obj_assign ?S ps)) = fst ` set (obj_assign ?S ps)" by (simp add: image_image)
  then have "fst ` set (obj_assign ?S ps) \<subseteq> set console_params" using sub by (simp only: n)
  then have o: "key_order (obj_assign ?S ps) = obj_assign ?S ps"
    by (intro key_order_plain) (use console_params_good in \<open>auto simp: good_name_def\<close>)
  have "map param_text (obj_assign ?S ps) = map ptext (ptexts (obj_assign ?S ps))"
    by (simp add: param_text_pval o_def)
  then have t: "map param_text (obj_assign ?S ps) = map ptext ?new" by (simp only: n)
  let ?b = "write_hash (set_piece1 (join ''&'' (map ptext ?new)) (hash_pieces b)) b"
  have "setParamsObj ps b = Inr ?b" by (simp add: setParamsObj_def r o t Let_def del: map_map)
  moreover have "hash_shows path ?b ?new"
    using assms(1) sub by (intro write_hash_shows[OF assms(1)] distinct_put_all) (simp add: hash_shows_def)
  moreover have "\<exists>h. ?b = b\<lparr>href := h\<rparr>"
    using assms(1) by (auto simp: write_hash_def Let_def hash_shows_def)
  ultimately show ?thesis by metis
qed

lemma setParams_value_href:
  assumes "hash_shows path b kvs" "n \<in> set console_params"
  shows "\<exists>h. setParams n v b = Inr (b\<lparr>href := h\<rparr>) \<and> hash_shows path (b\<lparr>href := h\<rparr>) (AList.update n (pval v) kvs)"
  using setParamsObj_href[OF assms(1), of "[(n, v)]"] console_params_good[OF assms(2)] assms(2)
  by (auto simp: setParams_def good_name_def)

lemma setParams_href:
  assumes "hash_shows path b kvs" "n \<in> set console_params"
  shows "\<exists>h. setParams n (Str v) b = Inr (b\<lparr>href := h\<rparr>) \<and> hash_shows path (b\<lparr>href := h\<rparr>) (AList.update n v kvs)"
  using setParams_value_href[OF assms, of "Str v"] by simp

lemma setParams_shows:
  assumes "hash_shows path b kvs" "n \<in> set console_params"
  shows "\<exists>b'. setParams n (Str v) b = Inr b' \<and> hash_shows path b' (AList.update n v kvs)"
  using setParams_href[OF assms] by blast

lemma lower_no_eq: "c \<noteq> CHR ''='' \<Longrightarrow> lower c \<noteq> CHR ''=''"
proof
  assume c: "c \<noteq> CHR ''=''" and l: "lower c = CHR ''=''"
  then have b: "65 \<le> (of_char c :: nat)" "(of_char c :: nat) \<le> 90"
    and e: "char_of (of_char c + 32 :: nat) = CHR ''=''"
    by (auto simp: lower_def split: if_splits)
  from e have "of_char (char_of (of_char c + 32 :: nat)) = (61 :: nat)" by simp
  with b show False by simp
qed

lemma delete_key_set: "fst ` set (AList.delete k kvs) = fst ` set kvs - {k}"
  using delete_keys[of k kvs] by (metis list.set_map set_removeAll)

lemma hits_kv:
  assumes "k \<in> set console_params" "n \<in> set console_params"
  shows "hits n (k @ CHR ''='' # v) \<longleftrightarrow> k = n"
proof
  assume h: "hits n (k @ CHR ''='' # v)"
  have k: "CHR ''='' \<notin> set k" and n: "CHR ''='' \<notin> set n"
    using good_name_free[OF console_params_good[OF assms(1)]] good_name_free[OF console_params_good[OF assms(2)]]
    by simp_all
  note low = lower_no_eq
  let ?m = "take (Suc (length n)) (k @ CHR ''='' # v)"
  have m: "map lower ?m = map lower n @ ''=''" using h by (simp add: hits_def)
  have ne: "CHR ''='' \<notin> set (map lower n)"
  proof
    assume "CHR ''='' \<in> set (map lower n)"
    then obtain c where "c \<in> set n" "lower c = CHR ''=''" by (metis ex_map_conv in_set_conv_nth image_iff list.set_map)
    with n low[of c] show False by metis
  qed
  show "k = n"
  proof (cases "length k \<le> length n")
    case True
    then have "?m = k @ take (Suc (length n) - length k) (CHR ''='' # v)" by simp
    with True have mm: "?m = k @ CHR ''='' # take (length n - length k) (v)"
      by (simp add: Suc_diff_le)
    have "map lower (k @ CHR ''='' # take (length n - length k) (v)) = map lower n @ ''=''"
      using m by (simp only: mm)
    then have e: "map lower k @ lower (CHR ''='') # map lower (take (length n - length k) (v)) = map lower n @ ''=''"
      by simp
    have "lower (CHR ''='') = CHR ''=''" by (simp add: lower_def)
    with e have "map lower k = map lower n \<or> (\<exists>ys. map lower k @ CHR ''='' # ys = map lower n)"
      by (auto simp: append_eq_append_conv2 Cons_eq_append_conv append_eq_Cons_conv)
    with ne have "map lower k = map lower n" by (metis in_set_conv_decomp)
    then show ?thesis using console_params_ci assms by blast
  next
    case False
    then have "?m = take (Suc (length n)) k" by simp
    with m have "lower (k ! length n) = CHR ''=''"
      using False by (metis (no_types, lifting) length_map lessI linorder_not_le nth_append_length nth_map nth_take
          length_take min_absorb2 Suc_leI)
    moreover have "k ! length n \<in> set k" using False by simp
    ultimately show ?thesis using k low by metis
  qed
next
  assume "k = n"
  then show "hits n (k @ CHR ''='' # v)" by (simp add: hits_def lower_def)
qed

lemma hits_ptext:
  assumes "k \<in> set console_params" "n \<in> set console_params"
  shows "hits n (ptext (k, v)) \<longleftrightarrow> k = n"
  using hits_kv[OF assms] by (simp add: ptext_def)

lemma match_param_shows:
  assumes "fst ` set kvs \<subseteq> set console_params" "n \<in> set console_params"
  shows "match_param n (join ''&'' (map ptext kvs)) = map_option encodeURIComponent (map_of kvs n)"
proof -
  have f: "filter (hits n) (map ptext kvs) = map ptext (filter (\<lambda>kv. fst kv = n) kvs)"
    using assms(1) by (induction kvs) (auto simp: hits_ptext[OF _ assms(2)])
  have d: "map_option encodeURIComponent (map_of kvs n) = (case filter (\<lambda>kv. fst kv = n) kvs of [] \<Rightarrow> None
     | kv # _ \<Rightarrow> Some (encodeURIComponent (snd kv)))"
    by (induction kvs) auto
  have e: "filter (hits n) (split_on (CHR ''&'') (join ''&'' (map ptext kvs))) = filter (hits n) (map ptext kvs)"
  proof (cases "kvs = []")
    case True
    then show ?thesis by (simp add: hits_def)
  next
    case False
    have "\<forall>kv \<in> set kvs. good_name (fst kv)" using assms(1) by (auto intro: console_params_good)
    from join_ptext_split[OF this False] show ?thesis by simp
  qed
  have hd: "fst kv = n" if "filter (\<lambda>kv. fst kv = n) kvs = kv # r" for kv r
    using that by (auto simp: filter_eq_Cons_iff)
  show ?thesis
    unfolding match_param_def e f d
    by (cases "filter (\<lambda>kv. fst kv = n) kvs") (auto simp: ptext_def dest: hd)
qed

lemma getParams_shows:
  assumes "hash_shows path b kvs" "n \<in> set console_params"
  shows "getParams b n = Inr (map_of kvs n)"
proof -
  have "list_all word_char n" using console_params_good[OF assms(2)] by (simp add: good_name_def)
  moreover have "split_on (CHR ''?'') (hash b) = [path, join ''&'' (map ptext kvs)]"
    using shows_hash[OF assms(1)] by (simp add: hash_pieces_def)
  ultimately show ?thesis
    using shows_hash(2)[OF assms(1)] match_param_shows[of kvs n] assms
    by (auto simp: getParams_def Let_def decode_encode hash_shows_def split: option.splits)
qed

lemma removeParams_shows:
  assumes "hash_shows path b kvs"
  shows "hash_shows path (removeParams (Str n) b) (AList.delete n kvs)"
proof -
  have g: "\<forall>kv \<in> set kvs. good_name (fst kv)"
    using assms by (auto simp: hash_shows_def intro: console_params_good)
  have "filter (\<lambda>val. nth_or (split_on (CHR ''='') val) 0 [] \<notin> set [n]) (map ptext kvs) = map ptext (AList.delete n kvs)"
    using g by (induction kvs) (auto simp: ptext_split)
  moreover have "fst ` set (AList.delete n kvs) \<subseteq> set console_params" "distinct (map fst (AList.delete n kvs))"
    using assms by (auto simp: hash_shows_def delete_key_set delete_keys distinct_removeAll)
  ultimately show ?thesis
    using write_hash_shows[OF assms]
    by (simp add: removeParams_def remove_list_def shows_pieces[OF assms] Let_def)
qed

interpretation hash_store: query_store "hash_shows path" getParams "\<lambda>n v. setParams n (Str v)"
  "\<lambda>n. removeParams (Str n)" "set console_params"
  by unfold_locales (simp_all add: getParams_shows setParams_shows removeParams_shows)

section \<open>Properties\<close>

definition sample_browser :: browser where
  "sample_browser = \<lparr>href = ''http://h:8848/nacos/#/configurationManagement?dataId=a%26b&group='',
     originHref = ''http://h:8848/nacos/'', parentHash = [], canReplace = True, cookie = [],
     storage = [(''token'', ''t''), (''namespace'', ''public'')],
     host = ''h:8848'', nownamespace = [], namespaceShowName = [], namespaceList = Undefined\<rparr>"

lemma sample_shows:
  "hash_shows ''#/configurationManagement'' sample_browser [(''dataId'', ''a&b''), (''group'', [])]"
  by code_simp

text \<open>
  C1: the location implements a map of parameters: whatever \<open>setParams\<close> and \<open>removeParams\<close> are called in
  a row, no call throws, the path of the page stays, and every parameter reads as in a map that
  went through the same updates, with any characters in the values.
\<close>

theorem location_refines_map:
  assumes "hash_shows path b kvs" and "op_name ` set ops \<subseteq> set console_params"
  shows "\<exists>b' kvs'. run_ops (\<lambda>n v. setParams n (Str v)) (\<lambda>n. removeParams (Str n)) ops b = Inr b' \<and>
    hash_shows path b' kvs' \<and> (\<forall>n \<in> set console_params. getParams b' n = Inr (spec_ops ops (map_of kvs) n))"
  using hash_store.run_refines[OF assms] getParams_shows by metis

theorem location_refines_map_witness:
  "\<exists>b' kvs'. run_ops (\<lambda>n v. setParams n (Str v)) (\<lambda>n. removeParams (Str n))
      [Put_Param ''group'' ''x=y?z'', Del_Param ''dataId'', Put_Param ''pageNo'' ''2'', Put_Param ''group'' ''&'']
      sample_browser = Inr b' \<and> hash_shows ''#/configurationManagement'' b' kvs' \<and>
    getParams b' ''group'' = Inr (Some ''&'') \<and> getParams b' ''dataId'' = Inr None \<and>
    getParams b' ''pageNo'' = Inr (Some ''2'')"
proof -
  let ?ops = "[Put_Param ''group'' ''x=y?z'', Del_Param ''dataId'', Put_Param ''pageNo'' ''2'', Put_Param ''group'' ''&'']"
  have c: "''group'' \<in> set console_params" "''dataId'' \<in> set console_params" "''pageNo'' \<in> set console_params"
    by code_simp+
  then have "op_name ` set ?ops \<subseteq> set console_params" by simp
  from location_refines_map[OF sample_shows this] obtain b' kvs' where
    r: "run_ops (\<lambda>n v. setParams n (Str v)) (\<lambda>n. removeParams (Str n)) ?ops sample_browser = Inr b'"
      "hash_shows ''#/configurationManagement'' b' kvs'"
      "\<And>n. n \<in> set console_params \<Longrightarrow>
        getParams b' n = Inr (spec_ops ?ops (map_of [(''dataId'', ''a&b''), (''group'', [])]) n)" by blast
  from r(1,2) r(3)[OF c(1)] r(3)[OF c(2)] r(3)[OF c(3)] show ?thesis by (intro exI[of _ b'] exI[of _ kvs']) simp
qed

text \<open>
  a parameter written with \<open>setParams\<close> is read back unchanged by \<open>getParams\<close>, whatever
  characters the value holds, and no other parameter of the page changes.
\<close>

theorem setParams_then_getParams:
  assumes "hash_shows path b kvs" and "n \<in> set console_params" and "m \<in> set console_params"
  shows "\<exists>b'. setParams n (Str v) b = Inr b' \<and>
    getParams b' m = (if m = n then Inr (Some v) else getParams b m)"
  by (rule hash_store.get_after_put[OF assms])

theorem setParams_then_getParams_witness:
  "(\<exists>b'. setParams ''group'' (Str ''x=y?z'') sample_browser = Inr b' \<and>
      getParams b' ''group'' = Inr (Some ''x=y?z'')) \<and>
   (\<exists>b'. setParams ''group'' (Str ''x=y?z'') sample_browser = Inr b' \<and>
      getParams b' ''dataId'' = Inr (Some ''a&b''))"
proof -
  have c: "''group'' \<in> set console_params" "''dataId'' \<in> set console_params" by code_simp+
  show ?thesis
    using setParams_then_getParams[OF sample_shows c(1) c(1), of "''x=y?z''"]
      setParams_then_getParams[OF sample_shows c(1) c(2), of "''x=y?z''"]
      getParams_shows[OF sample_shows c(2)] by simp
qed

text \<open>
  a removed parameter reads as null afterwards and the others are untouched.
\<close>

theorem removeParams_then_getParams:
  assumes "hash_shows path b kvs" and "m \<in> set console_params"
  shows "getParams (removeParams (Str n) b) m = (if m = n then Inr None else getParams b m)"
  by (rule hash_store.get_after_del[OF assms])

theorem removeParams_then_getParams_witness:
  "getParams (removeParams (Str ''dataId'') sample_browser) ''dataId'' = Inr None"
proof -
  have c: "''dataId'' \<in> set console_params" by code_simp
  show ?thesis using removeParams_then_getParams[OF sample_shows c, of "''dataId''"] by simp
qed

end
