(* ===== verification/Nacos_Util.thy ===== *)
theory Nacos_Util
  imports Js_Json
begin

text \<open>
  The small helpers of \<^verbatim>\<open>utils/nacosutil.js\<close>. The functions that read the document or the
  global \<open>rootPath\<close> take what they read as an argument.
\<close>

section \<open>Definitions\<close>

text \<open>
  \<open>throttle(fn, delay)\<close>: the closure keeps one timer. A call at time \<open>t\<close> clears the pending
  timer and arms a new one for \<open>t + delay\<close>; a timer whose time has come runs \<open>fn\<close> before the
  next call is made. The run lists the calls of \<open>fn\<close> with their times.
\<close>

definition throttle_call :: "nat \<Rightarrow> nat \<times> 'a \<Rightarrow> nat \<times> 'a" where
  "throttle_call delay call = (fst call + delay, snd call)"

fun throttle :: "nat \<Rightarrow> (nat \<times> 'a) option \<Rightarrow> (nat \<times> 'a) list \<Rightarrow> (nat \<times> 'a) list" where
  "throttle delay timer [] = (case timer of None \<Rightarrow> [] | Some fire \<Rightarrow> [fire])"
| "throttle delay timer (call # calls) =
     (case timer of
        Some fire \<Rightarrow> if fst fire \<le> fst call then [fire] else []
      | None \<Rightarrow> []) @ throttle delay (Some (throttle_call delay call)) calls"

text \<open>\<open>getScrollTop()\<close>: the scroll offset of the root element and of the body, where they exist.\<close>

definition getScrollTop :: "int option \<Rightarrow> int option \<Rightarrow> int" where
  "getScrollTop documentElement body =
     (case documentElement of
        Some t \<Rightarrow> if t \<noteq> 0 then t else (case body of Some u \<Rightarrow> u | None \<Rightarrow> 0)
      | None \<Rightarrow> (case body of Some u \<Rightarrow> u | None \<Rightarrow> 0))"

definition getLink :: "string \<Rightarrow> string \<Rightarrow> string" where
  "getLink rootPath link =
     (if length link > 1 \<and> (case link of c # d # _ \<Rightarrow> c = CHR ''/'' \<and> d \<noteq> CHR ''/'' | _ \<Rightarrow> False)
      then rootPath @ link else link)"

definition getParameter :: "string \<Rightarrow> string \<Rightarrow> string" where
  "getParameter search name =
     (let query = nth_or (split_on (CHR ''?'') search) 1 [];
          hit = nth_or (filter (\<lambda>item. name = nth_or (split_on (CHR ''='') item) 0 [])
                  (split_on (CHR ''&'') query)) 0 []
      in nth_or (split_on (CHR ''='') hit) 1 [])"

definition isJsonString :: "string \<Rightarrow> bool" where
  "isJsonString str = (case parse_json str of Inr v \<Rightarrow> typeof_object v | Inl _ \<Rightarrow> False)"

text \<open>\<open>[key, params[key]].join('=')\<close> prints null and undefined as the empty string.\<close>

definition join_str :: "jv \<Rightarrow> string" where
  "join_str v = (if v = Undefined \<or> v = Null then [] else to_str v)"

definition generateUrl :: "string \<Rightarrow> jv obj \<Rightarrow> string" where
  "generateUrl url params =
     join [] [url, ''?'', join ''&'' (map (\<lambda>kv. join ''='' [fst kv, join_str (snd kv)]) (key_order params))]"

definition isPlainObject :: "jv \<Rightarrow> bool" where
  "isPlainObject = is_obj"

section \<open>Properties\<close>

text \<open>Calls that follow each other before the delay has passed.\<close>

fun burst :: "nat \<Rightarrow> (nat \<times> 'a) list \<Rightarrow> bool" where
  "burst delay (c1 # c2 # cs) = (fst c1 \<le> fst c2 \<and> fst c2 < fst c1 + delay \<and> burst delay (c2 # cs))"
| "burst delay _ = True"

lemma throttle_pending_burst:
  assumes "burst delay (c # cs)"
  shows "throttle delay (Some (throttle_call delay c)) cs = [throttle_call delay (last (c # cs))]"
  using assms by (induction cs arbitrary: c) (auto simp: throttle_call_def)

text \<open>
  a burst of calls to a throttled function runs it once, with the arguments of the last
  call, one delay after that call: the helper debounces.
\<close>

theorem throttle_runs_last:
  assumes "burst delay (c # cs)"
  shows "throttle delay None (c # cs) = [(fst (last (c # cs)) + delay, snd (last (c # cs)))]"
  using throttle_pending_burst[OF assms] by (simp add: throttle_call_def)

theorem throttle_runs_last_witness:
  "throttle 500 None [(0, ''a''), (120, ''ab''), (300, ''abc'')] = [(800, ''abc'')]"
proof -
  have b: "burst 500 [(0, ''a''), (120, ''ab''), (300, ''abc'')]" by simp
  from throttle_runs_last[OF b] show ?thesis by simp
qed

lemma join_pair_split:
  assumes "CHR ''='' \<notin> set k" "CHR ''='' \<notin> set v"
  shows "split_on (CHR ''='') (join ''='' [k, v]) = [k, v]"
  using assms by (simp add: split_on_append_sep split_on_free)

definition url_safe :: "string \<Rightarrow> bool" where
  "url_safe s \<longleftrightarrow> CHR ''?'' \<notin> set s \<and> CHR ''&'' \<notin> set s \<and> CHR ''='' \<notin> set s"

definition safe_params :: "jv obj \<Rightarrow> bool" where
  "safe_params params \<longleftrightarrow> distinct (map fst params) \<and>
     list_all (\<lambda>kv. url_safe (fst kv) \<and> url_safe (join_str (snd kv))) params"

lemma filter_key_unique:
  assumes "distinct (map fst kvs)" "(k, v) \<in> set kvs"
  shows "filter (\<lambda>kv. k = fst kv) kvs = [(k, v)]"
  using assms
proof (induction kvs)
  case Nil
  then show ?case by simp
next
  case (Cons kv kvs)
  have "filter (\<lambda>kv. k = fst kv) kvs = []" if "fst kv = k"
    using Cons(2) that by (auto simp: filter_empty_conv)
  with Cons show ?case by auto
qed

text \<open>
  a parameter put into a URL by \<open>generateUrl\<close> is found again by \<open>getParameter\<close>, when no
  name or printed value holds a delimiter (neither function escapes anything).
\<close>

theorem getParameter_generateUrl:
  assumes "safe_params params" and "CHR ''?'' \<notin> set url" and "(k, v) \<in> set params"
  shows "getParameter (generateUrl url params) k = join_str v"
proof -
  let ?item = "\<lambda>kv. join ''='' [fst kv, join_str (snd kv)]" and ?o = "key_order params"
  have safe: "url_safe (fst kv)" "url_safe (join_str (snd kv))" if "kv \<in> set ?o" for kv
    using assms(1) that by (auto simp: safe_params_def list_all_iff)
  have sp: "split_on (CHR ''='') (?item kv) = [fst kv, join_str (snd kv)]" if "kv \<in> set ?o" for kv
    using safe[OF that] by (intro join_pair_split) (auto simp: url_safe_def)
  have fr: "CHR ''&'' \<notin> set (?item kv)" "CHR ''?'' \<notin> set (?item kv)" if "kv \<in> set ?o" for kv
    using safe[OF that] by (auto simp: url_safe_def)
  have ne: "?o \<noteq> []" using assms(3) set_key_order[of params] by (metis empty_iff empty_set)
  have q: "CHR ''?'' \<notin> set (join ''&'' (map ?item ?o))"
    by (rule join_free) (use fr in auto)
  have "nth_or (split_on (CHR ''?'') (generateUrl url params)) 1 [] = join ''&'' (map ?item ?o)"
    using assms(2) q by (simp add: generateUrl_def split_on_append_sep split_on_free)
  moreover have "split_on (CHR ''&'') (join ''&'' (map ?item ?o)) = map ?item ?o"
    by (rule split_on_join) (use ne fr in auto)
  moreover have "filter (\<lambda>item. k = nth_or (split_on (CHR ''='') item) 0 []) (map ?item ?o)
      = map ?item (filter (\<lambda>kv. k = fst kv) ?o)"
    unfolding filter_map o_def
    by (rule arg_cong[where f = "map ?item"], rule filter_cong[OF refl]) (simp only: sp nth_or_simps)
  moreover have "filter (\<lambda>kv. k = fst kv) ?o = [(k, v)]"
    using assms(1,3) by (intro filter_key_unique) (auto simp: safe_params_def distinct_key_order)
  ultimately show ?thesis
    using sp[of "(k, v)"] assms(3) by (simp add: getParameter_def)
qed

theorem getParameter_generateUrl_witness:
  "getParameter (generateUrl ''/serviceDetail'' [(''name'', Str ''svc''), (''groupName'', Str ''G'')]) ''groupName'' = ''G''"
proof -
  have s: "safe_params [(''name'', Str ''svc''), (''groupName'', Str ''G'')]" by code_simp
  show ?thesis
    using getParameter_generateUrl[OF s, of "''/serviceDetail''" "''groupName''" "Str ''G''"]
    by (simp add: join_str_def)
qed

end
