(* ===== verification/Ajax_Request.thy ===== *)
theory Ajax_Request
  imports Url_Params Nacos_Util
begin

text \<open>
  The two request pipelines: \<open>request\<close> of \<^verbatim>\<open>globalLib.js\<close> over jQuery with the middleware that
  \<^verbatim>\<open>lib.js\<close> installs, and the axios instance of \<^verbatim>\<open>utils/request.js\<close> with its two interceptors.
  jQuery, axios, \<open>qs.stringify\<close> and the message box are outside the sources: a pipeline ends in the
  call it hands over, and begins again with the response it is given.
\<close>

section \<open>Requests of globalLib.js\<close>

text \<open>
  A handler of a configuration is missing, a function of the caller (by number), or such a
  handler wrapped by one of the pipeline's own functions.
\<close>

datatype handler =
    NoHandler
  | UserFn nat
  | GuardSuccess handler
  | GuardError handler
  | AutoLoading handler
  | ProxyHeaders handler

record config =
  c_url :: string
  c_type :: "string option"
  c_method :: "string option"
  c_data :: jv
  c_dollar_data :: jv
  c_dataType :: "string option"
  c_contentType :: "string option"
  c_processData :: "bool option"
  c_success :: handler
  c_error :: handler
  c_complete :: handler
  c_beforeSend :: handler

record service =
  s_url :: string
  s_method :: string
  s_is_mock :: bool
  s_is_param :: bool
  s_isJsonData :: bool
  s_is_proxy :: bool
  s_autoLoading :: bool
  s_params :: string
  s_defaults :: string

type_synonym middleware = "config \<Rightarrow> js_error + config option"

text \<open>
  \<open>handleMiddleWare\<close>: a reduce over the installed callbacks; an entry that is not a function
  (\<open>None\<close>) is skipped and a falsy result keeps the configuration.
\<close>

fun handleMiddleWare :: "config \<Rightarrow> middleware option list \<Rightarrow> js_error + config" where
  "handleMiddleWare c [] = Inr c"
| "handleMiddleWare c (None # ms) = handleMiddleWare c ms"
| "handleMiddleWare c (Some m # ms) =
     (case m c of
        Inl e \<Rightarrow> Inl e
      | Inr r \<Rightarrow> handleMiddleWare (case r of None \<Rightarrow> c | Some c' \<Rightarrow> c') ms)"

text \<open>\<open>middleWare(callback, isBack)\<close> on the pair of lists (front, back).\<close>

definition middleWare :: "middleware option \<Rightarrow> bool \<Rightarrow> middleware option list \<times> middleware option list
    \<Rightarrow> middleware option list \<times> middleware option list" where
  "middleWare callback isBack ms = (if isBack then (fst ms, snd ms @ [callback]) else (fst ms @ [callback], snd ms))"

definition NacosRealUrlMapper :: "(string \<Rightarrow> service option) \<Rightarrow> (string \<Rightarrow> string option) \<Rightarrow> string
    \<Rightarrow> (service \<times> string option) option" where
  "NacosRealUrlMapper serviceMap methodList registerName =
     (case serviceMap registerName of None \<Rightarrow> None | Some s \<Rightarrow> Some (s, methodList (s_method s)))"

text \<open>
  \<open>url.replace(/{([^\}]+)}/g, ($1, $2) => config.$data[$2])\<close>: reading a property of a missing
  \<open>$data\<close> throws.
\<close>

function fill_braces :: "jv \<Rightarrow> string \<Rightarrow> js_error + string" where
  "fill_braces d [] = Inr []"
| "fill_braces d (c # cs) =
     (let k = takeWhile (\<lambda>c. c \<noteq> CHR ''}'') cs; r = dropWhile (\<lambda>c. c \<noteq> CHR ''}'') cs in
      if c = CHR ''{'' \<and> k \<noteq> [] \<and> r \<noteq> [] then
        (if d = Undefined \<or> d = Null then Inl TypeError
         else case fill_braces d (tl r) of
             Inl e \<Rightarrow> Inl e | Inr t \<Rightarrow> Inr (to_str (field d k) @ t))
      else case fill_braces d cs of Inl e \<Rightarrow> Inl e | Inr t \<Rightarrow> Inr (c # t))"
  by pat_completeness auto
termination
proof (relation "measure (\<lambda>(d, s). length s)", goal_cases)
  case (2 d c cs k r)
  then have "length (tl r) < length (c # cs)"
    using length_dropWhile_le[of "\<lambda>c. c \<noteq> CHR ''}''" cs] by (simp add: less_Suc_eq_le)
  then show ?case by simp
qed simp_all

text \<open>The own enumerable properties that \<open>Object.assign\<close> copies from a source.\<close>

definition own_props :: "jv \<Rightarrow> jv obj" where
  "own_props v = (case v of Obj kvs \<Rightarrow> kvs
     | Str s \<Rightarrow> map (\<lambda>(i, c). (nat_str i, Str [c])) (enumerate 0 s)
     | Arr xs \<Rightarrow> map (\<lambda>(i, x). (nat_str i, x)) (enumerate 0 xs)
     | _ \<Rightarrow> [])"

text \<open>
  The changes \<open>handleCustomService\<close> makes to a configuration whose service is known, in the
  order of the source: placeholders, static parameters, method, JSON body, proxy headers, loading.
\<close>

definition add_static_params :: "service \<Rightarrow> config \<Rightarrow> config" where
  "add_static_params s c =
     (if s_is_param s \<and> typeof_object (c_data c) then
        (case parse_json (s_params s) of
           Inl _ \<Rightarrow> c
         | Inr p \<Rightarrow> c\<lparr>c_data := Obj (obj_assign (obj_assign [] (own_props p)) (own_props (c_data c)))\<rparr>)
      else c)"

definition set_method :: "service \<Rightarrow> string option \<Rightarrow> config \<Rightarrow> config" where
  "set_method s methodType c =
     (if s_method s \<noteq> [] \<and> (case c_type c of None \<Rightarrow> True | Some t \<Rightarrow> t = [])
      then c\<lparr>c_type := methodType\<rparr> else c)"

definition json_body :: "service \<Rightarrow> config \<Rightarrow> js_error + config" where
  "json_body s c =
     (if s_isJsonData s \<and> typeof_object (c_data c) then
        (case stringify (c_data c) of
           Text t \<Rightarrow> Inr (c\<lparr>c_data := Str t, c_processData := Some False, c_dataType := Some ''json'',
                           c_contentType := Some ''application/json''\<rparr>)
         | _ \<Rightarrow> Inl OutsideModel)
      else Inr c)"

text \<open>
  The whole of \<open>handleCustomService\<close>: either the mocked answer is passed to \<open>config.success\<close>
  and nothing is sent, or the configuration goes on.
\<close>

datatype custom_result = Mocked handler jv | Real config

definition handleCustomService :: "bool \<Rightarrow> (string \<Rightarrow> service option) \<Rightarrow> (string \<Rightarrow> string option) \<Rightarrow> config
    \<Rightarrow> js_error + custom_result" where
  "handleCustomService is_preview serviceMap methodList c =
     (if \<not> prefix ''com.alibaba.'' (c_url c) then Inr (Real c)
      else case NacosRealUrlMapper serviceMap methodList (c_url c) of
        None \<Rightarrow> Inr (Real c)
      | Some (s, methodType) \<Rightarrow>
          if s_url s = [] then Inr (Real c)
          else if is_preview \<and> s_is_mock s \<and> c_success c \<noteq> NoHandler then
            Inr (Mocked (c_success c) (case parse_json (s_defaults s) of Inl _ \<Rightarrow> Null | Inr v \<Rightarrow> v))
          else case fill_braces (c_dollar_data c) (s_url s) of
              Inl e \<Rightarrow> Inl e
            | Inr u \<Rightarrow>
                (case json_body s (set_method s methodType (add_static_params s (c\<lparr>c_url := u\<rparr>))) of
                   Inl e \<Rightarrow> Inl e
                 | Inr c \<Rightarrow>
                     (let c = (if is_preview \<and> s_is_proxy s then c\<lparr>c_beforeSend := ProxyHeaders (c_beforeSend c)\<rparr> else c);
                          c = (if s_autoLoading s then c\<lparr>c_complete := AutoLoading (c_complete c)\<rparr> else c)
                      in Inr (Real c))))"

text \<open>The XSRF token of a POST body.\<close>

definition add_sec_token :: "browser \<Rightarrow> config \<Rightarrow> config" where
  "add_sec_token b c =
     (case (c_type c, c_data c) of
        (Some t, Obj kvs) \<Rightarrow>
          if map lower t = ''post'' \<and> \<not> truthy (field (c_data c) ''sec_token'') then
            (let sec_token = aliwareGetCookieByKeyName b ''XSRF-TOKEN''
             in if sec_token \<noteq> [] then c\<lparr>c_data := Obj (obj_put ''sec_token'' (Str sec_token) kvs)\<rparr> else c)
          else c
      | _ \<Rightarrow> c)"

text \<open>
  \<open>JSON.parse(localStorage.token)\<close> with its \<open>catch\<close>: on a throw the console goes to the login
  page and carries on with an empty token. Destructuring \<open>null\<close> throws outside the \<open>try\<close>.
\<close>

definition read_token :: "browser \<Rightarrow> js_error + browser \<times> jv" where
  "read_token b =
     (case getItem b ''token'' of
        None \<Rightarrow> Inr (goLogin b, Str [])
      | Some t \<Rightarrow>
          (case parse_json t of
             Inl OutsideModel \<Rightarrow> Inl OutsideModel
           | Inl _ \<Rightarrow> Inr (goLogin b, Str [])
           | Inr Null \<Rightarrow> Inl TypeError
           | Inr v \<Rightarrow> Inr (b, if field v ''accessToken'' = Undefined then Str [] else field v ''accessToken'')))"

definition with_access_token :: "string \<Rightarrow> jv \<Rightarrow> string" where
  "with_access_token u accessToken =
     (let parts = split_on (CHR ''?'') u; ps = split_on (CHR ''&'') (nth_or parts 1 [])
      in join ''?'' [nth_or parts 0 [], join ''&'' (ps @ [''accessToken='' @ to_str accessToken])])"

text \<open>What is handed to \<open>$.ajax\<close>.\<close>

record ajax_call =
  a_url :: string
  a_type :: "string option"
  a_method :: "string option"
  a_data :: jv
  a_dataType :: string
  authorization :: "string option"
  a_contentType :: "string option"
  a_processData :: "bool option"
  a_success :: handler
  a_error :: handler
  a_complete :: handler
  a_beforeSend :: handler

datatype outcome = Answered handler jv | Sent ajax_call

definition Request :: "bool \<Rightarrow> (string \<Rightarrow> service option) \<Rightarrow> (string \<Rightarrow> string option) \<Rightarrow>
    middleware option list \<times> middleware option list \<Rightarrow> browser \<Rightarrow> config \<Rightarrow>
    js_error + browser \<times> outcome" where
  "Request is_preview serviceMap methodList ms b c =
     (case handleMiddleWare c (fst ms) of Inl e \<Rightarrow> Inl e | Inr c \<Rightarrow>
      case handleCustomService is_preview serviceMap methodList c of Inl e \<Rightarrow> Inl e
      | Inr (Mocked h v) \<Rightarrow> Inr (b, Answered h v)
      | Inr (Real c) \<Rightarrow>
     (case handleMiddleWare (add_sec_token b c) (snd ms) of Inl e \<Rightarrow> Inl e | Inr c \<Rightarrow>
     (case read_token b of Inl e \<Rightarrow> Inl e | Inr (b, accessToken) \<Rightarrow>
        Inr (b, Sent \<lparr>a_url = with_access_token (c_url c) accessToken, a_type = c_type c, a_method = c_method c,
                      a_data = js_or (c_data c) (Str []),
                      a_dataType = (case c_dataType c of Some t \<Rightarrow> if t = [] then ''json'' else t | None \<Rightarrow> ''json''),
                      authorization = getItem b ''token'',
                      a_contentType = c_contentType c, a_processData = c_processData c,
                      a_success = c_success c, a_error = c_error c, a_complete = c_complete c,
                      a_beforeSend = c_beforeSend c\<rparr>))))"

text \<open>
  The rejection handler of the promise: the messages shown and the browser afterwards. \<open>responseJSON\<close>
  is what jQuery made of the body; only an undefined one has the default, and a null one throws.
\<close>

definition login_messages :: "jv list" where
  "login_messages = [Str ''unknown user!'', Str ''token invalid!'', Str ''token expired!'']"

definition request_failed :: "int \<Rightarrow> jv \<Rightarrow> browser \<Rightarrow> js_error + browser \<times> jv list" where
  "request_failed status responseJSON b =
     (if responseJSON = Null then Inl TypeError
      else let msg = field responseJSON ''message''
           in Inr (if status \<in> {401, 403} \<and> msg \<in> set login_messages then goLogin b else b,
                   if truthy msg then [msg] else []))"

section \<open>The middleware of lib.js\<close>

definition lib_tenant :: "browser \<Rightarrow> js_error + string" where
  "lib_tenant b =
     (if nownamespace b \<noteq> [] then Inr (if nownamespace b = ''global'' then [] else nownamespace b)
      else case getParams b ''namespace'' of
        Inl e \<Rightarrow> Inl e
      | Inr t \<Rightarrow> Inr (let tenant = str_or t [] in if tenant = ''global'' then [] else tenant))"

definition libMiddleware :: "browser \<Rightarrow> middleware" where
  "libMiddleware b c =
     (let namespace = str_or (getItem b ''namespace'') [];
          d = (if str_includes (c_url c) ''namespaceId='' then c_data c
               else Obj (obj_assign (obj_assign [] (own_props (c_data c))) [(''namespaceId'', Str namespace)]))
      in case lib_tenant b of
           Inl e \<Rightarrow> Inl e
         | Inr tenant \<Rightarrow>
             (let splitArr = split_on (CHR ''?'') (c_url c);
                  u = (if length splitArr > 1 \<and> str_includes (splitArr ! 1) ''dataId''
                       then c_url c @ ''&tenant='' @ tenant else c_url c)
              in Inr (Some (c\<lparr>c_url := u, c_data := d, c_success := GuardSuccess (c_success c),
                             c_error := GuardError (c_error c)\<rparr>))))"

text \<open>
  Running the guarded handlers. \<open>hasAlert\<close> is the flag of the module; the alert is open until
  one of its three callbacks clears the flag. The identifier \<open>aliwareIntl\<close> that \<open>config.error\<close>
  reads is imported from \<^verbatim>\<open>globalLib.js\<close>, which does not export it: it is \<open>undefined\<close>, and reading
  its \<open>get\<close> throws after the flag has been set. The handler behind an automatic loading is called
  with the arguments of \<open>handleCustomService\<close>, written as an empty object here.
\<close>

datatype ui_event = Reload | AlertDialog jv | CallHandler nat jv | LoadingClosed | ProxyHeadersSet

record alert_state =
  hasAlert :: bool
  shown :: "ui_event list"

definition emit_ui :: "ui_event \<Rightarrow> alert_state \<Rightarrow> alert_state" where
  "emit_ui e s = s\<lparr>shown := shown s @ [e]\<rparr>"

fun run_handler :: "string \<Rightarrow> handler \<Rightarrow> jv \<Rightarrow> alert_state \<Rightarrow> js_error option \<times> alert_state" where
  "run_handler h NoHandler res s = (None, s)"
| "run_handler h (UserFn n) res s = (None, emit_ui (CallHandler n res) s)"
| "run_handler h (GuardSuccess pre) res s =
     (if res = Null \<or> res = Undefined then (Some TypeError, s) else
      let s = (if field res ''code'' = Str ''ConsoleNeedLogin'' \<and> str_includes h ''acm''
               then emit_ui Reload s else s)
      in if field res ''code'' = num 403 \<and> \<not> hasAlert s
         then (None, emit_ui (AlertDialog (field res ''message'')) (s\<lparr>hasAlert := True\<rparr>))
         else run_handler h pre res s)"
| "run_handler h (GuardError pre) res s =
     (if field res ''status'' = num 403 \<and> \<not> hasAlert s
      then (Some TypeError, s\<lparr>hasAlert := True\<rparr>)
      else run_handler h pre res s)"
| "run_handler h (AutoLoading pre) res s = run_handler h pre (Obj []) (emit_ui LoadingClosed s)"
| "run_handler h (ProxyHeaders pre) res s = run_handler h pre res (emit_ui ProxyHeadersSet s)"

definition dismiss_alert :: "alert_state \<Rightarrow> alert_state" where
  "dismiss_alert s = s\<lparr>hasAlert := False\<rparr>"

section \<open>The axios instance of utils/request.js\<close>

record axios_config =
  x_url :: string
  x_params :: jv
  x_data :: jv
  x_method :: string
  x_headers :: jv

definition obj_of :: "jv \<Rightarrow> jv obj" where
  "obj_of v = (case v of Obj kvs \<Rightarrow> kvs | _ \<Rightarrow> [])"

text \<open>The module has its own \<open>goLogin\<close> and its own list of messages.\<close>

definition axios_goLogin :: "browser \<Rightarrow> browser" where
  "axios_goLogin b =
     (let url = href b; b = removeItem ''token'' b; base = nth_or (split_on (CHR ''#'') url) 0 []
      in b\<lparr>href := base @ ''#/login''\<rparr>)"

definition axios_login_messages :: "jv list" where
  "axios_login_messages = [Str ''unknown user!'', Str ''token invalid!'', Str ''token expired!'']"

text \<open>\<open>JSON.parse(localStorage.token)\<close> of this module, with its own \<open>goLogin\<close>.\<close>

definition axios_token :: "browser \<Rightarrow> js_error + browser \<times> jv" where
  "axios_token b =
     (case getItem b ''token'' of
        None \<Rightarrow> Inr (axios_goLogin b, Str [])
      | Some t \<Rightarrow>
          (case parse_json t of
             Inl OutsideModel \<Rightarrow> Inl OutsideModel
           | Inl _ \<Rightarrow> Inr (axios_goLogin b, Str [])
           | Inr Null \<Rightarrow> Inl TypeError
           | Inr v \<Rightarrow> Inr (b, if field v ''accessToken'' = Undefined then Str [] else field v ''accessToken'')))"

text \<open>
  The request interceptor. \<open>qs\<close> is \<open>qs.stringify\<close>. The header object is replaced by an empty one
  when the configuration came without headers, after the token header was added.
\<close>

definition axios_request :: "(jv \<Rightarrow> string) \<Rightarrow> browser \<Rightarrow> axios_config \<Rightarrow> js_error + browser \<times> axios_config" where
  "axios_request qs b config =
     (let headers = x_headers config;
          config = (if truthy (x_params config) then config else config\<lparr>x_params := Obj []\<rparr>);
          authorised =
            (if \<not> str_includes (x_url config) ''auth/users/login'' then
               (case axios_token b of Inl e \<Rightarrow> Inl e
                | Inr (b, accessToken) \<Rightarrow>
                    Inr (b, config\<lparr>x_params := Obj (obj_put ''accessToken'' accessToken (obj_of (x_params config))),
                                   x_headers := Obj (obj_assign (obj_assign [] (own_props headers))
                                                  [(''accessToken'', accessToken)])\<rparr>))
             else Inr (b, config))
      in case authorised of Inl e \<Rightarrow> Inl e
         | Inr (b, config) \<Rightarrow>
             Inr (b, if truthy (x_data config) \<and> isPlainObject (x_data config)
                        \<and> x_method config \<in> {''post'', ''put''} then
                       (let config = config\<lparr>x_data := Str (qs (x_data config))\<rparr>;
                            config = (if truthy headers then config else config\<lparr>x_headers := Obj []\<rparr>)
                        in config\<lparr>x_headers := Obj (obj_put ''Content-Type'' (Str ''application/x-www-form-urlencoded'')
                                     (obj_of (x_headers config)))\<rparr>)
                     else config))"

text \<open>
  The response interceptors. A response is the value of its body; destructuring a null or
  undefined body throws. A failure carries the response (status and body) or nothing.
\<close>

definition axios_response :: "jv \<Rightarrow> js_error + jv" where
  "axios_response body = (if body = Null \<or> body = Undefined then Inl TypeError else Inr body)"

definition API_GENERAL_ERROR_MESSAGE :: string where
  "API_GENERAL_ERROR_MESSAGE = ''Request error, please try again later!''"

text \<open>The message shown and the browser after a failed call; the promise stays rejected.\<close>

definition axios_failed :: "(int \<times> jv) option \<Rightarrow> browser \<Rightarrow> js_error + browser \<times> jv" where
  "axios_failed response b =
     (case response of
        None \<Rightarrow> Inr (b, Str API_GENERAL_ERROR_MESSAGE)
      | Some (status, body) \<Rightarrow>
          if body = Null then Inl TypeError
          else let body = (if body = Undefined then Obj [] else body);
                   message = (case body of
                       Str s \<Rightarrow> Str s
                     | _ \<Rightarrow> if typeof_object body then field body ''message''
                            else Str (''HTTP ERROR: '' @ int_str status))
          in Inr (if status \<in> {401, 403} \<and> message \<in> set axios_login_messages then axios_goLogin b else b, message))"

section \<open>The pipeline as the console configures it\<close>

text \<open>No service is ever registered, and the only middleware is the one of \<^verbatim>\<open>lib.js\<close>, in the back list.\<close>

definition console_request :: "bool \<Rightarrow> browser \<Rightarrow> config \<Rightarrow> js_error + browser \<times> outcome" where
  "console_request is_preview b c =
     Request is_preview (\<lambda>_. None) (\<lambda>_. None) (middleWare (Some (libMiddleware b)) True ([], [])) b c"

lemma console_request_unfold:
  assumes "read_token b = Inr (b', tok)" and "lib_tenant b = Inr tenant"
  shows "\<exists>call. console_request pv b c = Inr (b', Sent call) \<and>
    a_url call = with_access_token (if length (split_on (CHR ''?'') (c_url c)) > 1
        \<and> str_includes (split_on (CHR ''?'') (c_url c) ! 1) ''dataId''
      then c_url c @ ''&tenant='' @ tenant else c_url c) tok \<and>
    a_data call = js_or (if str_includes (c_url c) ''namespaceId='' then c_data (add_sec_token b c)
      else Obj (obj_assign (obj_assign [] (own_props (c_data (add_sec_token b c))))
             [(''namespaceId'', Str (str_or (getItem b ''namespace'') []))])) (Str []) \<and>
    a_type call = c_type c \<and> authorization call = getItem b' ''token'' \<and>
    a_success call = GuardSuccess (c_success c) \<and> a_error call = GuardError (c_error c)"
proof -
  have k: "c_url (add_sec_token b c) = c_url c" "c_type (add_sec_token b c) = c_type c"
    "c_success (add_sec_token b c) = c_success c" "c_error (add_sec_token b c) = c_error c"
    by (auto simp: add_sec_token_def Let_def split: option.splits jv.splits)
  show ?thesis
    using assms
    by (simp add: console_request_def Request_def middleWare_def handleCustomService_def NacosRealUrlMapper_def
        libMiddleware_def Let_def k)
qed

section \<open>Query parameters of the sent URL\<close>

definition query_params :: "string \<Rightarrow> string list" where
  "query_params u = split_on (CHR ''&'') (nth_or (split_on (CHR ''?'') u) 1 [])"

definition pick :: "string \<Rightarrow> string list \<Rightarrow> string" where
  "pick name ps = nth_or (split_on (CHR ''='')
     (nth_or (filter (\<lambda>item. name = nth_or (split_on (CHR ''='') item) 0 []) ps) 0 [])) 1 []"

lemma getParameter_pick: "getParameter u n = pick n (query_params u)"
  by (simp add: getParameter_def pick_def query_params_def Let_def)

definition has_param :: "string \<Rightarrow> string list \<Rightarrow> bool" where
  "has_param name ps \<longleftrightarrow> (\<exists>p \<in> set ps. nth_or (split_on (CHR ''='') p) 0 [] = name)"

lemma pick_append:
  "pick n (ps @ qs) = (if has_param n ps then pick n ps else pick n qs)"
proof (cases "has_param n ps")
  case True
  then have "filter (\<lambda>item. n = nth_or (split_on (CHR ''='') item) 0 []) ps \<noteq> []"
    by (auto simp: has_param_def filter_empty_conv)
  with True show ?thesis
    by (cases "filter (\<lambda>item. n = nth_or (split_on (CHR ''='') item) 0 []) ps") (auto simp: pick_def)
next
  case False
  then have "filter (\<lambda>item. n = nth_or (split_on (CHR ''='') item) 0 []) ps = []"
    by (auto simp: has_param_def filter_empty_conv)
  with False show ?thesis by (simp add: pick_def)
qed

lemma pick_absent: "\<not> has_param n ps \<Longrightarrow> pick n ps = []"
  using pick_append[of n "ps" "[]"] by (simp add: pick_def[of n "[]"])

lemma pick_single:
  assumes "CHR ''='' \<notin> set k" "CHR ''='' \<notin> set v"
  shows "pick n [k @ CHR ''='' # v] = (if n = k then v else [])" "has_param n [k @ CHR ''='' # v] \<longleftrightarrow> n = k"
  using assms by (auto simp: pick_def has_param_def split_on_append_sep split_on_free)

text \<open>Two parameters appended to a query are found, and nothing else changes.\<close>

lemma pick_two:
  assumes "qs = ps @ [k1 @ CHR ''='' # v1] @ [k2 @ CHR ''='' # v2]"
    and "CHR ''='' \<notin> set k1" "CHR ''='' \<notin> set v1" "CHR ''='' \<notin> set k2" "CHR ''='' \<notin> set v2"
    and "k1 \<noteq> k2" "\<not> has_param k1 ps" "\<not> has_param k2 ps"
  shows "pick k1 qs = v1 \<and> pick k2 qs = v2 \<and> (\<forall>n. n \<notin> {k1, k2} \<longrightarrow> pick n qs = pick n ps)"
proof -
  note single = pick_single[OF assms(2,3)] pick_single[OF assms(4,5)]
  have "pick n qs = (if has_param n ps then pick n ps else if n = k1 then v1 else if n = k2 then v2 else [])" for n
    unfolding assms(1) pick_append single by simp
  then show ?thesis using assms(6-8) pick_absent by auto
qed

lemma query_params_with_token:
  assumes "CHR ''?'' \<notin> set p" "CHR ''?'' \<notin> set q" "url_safe (to_str tok)"
  shows "query_params (with_access_token (p @ ''?'' @ q) tok) = split_on (CHR ''&'') q @ [''accessToken'' @ CHR ''='' # to_str tok]"
proof -
  let ?ps = "split_on (CHR ''&'') q @ [''accessToken='' @ to_str tok]"
  have fr: "CHR ''&'' \<notin> set x" "CHR ''?'' \<notin> set x" if "x \<in> set ?ps" for x
    using that assms split_on_pieces_free[of x "CHR ''&''" q] split_on_pieces_subset[of x "CHR ''&''" q]
    by (auto simp: url_safe_def)
  have "CHR ''?'' \<notin> set (join ''&'' ?ps)" by (rule join_free) (use fr in auto)
  moreover have "split_on (CHR ''&'') (join ''&'' ?ps) = ?ps" by (rule split_on_join) (use fr in auto)
  ultimately show ?thesis
    using assms by (simp add: with_access_token_def query_params_def split_on_append_sep split_on_free Let_def)
qed

lemma query_params_split:
  "CHR ''?'' \<notin> set p \<Longrightarrow> CHR ''?'' \<notin> set q \<Longrightarrow> query_params (p @ CHR ''?'' # q) = split_on (CHR ''&'') q"
  by (simp add: query_params_def split_on_append_sep split_on_free)

lemma split_on_append_piece:
  assumes "c \<notin> set x"
  shows "split_on c (q @ c # x) = split_on c q @ [x]"
proof (induction q)
  case Nil
  then show ?case using assms by (simp add: split_on_free)
next
  case (Cons a q)
  then show ?case using assms by (cases "split_on c q") auto
qed

section \<open>Properties\<close>

lemma tenant_url_params:
  assumes "CHR ''?'' \<notin> set p" "CHR ''?'' \<notin> set q" "url_safe (to_str tok)" "url_safe tenant"
  shows "query_params (with_access_token ((p @ ''?'' @ q) @ ''&tenant='' @ tenant) tok) =
    split_on (CHR ''&'') q @ [''tenant'' @ CHR ''='' # tenant] @ [''accessToken'' @ CHR ''='' # to_str tok]"
proof -
  have t: "CHR ''?'' \<notin> set (q @ ''&tenant='' @ tenant)" "CHR ''&'' \<notin> set (''tenant='' @ tenant)"
    using assms by (auto simp: url_safe_def)
  have "split_on (CHR ''&'') (q @ ''&tenant='' @ tenant) = split_on (CHR ''&'') q @ [''tenant='' @ tenant]"
    using split_on_append_piece[OF t(2), of q] by simp
  then show ?thesis
    using query_params_with_token[OF assms(1) t(1) assms(3)] by simp
qed

lemma console_request_url:
  assumes "read_token b = Inr (b', tok)" and "lib_tenant b = Inr tenant"
    and "c_url c = p @ ''?'' @ q" and "CHR ''?'' \<notin> set p" and "CHR ''?'' \<notin> set q"
    and "str_includes q ''dataId''" and "url_safe (to_str tok)" and "url_safe tenant"
    and "\<not> has_param ''tenant'' (query_params (c_url c))" and "\<not> has_param ''accessToken'' (query_params (c_url c))"
  shows "\<exists>call. console_request pv b c = Inr (b', Sent call) \<and>
    getParameter (a_url call) ''tenant'' = tenant \<and>
    getParameter (a_url call) ''accessToken'' = to_str tok \<and>
    (\<forall>n. n \<notin> {''tenant'', ''accessToken''} \<longrightarrow> getParameter (a_url call) n = getParameter (c_url c) n)"
proof -
  obtain call where call: "console_request pv b c = Inr (b', Sent call)"
    "a_url call = with_access_token (c_url c @ ''&tenant='' @ tenant) tok"
    using console_request_unfold[OF assms(1,2), of pv c] assms(3-6)
    by (auto simp: split_on_append_sep split_on_free)
  have "query_params (a_url call) = query_params (c_url c)
      @ [''tenant'' @ CHR ''='' # tenant] @ [''accessToken'' @ CHR ''='' # to_str tok]"
    using tenant_url_params[OF assms(4,5,7,8)] by (simp add: call(2) assms(3) query_params_split[OF assms(4,5)])
  then have "pick ''tenant'' (query_params (a_url call)) = tenant \<and>
      pick ''accessToken'' (query_params (a_url call)) = to_str tok \<and>
      (\<forall>n. n \<notin> {''tenant'', ''accessToken''} \<longrightarrow> pick n (query_params (a_url call)) = pick n (query_params (c_url c)))"
    by (rule pick_two) (use assms(7-10) in \<open>simp_all add: url_safe_def\<close>)
  with call(1) show ?thesis unfolding getParameter_pick by blast
qed

text \<open>
  C6: a configuration request (its query names a \<open>dataId\<close>) goes out with the tenant of the
  current namespace and the access token of the stored login, and every parameter the caller
  wrote reads as before.
\<close>

theorem request_url_carries_tenant_and_token:
  assumes "read_token b = Inr (b', tok)" and "lib_tenant b = Inr tenant"
    and "c_url c = p @ ''?'' @ q" and "CHR ''?'' \<notin> set p" and "CHR ''?'' \<notin> set q"
    and "str_includes q ''dataId''" and "url_safe (to_str tok)" and "url_safe tenant"
    and "\<not> has_param ''tenant'' (query_params (c_url c))" and "\<not> has_param ''accessToken'' (query_params (c_url c))"
  shows "\<exists>call. console_request pv b c = Inr (b', Sent call) \<and>
    getParameter (a_url call) ''tenant'' = tenant \<and>
    getParameter (a_url call) ''accessToken'' = to_str tok \<and>
    (\<forall>n. n \<notin> {''tenant'', ''accessToken''} \<longrightarrow> getParameter (a_url call) n = getParameter (c_url c) n)"
  by (rule console_request_url[OF assms])

definition sample_token :: string where
  "sample_token = ''{'' @ quote ''accessToken'' @ '':'' @ quote ''abc.def'' @ ''}''"

definition sample_login :: browser where
  "sample_login = sample_browser\<lparr>storage := [(''token'', sample_token), (''namespace'', ''public'')],
     nownamespace := ''dev'', cookie := ''x=1; XSRF-TOKEN=s3''\<rparr>"

definition sample_config :: config where
  "sample_config = \<lparr>c_url = ''v1/cs/configs?dataId=a&group=G'', c_type = Some ''POST'', c_method = None, c_data = Obj [(''desc'', Str ''d'')],
     c_dollar_data = Undefined, c_dataType = None, c_contentType = None, c_processData = None,
     c_success = UserFn 0, c_error = NoHandler, c_complete = NoHandler, c_beforeSend = NoHandler\<rparr>"

lemma sample_login_facts:
  "read_token sample_login = Inr (sample_login, Str ''abc.def'')"
  "lib_tenant sample_login = Inr ''dev''"
  "aliwareGetCookieByKeyName sample_login ''XSRF-TOKEN'' = ''s3''"
  by code_simp+

theorem request_url_carries_tenant_and_token_witness:
  "\<exists>call. console_request False sample_login sample_config = Inr (sample_login, Sent call) \<and>
    getParameter (a_url call) ''tenant'' = ''dev'' \<and> getParameter (a_url call) ''accessToken'' = ''abc.def''"
proof -
  have h: "c_url sample_config = ''v1/cs/configs'' @ ''?'' @ ''dataId=a&group=G''"
    "CHR ''?'' \<notin> set ''v1/cs/configs''" "CHR ''?'' \<notin> set ''dataId=a&group=G''"
    "str_includes ''dataId=a&group=G'' ''dataId''" "url_safe (to_str (Str ''abc.def''))" "url_safe ''dev''"
    "\<not> has_param ''tenant'' (query_params (c_url sample_config))"
    "\<not> has_param ''accessToken'' (query_params (c_url sample_config))"
    by code_simp+
  show ?thesis
    using request_url_carries_tenant_and_token[OF sample_login_facts(1,2) h, of False] by auto
qed



text \<open>
  C28: the two pipelines, each with its own messages and its own way to the login page, compared on
  the same failed response. jQuery gives its handler the parsed body as \<open>responseJSON\<close> and leaves it
  undefined for a text that is no JSON; axios gives the parsed body, or else the text. For a body that is
  an object both leave the browser in the same state, and both show its message; that state is the login
  page without the token exactly when the status is 401 or 403 and the message is one of the three.
  For a text that is no JSON only axios looks at it: the jQuery pipeline stays where it is and shows nothing.
\<close>

theorem failure_handling_compared:
  assumes "\<And>t v. parse_json t = Inr v \<Longrightarrow> responseJSON t = v \<and> data t = v"
    and "\<And>t. parse_json t = Inl SyntaxError \<Longrightarrow> responseJSON t = Undefined \<and> data t = Str t"
  shows "(parse_json t = Inr (Obj kvs) \<longrightarrow>
      (\<exists>b'. axios_failed (Some (status, data t)) b = Inr (b', field (Obj kvs) ''message'') \<and>
        request_failed status (responseJSON t) b = Inr (b', filter truthy [field (Obj kvs) ''message'']) \<and>
        b' = (if status \<in> {401, 403} \<and> field (Obj kvs) ''message'' \<in> {Str ''unknown user!'', Str ''token invalid!'', Str ''token expired!''}
              then (removeItem ''token'' b)\<lparr>href := base_url (href b) @ ''#/login''\<rparr> else b))) \<and>
    (parse_json t = Inl SyntaxError \<longrightarrow>
      request_failed status (responseJSON t) b = Inr (b, []) \<and>
      axios_failed (Some (status, data t)) b =
        Inr (if status \<in> {401, 403} \<and> t \<in> {''unknown user!'', ''token invalid!'', ''token expired!''}
             then (removeItem ''token'' b)\<lparr>href := base_url (href b) @ ''#/login''\<rparr> else b, Str t))"
proof (intro conjI impI)
  assume "parse_json t = Inr (Obj kvs)"
  then have "responseJSON t = Obj kvs" "data t = Obj kvs" using assms(1) by blast+
  then show "\<exists>b'. axios_failed (Some (status, data t)) b = Inr (b', field (Obj kvs) ''message'') \<and>
      request_failed status (responseJSON t) b = Inr (b', filter truthy [field (Obj kvs) ''message'']) \<and>
      b' = (if status \<in> {401, 403} \<and> field (Obj kvs) ''message'' \<in> {Str ''unknown user!'', Str ''token invalid!'', Str ''token expired!''}
            then (removeItem ''token'' b)\<lparr>href := base_url (href b) @ ''#/login''\<rparr> else b)"
    by (simp add: axios_failed_def request_failed_def login_messages_def axios_login_messages_def goLogin_def axios_goLogin_def base_url_def Let_def)
next
  assume "parse_json t = Inl SyntaxError"
  then have r: "responseJSON t = Undefined" "data t = Str t" using assms(2) by blast+
  then show "request_failed status (responseJSON t) b = Inr (b, [])"
    by (simp add: request_failed_def login_messages_def field_def)
  show "axios_failed (Some (status, data t)) b =
      Inr (if status \<in> {401, 403} \<and> t \<in> {''unknown user!'', ''token invalid!'', ''token expired!''}
           then (removeItem ''token'' b)\<lparr>href := base_url (href b) @ ''#/login''\<rparr> else b, Str t)"
    by (simp add: r axios_failed_def axios_login_messages_def axios_goLogin_def base_url_def Let_def)
qed

definition parsed_or :: "(string \<Rightarrow> jv) \<Rightarrow> string \<Rightarrow> jv" where
  "parsed_or d t = (case parse_json t of Inr v \<Rightarrow> v | Inl _ \<Rightarrow> d t)"

theorem failure_handling_compared_witness:
  "request_failed 403 (parsed_or (\<lambda>_. Undefined) ''token expired!'') sample_login = Inr (sample_login, []) \<and>
   axios_failed (Some (403, parsed_or Str ''token expired!'')) sample_login =
     Inr ((removeItem ''token'' sample_login)\<lparr>href := base_url (href sample_login) @ ''#/login''\<rparr>, Str ''token expired!'')"
proof -
  have p: "parse_json ''token expired!'' = Inl SyntaxError" by code_simp
  from failure_handling_compared[of "parsed_or (\<lambda>_. Undefined)" "parsed_or Str" "''token expired!''" _ 403 sample_login] p
  show ?thesis by (simp add: parsed_or_def)
qed

lemma axios_goLogin_same: "axios_goLogin b = goLogin b"
  by (simp add: axios_goLogin_def goLogin_def base_url_def Let_def)

lemma axios_token_same: "axios_token b = read_token b"
  unfolding axios_token_def read_token_def axios_goLogin_same ..

lemma base_url_prefix: "CHR ''#'' \<notin> set (base_url u)"
proof -
  have "base_url u \<in> set (split_on (CHR ''#'') u)"
    by (cases "split_on (CHR ''#'') u") (simp_all add: base_url_def)
  then show ?thesis by (rule split_on_pieces_free)
qed

lemma base_url_append: "CHR ''#'' \<notin> set p \<Longrightarrow> base_url (p @ CHR ''#'' # q) = p"
  by (simp add: base_url_def split_on_append_sep)

text \<open>
  \<open>goLogin\<close> forgets the token, shows the login route on the same page and is idempotent.
\<close>

theorem goLogin_state:
  "getItem (goLogin b) ''token'' = None \<and> hash (goLogin b) = ''#/login'' \<and>
   base_url (href (goLogin b)) = base_url (href b) \<and> goLogin (goLogin b) = goLogin b"
proof -
  have h: "hash (goLogin b) = ''#/login''"
    using hash_of_append[OF base_url_prefix, of "''#/login''" "href b"] by (simp add: hash_def goLogin_def)
  have d: "AList.delete k (AList.delete k kvs) = AList.delete k kvs" for k and kvs :: "string obj"
    by (rule delete_idem)
  show ?thesis
    using h base_url_append[OF base_url_prefix, of "href b" "''/login''"]
    by (simp add: goLogin_def getItem_def removeItem_def d delete_conv')
qed

text \<open>
  while a permission dialog is open no second one opens: a further answer with code 403 is
  passed to the caller's own success handler.
\<close>

theorem one_permission_dialog:
  assumes "field r1 ''code'' = num 403" and "field r2 ''code'' = num 403" and "\<not> hasAlert s"
  shows "run_handler h (GuardSuccess (UserFn n)) r2 (snd (run_handler h (GuardSuccess (UserFn n)) r1 s)) =
    (None, s\<lparr>hasAlert := True, shown := shown s @ [AlertDialog (field r1 ''message''), CallHandler n r2]\<rparr>)"
  using assms by (cases r1; cases r2) (simp_all add: emit_ui_def Let_def field_def)

theorem one_permission_dialog_witness:
  "run_handler ''h'' (GuardSuccess (UserFn 7)) (Obj [(''code'', num 403)])
     (snd (run_handler ''h'' (GuardSuccess (UserFn 7)) (Obj [(''code'', num 403), (''message'', Str ''no'')]) \<lparr>hasAlert = False, shown = []\<rparr>)) =
   (None, \<lparr>hasAlert = True, shown = [AlertDialog (Str ''no''), CallHandler 7 (Obj [(''code'', num 403)])]\<rparr>)"
  using one_permission_dialog[of "Obj [(''code'', num 403), (''message'', Str ''no'')]" "Obj [(''code'', num 403)]"
      "\<lparr>hasAlert = False, shown = []\<rparr>" "''h''" 7]
  by (simp add: field_def)

text \<open>
  on an HTTP 403 the error guard throws before any dialog opens and leaves the flag set, so
  the next 403 goes to the caller's handler as if a dialog were open.
\<close>

theorem error_403_throws:
  assumes "field r ''status'' = num 403" and "\<not> hasAlert s"
  shows "run_handler h (GuardError (UserFn n)) r s = (Some TypeError, s\<lparr>hasAlert := True\<rparr>) \<and>
    run_handler h (GuardError (UserFn n)) r (s\<lparr>hasAlert := True\<rparr>) =
      (None, s\<lparr>hasAlert := True, shown := shown s @ [CallHandler n r]\<rparr>)"
  using assms by (simp add: emit_ui_def)

theorem error_403_throws_witness:
  "run_handler ''h'' (GuardError (UserFn 1)) (Obj [(''status'', num 403)]) \<lparr>hasAlert = False, shown = []\<rparr>
     = (Some TypeError, \<lparr>hasAlert = True, shown = []\<rparr>)"
  using error_403_throws[of "Obj [(''status'', num 403)]" "\<lparr>hasAlert = False, shown = []\<rparr>" "''h''" 1]
  by (simp add: field_def)

end
