(* ===== verification/Redux_Store.thy ===== *)
theory Redux_Store
  imports Ajax_Request
begin

text \<open>
  The redux store: the action types of \<^verbatim>\<open>constants.js\<close>, the six reducers of \<^verbatim>\<open>reducers/\<close>, their
  combination and the thunks. A slice of the state and an action are plain objects, so that
  the spreads of the source (\<open>{ ...state, ...action.data }\<close>) are \<^const>\<open>obj_assign\<close>. A thunk is
  the API call it makes and the actions it dispatches for each outcome of the call.
\<close>

section \<open>Constants\<close>

definition LANGUAGE_KEY :: string where "LANGUAGE_KEY = ''docsite_language''"
definition LANGUAGE_SWITCH :: string where "LANGUAGE_SWITCH = ''LANGUAGE_SWITCH''"
definition GET_STATE :: string where "GET_STATE = ''GET_STATE''"
definition GET_SUBSCRIBERS :: string where "GET_SUBSCRIBERS = ''GET_SUBSCRIBERS''"
definition REMOVE_SUBSCRIBERS :: string where "REMOVE_SUBSCRIBERS = ''REMOVE_SUBSCRIBERS''"
definition USER_LIST :: string where "USER_LIST = ''USER_LIST''"
definition ROLE_LIST :: string where "ROLE_LIST = ''ROLE_LIST''"
definition PERMISSIONS_LIST :: string where "PERMISSIONS_LIST = ''PERMISSIONS_LIST''"
definition GET_NAMESPACES :: string where "GET_NAMESPACES = ''GET_NAMESPACES''"
definition GET_CONFIGURATION :: string where "GET_CONFIGURATION = ''GET_CONFIGURATION''"
definition GLOBAL_PAGE_SIZE_LIST :: "nat list" where "GLOBAL_PAGE_SIZE_LIST = [10, 20, 30, 50, 100]"

lemmas action_types = LANGUAGE_SWITCH_def GET_STATE_def GET_SUBSCRIBERS_def REMOVE_SUBSCRIBERS_def
  USER_LIST_def ROLE_LIST_def PERMISSIONS_LIST_def GET_NAMESPACES_def GET_CONFIGURATION_def

type_synonym action = "jv obj"

definition act :: "string \<Rightarrow> jv obj \<Rightarrow> action" where
  "act t kvs = (''type'', Str t) # kvs"

definition act_type :: "action \<Rightarrow> jv" where
  "act_type a = field (Obj a) ''type''"

definition act_data :: "action \<Rightarrow> jv" where
  "act_data a = field (Obj a) ''data''"

definition spread :: "jv obj \<Rightarrow> jv \<Rightarrow> jv obj" where
  "spread state v = obj_assign state (own_props v)"

section \<open>Reducers\<close>

definition empty_page :: jv where
  "empty_page = Obj [(''totalCount'', num 0), (''pageNumber'', num 1), (''pagesAvailable'', num 1), (''pageItems'', Arr [])]"

definition authority_init :: "jv obj" where
  "authority_init = [(''users'', empty_page), (''roles'', empty_page), (''permissions'', empty_page)]"

definition authority :: "jv obj \<Rightarrow> action \<Rightarrow> jv obj" where
  "authority state a =
     (if act_type a = Str USER_LIST then obj_put ''users'' (Obj (spread [] (act_data a))) state
      else if act_type a = Str ROLE_LIST then obj_put ''roles'' (Obj (spread [] (act_data a))) state
      else if act_type a = Str PERMISSIONS_LIST then obj_put ''permissions'' (Obj (spread [] (act_data a))) state
      else state)"

definition base_init :: "jv obj" where
  "base_init = [(''version'', Null), (''standaloneMode'', Str []), (''functionMode'', Str [])]"

definition base :: "jv obj \<Rightarrow> action \<Rightarrow> jv obj" where
  "base state a = (if act_type a = Str GET_STATE then spread state (act_data a) else state)"

definition configuration_init :: "jv obj" where
  "configuration_init = [(''configurations'', Arr [])]"

definition configuration :: "jv obj \<Rightarrow> action \<Rightarrow> jv obj" where
  "configuration state a =
     (if act_type a = Str GET_CONFIGURATION then obj_put ''configurations'' (act_data a) state else state)"

definition namespace_init :: "jv obj" where
  "namespace_init = [(''namespaces'', Arr [])]"

definition namespace :: "jv obj \<Rightarrow> action \<Rightarrow> jv obj" where
  "namespace state a =
     (if act_type a = Str GET_NAMESPACES then obj_put ''namespaces'' (act_data a) state else state)"

definition subscribers_init :: "jv obj" where
  "subscribers_init = [(''subscribers'', Obj [])]"

definition subscribers :: "jv obj \<Rightarrow> action \<Rightarrow> jv obj" where
  "subscribers state a =
     (if act_type a = Str GET_SUBSCRIBERS then spread state (act_data a)
      else if act_type a = Str REMOVE_SUBSCRIBERS then obj_put ''subscribers'' (Obj []) state
      else state)"

text \<open>
  The locale tables: the ones of the component library (\<open>fusion\<close>, a package) overlaid by the
  console's own (\<open>i18n\<close>, \<^verbatim>\<open>locales/\<close>). They are passed as arguments.
\<close>

record tables =
  fusionEnUS :: "jv obj"
  fusionZhCN :: "jv obj"
  i18nEnUS :: "jv obj"
  i18nZhCN :: "jv obj"

definition enUS :: "tables \<Rightarrow> jv" where
  "enUS T = Obj (obj_assign (obj_assign [] (fusionEnUS T)) (i18nEnUS T))"

definition zhCN :: "tables \<Rightarrow> jv" where
  "zhCN T = Obj (obj_assign (obj_assign [] (fusionZhCN T)) (i18nZhCN T))"

definition locale_init :: "tables \<Rightarrow> jv obj" where
  "locale_init T = [(''language'', Str ''en-us''), (''locale'', enUS T)]"

definition locale_reducer :: "jv obj \<Rightarrow> action \<Rightarrow> jv obj" where
  "locale_reducer state a = (if act_type a = Str LANGUAGE_SWITCH then obj_assign state a else state)"

section \<open>The store\<close>

record store =
  locale_slice :: "jv obj"
  base_slice :: "jv obj"
  subscribers_slice :: "jv obj"
  authority_slice :: "jv obj"
  namespace_slice :: "jv obj"
  configuration_slice :: "jv obj"

definition init_store :: "tables \<Rightarrow> store" where
  "init_store T = \<lparr>locale_slice = locale_init T, base_slice = base_init, subscribers_slice = subscribers_init,
     authority_slice = authority_init, namespace_slice = namespace_init, configuration_slice = configuration_init\<rparr>"

definition dispatch_action :: "action \<Rightarrow> store \<Rightarrow> store" where
  "dispatch_action a s =
     \<lparr>locale_slice = locale_reducer (locale_slice s) a, base_slice = base (base_slice s) a,
      subscribers_slice = subscribers (subscribers_slice s) a,
      authority_slice = authority (authority_slice s) a,
      namespace_slice = namespace (namespace_slice s) a,
      configuration_slice = configuration (configuration_slice s) a\<rparr>"

section \<open>Thunks\<close>

record api_call =
  api_verb :: string
  api_path :: string
  api_query :: jv
  api_body :: jv

datatype reply = Resolved jv | Rejected jv

text \<open>
  A thunk: the call, and the actions dispatched for a reply. \<open>None\<close> leaves the promise
  rejected for the caller.
\<close>

record thunk =
  thunk_call :: api_call
  on_reply :: "reply \<Rightarrow> action list option"

definition get_with :: "string \<Rightarrow> jv \<Rightarrow> api_call" where
  "get_with p ps = \<lparr>api_verb = ''get'', api_path = p, api_query = ps, api_body = Undefined\<rparr>"

definition send_body :: "string \<Rightarrow> string \<Rightarrow> jv obj \<Rightarrow> api_call" where
  "send_body v p kvs = \<lparr>api_verb = v, api_path = p, api_query = Undefined, api_body = Obj kvs\<rparr>"

definition delete_with :: "string \<Rightarrow> jv \<Rightarrow> api_call" where
  "delete_with p ps = \<lparr>api_verb = ''delete'', api_path = p, api_query = ps, api_body = Undefined\<rparr>"

definition dispatch_data :: "string \<Rightarrow> reply \<Rightarrow> action list option" where
  "dispatch_data t r = (case r of Resolved d \<Rightarrow> Some [act t [(''data'', d)]] | Rejected _ \<Rightarrow> None)"

definition getUsers :: "jv \<Rightarrow> thunk" where
  "getUsers ps = \<lparr>thunk_call = get_with ''v1/auth/users'' ps, on_reply = dispatch_data USER_LIST\<rparr>"

definition getRoles :: "jv \<Rightarrow> thunk" where
  "getRoles ps = \<lparr>thunk_call = get_with ''v1/auth/roles'' ps, on_reply = dispatch_data ROLE_LIST\<rparr>"

definition getPermissions :: "jv \<Rightarrow> thunk" where
  "getPermissions ps = \<lparr>thunk_call = get_with ''v1/auth/permissions'' ps, on_reply = dispatch_data PERMISSIONS_LIST\<rparr>"

definition getConfigs :: "jv \<Rightarrow> thunk" where
  "getConfigs ps = \<lparr>thunk_call = get_with ''v1/cs/configs'' ps, on_reply = dispatch_data GET_CONFIGURATION\<rparr>"

definition getSubscribers :: "jv \<Rightarrow> thunk" where
  "getSubscribers ps = \<lparr>thunk_call = get_with ''v1/ns/service/subscribers'' ps, on_reply = dispatch_data GET_SUBSCRIBERS\<rparr>"

definition removeSubscribers :: action where
  "removeSubscribers = act REMOVE_SUBSCRIBERS []"

definition getNamespaces :: "jv \<Rightarrow> thunk" where
  "getNamespaces ps = \<lparr>thunk_call = get_with ''v1/console/namespaces'' ps,
     on_reply = (\<lambda>r. case r of
        Resolved response \<Rightarrow>
          Some [act GET_NAMESPACES [(''data'', if field response ''code'' = num 200 then field response ''data'' else Arr [])]]
      | Rejected _ \<Rightarrow> None)\<rparr>"

definition getState :: thunk where
  "getState = \<lparr>thunk_call = get_with ''v1/console/server/state'' Undefined,
     on_reply = (\<lambda>r. Some [act GET_STATE [(''data'', case r of
        Resolved res \<Rightarrow> Obj [(''version'', field res ''version''), (''standaloneMode'', field res ''standalone_mode''),
                            (''functionMode'', field res ''function_mode'')]
      | Rejected _ \<Rightarrow> Obj [(''version'', Null), (''functionMode'', Null)])]])\<rparr>"

definition login :: "jv \<Rightarrow> api_call" where
  "login user = \<lparr>api_verb = ''post'', api_path = ''v1/auth/users/login'', api_query = Undefined, api_body = user\<rparr>"

text \<open>The calls without a dispatch, and the message their success shows (\<open>successMsg\<close>).\<close>

definition successMsg :: "jv \<Rightarrow> jv list" where
  "successMsg res = (if field res ''code'' = num 200 then [field res ''message''] else [])"

definition createUser :: "jv \<Rightarrow> jv \<Rightarrow> api_call" where
  "createUser username password = send_body ''post'' ''v1/auth/users'' [(''username'', username), (''password'', password)]"

definition searchUsers :: "jv \<Rightarrow> api_call" where
  "searchUsers username = get_with ''v1/auth/users/search'' (Obj [(''username'', username)])"

definition deleteUser :: "jv \<Rightarrow> api_call" where
  "deleteUser username = delete_with ''v1/auth/users'' (Obj [(''username'', username)])"

definition passwordReset :: "jv \<Rightarrow> jv \<Rightarrow> api_call" where
  "passwordReset username newPassword =
     send_body ''put'' ''v1/auth/users'' [(''username'', username), (''newPassword'', newPassword)]"

definition searchRoles :: "jv \<Rightarrow> api_call" where
  "searchRoles role = get_with ''v1/auth/roles/search'' (Obj [(''role'', role)])"

definition createRole :: "jv \<Rightarrow> jv \<Rightarrow> api_call" where
  "createRole role username = send_body ''post'' ''v1/auth/roles'' [(''role'', role), (''username'', username)]"

definition deleteRole :: "jv \<Rightarrow> api_call" where
  "deleteRole role = delete_with ''v1/auth/roles'' role"

definition createPermission :: "jv \<Rightarrow> jv \<Rightarrow> jv \<Rightarrow> api_call" where
  "createPermission role resource action =
     send_body ''post'' ''v1/auth/permissions'' [(''role'', role), (''resource'', resource), (''action'', action)]"

definition deletePermission :: "jv \<Rightarrow> api_call" where
  "deletePermission permission = delete_with ''v1/auth/permissions'' permission"

text \<open>\<open>changeLanguage(lang)\<close> writes the choice to \<open>localStorage\<close> and dispatches at once.\<close>

definition norm_language :: "string option \<Rightarrow> string" where
  "norm_language lang = (if lang = Some ''zh-CN'' then ''zh-CN'' else ''en-US'')"

definition changeLanguage :: "tables \<Rightarrow> string option \<Rightarrow> browser \<times> store \<Rightarrow> browser \<times> store" where
  "changeLanguage T lang bs =
     (let language = norm_language lang
      in (setItem LANGUAGE_KEY language (fst bs),
          dispatch_action (act LANGUAGE_SWITCH [(''language'', Str language),
            (''locale'', if language = ''zh-CN'' then zhCN T else enUS T)]) (snd bs)))"

definition run_thunk :: "thunk \<Rightarrow> reply \<Rightarrow> store \<Rightarrow> store" where
  "run_thunk t r s = (case on_reply t r of None \<Rightarrow> s | Some as \<Rightarrow> fold dispatch_action as s)"

section \<open>Properties\<close>

lemma act_simps [simp]:
  "act_type (act t kvs) = Str t"
  "act_data (act t [(''data'', d)]) = d"
  by (simp_all add: act_type_def act_data_def act_def field_def)

text \<open>The slice each action type belongs to; other types belong to none.\<close>

datatype slice = Locale | Base | Subscribers | Authority | Namespace | Configuration

definition owner :: "jv \<Rightarrow> slice option" where
  "owner t = (if t = Str LANGUAGE_SWITCH then Some Locale else if t = Str GET_STATE then Some Base
     else if t = Str GET_SUBSCRIBERS \<or> t = Str REMOVE_SUBSCRIBERS then Some Subscribers
     else if t = Str USER_LIST \<or> t = Str ROLE_LIST \<or> t = Str PERMISSIONS_LIST then Some Authority
     else if t = Str GET_NAMESPACES then Some Namespace
     else if t = Str GET_CONFIGURATION then Some Configuration else None)"

lemma action_types_distinct:
  "distinct [LANGUAGE_SWITCH, GET_STATE, GET_SUBSCRIBERS, REMOVE_SUBSCRIBERS, USER_LIST, ROLE_LIST,
     PERMISSIONS_LIST, GET_NAMESPACES, GET_CONFIGURATION]"
  by code_simp

fun slice_of :: "slice \<Rightarrow> store \<Rightarrow> jv obj" where
  "slice_of Locale s = locale_slice s"
| "slice_of Base s = base_slice s"
| "slice_of Subscribers s = subscribers_slice s"
| "slice_of Authority s = authority_slice s"
| "slice_of Namespace s = namespace_slice s"
| "slice_of Configuration s = configuration_slice s"

lemmas reducer_defs = dispatch_action_def locale_reducer_def base_def subscribers_def authority_def
  namespace_def configuration_def

definition sample_tables :: tables where
  "sample_tables = \<lparr>fusionEnUS = [], fusionZhCN = [], i18nEnUS = [(''login'', Str ''Login'')], i18nZhCN = []\<rparr>"

text \<open>
  an action changes at most the slice that owns its type, and an action of an unknown type
  changes nothing.
\<close>

theorem dispatch_only_owner:
  "(owner (act_type a) \<noteq> Some sl \<longrightarrow> slice_of sl (dispatch_action a s) = slice_of sl s) \<and>
   (owner (act_type a) = None \<longrightarrow> dispatch_action a s = s)"
proof -
  have "locale_reducer (locale_slice s) a = locale_slice s" if "owner (act_type a) \<noteq> Some Locale"
    using that by (auto simp: owner_def locale_reducer_def)
  moreover have "base (base_slice s) a = base_slice s" if "owner (act_type a) \<noteq> Some Base"
    using that action_types_distinct by (auto simp: owner_def base_def)
  moreover have "subscribers (subscribers_slice s) a = subscribers_slice s" if "owner (act_type a) \<noteq> Some Subscribers"
    using that action_types_distinct by (auto simp: owner_def subscribers_def)
  moreover have "authority (authority_slice s) a = authority_slice s" if "owner (act_type a) \<noteq> Some Authority"
    using that action_types_distinct by (auto simp: owner_def authority_def)
  moreover have "namespace (namespace_slice s) a = namespace_slice s" if "owner (act_type a) \<noteq> Some Namespace"
    using that action_types_distinct by (auto simp: owner_def namespace_def)
  moreover have "configuration (configuration_slice s) a = configuration_slice s" if "owner (act_type a) \<noteq> Some Configuration"
    using that action_types_distinct by (auto simp: owner_def configuration_def)
  ultimately show ?thesis by (cases sl) (simp_all add: dispatch_action_def)
qed

theorem dispatch_only_owner_witness:
  "slice_of Base (dispatch_action removeSubscribers (init_store (sample_tables))) = base_init \<and>
   dispatch_action (act ''other'' []) (init_store (sample_tables)) = init_store sample_tables"
  using dispatch_only_owner[of removeSubscribers Base "init_store sample_tables"]
    dispatch_only_owner[of "act ''other'' []" Base "init_store sample_tables"]
  by (simp add: removeSubscribers_def owner_def action_types init_store_def)

text \<open>
  the lists of the console are what the server sent last. After a resolved call the users,
  roles and permissions are the fields of the response, the namespaces are its data or empty
  when its code is not 200, and a rejected call leaves the store as it was.
\<close>

theorem lists_follow_responses:
  assumes "distinct (map fst kvs)" and "''__proto__'' \<notin> fst ` set kvs"
  shows "field (field (Obj (authority_slice (run_thunk (getUsers ps) (Resolved (Obj kvs)) s))) ''users'') k = field (Obj kvs) k
    \<and> field (field (Obj (authority_slice (run_thunk (getRoles ps) (Resolved (Obj kvs)) s))) ''roles'') k = field (Obj kvs) k
    \<and> field (field (Obj (authority_slice (run_thunk (getPermissions ps) (Resolved (Obj kvs)) s))) ''permissions'') k = field (Obj kvs) k
    \<and> field (Obj (namespace_slice (run_thunk (getNamespaces ps) (Resolved (Obj kvs)) s))) ''namespaces'' =
        (if field (Obj kvs) ''code'' = num 200 then field (Obj kvs) ''data'' else Arr [])
    \<and> run_thunk (getNamespaces ps) (Rejected v) s = s \<and> run_thunk (getUsers ps) (Rejected v) s = s"
proof -
  have "map_of kvs ''__proto__'' = None" using assms(2) by (simp add: map_of_eq_None_iff)
  then have "field (Obj (obj_assign [] kvs)) k = field (Obj kvs) k" for k
    using map_of_obj_assign[OF assms(1), of "[]" k] by (cases "map_of kvs k") (auto simp: field_def)
  then show ?thesis
    by (simp add: run_thunk_def getUsers_def getRoles_def getPermissions_def getNamespaces_def dispatch_data_def
        reducer_defs action_types spread_def own_props_def field_def[of "Obj (obj_put _ _ _)"] map_of_obj_put)
qed

theorem lists_follow_responses_witness:
  "field (field (Obj (authority_slice (run_thunk (getUsers Null) (Resolved (Obj [(''totalCount'', num 4)]))
     (init_store sample_tables)))) ''users'') ''totalCount'' = num 4"
  using lists_follow_responses[of "[(''totalCount'', num 4)]" Null "init_store sample_tables" "''totalCount''" Null]
  by (simp add: field_def)

text \<open>
  C29: the language survives a reload. After \<open>changeLanguage\<close> the store shows one of the two
  languages with its own table, \<open>localStorage\<close> holds the same language, the other slices are as
  before, and mounting the application again from that storage gives the same language and table.
\<close>

theorem language_persisted:
  "let (b', s') = changeLanguage T lang (b, s)
   in field (Obj (locale_slice s')) ''language'' = Str (norm_language lang) \<and>
      field (Obj (locale_slice s')) ''locale'' = (if lang = Some ''zh-CN'' then zhCN T else enUS T) \<and>
      getItem b' LANGUAGE_KEY = Some (norm_language lang) \<and>
      s'\<lparr>locale_slice := locale_slice s\<rparr> = s \<and>
      (let s'' = snd (changeLanguage T (getItem b' LANGUAGE_KEY) (b', init_store T))
       in field (Obj (locale_slice s'')) ''language'' = field (Obj (locale_slice s')) ''language'' \<and>
          field (Obj (locale_slice s'')) ''locale'' = field (Obj (locale_slice s')) ''locale'')"
proof -
  have n: "norm_language (Some (norm_language lang)) = norm_language lang"
    by (simp add: norm_language_def)
  have l: "field (Obj (locale_reducer sl (act LANGUAGE_SWITCH [(''language'', v), (''locale'', w)]))) ''language'' = v \<and>
      field (Obj (locale_reducer sl (act LANGUAGE_SWITCH [(''language'', v), (''locale'', w)]))) ''locale'' = w" for sl v w
    by (simp add: locale_reducer_def act_def act_type_def field_def obj_assign_def map_of_obj_put)
  have o: "(dispatch_action (act LANGUAGE_SWITCH kvs) s)\<lparr>locale_slice := locale_slice s\<rparr> = s" for kvs
    by (simp add: reducer_defs action_types)
  show ?thesis
    using n o by (auto simp: changeLanguage_def Let_def l getItem_def setItem_def dispatch_action_def norm_language_def
        update_conv' split: if_splits)
qed

text \<open>The keys a slice starts with stay, without duplicates, and the three pages of the authority slice stay objects.\<close>

definition has_keys :: "jv obj \<Rightarrow> jv obj \<Rightarrow> bool" where
  "has_keys init kvs \<longleftrightarrow> distinct (map fst kvs) \<and> fst ` set init \<subseteq> fst ` set kvs"

definition store_typed :: "tables \<Rightarrow> store \<Rightarrow> bool" where
  "store_typed T s \<longleftrightarrow> has_keys (locale_init T) (locale_slice s) \<and> has_keys base_init (base_slice s) \<and>
     has_keys subscribers_init (subscribers_slice s) \<and> has_keys authority_init (authority_slice s) \<and>
     has_keys namespace_init (namespace_slice s) \<and> has_keys configuration_init (configuration_slice s) \<and>
     (\<forall>k \<in> {''users'', ''roles'', ''permissions''}. is_obj (field (Obj (authority_slice s)) k))"

lemma has_keys_put: "has_keys i kvs \<Longrightarrow> has_keys i (obj_put k v kvs)"
  using keys_obj_put[of k v kvs] by (auto simp: has_keys_def distinct_obj_put)

lemma has_keys_assign: "has_keys i kvs \<Longrightarrow> has_keys i (obj_assign kvs ps)"
  by (induction ps arbitrary: kvs) (auto simp: has_keys_put)

lemma put_page: "is_obj (field (Obj state) k) \<Longrightarrow> is_obj (field (Obj (obj_put j (Obj x) state)) k)"
  by (simp add: field_def map_of_obj_put)

lemma authority_pages: "is_obj (field (Obj state) k) \<Longrightarrow> is_obj (field (Obj (authority state a)) k)"
  by (simp add: authority_def put_page)

lemma reducer_keys:
  "has_keys i s \<Longrightarrow> has_keys i (locale_reducer s a)" "has_keys i s \<Longrightarrow> has_keys i (base s a)"
  "has_keys i s \<Longrightarrow> has_keys i (subscribers s a)" "has_keys i s \<Longrightarrow> has_keys i (authority s a)"
  "has_keys i s \<Longrightarrow> has_keys i (namespace s a)" "has_keys i s \<Longrightarrow> has_keys i (configuration s a)"
  by (simp_all add: locale_reducer_def base_def subscribers_def authority_def namespace_def configuration_def spread_def
      has_keys_put has_keys_assign)

lemma dispatch_typed: "store_typed T s \<Longrightarrow> store_typed T (dispatch_action a s)"
  by (simp add: store_typed_def dispatch_action_def reducer_keys authority_pages)

lemma init_typed: "store_typed T (init_store T)"
  by (simp add: store_typed_def init_store_def has_keys_def locale_init_def base_init_def subscribers_init_def authority_init_def
      namespace_init_def configuration_init_def empty_page_def field_def)

text \<open>
  C30: whatever actions are dispatched, of known types or not and with any data, every slice of the
  store keeps the entries it started with, once each, and the users, roles and permissions stay
  objects, so a page that reads \<open>users.pageItems\<close> never reads a property of null or undefined.
\<close>

theorem store_keeps_types: "store_typed T (fold dispatch_action as (init_store T))"
proof -
  have "store_typed T s \<Longrightarrow> store_typed T (fold dispatch_action as s)" for s
    by (induction as arbitrary: s) (auto simp: dispatch_typed)
  then show ?thesis using init_typed by blast
qed

end
