(* ===== verification/Page_Core.thy ===== *)
theory Page_Core
  imports Redux_Store
begin

text \<open>
  What the pages share: reading a parameter of the location, the effects a handler asks for,
  and the links between pages. A handler is a function on the page's state and the browser; it
  returns the new state with the list of effects it requested in order, or the error it throws.
  The continuation of a request (its \<open>success\<close>, \<open>error\<close> and \<open>complete\<close> handlers) is a function
  of its own. \<open>setState\<close> is applied at once, which is how the handlers of the console read it.
\<close>

section \<open>Sequencing and parameters\<close>

definition and_then :: "'e + 'a \<Rightarrow> ('a \<Rightarrow> 'e + 'b) \<Rightarrow> 'e + 'b" where
  "and_then r f = (case r of Inl e \<Rightarrow> Inl e | Inr x \<Rightarrow> f x)"

lemma and_then_simps [simp]: "and_then (Inr x) f = f x" "and_then (Inl e) f = Inl e"
  by (simp_all add: and_then_def)

lemma and_then_Inr_iff: "and_then r f = Inr y \<longleftrightarrow> (\<exists>x. r = Inr x \<and> f x = Inr y)"
  by (cases r) auto

text \<open>\<open>getParams(name)\<close> as a value, \<open>getParams(name) || d\<close>, and the truth of a parameter.\<close>

definition param :: "browser \<Rightarrow> string \<Rightarrow> js_error + jv" where
  "param b name = and_then (getParams b name) (\<lambda>r. Inr (case r of None \<Rightarrow> Null | Some s \<Rightarrow> Str s))"

definition param_or :: "browser \<Rightarrow> string \<Rightarrow> string \<Rightarrow> js_error + string" where
  "param_or b name d = and_then (getParams b name) (\<lambda>r. Inr (str_or r d))"

section \<open>Effects\<close>

text \<open>
  A navigation (\<open>history.push\<close>), a request of \<^verbatim>\<open>globalLib.js\<close>, a call of the axios instance
  (with headers of its own), the
  dialogs and messages of the component library, a child dialog opened by its reference, a new
  window, a callback of the properties.
\<close>

datatype effect =
    Push string
  | Go_Back
  | Send config
  | Axios api_call
  | Axios_Headers api_call jv
  | Alert jv jv
  | Confirm jv jv
  | Toast string jv
  | Open_Dialog string jv
  | Open_Window string
  | Callback string "jv list"
  | Reload_Page

definition req :: "string \<Rightarrow> config" where
  "req url = \<lparr>c_url = url, c_type = None, c_method = None, c_data = Undefined, c_dollar_data = Undefined, c_dataType = None,
     c_contentType = None, c_processData = None, c_success = UserFn 0, c_error = NoHandler,
     c_complete = NoHandler, c_beforeSend = NoHandler\<rparr>"

text \<open>\<open>locale.key\<close>, the text of the current language.\<close>

definition tr :: "jv \<Rightarrow> string \<Rightarrow> jv" where
  "tr loc k = field loc k"

section \<open>Links\<close>

text \<open>
  The links are written with template strings, without escaping. \<open>query_text\<close> is the part after
  the question mark.
\<close>

definition kv_text :: "string \<times> string \<Rightarrow> string" where
  "kv_text kv = fst kv @ ''='' @ snd kv"

definition query_text :: "string obj \<Rightarrow> string" where
  "query_text kvs = join ''&'' (map kv_text kvs)"

definition link :: "string \<Rightarrow> string obj \<Rightarrow> string" where
  "link url kvs = url @ ''?'' @ query_text kvs"

text \<open>
  A value that a link carries unharmed: no separator and no percent sign. The router shows a
  pushed path after the number sign.
\<close>

definition link_safe :: "string \<Rightarrow> bool" where
  "link_safe v \<longleftrightarrow> CHR ''?'' \<notin> set v \<and> CHR ''&'' \<notin> set v \<and> CHR ''%'' \<notin> set v"

definition good_link :: "string \<Rightarrow> string obj \<Rightarrow> bool" where
  "good_link url kvs \<longleftrightarrow> CHR ''?'' \<notin> set url \<and> kvs \<noteq> [] \<and> list_all (\<lambda>kv. fst kv \<in> set console_params \<and> link_safe (snd kv)) kvs"

definition arrived :: "browser \<Rightarrow> string \<Rightarrow> bool" where
  "arrived b url \<longleftrightarrow> hash b = ''#'' @ url"

lemma decode_plain: "CHR ''%'' \<notin> set v \<Longrightarrow> decodeURIComponent v = Inr v"
  by (induction v) (auto simp: js_cons_def)

lemma match_param_link:
  assumes "kvs \<noteq> []" "\<forall>kv \<in> set kvs. fst kv \<in> set console_params \<and> CHR ''&'' \<notin> set (snd kv)" "n \<in> set console_params"
  shows "match_param n (query_text kvs) = map_of kvs n"
proof -
  have amp: "CHR ''&'' \<notin> set (kv_text kv)" if "kv \<in> set kvs" for kv
    using assms(2) that good_name_free[OF console_params_good, of "fst kv"] by (auto simp: kv_text_def)
  have "split_on (CHR ''&'') (query_text kvs) = map kv_text kvs"
    unfolding query_text_def by (rule split_on_join) (use amp assms(1) in auto)
  moreover have "filter (hits n) (map kv_text kvs) = map kv_text (filter (\<lambda>kv. fst kv = n) kvs)"
    using assms(2) by (induction kvs) (auto simp: kv_text_def hits_kv[OF _ assms(3)])
  moreover have "map_of kvs n = (case filter (\<lambda>kv. fst kv = n) kvs of [] \<Rightarrow> None | kv # _ \<Rightarrow> Some (snd kv))"
    by (induction kvs) auto
  moreover have "fst kv = n" if "filter (\<lambda>kv. fst kv = n) kvs = kv # r" for kv r
    using that by (auto simp: filter_eq_Cons_iff)
  ultimately show ?thesis
    by (cases "filter (\<lambda>kv. fst kv = n) kvs") (auto simp: match_param_def kv_text_def)
qed

lemma getParams_link:
  assumes "arrived b (link url kvs)" "good_link url kvs" "n \<in> set console_params"
  shows "getParams b n = Inr (map_of kvs n)"
proof -
  have q: "CHR ''?'' \<notin> set (query_text kvs)"
    unfolding query_text_def
  proof (rule join_free)
    show "\<forall>p \<in> set (map kv_text kvs). CHR ''?'' \<notin> set p"
      using assms(2) good_name_free[OF console_params_good]
      by (fastforce simp: good_link_def list_all_iff link_safe_def kv_text_def)
  qed simp
  have h: "hash b = (CHR ''#'' # url) @ CHR ''?'' # query_text kvs"
    using assms(1) by (simp add: arrived_def link_def)
  have "split_on (CHR ''?'') (hash b) = [CHR ''#'' # url, query_text kvs]"
    unfolding h using assms(2) q by (subst split_on_append_sep) (auto simp: good_link_def split_on_free)
  moreover have "match_param n (query_text kvs) = map_of kvs n"
    using assms(2,3) by (intro match_param_link) (auto simp: good_link_def list_all_iff link_safe_def)
  moreover have "decodeURIComponent v = Inr v" if "map_of kvs n = Some v" for v
    using map_of_SomeD[OF that] assms(2) by (intro decode_plain) (auto simp: good_link_def list_all_iff link_safe_def)
  moreover have "list_all word_char n" using console_params_good[OF assms(3)] by (simp add: good_name_def)
  ultimately show ?thesis using h by (auto simp: getParams_def Let_def split: option.splits)
qed

lemma param_or_link:
  assumes "arrived b (link url kvs)" "good_link url kvs" "n \<in> set console_params"
  shows "param_or b n d = Inr (str_or (map_of kvs n) d)"
  using getParams_link[OF assms] by (simp add: param_or_def)

lemma param_link:
  assumes "arrived b (link url kvs)" "good_link url kvs" "n \<in> set console_params"
  shows "param b n = Inr (case map_of kvs n of None \<Rightarrow> Null | Some s \<Rightarrow> Str s)"
  using getParams_link[OF assms] by (simp add: param_def)

text \<open>\<open>generateUrl\<close> writes the same links when no key is an array index.\<close>

lemma generateUrl_link:
  assumes "\<forall>kv \<in> set ps. \<not> is_index_key (fst kv)"
  shows "generateUrl url ps = link url (map (\<lambda>kv. (fst kv, join_str (snd kv))) ps)"
  using key_order_plain[OF assms] by (simp add: generateUrl_def link_def query_text_def kv_text_def o_def)

text \<open>A link read by \<open>getParameter\<close>, which splits but does not decode.\<close>

definition plain_link :: "string \<Rightarrow> string obj \<Rightarrow> bool" where
  "plain_link url kvs \<longleftrightarrow> CHR ''?'' \<notin> set url \<and> kvs \<noteq> [] \<and> list_all (\<lambda>kv. url_safe (fst kv) \<and> url_safe (snd kv)) kvs"

lemma plain_link_free:
  assumes "plain_link url kvs"
  shows "CHR ''?'' \<notin> set (query_text kvs)" "split_on (CHR ''&'') (query_text kvs) = map kv_text kvs"
proof -
  have f: "CHR ''&'' \<notin> set (kv_text kv)" "CHR ''?'' \<notin> set (kv_text kv)" if "kv \<in> set kvs" for kv
    using assms that by (auto simp: plain_link_def list_all_iff url_safe_def kv_text_def)
  show "CHR ''?'' \<notin> set (query_text kvs)" unfolding query_text_def by (rule join_free) (use f in auto)
  show "split_on (CHR ''&'') (query_text kvs) = map kv_text kvs"
    unfolding query_text_def by (rule split_on_join) (use f assms in \<open>auto simp: plain_link_def\<close>)
qed

lemma query_params_link: "plain_link url kvs \<Longrightarrow> query_params (link url kvs) = map kv_text kvs"
  using plain_link_free[of url kvs]
  by (auto simp: query_params_def link_def split_on_append_sep split_on_free plain_link_def)

lemma kv_text_split: "url_safe (fst kv) \<Longrightarrow> url_safe (snd kv) \<Longrightarrow> split_on (CHR ''='') (kv_text kv) = [fst kv, snd kv]"
  by (simp add: kv_text_def url_safe_def split_on_append_sep split_on_free)

lemma getParameter_link:
  assumes "plain_link url kvs"
  shows "getParameter (link url kvs) n = (case map_of kvs n of None \<Rightarrow> [] | Some v \<Rightarrow> v)"
proof -
  have safe: "\<forall>kv \<in> set kvs. url_safe (fst kv) \<and> url_safe (snd kv)"
    using assms by (auto simp: plain_link_def list_all_iff)
  have f: "filter (\<lambda>item. n = nth_or (split_on (CHR ''='') item) 0 []) (map kv_text kvs) =
      map kv_text (filter (\<lambda>kv. n = fst kv) kvs)"
    using safe by (induction kvs) (auto simp: kv_text_split)
  have m: "map_of kvs n = (case filter (\<lambda>kv. n = fst kv) kvs of [] \<Rightarrow> None | kv # _ \<Rightarrow> Some (snd kv))"
    by (induction kvs) auto
  have "set (filter (\<lambda>kv. n = fst kv) kvs) \<subseteq> set kvs" by auto
  then show ?thesis
    using safe unfolding getParameter_pick query_params_link[OF assms] pick_def f m
    by (cases "filter (\<lambda>kv. n = fst kv) kvs") (auto simp: kv_text_split)
qed

lemma has_param_link:
  assumes "plain_link url kvs"
  shows "has_param n (query_params (link url kvs)) \<longleftrightarrow> n \<in> fst ` set kvs"
  using assms unfolding query_params_link[OF assms]
  by (force simp: has_param_def plain_link_def list_all_iff kv_text_split)

lemma console_param_names [simp]:
  "''namespace'' \<in> set console_params" "''serverId'' \<in> set console_params" "''dataId'' \<in> set console_params"
  "''group'' \<in> set console_params" "''appName'' \<in> set console_params" "''edasAppId'' \<in> set console_params"
  "''edasAppName'' \<in> set console_params" "''pageNo'' \<in> set console_params" "''pageSize'' \<in> set console_params"
  "''searchDataId'' \<in> set console_params" "''searchGroup'' \<in> set console_params"
  by (simp_all add: console_params_def)

lemma str_or_same [simp]: "str_or (Some s) [] = s" "str_or None s = s"
  by (simp_all add: str_or_def)

text \<open>A browser whose location shows a link.\<close>

definition at_link :: "string \<Rightarrow> browser" where
  "at_link url = sample_browser\<lparr>href := ''http://h:8848/nacos/#'' @ url\<rparr>"

lemma arrived_at_link [simp]: "url \<noteq> [] \<Longrightarrow> arrived (at_link url) url"
  using hash_of_append[of "''http://h:8848/nacos/''" "CHR ''#'' # url"] by (simp add: arrived_def at_link_def hash_def)

end
