(* ===== verification/Layout.thy ===== *)
theory Layout
  imports Page_Core
begin

text \<open>
  The frame of the console: the globals of \<^verbatim>\<open>lib.js\<close>, the start of the application and its
  routes (\<^verbatim>\<open>index.js\<close>), the menu (\<^verbatim>\<open>layouts/menu.js\<close>), the main layout, the header with the
  language switch and the user name, the login page and the welcome redirect.
\<close>

section \<open>Globals of lib.js\<close>

definition isParentEdas :: "string option \<Rightarrow> bool" where
  "isParentEdas parentHost = (case parentHost of None \<Rightarrow> False | Some h \<Rightarrow> str_includes h ''edas'')"

text \<open>\<open>window._getLink\<close>: the table of links is never filled.\<close>

definition link_obj :: "jv obj" where
  "link_obj = []"

definition get_link :: "string \<Rightarrow> jv" where
  "get_link linkName = js_or (field (Obj link_obj) linkName) (Str [])"

definition frame_height :: "int \<Rightarrow> int" where
  "frame_height clientHeight = (if clientHeight > 800 then clientHeight else 800)"

text \<open>
  The handler of resize events: \<open>self\<close> is its \<open>this\<close>, \<open>pending\<close> the timers that have not run and
  \<open>new\<close> the identifier of the next one. Reading a field of undefined throws, and the handler drops
  the error. The handler is an arrow function at the top of a module, where \<open>this\<close> is undefined.
\<close>

definition on_resize :: "jv \<Rightarrow> int \<Rightarrow> int list \<Rightarrow> jv \<times> int list" where
  "on_resize self new pending =
     (case self of
        Obj kvs \<Rightarrow>
          (let t = field self ''timmer'';
               pending = (if truthy t then filter (\<lambda>i. num i \<noteq> t) pending else pending)
           in (Obj (obj_put ''timmer'' (num new) kvs), pending @ [new]))
      | _ \<Rightarrow> (self, pending))"

definition module_this :: jv where
  "module_this = Undefined"

definition resize_task :: "bool \<Rightarrow> int \<Rightarrow> effect list" where
  "resize_task has_adjust clientHeight =
     (if has_adjust then [Callback ''adjustHeight'' [num (frame_height clientHeight)]] else [])"

definition isIntel :: "browser \<Rightarrow> bool" where
  "isIntel b = str_includes (host b) ''alibabacloud.com''"

section \<open>The menu\<close>

datatype menu_entry =
    Item (entry_key: string) string
  | Group (entry_key: string) "(string \<times> string) list"

definition configurationMenu :: menu_entry where
  "configurationMenu = Group ''configurationManagementVirtual''
     [(''configurationManagement'', ''/configurationManagement''), (''historyRollback'', ''/historyRollback''),
      (''listeningToQuery'', ''/listeningToQuery'')]"

definition authorityControlMenu :: menu_entry where
  "authorityControlMenu = Group ''authorityControl''
     [(''userList'', ''/userManagement''), (''roleManagement'', ''/rolesManagement''),
      (''privilegeManagement'', ''/permissionsManagement'')]"

text \<open>\<open>const { globalAdmin } = isJsonString(token) ? JSON.parse(token) || {} : {}\<close>.\<close>

definition globalAdmin :: "browser \<Rightarrow> jv" where
  "globalAdmin b =
     (let token = (case getItem b ''token'' of None \<Rightarrow> ''{}'' | Some t \<Rightarrow> t)
      in if isJsonString token then
           (case parse_json token of Inr v \<Rightarrow> field (js_or v (Obj [])) ''globalAdmin'' | Inl _ \<Rightarrow> Undefined)
         else Undefined)"

definition getMenuData :: "jv \<Rightarrow> browser \<Rightarrow> menu_entry list" where
  "getMenuData model b =
     (if model = Str ''naming'' then [] else [configurationMenu]) @
     [Group ''serviceManagementVirtual'' [(''serviceManagement'', ''/serviceManagement''), (''subscriberList'', ''/subscriberList'')]] @
     (if truthy (globalAdmin b) then [authorityControlMenu] else []) @
     [Item ''namespace'' ''/namespace'',
      Group ''clusterManagementVirtual'' [(''clusterManagement'', ''/clusterManagement'')]]"

section \<open>The main layout\<close>

definition navTo :: "string \<Rightarrow> string \<Rightarrow> effect" where
  "navTo search url = Push (join [] [url, search])"

definition isCurrentPath :: "string \<Rightarrow> string \<Rightarrow> string option" where
  "isCurrentPath pathname url = (if url = pathname then Some ''current-path'' else None)"

fun children_urls :: "menu_entry \<Rightarrow> string list" where
  "children_urls (Item k u) = []"
| "children_urls (Group k cs) = map snd cs"

fun open_keys_loop :: "string \<Rightarrow> nat \<Rightarrow> menu_entry list \<Rightarrow> string option" where
  "open_keys_loop pathname i [] = None"
| "open_keys_loop pathname i (m # ms) =
     (if filter (\<lambda>url. url = pathname) (children_urls m) \<noteq> [] then Some (nat_str i)
      else open_keys_loop pathname (i + 1) ms)"

definition defaultOpenKeys :: "jv \<Rightarrow> browser \<Rightarrow> string \<Rightarrow> string option" where
  "defaultOpenKeys functionMode b pathname = open_keys_loop pathname 0 (getMenuData functionMode b)"

fun entry_urls :: "menu_entry \<Rightarrow> string list" where
  "entry_urls (Item k u) = (if u \<noteq> [] then [u] else [])"
| "entry_urls (Group k cs) = map snd cs"

definition isShowGoBack :: "jv \<Rightarrow> browser \<Rightarrow> string \<Rightarrow> bool" where
  "isShowGoBack functionMode b pathname =
     (pathname \<notin> set (concat (map entry_urls (getMenuData functionMode b))))"

section \<open>Start and routes\<close>

definition start_language :: "string \<Rightarrow> browser \<Rightarrow> browser" where
  "start_language navigator_language b =
     (if str_or (getItem b LANGUAGE_KEY) [] = []
      then setItem LANGUAGE_KEY (if navigator_language = ''zh-CN'' then ''zh-CN'' else ''en-US'') b else b)"

definition MENU :: "(string \<times> string) list" where
  "MENU = [(''/'', ''Redirect''), (''/welcome'', ''Welcome''), (''/namespace'', ''Namespace''), (''/newconfig'', ''Newconfig''),
     (''/configsync'', ''Configsync''), (''/configdetail'', ''Configdetail''), (''/configeditor'', ''Configeditor''),
     (''/historyDetail'', ''HistoryDetail''), (''/configRollback'', ''ConfigRollback''),
     (''/historyRollback'', ''HistoryRollback''), (''/listeningToQuery'', ''ListeningToQuery''),
     (''/configurationManagement'', ''ConfigurationManagement''), (''/serviceManagement'', ''ServiceList''),
     (''/serviceDetail'', ''ServiceDetail''), (''/subscriberList'', ''SubscriberList''),
     (''/clusterManagement'', ''ClusterNodeList''), (''/userManagement'', ''UserManagement''),
     (''/rolesManagement'', ''RolesManagement''), (''/permissionsManagement'', ''PermissionsManagement'')]"

definition app_mount :: "tables \<Rightarrow> browser \<times> store \<Rightarrow> browser \<times> store" where
  "app_mount T bs = changeLanguage T (getItem (fst bs) LANGUAGE_KEY) bs"

text \<open>The welcome page redirects once the function mode is known.\<close>

definition welcome_page :: "jv \<Rightarrow> string option" where
  "welcome_page functionMode =
     (let path = (if functionMode = Str ''naming'' then ''serviceManagement'' else ''configurationManagement'')
      in if functionMode = Str [] then None else Some (''/'' @ path))"

section \<open>The header\<close>

definition switchLang :: "tables \<Rightarrow> jv \<Rightarrow> browser \<times> store \<Rightarrow> browser \<times> store" where
  "switchLang T language_prop bs =
     (let language = (if language_prop = Undefined then Str ''en-US'' else language_prop);
          currentLanguage = (if language = Str ''en-US'' then ''zh-CN'' else ''en-US'')
      in changeLanguage T (Some currentLanguage) bs)"

definition logout :: "browser \<Rightarrow> browser \<times> effect list" where
  "logout b = (clearStorage b, [Push ''/login''])"

text \<open>
  \<open>window.atob\<close>: ASCII white space is dropped, at most two closing equals signs of a text whose
  length is a multiple of four are dropped, and what is left must be letters of the base64
  alphabet, not one more than a multiple of four of them. Four letters give three bytes.
\<close>

definition b64_val :: "char \<Rightarrow> nat option" where
  "b64_val c = (let n = of_char c in
     if 65 \<le> n \<and> n \<le> 90 then Some (n - 65)
     else if 97 \<le> n \<and> n \<le> 122 then Some (n - 71)
     else if 48 \<le> n \<and> n \<le> 57 then Some (n + 4)
     else if c = CHR ''+'' then Some 62 else if c = CHR ''/'' then Some 63 else None)"

fun b64_bytes :: "nat list \<Rightarrow> string" where
  "b64_bytes (w # x # y # z # r) =
     [char_of (w * 4 + x div 16), char_of (x mod 16 * 16 + y div 4), char_of (y mod 4 * 64 + z)] @ b64_bytes r"
| "b64_bytes [w, x, y] = [char_of (w * 4 + x div 16), char_of (x mod 16 * 16 + y div 4)]"
| "b64_bytes [w, x] = [char_of (w * 4 + x div 16)]"
| "b64_bytes _ = []"

definition b64_trim :: "string \<Rightarrow> string" where
  "b64_trim s = (if length s mod 4 = 0 then
      (if suffix ''=='' s then take (length s - 2) s else if suffix ''='' s then take (length s - 1) s else s)
    else s)"

definition atob :: "string \<Rightarrow> string option" where
  "atob s = (let t = b64_trim (filter (\<lambda>c. (of_char c :: nat) \<notin> {9, 10, 12, 13, 32}) s)
     in if length t mod 4 = 1 then None
        else if list_all (\<lambda>c. b64_val c \<noteq> None) t then Some (b64_bytes (map (the \<circ> b64_val) t)) else None)"

text \<open>\<open>s.replace(c, d)\<close> with a string pattern replaces the first occurrence only.\<close>

fun replace_first :: "char \<Rightarrow> char \<Rightarrow> string \<Rightarrow> string" where
  "replace_first c d [] = []"
| "replace_first c d (x # xs) = (if x = c then d # xs else x # replace_first c d xs)"

text \<open>
  The user name: the value, the browser and whether the page is reloaded. A failure to decode
  deletes the token.
\<close>

definition getUsername :: "browser \<Rightarrow> js_error + jv \<times> browser \<times> effect list" where
  "getUsername b =
     (let token = str_or (getItem b ''token'') [];
          failed = Inr (Str [], removeItem ''token'' b, [Reload_Page])
      in if token = [] then Inr (Str [], b, [])
         else let base64Url = nth_or (split_on (CHR ''.'') token) 1 [];
                  base64 = replace_first (CHR ''_'') (CHR ''/'') (replace_first (CHR ''-'') (CHR ''+'') base64Url)
              in case atob base64 of
                   None \<Rightarrow> failed
                 | Some text \<Rightarrow>
                     (case parse_json text of
                        Inl OutsideModel \<Rightarrow> Inl OutsideModel
                      | Inl _ \<Rightarrow> failed
                      | Inr Null \<Rightarrow> failed
                      | Inr parsedToken \<Rightarrow> Inr (field parsedToken ''sub'', b, [])))"

definition changePassword :: "browser \<Rightarrow> js_error + jv \<times> browser \<times> effect list" where
  "changePassword b = getUsername b"

definition indexAction :: effect where
  "indexAction = Push ''/''"

definition nav_menu :: "jv \<Rightarrow> string \<Rightarrow> (jv \<times> string) list" where
  "nav_menu loc language =
     (let BASE_URL = ''https://nacos.io/'' @ map lower language @ ''/''
      in [(tr loc ''home'', BASE_URL), (tr loc ''docs'', BASE_URL @ ''docs/what-is-nacos.html''),
          (tr loc ''blog'', BASE_URL @ ''blog/index.html''), (tr loc ''community'', BASE_URL @ ''community/index.html'')])"

section \<open>The login page\<close>

definition login_mount :: "browser \<Rightarrow> browser" where
  "login_mount b = (if str_or (getItem b ''token'') [] \<noteq> [] then b\<lparr>href := base_url (href b) @ ''#/''\<rparr> else b)"

text \<open>
  \<open>handleSubmit\<close>: the form library reports errors or the values; the reply stores the token or
  shows one message.
\<close>

definition handleSubmit :: "bool \<Rightarrow> jv \<Rightarrow> effect list" where
  "handleSubmit errors user_values = (if errors then [] else [Axios (login user_values)])"

definition login_replied :: "jv \<Rightarrow> reply \<Rightarrow> browser \<Rightarrow> js_error + browser \<times> effect list" where
  "login_replied loc r b =
     (case r of
        Resolved res \<Rightarrow>
          (case stringify res of
             Text t \<Rightarrow> Inr (setItem ''token'' t b, [Push ''/''])
           | Omit \<Rightarrow> Inr (setItem ''token'' ''undefined'' b, [Push ''/''])
           | NoText \<Rightarrow> Inl OutsideModel)
      | Rejected _ \<Rightarrow> Inr (b, [Toast ''error'' (tr loc ''invalidUsernameOrPassword'')]))"

definition onKeyDown :: "string \<Rightarrow> bool \<Rightarrow> jv \<Rightarrow> effect list" where
  "onKeyDown key errors user_values = (if key = ''Enter'' then handleSubmit errors user_values else [])"

section \<open>Resizing\<close>

lemma resize_step:
  assumes "map_of kvs ''timmer'' = Some (num n)" "n \<noteq> 0"
  shows "\<exists>kvs'. on_resize (Obj kvs) m [n] = (Obj kvs', [m]) \<and> map_of kvs' ''timmer'' = Some (num m)"
proof -
  have "truthy (num n)" using assms(2) by (simp add: not_le)
  then show ?thesis using assms by (simp add: on_resize_def field_def map_of_obj_put)
qed

text \<open>
  A burst of resize events should leave one timer, the last; called with the \<open>this\<close> of a module the
  handler leaves none, so the frame never learns the height.
\<close>

lemma resize_timers:
  assumes "0 \<notin> set ns" "ns \<noteq> []"
  shows "snd (fold (\<lambda>n sp. on_resize (fst sp) n (snd sp)) ns (Obj [], [])) = [last ns]"
    "fold (\<lambda>n sp. on_resize (fst sp) n (snd sp)) ns (module_this, []) = (module_this, [])"
proof -
  let ?f = "\<lambda>n sp. on_resize (fst sp) n (snd sp)"
  have step: "snd (fold ?f ns (Obj kvs, [n])) = [last (n # ns)]" if "map_of kvs ''timmer'' = Some (num n)" "0 \<notin> set (n # ns)" for kvs n ns
    using that
  proof (induction ns arbitrary: kvs n)
    case (Cons m ns)
    then obtain kvs' where "on_resize (Obj kvs) m [n] = (Obj kvs', [m])" "map_of kvs' ''timmer'' = Some (num m)"
      using resize_step[of kvs n m] by auto
    with Cons.IH[of kvs' m] Cons.prems show ?case by simp
  qed simp
  obtain n rest where ns: "ns = n # rest" using assms(2) by (cases ns) auto
  have "on_resize (Obj []) n [] = (Obj [(''timmer'', num n)], [n])" by (simp add: on_resize_def field_def obj_put_def)
  then show "snd (fold ?f ns (Obj [], [])) = [last ns]" using step[of "[(''timmer'', num n)]" n rest] assms(1) by (simp add: ns)
  show "fold ?f ns (module_this, []) = (module_this, [])" by (induction ns) (simp_all add: on_resize_def module_this_def)
qed

section \<open>Properties of the menu\<close>

lemma menu_cases:
  obtains "model = Str ''naming''" "truthy (globalAdmin b)" | "model = Str ''naming''" "\<not> truthy (globalAdmin b)"
  | "model \<noteq> Str ''naming''" "truthy (globalAdmin b)" | "model \<noteq> Str ''naming''" "\<not> truthy (globalAdmin b)"
  by blast

lemmas menu_defs = getMenuData_def configurationMenu_def authorityControlMenu_def

text \<open>
  no entry of the menu is dead: in every function mode and for every user each address the
  menu offers is a route of the application.
\<close>

theorem menu_urls_routed:
  "set (concat (map entry_urls (getMenuData model b))) \<subseteq> fst ` set MENU"
  by (cases rule: menu_cases[of model b]) (simp_all add: menu_defs MENU_def)

lemma open_keys_loop_None:
  "open_keys_loop pathname i ms = None \<longleftrightarrow> pathname \<notin> set (concat (map children_urls ms))"
  by (induction ms arbitrary: i) (auto simp: filter_empty_conv)

text \<open>
  the arrow that goes back replaces the menu exactly on the pages no menu entry leads to: the
  pages for which no group is opened, other than the namespace page, which stands alone.
\<close>

theorem goback_iff_no_open_group:
  "isShowGoBack mode b pathname \<longleftrightarrow> defaultOpenKeys mode b pathname = None \<and> pathname \<noteq> ''/namespace''"
  by (cases rule: menu_cases[of mode b]) (auto simp: isShowGoBack_def defaultOpenKeys_def open_keys_loop_None menu_defs)

section \<open>Properties of a session\<close>

lemma getItem_setItem [simp]: "getItem (setItem k v b) j = (if j = k then Some v else getItem b j)"
  by (simp add: getItem_def setItem_def update_conv')

lemma getItem_clear [simp]: "getItem (clearStorage b) k = None"
  by (simp add: getItem_def clearStorage_def)

lemma login_stores:
  assumes "plain_json (Obj kvs)"
  obtains t where "login_replied loc (Resolved (Obj kvs)) b = Inr (setItem ''token'' t b, [Push ''/''])"
    and "parse_json t = Inr (Obj kvs)"
  using parse_stringify[OF assms] by (auto simp: login_replied_def simp del: stringify.simps)

text \<open>
  C26: what the server answers to a login is the session. After the reply is stored every request
  reads the token it carried, the menu shows the authority entries exactly when the reply says
  the user is an administrator, and after a logout the next request finds no token and goes to
  the login page.
\<close>

theorem login_opens_session:
  assumes "plain_json (Obj kvs)" and "field (Obj kvs) ''accessToken'' = Str tok"
  shows "\<exists>b'. login_replied loc (Resolved (Obj kvs)) b = Inr (b', [Push ''/'']) \<and>
    read_token b' = Inr (b', Str tok) \<and>
    (authorityControlMenu \<in> set (getMenuData mode b') \<longleftrightarrow> truthy (field (Obj kvs) ''globalAdmin'')) \<and>
    read_token (fst (logout b')) = Inr (goLogin (clearStorage b'), Str [])"
proof -
  obtain t where t: "login_replied loc (Resolved (Obj kvs)) b = Inr (setItem ''token'' t b, [Push ''/''])"
    "parse_json t = Inr (Obj kvs)" using login_stores[OF assms(1)] .
  let ?b = "setItem ''token'' t b"
  have "globalAdmin ?b = field (Obj kvs) ''globalAdmin''"
    using t(2) by (simp add: globalAdmin_def isJsonString_def js_or_def)
  moreover have "read_token ?b = Inr (?b, Str tok)"
    using t(2) assms(2) by (simp add: read_token_def)
  moreover have "read_token (fst (logout ?b)) = Inr (goLogin (clearStorage ?b), Str [])"
    by (simp add: logout_def read_token_def)
  ultimately show ?thesis using t(1) by (auto simp: menu_defs)
qed

theorem login_opens_session_witness:
  "\<exists>b'. login_replied Null (Resolved (Obj [(''accessToken'', Str ''abc''), (''globalAdmin'', Bool True)])) sample_browser
      = Inr (b', [Push ''/'']) \<and>
    read_token b' = Inr (b', Str ''abc'') \<and> authorityControlMenu \<in> set (getMenuData Null b')"
proof -
  have h: "plain_json (Obj [(''accessToken'', Str ''abc''), (''globalAdmin'', Bool True)])"
    "field (Obj [(''accessToken'', Str ''abc''), (''globalAdmin'', Bool True)]) ''accessToken'' = Str ''abc''"
    by code_simp+
  have a: "truthy (field (Obj [(''accessToken'', Str ''abc''), (''globalAdmin'', Bool True)]) ''globalAdmin'')"
    by code_simp
  show ?thesis using login_opens_session[OF h, of Null sample_browser Null] a by auto
qed

section \<open>Properties of the user name\<close>

text \<open>The alphabet of a token part, and the standard letter for each.\<close>

definition url_letter :: "char \<Rightarrow> bool" where
  "url_letter c \<longleftrightarrow> (b64_val c \<noteq> None \<and> c \<noteq> CHR ''+'' \<and> c \<noteq> CHR ''/'') \<or> c = CHR ''-'' \<or> c = CHR ''_''"

definition std_letter :: "char \<Rightarrow> char" where
  "std_letter c = (if c = CHR ''-'' then CHR ''+'' else if c = CHR ''_'' then CHR ''/'' else c)"

definition user_letters :: "string \<Rightarrow> string" where
  "user_letters p = replace_first (CHR ''_'') (CHR ''/'') (replace_first (CHR ''-'') (CHR ''+'') p)"

lemma url_letters_no_dot: "list_all url_letter p \<Longrightarrow> CHR ''.'' \<notin> set p"
proof
  assume "list_all url_letter p" "CHR ''.'' \<in> set p"
  then have "url_letter (CHR ''.'')" by (auto simp: list_all_iff)
  then show False by (simp add: url_letter_def b64_val_def)
qed

lemma replace_first_absent: "c \<notin> set s \<Longrightarrow> replace_first c d s = s"
  by (induction s) auto

lemma replace_first_single:
  "count_list s c \<le> 1 \<Longrightarrow> replace_first c d s = map (\<lambda>x. if x = c then d else x) s"
proof (induction s)
  case (Cons x s)
  show ?case
  proof (cases "x = c")
    case True
    with Cons have "c \<notin> set s" by (simp add: count_list_0_iff)
    then have "map (\<lambda>x. if x = c then d else x) s = s" by (induction s) auto
    with True show ?thesis by simp
  qed (use Cons in simp)
qed simp

lemma replace_first_keeps: "count_list s c \<ge> 2 \<Longrightarrow> c \<in> set (replace_first c d s)"
proof (induction s)
  case (Cons x s)
  then show ?case using count_list_0_iff[of s c] by (cases "x = c") auto
qed simp

lemma count_replace_other: "x \<noteq> c \<Longrightarrow> x \<noteq> d \<Longrightarrow> count_list (replace_first c d s) x = count_list s x"
  by (induction s) auto

lemma in_replace_other: "x \<in> set s \<Longrightarrow> x \<noteq> c \<Longrightarrow> x \<in> set (replace_first c d s)"
  by (induction s) auto

lemma user_letters_std:
  assumes "count_list p (CHR ''-'') \<le> 1" "count_list p (CHR ''_'') \<le> 1"
  shows "user_letters p = map std_letter p"
proof -
  have "count_list (replace_first (CHR ''-'') (CHR ''+'') p) (CHR ''_'') \<le> 1"
    using assms(2) by (simp add: count_replace_other)
  then show ?thesis
    using assms(1) by (auto simp: user_letters_def replace_first_single std_letter_def)
qed

lemma user_letters_bad:
  assumes "count_list p (CHR ''-'') \<ge> 2 \<or> count_list p (CHR ''_'') \<ge> 2"
  shows "CHR ''-'' \<in> set (user_letters p) \<or> CHR ''_'' \<in> set (user_letters p)"
  using assms
proof
  assume "count_list p (CHR ''-'') \<ge> 2"
  then have "CHR ''-'' \<in> set (replace_first (CHR ''-'') (CHR ''+'') p)" by (rule replace_first_keeps)
  then show ?thesis by (simp add: user_letters_def in_replace_other)
next
  assume "count_list p (CHR ''_'') \<ge> 2"
  then have "count_list (replace_first (CHR ''-'') (CHR ''+'') p) (CHR ''_'') \<ge> 2"
    by (simp add: count_replace_other)
  then show ?thesis by (simp add: user_letters_def replace_first_keeps)
qed

lemma b64_trim_keeps: "c \<in> set s \<Longrightarrow> c \<noteq> CHR ''='' \<Longrightarrow> c \<in> set (b64_trim s)"
  by (auto simp: b64_trim_def suffix_def)

lemma atob_rejects:
  assumes "c \<in> set s" "c = CHR ''-'' \<or> c = CHR ''_''"
  shows "atob s = None"
proof -
  let ?t = "b64_trim (filter (\<lambda>c. (of_char c :: nat) \<notin> {9, 10, 12, 13, 32}) s)"
  have "c \<in> set ?t" using assms by (intro b64_trim_keeps) auto
  moreover have "b64_val c = None" using assms(2) by (auto simp: b64_val_def Let_def)
  ultimately have "\<not> list_all (\<lambda>c. b64_val c \<noteq> None) ?t" by (auto simp: list_all_iff)
  then show ?thesis unfolding atob_def Let_def by simp
qed

lemma token_part:
  assumes "getItem b ''token'' = Some (u @ CHR ''.'' # p @ CHR ''.'' # w)" "CHR ''.'' \<notin> set u" "CHR ''.'' \<notin> set p"
  shows "getUsername b = (case atob (user_letters p) of
      None \<Rightarrow> Inr (Str [], removeItem ''token'' b, [Reload_Page])
    | Some text \<Rightarrow> (case parse_json text of
        Inl OutsideModel \<Rightarrow> Inl OutsideModel
      | Inl _ \<Rightarrow> Inr (Str [], removeItem ''token'' b, [Reload_Page])
      | Inr Null \<Rightarrow> Inr (Str [], removeItem ''token'' b, [Reload_Page])
      | Inr parsedToken \<Rightarrow> Inr (field parsedToken ''sub'', b, [])))"
  using assms by (simp add: getUsername_def user_letters_def split_on_append_sep str_or_def Let_def)

text \<open>
  the header shows the subject of the access token. The payload is the second part of the
  stored text; when it holds at most one dash and one underscore it is decoded as base64url, and
  the name shown is the field \<open>sub\<close> of its JSON object.
\<close>

theorem username_of_token:
  assumes "getItem b ''token'' = Some (u @ CHR ''.'' # p @ CHR ''.'' # w)" and "CHR ''.'' \<notin> set u"
    and "list_all url_letter p" and "count_list p (CHR ''-'') \<le> 1" and "count_list p (CHR ''_'') \<le> 1"
    and "atob (map std_letter p) = Some text" and "parse_json text = Inr (Obj kvs)"
  shows "getUsername b = Inr (field (Obj kvs) ''sub'', b, [])"
proof -
  have "CHR ''.'' \<notin> set p" using assms(3) by (rule url_letters_no_dot)
  from token_part[OF assms(1,2) this] show ?thesis
    using assms(6,7) by (simp add: user_letters_std[OF assms(4,5)])
qed

text \<open>The payload \<^verbatim>\<open>{"sub":"nacos"}\<close> as a token carries it.\<close>

definition sample_payload :: string where
  "sample_payload = ''eyJzdWIiOiJuYWNvcyJ9''"

definition sample_session :: browser where
  "sample_session = setItem ''token'' (''x.'' @ sample_payload @ ''.y'') sample_browser"

theorem username_of_token_witness:
  "getUsername sample_session = Inr (Str ''nacos'', sample_session, [])"
proof -
  have h: "getItem sample_session ''token'' = Some (''x'' @ CHR ''.'' # sample_payload @ CHR ''.'' # ''y'')"
    "CHR ''.'' \<notin> set ''x''" "list_all url_letter sample_payload"
    "count_list sample_payload (CHR ''-'') \<le> 1" "count_list sample_payload (CHR ''_'') \<le> 1"
    by (simp_all add: sample_session_def sample_payload_def url_letter_def b64_val_def)
  have d: "atob (map std_letter sample_payload) = Some (''{'' @ quote ''sub'' @ '':'' @ quote ''nacos'' @ ''}'')"
    by (simp add: sample_payload_def atob_def b64_trim_def b64_val_def std_letter_def suffix_def quote_def
        quote_char_def char_of_def bit_0)
  have j: "parse_json (''{'' @ quote ''sub'' @ '':'' @ quote ''nacos'' @ ''}'') = Inr (Obj [(''sub'', Str ''nacos'')])"
    by code_simp
  from username_of_token[OF h d j] show ?thesis by (simp add: field_def)
qed

text \<open>
  a valid token whose payload holds a second dash or a second underscore ends the session:
  only the first of each is translated, decoding fails, and rendering the header deletes the
  token and reloads the page.
\<close>

theorem username_drops_session:
  assumes "getItem b ''token'' = Some (u @ CHR ''.'' # p @ CHR ''.'' # w)" and "CHR ''.'' \<notin> set u"
    and "list_all url_letter p" and "count_list p (CHR ''-'') \<ge> 2 \<or> count_list p (CHR ''_'') \<ge> 2"
  shows "getUsername b = Inr (Str [], removeItem ''token'' b, [Reload_Page])"
proof -
  have "CHR ''.'' \<notin> set p" using assms(3) by (rule url_letters_no_dot)
  moreover have "atob (user_letters p) = None"
    using user_letters_bad[OF assms(4)] by (auto intro: atob_rejects)
  ultimately show ?thesis using token_part[OF assms(1,2)] by simp
qed

theorem username_drops_session_witness:
  "getUsername (setItem ''token'' ''x.a-b-.y'' sample_browser) =
     Inr (Str [], removeItem ''token'' (setItem ''token'' ''x.a-b-.y'' sample_browser), [Reload_Page])"
proof -
  have h: "list_all url_letter ''a-b-''" "count_list ''a-b-'' (CHR ''-'') \<ge> 2 \<or> count_list ''a-b-'' (CHR ''_'') \<ge> 2"
    by (simp_all add: url_letter_def b64_val_def)
  show ?thesis
    using username_drops_session[of "setItem ''token'' ''x.a-b-.y'' sample_browser" "''x''" "''a-b-''" "''y''"] h by simp
qed

section \<open>Properties of the language switch\<close>

definition shown_language :: "browser \<times> store \<Rightarrow> jv" where
  "shown_language bs = field (Obj (locale_slice (snd bs))) ''language''"

lemma changeLanguage_shown [simp]: "shown_language (changeLanguage T lang bs) = Str (norm_language lang)"
  by (simp add: shown_language_def changeLanguage_def Let_def dispatch_action_def locale_reducer_def act_def
      act_type_def field_def map_of_obj_put)

lemma norm_language_simps [simp]:
  "norm_language (Some ''zh-CN'') = ''zh-CN''" "norm_language (Some ''en-US'') = ''en-US''"
  by (simp_all add: norm_language_def)

text \<open>
  once the application is mounted the button of the header switches the language: it always
  shows one of the two languages, a click shows the other one and a second click the first
  again. In the store before the mount the language is written \<^verbatim>\<open>en-us\<close>, and there a click selects
  English once more.
\<close>

theorem switchLang_toggles:
  "let m = app_mount T bs; m1 = switchLang T (shown_language m) m; m2 = switchLang T (shown_language m1) m1;
       m0 = switchLang T (shown_language (b, init_store T)) (b, init_store T)
   in shown_language m \<in> {Str ''en-US'', Str ''zh-CN''} \<and>
      shown_language m1 = (if shown_language m = Str ''en-US'' then Str ''zh-CN'' else Str ''en-US'') \<and>
      shown_language m2 = shown_language m \<and>
      shown_language (b, init_store T) = Str ''en-us'' \<and> shown_language m0 = Str ''en-US''"
proof -
  have i: "shown_language (b, init_store T) = Str ''en-us''"
    by (simp add: shown_language_def init_store_def locale_init_def field_def)
  show ?thesis by (auto simp: Let_def app_mount_def switchLang_def i norm_language_def)
qed

end
