(* ===== verification/Namespaces.thy ===== *)
theory Namespaces
  imports Layout
begin

text \<open>
  The namespaces: the selector every page shows (\<^verbatim>\<open>components/NameSpaceList\<close>), the page that lists
  them (\<^verbatim>\<open>pages/NameSpace\<close>) and its two dialogs (\<^verbatim>\<open>components/NewNameSpace\<close> and
  \<^verbatim>\<open>components/EditorNameSpace\<close>). The current namespace lives in four places: the location, the
  storage, a global and the state of the selector.
\<close>

section \<open>The selector\<close>

record ns_props =
  has_callback :: bool
  has_setNow :: bool

record ns_list =
  nl_nownamespace :: string
  nl_namespaceList :: jv

text \<open>A field the model keeps as a string; the server sends no other value there.\<close>

definition str_of :: "jv \<Rightarrow> js_error + string" where
  "str_of v = (case v of Str s \<Rightarrow> Inr s | _ \<Rightarrow> Inl OutsideModel)"

definition ns_list_init :: "browser \<Rightarrow> js_error + ns_list" where
  "ns_list_init b = and_then (param_or b ''namespace'' []) (\<lambda>ns.
     Inr \<lparr>nl_nownamespace = (if nownamespace b \<noteq> [] then nownamespace b else ns),
          nl_namespaceList = js_or (namespaceList b) (Arr [])\<rparr>)"

definition setnamespace :: "string \<Rightarrow> ns_list \<Rightarrow> ns_list" where
  "setnamespace ns st = st\<lparr>nl_nownamespace := ns\<rparr>"

definition calleeParent :: "ns_props \<Rightarrow> bool \<Rightarrow> effect list" where
  "calleeParent props needclean = (if has_callback props then [Callback ''namespaceCallBack'' [Bool needclean]] else [])"

definition tell_namespace :: "ns_props \<Rightarrow> string \<Rightarrow> string \<Rightarrow> effect list" where
  "tell_namespace props nsName ns = (if has_setNow props then [Callback ''setNowNameSpace'' [Str nsName, Str ns]] else [])"

definition changeNameSpace :: "ns_props \<Rightarrow> string \<Rightarrow> string \<Rightarrow> browser \<times> ns_list
    \<Rightarrow> js_error + browser \<times> ns_list \<times> effect list" where
  "changeNameSpace props ns nsName bs =
     and_then (setParamsObj [(''namespace'', Str ns), (''namespaceShowName'', Str nsName)] (setItem ''namespace'' ns (fst bs))) (\<lambda>b.
       Inr (b\<lparr>nownamespace := ns, namespaceShowName := nsName\<rparr>, setnamespace ns (snd bs),
            calleeParent props True @ tell_namespace props nsName ns))"

text \<open>The loop of \<open>handleNameSpaces\<close>: the name of the first entry with the current identifier.\<close>

fun find_show_name :: "string \<Rightarrow> jv list \<Rightarrow> js_error + string" where
  "find_show_name now [] = Inr []"
| "find_show_name now (d # ds) =
     (if d = Null \<or> d = Undefined then Inl TypeError
      else if field d ''namespace'' = Str now then str_of (field d ''namespaceShowName'')
      else find_show_name now ds)"

definition handleNameSpaces :: "ns_props \<Rightarrow> jv \<Rightarrow> browser \<times> ns_list
    \<Rightarrow> js_error + browser \<times> ns_list \<times> effect list" where
  "handleNameSpaces props data bs =
     and_then (param_or (fst bs) ''namespace'' []) (\<lambda>now.
       case data of
         Arr xs \<Rightarrow>
           and_then (find_show_name now xs) (\<lambda>showName.
           and_then (setParams ''namespace'' (Str now)
              ((fst bs)\<lparr>namespaceList := data, nownamespace := now, namespaceShowName := showName\<rparr>)) (\<lambda>b.
             Inr (setItem ''namespace'' now b, (snd bs)\<lparr>nl_nownamespace := now, nl_namespaceList := data\<rparr>,
                  tell_namespace props showName now @ calleeParent props False)))
       | Null \<Rightarrow> Inl TypeError
       | Undefined \<Rightarrow> Inl TypeError
       | _ \<Rightarrow> Inl OutsideModel)"

definition namespaces_request :: config where
  "namespaces_request = (req ''v1/console/namespaces'')\<lparr>c_type := Some ''get'', c_error := UserFn 1\<rparr>"

definition getNameSpaces :: "ns_props \<Rightarrow> browser \<times> ns_list \<Rightarrow> js_error + browser \<times> ns_list \<times> effect list" where
  "getNameSpaces props bs =
     (case namespaceList (fst bs) of
        Arr (x # xs) \<Rightarrow> handleNameSpaces props (Arr (x # xs)) bs
      | _ \<Rightarrow> Inr (fst bs, snd bs, [Send namespaces_request]))"

definition getNameSpaces_success :: "ns_props \<Rightarrow> jv \<Rightarrow> jv \<Rightarrow> browser \<times> ns_list
    \<Rightarrow> js_error + browser \<times> ns_list \<times> effect list" where
  "getNameSpaces_success props loc res bs =
     (if field res ''code'' = num 200 then handleNameSpaces props (field res ''data'') bs
      else Inr (fst bs, snd bs, [Alert (tr loc ''notice'') (field res ''message'')]))"

definition getNameSpaces_error :: "ns_props \<Rightarrow> browser \<times> ns_list \<Rightarrow> js_error + browser \<times> ns_list \<times> effect list" where
  "getNameSpaces_error props bs = handleNameSpaces props (Arr []) ((fst bs)\<lparr>namespaceList := Arr []\<rparr>, snd bs)"

text \<open>The buttons: the name and whether it is drawn as the current one.\<close>

definition rendernamespace :: "ns_list \<Rightarrow> jv list \<Rightarrow> (jv \<times> bool) list" where
  "rendernamespace st xs = map (\<lambda>o1. (field o1 ''namespaceShowName'', field o1 ''namespace'' = Str (nl_nownamespace st))) xs"

text \<open>\<open>getLink\<close> keeps an address in the globals (\<open>win\<close>) and in the state (\<open>links\<close>) under a given name.\<close>

definition ns_getLink :: "string \<Rightarrow> string \<Rightarrow> jv obj \<Rightarrow> jv obj \<Rightarrow> jv obj \<times> effect list" where
  "ns_getLink linkKey keyName win links =
     (if field (Obj win) keyName = Null
      then (links, [Send ((req ''com.alibaba.nacos.service.getLink'')\<lparr>c_data := Obj [(''linkKey'', Str linkKey)]\<rparr>)])
      else (obj_put keyName (field (Obj win) keyName) links, []))"

definition getLink_loaded :: "string \<Rightarrow> jv \<Rightarrow> jv obj \<times> jv obj \<Rightarrow> jv obj \<times> jv obj" where
  "getLink_loaded keyName res wl =
     (if field res ''code'' = num 200
      then (obj_put keyName (field res ''data'') (fst wl), obj_put keyName (field res ''data'') (snd wl))
      else wl)"

section \<open>The namespace page\<close>

record ns_page =
  np_loading :: bool
  np_default :: jv
  np_data :: jv

definition ns_page_init :: ns_page where
  "ns_page_init = \<lparr>np_loading = False, np_default = Str [], np_data = Arr []\<rparr>"

definition page_getNameSpaces :: "ns_page \<Rightarrow> ns_page \<times> effect list" where
  "page_getNameSpaces st =
     (st\<lparr>np_loading := True\<rparr>, [Send (namespaces_request\<lparr>c_complete := UserFn 2, c_beforeSend := UserFn 3\<rparr>)])"

fun default_loop :: "jv list \<Rightarrow> ns_page \<Rightarrow> ns_page" where
  "default_loop [] st = st"
| "default_loop (d # ds) st =
     default_loop ds (if field d ''type'' = num 1 then st\<lparr>np_default := field d ''namespace''\<rparr> else st)"

definition page_loaded :: "jv \<Rightarrow> jv \<Rightarrow> browser \<times> ns_page \<Rightarrow> browser \<times> ns_page \<times> effect list" where
  "page_loaded loc res bs =
     (if field res ''code'' = num 200 then
        (let data = js_or (field res ''data'') (Arr []);
             st = default_loop (case data of Arr xs \<Rightarrow> xs | _ \<Rightarrow> []) (snd bs)
         in ((fst bs)\<lparr>namespaceList := data\<rparr>, st\<lparr>np_data := data\<rparr>, []))
      else (fst bs, snd bs, [Alert (tr loc ''prompt'') (field res ''message'')]))"

text \<open>The list after a failure: one entry, named by the literal of the source.\<close>

definition fallback_list :: "string \<Rightarrow> jv" where
  "fallback_list publicName =
     Arr [Obj [(''namespace'', Str []), (''namespaceShowName'', Str publicName), (''type'', num 0)]]"

definition page_failed :: "string \<Rightarrow> browser \<Rightarrow> browser" where
  "page_failed publicName b = b\<lparr>namespaceList := fallback_list publicName\<rparr>"

definition page_complete :: "ns_page \<Rightarrow> ns_page" where
  "page_complete st = st\<lparr>np_loading := False\<rparr>"

definition detailNamespace :: "jv \<Rightarrow> ns_page \<Rightarrow> ns_page \<times> effect list" where
  "detailNamespace rec0 st =
     (st\<lparr>np_loading := True\<rparr>,
      [Send ((req (''v1/console/namespaces?show=all&namespaceId='' @ to_str (field rec0 ''namespace'')))
         \<lparr>c_beforeSend := UserFn 3, c_complete := UserFn 2\<rparr>)])"

definition detail_loaded :: "jv \<Rightarrow> jv \<Rightarrow> effect list" where
  "detail_loaded loc res =
     (if res \<noteq> Null then
        [Alert (tr loc ''namespaceDetails'')
           (Arr [field res ''namespaceShowName'', field res ''namespace'', field res ''configCount'', field res ''quota'',
                 field res ''namespaceDesc''])]
      else [])"

definition removeNamespace :: "jv \<Rightarrow> jv \<Rightarrow> effect list" where
  "removeNamespace loc rec0 =
     [Confirm (tr loc ''removeNamespace'')
        (Arr [tr loc ''confirmDelete'', field rec0 ''namespaceShowName'', field rec0 ''namespace''])]"

definition remove_confirmed :: "jv \<Rightarrow> effect list" where
  "remove_confirmed rec0 =
     [Send ((req (''v1/console/namespaces?namespaceId='' @ to_str (field rec0 ''namespace'')))\<lparr>c_type := Some ''delete''\<rparr>)]"

definition remove_replied :: "jv \<Rightarrow> jv \<Rightarrow> jv \<Rightarrow> browser \<times> ns_page
    \<Rightarrow> js_error + browser \<times> ns_page \<times> effect list" where
  "remove_replied loc rec0 res bs =
     and_then
       (if res = Bool True then
          and_then (param (fst bs) ''namespace'') (\<lambda>urlnamespace.
          and_then (if field rec0 ''namespace'' = urlnamespace then setParams ''namespace'' (np_default (snd bs)) (fst bs)
                    else Inr (fst bs)) (\<lambda>b.
            Inr (b, [Confirm (tr loc ''deletedSuccessfully'') (tr loc ''removeSuccess'')])))
        else if res = Null \<or> res = Undefined then Inl TypeError
        else Inr (fst bs, [Confirm (tr loc ''deletedFailure'') (field res ''message'')]))
       (\<lambda>(b, es). let (st, es') = page_getNameSpaces (snd bs) in Inr (b, st, es @ es'))"

text \<open>Which of the links of a row are live: details, delete and edit.\<close>

definition renderOption :: "jv \<Rightarrow> bool \<times> bool \<times> bool" where
  "renderOption rec0 =
     (let reserved = (field rec0 ''type'' = num 1 \<or> field rec0 ''type'' = num 0)
      in (True, \<not> reserved, \<not> reserved))"

definition renderName :: "jv \<Rightarrow> jv \<Rightarrow> jv" where
  "renderName loc rec0 = (if field rec0 ''type'' = num 0 then tr loc ''namespacePublic'' else field rec0 ''namespaceShowName'')"

definition refresh_list :: "jv \<Rightarrow> browser \<Rightarrow> browser" where
  "refresh_list res b = (if field res ''code'' = num 200 then b\<lparr>namespaceList := field res ''data''\<rparr> else b)"

definition openToEdit :: "jv \<Rightarrow> effect" where
  "openToEdit rec0 = Open_Dialog ''editgroup'' rec0"

definition addNameSpace :: "ns_page \<Rightarrow> effect" where
  "addNameSpace st = Open_Dialog ''newnamespace'' (np_data st)"

section \<open>The dialog for a new namespace\<close>

record new_ns =
  nn_visible :: bool
  nn_loading :: bool
  nn_disabled :: bool
  nn_dataSource :: "jv list"
  nn_button :: bool

definition new_ns_init :: new_ns where
  "new_ns_init = \<lparr>nn_visible = False, nn_loading = False, nn_disabled = False, nn_dataSource = [], nn_button = False\<rparr>"

definition new_openDialog :: "jv list \<Rightarrow> new_ns \<Rightarrow> new_ns" where
  "new_openDialog dataSource st = st\<lparr>nn_visible := True, nn_disabled := False, nn_dataSource := dataSource, nn_button := False\<rparr>"

definition new_closeDialog :: "new_ns \<Rightarrow> new_ns" where
  "new_closeDialog st = st\<lparr>nn_visible := False\<rparr>"

definition set_disabled :: "bool \<Rightarrow> new_ns \<Rightarrow> new_ns" where
  "set_disabled d st = st\<lparr>nn_disabled := d, nn_button := d\<rparr>"

definition new_openLoading :: "new_ns \<Rightarrow> new_ns" where
  "new_openLoading st = st\<lparr>nn_loading := True\<rparr>"

text \<open>The group label is an element of the document, or null when the document has no such element.\<close>

definition new_mount :: "(string \<Rightarrow> bool) \<Rightarrow> jv" where
  "new_mount in_document = (if in_document ''groupwrapper'' then Obj [] else Null)"

definition set_display :: "string \<Rightarrow> jv \<Rightarrow> js_error + jv" where
  "set_display d label = (case label of Obj style \<Rightarrow> Inr (Obj (obj_put ''display'' (Str d) style)) | _ \<Rightarrow> Inl TypeError)"

definition showGroup :: "jv \<Rightarrow> js_error + jv" where
  "showGroup label = set_display ''block'' label"

definition hideGroup :: "jv \<Rightarrow> js_error + jv" where
  "hideGroup label = set_display ''none'' label"

definition changeType :: "jv \<Rightarrow> jv \<Rightarrow> js_error + jv" where
  "changeType v label = (if v = num 0 then showGroup label else hideGroup label)"

definition custom_id :: "jv \<Rightarrow> jv" where
  "custom_id form = js_or (field form ''customNamespaceId'') (Str [])"

definition new_handleSubmit :: "jv \<Rightarrow> bool \<Rightarrow> jv \<Rightarrow> new_ns \<Rightarrow> new_ns \<times> effect list" where
  "new_handleSubmit loc errors form st =
     (if errors then (st, [])
      else if \<not> list_all (\<lambda>v. field v ''namespaceShowName'' \<noteq> field form ''namespaceShowName'') (nn_dataSource st)
      then (st, [Alert Undefined (tr loc ''norepeat'')])
      else ((set_disabled True st)\<lparr>nn_loading := True\<rparr>,
            [Send ((req ''v1/console/namespaces?checkNamespaceIdExist=true'')
               \<lparr>c_type := Some ''get'', c_contentType := Some ''application/x-www-form-urlencoded'',
                c_data := Obj [(''customNamespaceId'', custom_id form)], c_beforeSend := UserFn 3, c_complete := UserFn 2\<rparr>)]))"

definition check_replied :: "jv \<Rightarrow> jv \<Rightarrow> jv \<Rightarrow> new_ns \<Rightarrow> new_ns \<times> effect list" where
  "check_replied loc form res st =
     (let st = set_disabled False st
      in if res = Bool True then (st, [Alert (tr loc ''notice'') (tr loc ''namespaceIdAlreadyExist'')])
         else (st\<lparr>nn_loading := True\<rparr>,
               [Send ((req ''v1/console/namespaces'')
                  \<lparr>c_type := Some ''post'', c_contentType := Some ''application/x-www-form-urlencoded'',
                   c_data := Obj [(''customNamespaceId'', custom_id form),
                     (''namespaceName'', field form ''namespaceShowName''), (''namespaceDesc'', field form ''namespaceDesc'')],
                   c_beforeSend := UserFn 3, c_complete := UserFn 2\<rparr>)]))"

definition refresh_later :: effect where
  "refresh_later = Send ((req ''v1/console/namespaces'')\<lparr>c_type := Some ''get''\<rparr>)"

definition create_replied :: "jv \<Rightarrow> jv \<Rightarrow> new_ns \<Rightarrow> new_ns \<times> effect list" where
  "create_replied loc res st =
     (let st = set_disabled False st
      in if res = Bool True then (new_closeDialog st, [Callback ''getNameSpaces'' [], refresh_later])
         else (st, [Alert (tr loc ''notice'') (tr loc ''newnamespceFailedMessage'')]))"

definition new_complete :: "new_ns \<Rightarrow> new_ns" where
  "new_complete st = st\<lparr>nn_loading := False\<rparr>"

text \<open>
  The form validators. The regular expression \<^verbatim>\<open>/[@#\$%\^&\*]+/\<close> matches when one of the characters
  occurs. A validator reports by calling its callback; \<open>None\<close> is a call without an error, and
  \<open>validateNamespzecId\<close> may call it twice.
\<close>

definition validateChart :: "jv \<Rightarrow> string \<Rightarrow> jv option" where
  "validateChart msg v = (if list_ex (\<lambda>c. c \<in> set ''@#$%^&*'') v then Some msg else None)"

definition id_char :: "char \<Rightarrow> bool" where
  "id_char c \<longleftrightarrow> word_char c \<or> c = CHR ''-''"

definition validateNamespzecId :: "jv \<Rightarrow> string \<Rightarrow> jv option list" where
  "validateNamespzecId loc v =
     (if trim v = [] then [None]
      else let matched = takeWhile id_char v
           in (if length v > 128 then [Some (tr loc ''namespaceIdTooLong'')] else []) @
              (if matched \<noteq> [] then
                 (if length v \<noteq> length matched then [Some (tr loc ''input'')] else [None])
               else [Some (tr loc ''input'')]))"

section \<open>The dialog for an existing namespace\<close>

record edit_ns =
  en_visible :: bool
  en_loading :: bool
  en_type :: jv
  en_values :: "jv obj"

definition edit_ns_init :: edit_ns where
  "edit_ns_init = \<lparr>en_visible = False, en_loading = False, en_type = Undefined, en_values = []\<rparr>"

definition getNamespaceDetail :: "jv \<Rightarrow> edit_ns \<Rightarrow> edit_ns \<times> effect list" where
  "getNamespaceDetail rec0 st =
     (st\<lparr>en_values := obj_assign (en_values st) (own_props rec0)\<rparr>,
      [Send ((req (''v1/console/namespaces?show=all&namespaceId='' @ to_str (field rec0 ''namespace'')))
         \<lparr>c_type := Some ''get'', c_error := UserFn 1\<rparr>)])"

definition edit_openDialog :: "jv \<Rightarrow> edit_ns \<Rightarrow> edit_ns \<times> effect list" where
  "edit_openDialog rec0 st =
     (let (st, es) = getNamespaceDetail rec0 st
      in (st\<lparr>en_visible := True, en_type := field rec0 ''type''\<rparr>, es))"

definition edit_closeDialog :: "edit_ns \<Rightarrow> edit_ns" where
  "edit_closeDialog st = st\<lparr>en_visible := False\<rparr>"

text \<open>
  The answer with the description. The branch for a null answer reads its \<open>message\<close> and throws;
  the error handler calls a method the dialog does not have and throws after clearing the list.
\<close>

definition edit_detail_loaded :: "jv \<Rightarrow> edit_ns \<Rightarrow> js_error + edit_ns" where
  "edit_detail_loaded res st =
     (if res = Null \<or> res = Undefined then Inl TypeError
      else Inr (st\<lparr>en_values := obj_put ''namespaceDesc'' (field res ''namespaceDesc'') (en_values st)\<rparr>))"

definition edit_detail_failed :: "browser \<Rightarrow> js_error \<times> browser" where
  "edit_detail_failed b = (TypeError, b\<lparr>namespaceList := Arr []\<rparr>)"

definition edit_handleSubmit :: "bool \<Rightarrow> jv \<Rightarrow> edit_ns \<Rightarrow> edit_ns \<times> effect list" where
  "edit_handleSubmit errors form st =
     (if errors then (st, [])
      else (st\<lparr>en_loading := True\<rparr>,
            [Send ((req ''v1/console/namespaces'')
               \<lparr>c_type := Some ''put'', c_contentType := Some ''application/x-www-form-urlencoded'',
                c_data := Obj [(''namespace'', field form ''namespace''), (''namespaceShowName'', field form ''namespaceShowName''),
                  (''namespaceDesc'', field form ''namespaceDesc'')],
                c_beforeSend := UserFn 3, c_complete := UserFn 2\<rparr>)]))"

definition edit_replied :: "jv \<Rightarrow> jv \<Rightarrow> edit_ns \<Rightarrow> js_error + edit_ns \<times> effect list" where
  "edit_replied loc res st =
     (if res = Bool True then Inr (edit_closeDialog st, [Callback ''getNameSpaces'' [], refresh_later])
      else if res = Null \<or> res = Undefined then Inl TypeError
      else Inr (st, [Alert (tr loc ''notice'') (field res ''message'')]))"

definition edit_complete :: "edit_ns \<Rightarrow> edit_ns" where
  "edit_complete st = st\<lparr>en_loading := False\<rparr>"

text \<open>The submit button is missing, and the inputs are disabled, for the public namespace.\<close>

definition edit_allowed :: "edit_ns \<Rightarrow> bool" where
  "edit_allowed st = (en_type st \<noteq> num 0)"

section \<open>Properties of the selector\<close>

text \<open>The four places that hold the current namespace agree on \<open>ns\<close>.\<close>

definition ns_agree :: "browser \<Rightarrow> ns_list \<Rightarrow> string \<Rightarrow> bool" where
  "ns_agree b st ns \<longleftrightarrow> getParams b ''namespace'' = Inr (Some ns) \<and> getItem b ''namespace'' = Some ns
     \<and> nownamespace b = ns \<and> nl_nownamespace st = ns"

lemma ns_params [simp]:
  "''namespace'' \<in> set console_params" "''namespaceShowName'' \<in> set console_params"
  by (simp_all add: console_params_def)

lemma hash_shows_frame [simp]:
  "hash_shows path (b\<lparr>nownamespace := x\<rparr>) kvs = hash_shows path b kvs"
  "hash_shows path (b\<lparr>namespaceShowName := y\<rparr>) kvs = hash_shows path b kvs"
  "hash_shows path (b\<lparr>namespaceList := z\<rparr>) kvs = hash_shows path b kvs"
  "hash_shows path (setItem k v b) kvs = hash_shows path b kvs"
  by (simp_all add: hash_shows_def setItem_def)

lemma frame_fields [simp]:
  "getItem (b\<lparr>href := h\<rparr>) k = getItem b k" "getItem (b\<lparr>nownamespace := x\<rparr>) k = getItem b k"
  "getItem (b\<lparr>namespaceShowName := y\<rparr>) k = getItem b k" "nownamespace (setItem k v b) = nownamespace b"
  by (simp_all add: getItem_def setItem_def)

lemma changeNameSpace_ok:
  assumes "hash_shows path b kvs"
  shows "\<exists>b' st'. changeNameSpace props ns nsName (b, st) =
      Inr (b', st', calleeParent props True @ tell_namespace props nsName ns) \<and>
    hash_shows path b' (put_all [(''namespace'', ns), (''namespaceShowName'', nsName)] kvs) \<and> ns_agree b' st' ns \<and>
    (\<forall>k. k \<noteq> ''namespace'' \<longrightarrow> getItem b' k = getItem b k)"
proof -
  let ?ps = "[(''namespace'', ns), (''namespaceShowName'', nsName)]"
  obtain h where h: "setParamsObj [(''namespace'', Str ns), (''namespaceShowName'', Str nsName)] (setItem ''namespace'' ns b) =
      Inr ((setItem ''namespace'' ns b)\<lparr>href := h\<rparr>)"
    "hash_shows path ((setItem ''namespace'' ns b)\<lparr>href := h\<rparr>) (put_all ?ps kvs)"
    using setParamsObj_href[of path "setItem ''namespace'' ns b" kvs "[(''namespace'', Str ns), (''namespaceShowName'', Str nsName)]"]
      assms by auto
  let ?b = "((setItem ''namespace'' ns b)\<lparr>href := h\<rparr>)\<lparr>nownamespace := ns, namespaceShowName := nsName\<rparr>"
  have s: "hash_shows path ?b (put_all ?ps kvs)" using h(2) by simp
  have "getParams ?b ''namespace'' = Inr (Some ns)"
    using getParams_shows[OF s, of "''namespace''"] by (simp add: update_conv')
  then show ?thesis using h(1) s by (simp add: changeNameSpace_def setnamespace_def ns_agree_def)
qed

lemma handleNameSpaces_ok:
  assumes "hash_shows path b kvs" "handleNameSpaces props data (b, st) = Inr (b', st', es)"
  shows "(\<exists>kvs. hash_shows path b' kvs) \<and> ns_agree b' st' (str_or (map_of kvs ''namespace'') [])"
proof -
  let ?now = "str_or (map_of kvs ''namespace'') []"
  have now: "param_or b ''namespace'' [] = Inr ?now"
    using getParams_shows[OF assms(1), of "''namespace''"] by (simp add: param_or_def)
  from assms(2) obtain xs showName b1 where f: "data = Arr xs" "find_show_name ?now xs = Inr showName"
    "setParams ''namespace'' (Str ?now) (b\<lparr>namespaceList := data, nownamespace := ?now, namespaceShowName := showName\<rparr>) = Inr b1"
    "b' = setItem ''namespace'' ?now b1" "st' = st\<lparr>nl_nownamespace := ?now, nl_namespaceList := data\<rparr>"
    by (auto simp: handleNameSpaces_def now and_then_Inr_iff split: jv.splits)
  let ?b = "b\<lparr>namespaceList := data, nownamespace := ?now, namespaceShowName := showName\<rparr>"
  obtain h where h: "setParams ''namespace'' (Str ?now) ?b = Inr (?b\<lparr>href := h\<rparr>)"
    "hash_shows path (?b\<lparr>href := h\<rparr>) (AList.update ''namespace'' ?now kvs)"
    using setParams_href[of path ?b kvs "''namespace''" ?now] assms(1) by auto
  then have b1: "b1 = ?b\<lparr>href := h\<rparr>" using f(3) by simp
  then have s: "hash_shows path b' (AList.update ''namespace'' ?now kvs)" using h(2) f(4) by simp
  then have "getParams b' ''namespace'' = Inr (Some ?now)"
    using getParams_shows[OF s, of "''namespace''"] by (simp add: update_conv')
  then show ?thesis using s f(4,5) b1 by (auto simp: ns_agree_def)
qed

text \<open>
  The life of the selector on one page: a list of namespaces arrives, then lists arrive and the
  user switches in any order. A handler that throws is no step.
\<close>

inductive ns_reachable :: "ns_props \<Rightarrow> string \<Rightarrow> browser \<Rightarrow> ns_list \<Rightarrow> bool" for props path where
  ns_first: "hash_shows path b kvs \<Longrightarrow> handleNameSpaces props data (b, st) = Inr (b', st', es)
    \<Longrightarrow> ns_reachable props path b' st'"
| ns_list_again: "ns_reachable props path b st \<Longrightarrow> handleNameSpaces props data (b, st) = Inr (b', st', es)
    \<Longrightarrow> ns_reachable props path b' st'"
| ns_switch: "ns_reachable props path b st \<Longrightarrow> changeNameSpace props ns nsName (b, st) = Inr (b', st', es)
    \<Longrightarrow> ns_reachable props path b' st'"

lemma ns_reachable_inv:
  "ns_reachable props path b st \<Longrightarrow> (\<exists>kvs. hash_shows path b kvs) \<and> (\<exists>ns. ns_agree b st ns)"
proof (induction rule: ns_reachable.induct)
  case (ns_first b kvs data st b' st' es)
  then show ?case using handleNameSpaces_ok by blast
next
  case (ns_list_again b st data b' st' es)
  then show ?case using handleNameSpaces_ok by blast
next
  case (ns_switch b st ns nsName b' st' es)
  then obtain kvs where "hash_shows path b kvs" by blast
  from changeNameSpace_ok[OF this, of props ns nsName st] show ?case using ns_switch(2) by auto
qed

lemma lib_tenant_agree:
  assumes "ns_agree b st ns"
  shows "lib_tenant b = Inr (if ns = ''global'' then [] else ns)"
  using assms by (auto simp: ns_agree_def lib_tenant_def str_or_def Let_def)

text \<open>
  C4: whatever the order of loads and switches, the location, the storage, the global variable
  and the state of the selector name the same namespace, and this is the tenant every request
  of the pipeline goes to. A further switch always succeeds and moves all of them at once.
\<close>

theorem namespace_agrees_everywhere:
  assumes "ns_reachable props path b st"
  shows "(\<exists>ns. ns_agree b st ns \<and> lib_tenant b = Inr (if ns = ''global'' then [] else ns)) \<and>
    (\<exists>b' st'. changeNameSpace props ns' nsName (b, st) =
        Inr (b', st', calleeParent props True @ tell_namespace props nsName ns') \<and> ns_agree b' st' ns')"
proof -
  obtain kvs ns where r: "hash_shows path b kvs" "ns_agree b st ns" using ns_reachable_inv[OF assms] by blast
  show ?thesis using lib_tenant_agree[OF r(2)] r(2) changeNameSpace_ok[OF r(1)] by blast
qed

definition sample_props :: ns_props where
  "sample_props = \<lparr>has_callback = True, has_setNow = True\<rparr>"

definition sample_ns_list :: ns_list where
  "sample_ns_list = \<lparr>nl_nownamespace = [], nl_namespaceList = Arr []\<rparr>"

theorem namespace_agrees_everywhere_witness:
  "\<exists>b st. handleNameSpaces sample_props (Arr []) (sample_browser, sample_ns_list) =
      Inr (b, st, tell_namespace sample_props [] [] @ calleeParent sample_props False) \<and>
    (\<exists>ns. ns_agree b st ns) \<and>
    (\<exists>b' st'. changeNameSpace sample_props ''dev'' ''Development'' (b, st) =
       Inr (b', st', calleeParent sample_props True @ tell_namespace sample_props ''Development'' ''dev'') \<and>
     ns_agree b' st' ''dev'')"
proof -
  have p: "param_or sample_browser ''namespace'' [] = Inr []"
    using getParams_shows[OF sample_shows, of "''namespace''"] by (simp add: param_or_def str_or_def)
  let ?b = "sample_browser\<lparr>namespaceList := Arr [], nownamespace := [], namespaceShowName := []\<rparr>"
  obtain h where h: "setParams ''namespace'' (Str []) ?b = Inr (?b\<lparr>href := h\<rparr>)"
    using setParams_href[of _ ?b, OF _ ns_params(1), of "''#/configurationManagement''"] sample_shows by auto
  then have r: "handleNameSpaces sample_props (Arr []) (sample_browser, sample_ns_list) =
      Inr (setItem ''namespace'' [] (?b\<lparr>href := h\<rparr>),
           sample_ns_list\<lparr>nl_nownamespace := [], nl_namespaceList := Arr []\<rparr>,
           tell_namespace sample_props [] [] @ calleeParent sample_props False)"
    by (simp add: handleNameSpaces_def p)
  note reach = ns_first[OF sample_shows r]
  show ?thesis
    using r namespace_agrees_everywhere[OF reach] by blast
qed

section \<open>Properties of the page and its dialogs\<close>

text \<open>
  C39: removing the current namespace changes the location only. The global variable still names
  the removed namespace, so the next request of the page is sent to it.
\<close>

theorem removed_namespace_stays_tenant:
  assumes "hash_shows path b kvs" and "map_of kvs ''namespace'' = Some ns" and "nownamespace b = ns"
    and "ns \<noteq> []" and "ns \<noteq> ''global''" and "field rec0 ''namespace'' = Str ns" and "np_default st = Str d"
  shows "\<exists>b' es. remove_replied loc rec0 (Bool True) (b, st) = Inr (b', st\<lparr>np_loading := True\<rparr>, es) \<and>
    getParams b' ''namespace'' = Inr (Some d) \<and> lib_tenant b' = Inr ns \<and> getItem b' ''namespace'' = getItem b ''namespace''"
proof -
  have p: "param b ''namespace'' = Inr (Str ns)"
    using getParams_shows[OF assms(1) ns_params(1)] assms(2) by (simp add: param_def)
  obtain h where h: "setParams ''namespace'' (Str d) b = Inr (b\<lparr>href := h\<rparr>)"
    "hash_shows path (b\<lparr>href := h\<rparr>) (AList.update ''namespace'' d kvs)"
    using setParams_href[OF assms(1) ns_params(1)] by blast
  have "getParams (b\<lparr>href := h\<rparr>) ''namespace'' = Inr (Some d)"
    using getParams_shows[OF h(2) ns_params(1)] by (simp add: update_conv')
  moreover have "lib_tenant (b\<lparr>href := h\<rparr>) = Inr ns" using assms(3-5) by (simp add: lib_tenant_def)
  ultimately show ?thesis
    using h(1) by (simp add: remove_replied_def p assms(6,7) page_getNameSpaces_def)
qed

definition dev_browser :: browser where
  "dev_browser = sample_browser\<lparr>href := ''http://h:8848/nacos/#/namespace?namespace=dev'', nownamespace := ''dev''\<rparr>"

lemma dev_shows: "hash_shows ''#/namespace'' dev_browser [(''namespace'', ''dev'')]"
  by code_simp

theorem removed_namespace_stays_tenant_witness:
  "\<exists>b' es. remove_replied Null (Obj [(''namespace'', Str ''dev'')]) (Bool True) (dev_browser, ns_page_init) =
      Inr (b', ns_page_init\<lparr>np_loading := True\<rparr>, es) \<and>
    getParams b' ''namespace'' = Inr (Some []) \<and> lib_tenant b' = Inr ''dev''"
  using removed_namespace_stays_tenant[OF dev_shows, of "''dev''" "Obj [(''namespace'', Str ''dev'')]" ns_page_init "[]" Null]
  by (auto simp: dev_browser_def ns_page_init_def field_def)

text \<open>
  C34: a new namespace is created in two steps. A submitted form sends something exactly when it has no
  errors and its name differs from every listed one, and then only the question whether the identifier
  is taken; the request that creates the namespace follows an answer other than "taken", alone, with the
  identifier asked for and the names of the form, and an answer "taken" sends nothing. While the
  question is under way the button is off, and any answer turns it on; when the question fails
  altogether the button stays off.
\<close>

theorem new_namespace_protocol:
  assumes "new_handleSubmit loc errors form st = (st1, es)" and "check_replied loc form res st1 = (st2, es2)"
  shows "((\<exists>c. Send c \<in> set es) \<longleftrightarrow> \<not> errors \<and> (\<forall>v \<in> set (nn_dataSource st). field v ''namespaceShowName'' \<noteq> field form ''namespaceShowName'')) \<and>
    (\<forall>c. Send c \<in> set es \<longrightarrow> es = [Send c] \<and> c_type c = Some ''get'' \<and> c_url c = ''v1/console/namespaces?checkNamespaceIdExist=true'' \<and>
       field (c_data c) ''customNamespaceId'' = custom_id form \<and> nn_button st1 \<and> nn_button (new_complete st1) \<and> \<not> nn_button (new_complete st2)) \<and>
    ((\<exists>c. Send c \<in> set es2) \<longleftrightarrow> res \<noteq> Bool True) \<and>
    (\<forall>c. Send c \<in> set es2 \<longrightarrow> es2 = [Send c] \<and> c_type c = Some ''post'' \<and> c_url c = ''v1/console/namespaces'' \<and>
       field (c_data c) ''customNamespaceId'' = custom_id form \<and> field (c_data c) ''namespaceName'' = field form ''namespaceShowName'' \<and>
       field (c_data c) ''namespaceDesc'' = field form ''namespaceDesc'')"
proof -
  have "((\<exists>c. Send c \<in> set es) \<longleftrightarrow> \<not> errors \<and> (\<forall>v \<in> set (nn_dataSource st). field v ''namespaceShowName'' \<noteq> field form ''namespaceShowName'')) \<and>
    (\<forall>c. Send c \<in> set es \<longrightarrow> es = [Send c] \<and> c_type c = Some ''get'' \<and> c_url c = ''v1/console/namespaces?checkNamespaceIdExist=true'' \<and>
       field (c_data c) ''customNamespaceId'' = custom_id form \<and> nn_button st1 \<and> nn_button (new_complete st1))"
    using assms(1) by (auto simp: new_handleSubmit_def list_all_iff set_disabled_def new_complete_def req_def field_def[of "Obj _"] split: if_splits)
  moreover have "\<not> nn_button (new_complete st2)"
    using assms(2) by (auto simp: check_replied_def set_disabled_def new_complete_def Let_def split: if_splits)
  moreover have "((\<exists>c. Send c \<in> set es2) \<longleftrightarrow> res \<noteq> Bool True) \<and>
    (\<forall>c. Send c \<in> set es2 \<longrightarrow> es2 = [Send c] \<and> c_type c = Some ''post'' \<and> c_url c = ''v1/console/namespaces'' \<and>
       field (c_data c) ''customNamespaceId'' = custom_id form \<and> field (c_data c) ''namespaceName'' = field form ''namespaceShowName'' \<and>
       field (c_data c) ''namespaceDesc'' = field form ''namespaceDesc'')"
    using assms(2) by (auto simp: check_replied_def Let_def req_def field_def[of "Obj (_ # _)"] split: if_splits)
  ultimately show ?thesis by blast
qed

theorem new_namespace_protocol_witness:
  "\<exists>st1 c st2 c2. new_handleSubmit Null False (Obj [(''namespaceShowName'', Str ''dev'')]) new_ns_init = (st1, [Send c]) \<and>
     c_type c = Some ''get'' \<and> nn_button (new_complete st1) \<and>
     check_replied Null (Obj [(''namespaceShowName'', Str ''dev'')]) (Bool False) st1 = (st2, [Send c2]) \<and> c_type c2 = Some ''post'' \<and>
     field (c_data c2) ''namespaceName'' = Str ''dev''"
proof -
  let ?f = "Obj [(''namespaceShowName'', Str ''dev'')]"
  obtain st1 es where s: "new_handleSubmit Null False ?f new_ns_init = (st1, es)" by fastforce
  obtain st2 es2 where c: "check_replied Null ?f (Bool False) st1 = (st2, es2)" by fastforce
  note p = new_namespace_protocol[OF s c]
  have "\<exists>c. Send c \<in> set es" using p by (simp add: new_ns_init_def)
  moreover have "\<exists>c. Send c \<in> set es2" using p by simp
  ultimately obtain c1 c2 where "Send c1 \<in> set es" "Send c2 \<in> set es2" by blast
  with p have "es = [Send c1]" "c_type c1 = Some ''get''" "nn_button (new_complete st1)" "es2 = [Send c2]" "c_type c2 = Some ''post''"
      "field (c_data c2) ''namespaceName'' = field ?f ''namespaceShowName''" by blast+
  with s c show ?thesis by (simp add: field_def)
qed

lemma takeWhile_length: "length (takeWhile P xs) = length xs \<longleftrightarrow> list_all P xs"
  by (induction xs) auto

text \<open>
  an identifier passes with a single call of the callback exactly when it is blank, or has at
  most 128 characters, all letters, digits, underscores or dashes; such an identifier is safe in
  every link. One that is only too long is reported and then passed by a second call.
\<close>

theorem namespace_id_checked:
  "(validateNamespzecId loc v = [None] \<longleftrightarrow> trim v = [] \<or> (length v \<le> 128 \<and> list_all id_char v)) \<and>
   (list_all id_char v \<longrightarrow> link_safe v) \<and>
   (trim v \<noteq> [] \<and> length v > 128 \<and> list_all id_char v \<longrightarrow>
      validateNamespzecId loc v = [Some (tr loc ''namespaceIdTooLong''), None])"
proof (intro conjI)
  have t: "v = [] \<Longrightarrow> trim v = []" by (simp add: trim_def)
  have n: "trim v \<noteq> [] \<Longrightarrow> list_all id_char v \<Longrightarrow> takeWhile id_char v \<noteq> []"
    using t by (cases v) auto
  show "validateNamespzecId loc v = [None] \<longleftrightarrow> trim v = [] \<or> (length v \<le> 128 \<and> list_all id_char v)"
    using n by (auto simp: validateNamespzecId_def Let_def takeWhile_length[symmetric] split: if_splits)
  show "trim v \<noteq> [] \<and> length v > 128 \<and> list_all id_char v \<longrightarrow>
      validateNamespzecId loc v = [Some (tr loc ''namespaceIdTooLong''), None]"
    using n by (auto simp: validateNamespzecId_def Let_def takeWhile_length[symmetric] simp del: takeWhile_eq_Nil_iff)
  show "list_all id_char v \<longrightarrow> link_safe v"
    by (auto simp: list_all_iff link_safe_def id_char_def word_char_def is_digit_def)
qed

theorem namespace_id_checked_witness:
  "validateNamespzecId Null ''dev-1'' = [None] \<and> link_safe ''dev-1''"
proof -
  have "list_all id_char ''dev-1''" by (simp add: id_char_def word_char_def is_digit_def)
  then show ?thesis using namespace_id_checked[of Null "''dev-1''"] by simp
qed

end
