(* ===== verification/Config_List.thy ===== *)
theory Config_List
  imports Namespaces
begin

text \<open>
  The configuration list, \<^verbatim>\<open>pages/ConfigurationManagement/ConfigurationManagement.js\<close>: the search
  parameters shared with the location, the guarded query, paging, the links to the other pages,
  the selection with delete, export and clone, and the import.

  The state holds the instance fields (\<open>cm_\<close>), the React state (\<open>st_\<close>) and the module's map
  \<open>configsTableSelected\<close>, an association list from identifiers to records in insertion order.
\<close>

section \<open>State\<close>

record cm_state =
  cm_appName :: string
  cm_group :: string
  cm_dataId :: string
  cm_serverId :: string
  cm_edasAppId :: string
  cm_edasAppName :: string
  cm_tenant :: string
  cm_pageNo :: jv
  cm_pageSize :: jv
  st_pageSize :: jv
  st_currentPage :: jv
  st_total :: jv
  st_dataSource :: "jv list"
  st_fieldValue :: "string list"
  st_selectValue :: "string list"
  st_showAppName :: bool
  st_showgroup :: bool
  st_dataId :: string
  st_group :: string
  st_appName :: string
  st_config_tags :: "string list"
  st_tagLst :: "string list option"
  st_loading :: bool
  st_tenant :: jv
  st_nownamespace_id :: string
  st_nownamespace_name :: string
  st_selectedRecord :: "jv list"
  st_selectedKeys :: "jv list"
  st_hasdash :: bool
  st_contentList :: "jv list"
  st_isCn :: bool
  st_isAdvancedQuery :: bool
  st_isCheckAll :: bool
  st_isPageEnter :: bool
  selectedRowKeys :: "jv list"
  configsTableSelected :: "(jv \<times> jv) list"

type_synonym cm_result = "js_error + browser \<times> cm_state \<times> effect list"

text \<open>The constructor; the map of the module outlives the instance and is an argument.\<close>

definition cm_fields :: "(jv \<times> jv) list \<Rightarrow> browser \<Rightarrow> js_error + cm_state" where
  "cm_fields selected b =
     and_then (param_or b ''edasAppId'' []) (\<lambda>edasAppId.
     and_then (param_or b ''appName'' edasAppId) (\<lambda>appName.
     and_then (param_or b ''group'' []) (\<lambda>group.
     and_then (param_or b ''dataId'' []) (\<lambda>dataId.
     and_then (param_or b ''serverId'' ''center'') (\<lambda>serverId.
     and_then (param_or b ''edasAppName'' []) (\<lambda>edasAppName.
     and_then (param b ''pageSize'') (\<lambda>pageSize.
       Inr \<lparr>cm_appName = appName, cm_group = group, cm_dataId = dataId, cm_serverId = serverId, cm_edasAppId = edasAppId,
            cm_edasAppName = edasAppName, cm_tenant = [], cm_pageNo = Undefined, cm_pageSize = Undefined,
            st_pageSize = js_or pageSize (num 10), st_currentPage = num 1, st_total = num 0, st_dataSource = [],
            st_fieldValue = [], st_selectValue = [], st_showAppName = False, st_showgroup = False,
            st_dataId = dataId, st_group = group, st_appName = appName, st_config_tags = [], st_tagLst = Some [],
            st_loading = False, st_tenant = Bool True, st_nownamespace_id = nownamespace b,
            st_nownamespace_name = namespaceShowName b, st_selectedRecord = [], st_selectedKeys = [],
            st_hasdash = False, st_contentList = [], st_isCn = True, st_isAdvancedQuery = False, st_isCheckAll = False,
            st_isPageEnter = False, selectedRowKeys = [], configsTableSelected = selected\<rparr>)))))))"

definition cm_init :: "(jv \<times> jv) list \<Rightarrow> browser \<Rightarrow> js_error + browser \<times> cm_state" where
  "cm_init selected b =
     and_then (cm_fields selected b) (\<lambda>st.
     and_then (setParamsObj [(''dataId'', Str (cm_dataId st)), (''group'', Str (cm_group st)), (''appName'', Str (cm_appName st))] b) (\<lambda>b.
       Inr (b, st)))"

definition setIsCn :: "browser \<Rightarrow> cm_state \<Rightarrow> cm_state" where
  "setIsCn b st = st\<lparr>st_isCn := (getItem b LANGUAGE_KEY = Some ''zh-CN'')\<rparr>"

definition checkQuestionnaire :: "browser \<Rightarrow> bool" where
  "checkQuestionnaire b = (str_or (getItem b ''acm_questionnaire'') [] \<noteq> [])"

definition toggleShowQuestionnaire :: "bool \<Rightarrow> browser \<Rightarrow> browser" where
  "toggleShowQuestionnaire v b = (if v then setItem ''acm_questionnaire'' ''1'' b else removeItem ''acm_questionnaire'' b)"

definition cm_mount :: "jv \<Rightarrow> browser \<Rightarrow> cm_state \<Rightarrow> cm_state \<times> effect list" where
  "cm_mount loc b st =
     (setIsCn b st,
      if get_link ''isCn'' = Str ''true'' \<and> \<not> checkQuestionnaire b \<and> host b = ''acm.console.aliyun.com''
      then [Alert (tr loc ''questionnaire2'') (tr loc ''ad'')] else [])"

definition getContentList :: effect where
  "getContentList = Send ((req ''com.alibaba.nacos.service.dashlist'')\<lparr>c_data := Obj [], c_dollar_data := Obj []\<rparr>)"

definition content_loaded :: "jv \<Rightarrow> cm_state \<Rightarrow> cm_state" where
  "content_loaded res st =
     (if field res ''code'' = num 200 \<and> truthy (field res ''data'') then
        (case field res ''data'' of
           Arr [] \<Rightarrow> st\<lparr>st_hasdash := False\<rparr>
         | Arr xs \<Rightarrow> st\<lparr>st_hasdash := True, st_contentList := xs\<rparr>
         | _ \<Rightarrow> st)
      else st)"

section \<open>The query\<close>

definition cm_openLoading :: "cm_state \<Rightarrow> cm_state" where
  "cm_openLoading st = st\<lparr>st_loading := True\<rparr>"

definition cm_closeLoading :: "cm_state \<Rightarrow> cm_state" where
  "cm_closeLoading st = st\<lparr>st_loading := False\<rparr>"

definition query_params_of :: "cm_state \<Rightarrow> jv obj" where
  "query_params_of st =
     [(''dataId'', Str (cm_dataId st)), (''group'', Str (cm_group st)), (''appName'', Str (cm_appName st)),
      (''config_tags'', Str (join '','' (st_config_tags st))), (''pageNo'', cm_pageNo st), (''pageSize'', cm_pageSize st),
      (''tenant'', Str (cm_tenant st)),
      (''search'', Str (if CHR ''*'' \<in> set (cm_dataId st) \<or> CHR ''*'' \<in> set (cm_group st) then ''blur'' else ''accurate''))]"

definition getData :: "jv \<Rightarrow> browser \<Rightarrow> cm_state \<Rightarrow> cm_result" where
  "getData pageNo b st =
     (if st_loading st then Inr (b, st, [])
      else and_then (param_or b ''namespace'' []) (\<lambda>tenant.
           and_then (param_or b ''serverId'' []) (\<lambda>serverId.
           and_then (param b ''pageNo'') (\<lambda>prePageNo.
           and_then (param b ''pageSize'') (\<lambda>prePageSize.
           and_then (setParams ''pageSize'' Null b) (\<lambda>b.
           and_then (setParams ''pageNo'' Null b) (\<lambda>b.
             let st = st\<lparr>cm_tenant := tenant, cm_serverId := serverId, cm_pageNo := js_or prePageNo pageNo,
                         cm_pageSize := js_or prePageSize (st_pageSize st), st_loading := True\<rparr>
             in Inr (b, st, [Axios (thunk_call (getConfigs (Obj (query_params_of st))))]))))))))"

text \<open>\<open>s.replace(pattern, text)\<close> with a string pattern.\<close>

fun replace_str :: "string \<Rightarrow> string \<Rightarrow> string \<Rightarrow> string" where
  "replace_str p d [] = (if p = [] then d else [])"
| "replace_str p d (c # cs) = (if prefix p (c # cs) then d @ drop (length p) (c # cs) else c # replace_str p d cs)"

text \<open>
  The two outcomes of the query. The rejection also empties the page of configurations the
  component had when it asked, an object of the store, and reports a denied access.
\<close>

definition getData_resolved :: "cm_state \<Rightarrow> cm_state" where
  "getData_resolved st =
     st\<lparr>st_loading := False, st_selectedRecord := [], st_selectedKeys := [], st_tenant := Str (cm_tenant st)\<rparr>"

definition getData_rejected :: "jv \<Rightarrow> jv \<Rightarrow> jv obj \<Rightarrow> cm_state \<Rightarrow> js_error + jv obj \<times> cm_state \<times> effect list" where
  "getData_rejected loc res configurations st =
     (let page = obj_put ''totalCount'' (num 0) (obj_put ''pageItems'' (Arr []) configurations);
          st = cm_closeLoading st
      in if truthy res \<and> field res ''status'' \<in> {num 401, num 403} then
           (case tr loc ''getNamespace403'' of
              Str t \<Rightarrow> Inr (page, st, [Alert (tr loc ''authFail'') (Str (replace_str ''${namespaceName}'' (st_nownamespace_name st) t))])
            | _ \<Rightarrow> Inl TypeError)
         else Inr (page, st, []))"

text \<open>\<open>namespaceCallBack\<close>: the namespace was loaded (\<open>False\<close>) or switched (\<open>True\<close>).\<close>

definition cleanAndGetData :: "bool \<Rightarrow> browser \<Rightarrow> cm_state \<Rightarrow> cm_result" where
  "cleanAndGetData needclean b st =
     and_then
       (if needclean then
          and_then (setParamsObj [(''group'', Str []), (''dataId'', Str [])] b) (\<lambda>b.
            Inr (b, st\<lparr>cm_dataId := [], cm_group := [], st_group := [], st_dataId := []\<rparr>))
        else Inr (b, st))
       (\<lambda>(b, st).
          and_then (getData (num 1) b st) (\<lambda>(b, st, es).
            Inr (b, st\<lparr>configsTableSelected := [], selectedRowKeys := []\<rparr>, es)))"

definition setNowNameSpace :: "string \<Rightarrow> string \<Rightarrow> cm_state \<Rightarrow> cm_state" where
  "setNowNameSpace name id0 st = st\<lparr>st_nownamespace_name := name, st_nownamespace_id := id0\<rparr>"

definition changePage :: "jv \<Rightarrow> jv \<Rightarrow> browser \<Rightarrow> cm_state \<Rightarrow> cm_result" where
  "changePage v e b st =
     getData v b (st\<lparr>st_isPageEnter := (truthy e \<and> field e ''keyCode'' = num 13), st_currentPage := v\<rparr>)"

definition handlePageSizeChange :: "jv \<Rightarrow> browser \<Rightarrow> cm_state \<Rightarrow> cm_result" where
  "handlePageSizeChange pageSize b st = changePage (num 1) Undefined b (st\<lparr>st_pageSize := pageSize\<rparr>)"

section \<open>The search form\<close>

definition chooseFieldChange :: "string list \<Rightarrow> cm_state \<Rightarrow> cm_state" where
  "chooseFieldChange fieldValue st = st\<lparr>st_fieldValue := fieldValue\<rparr>"

definition showSelect :: "string list \<Rightarrow> cm_state \<Rightarrow> cm_state" where
  "showSelect v st = chooseFieldChange v
     (st\<lparr>st_selectValue := v, st_showAppName := (''appName'' \<in> set v), st_showgroup := (''group'' \<in> set v)\<rparr>)"

definition setAppName :: "string \<Rightarrow> cm_state \<Rightarrow> cm_state" where
  "setAppName v st = st\<lparr>cm_appName := v, st_appName := v\<rparr>"

definition getAppName :: "string \<Rightarrow> cm_state \<Rightarrow> cm_state" where
  "getAppName v st = st\<lparr>cm_appName := v, st_appName := v\<rparr>"

definition setConfigTags :: "string list option \<Rightarrow> cm_state \<Rightarrow> cm_state" where
  "setConfigTags v st = st\<lparr>st_config_tags := (case v of None \<Rightarrow> [] | Some xs \<Rightarrow> xs), st_tagLst := v\<rparr>"

definition search_tag :: "string \<Rightarrow> cm_state \<Rightarrow> js_error + cm_state" where
  "search_tag v st = (case st_tagLst st of
     None \<Rightarrow> Inl TypeError
   | Some tagLst \<Rightarrow> Inr (if v \<in> set tagLst then st else st\<lparr>st_tagLst := Some (tagLst @ [v])\<rparr>))"

definition setGroup :: "string option \<Rightarrow> cm_state \<Rightarrow> cm_state" where
  "setGroup v st = st\<lparr>cm_group := str_or v [], st_group := str_or v []\<rparr>"

definition set_dataId :: "string \<Rightarrow> cm_state \<Rightarrow> cm_state" where
  "set_dataId v st = st\<lparr>cm_dataId := v, st_dataId := v\<rparr>"

definition selectAll :: "browser \<Rightarrow> cm_state \<Rightarrow> cm_result" where
  "selectAll b st =
     and_then (setParams ''dataId'' (Str (cm_dataId st)) b) (\<lambda>b.
     and_then (setParams ''group'' (Str (cm_group st)) b) (\<lambda>b.
     and_then (setParams ''appName'' (Str (cm_appName st)) b) (\<lambda>b. getData (num 1) b st)))"

definition resetAll :: "browser \<Rightarrow> cm_state \<Rightarrow> cm_result" where
  "resetAll b st =
     selectAll b (st\<lparr>cm_dataId := [], cm_appName := [], cm_group := [], st_selectValue := [], st_dataId := [],
       st_appName := [], st_group := [], st_showAppName := False, st_showgroup := False\<rparr>)"

definition changeAdvancedQuery :: "cm_state \<Rightarrow> cm_state" where
  "changeAdvancedQuery st = st\<lparr>st_isAdvancedQuery := \<not> st_isAdvancedQuery st\<rparr>"

section \<open>Links to other pages\<close>

definition cm_navTo :: "string \<Rightarrow> jv \<Rightarrow> browser \<Rightarrow> cm_state \<Rightarrow> cm_result" where
  "cm_navTo url rec0 b st =
     and_then (param_or b ''serverId'' []) (\<lambda>serverId.
     and_then (param_or b ''namespace'' []) (\<lambda>tenant.
       Inr (b, st\<lparr>cm_serverId := serverId, cm_tenant := tenant\<rparr>,
            [Push (link url [(''serverId'', serverId), (''dataId'', to_str (field rec0 ''dataId'')),
                             (''group'', to_str (field rec0 ''group'')), (''namespace'', tenant)])])))"

definition chooseNav :: "jv \<Rightarrow> string \<Rightarrow> browser \<Rightarrow> cm_state \<Rightarrow> cm_result" where
  "chooseNav rec0 key =
     (if key = ''nav1'' then cm_navTo ''/historyRollback'' rec0
      else if key = ''nav2'' then cm_navTo ''/pushTrajectory'' rec0
      else cm_navTo ''/listeningToQuery'' rec0)"

definition at_center :: "browser \<Rightarrow> cm_state \<Rightarrow> (cm_state \<Rightarrow> string) \<Rightarrow> cm_result" where
  "at_center b st target =
     and_then (param_or b ''serverId'' ''center'') (\<lambda>serverId.
     and_then (param_or b ''namespace'' []) (\<lambda>tenant.
       let st = st\<lparr>cm_serverId := serverId, cm_tenant := tenant\<rparr> in Inr (b, st, [Push (target st)])))"

definition chooseEnv :: "browser \<Rightarrow> cm_state \<Rightarrow> cm_result" where
  "chooseEnv b st = at_center b st (\<lambda>st. link ''/newconfig''
     [(''serverId'', cm_serverId st), (''namespace'', cm_tenant st), (''edasAppName'', cm_edasAppName st),
      (''edasAppId'', cm_edasAppId st), (''searchDataId'', cm_dataId st), (''searchGroup'', cm_group st)])"

definition goDetail :: "jv \<Rightarrow> browser \<Rightarrow> cm_state \<Rightarrow> cm_result" where
  "goDetail rec0 b st = at_center b st (\<lambda>st. link ''/configdetail''
     [(''serverId'', cm_serverId st), (''dataId'', to_str (field rec0 ''dataId'')), (''group'', to_str (field rec0 ''group'')),
      (''namespace'', cm_tenant st), (''edasAppName'', cm_edasAppName st), (''searchDataId'', cm_dataId st),
      (''searchGroup'', cm_group st), (''pageSize'', to_str (cm_pageSize st)), (''pageNo'', to_str (cm_pageNo st))])"

definition goEditor :: "jv \<Rightarrow> browser \<Rightarrow> cm_state \<Rightarrow> cm_result" where
  "goEditor rec0 b st = at_center b st (\<lambda>st. link ''/configeditor''
     [(''serverId'', cm_serverId st), (''dataId'', to_str (field rec0 ''dataId'')), (''group'', to_str (field rec0 ''group'')),
      (''namespace'', cm_tenant st), (''edasAppName'', cm_edasAppName st), (''edasAppId'', cm_edasAppId st),
      (''searchDataId'', cm_dataId st), (''searchGroup'', cm_group st), (''pageSize'', to_str (cm_pageSize st)),
      (''pageNo'', to_str (cm_pageNo st))])"

definition goConfigSync :: "jv \<Rightarrow> browser \<Rightarrow> cm_state \<Rightarrow> cm_result" where
  "goConfigSync rec0 b st = at_center b st (\<lambda>st. link ''/configsync''
     [(''serverId'', cm_serverId st), (''dataId'', to_str (field rec0 ''dataId'')), (''group'', to_str (field rec0 ''group'')),
      (''namespace'', cm_tenant st)])"

section \<open>Removing one configuration\<close>

definition removeConfig :: "jv \<Rightarrow> jv \<Rightarrow> cm_state \<Rightarrow> effect list" where
  "removeConfig loc rec0 st =
     [Confirm (tr loc ''removeConfiguration'')
        (Arr [tr loc ''sureDelete'', field rec0 ''dataId'', field rec0 ''group'', Str (cm_serverId st)])]"

definition removeConfig_ok :: "jv \<Rightarrow> effect list" where
  "removeConfig_ok rec0 =
     [Send ((req (link ''v1/cs/configs'' [(''dataId'', to_str (field rec0 ''dataId'')), (''group'', to_str (field rec0 ''group''))]))
        \<lparr>c_type := Some ''delete''\<rparr>)]"

definition removeConfig_replied :: "jv \<Rightarrow> jv \<Rightarrow> jv \<Rightarrow> browser \<Rightarrow> cm_state \<Rightarrow> cm_result" where
  "removeConfig_replied loc rec0 res b st =
     (if res = Null \<or> res = Undefined then Inl TypeError
      else let payload = [(''title'', tr loc ''configurationManagement''), (''content'', Str []),
                          (''dataId'', field rec0 ''dataId''), (''group'', field rec0 ''group'')]
             @ (if res = Bool True then [(''isok'', Bool True)] else [(''isok'', Bool False), (''message'', field res ''message'')])
           in and_then (getData (num 1) b st) (\<lambda>(b, st, es). Inr (b, st, Open_Dialog ''deleteDialog'' (Obj payload) # es)))"

section \<open>The selection\<close>

text \<open>\<open>Map.prototype.set\<close> keeps the place of a key that is present.\<close>

definition configDataTableOnChange :: "jv list \<Rightarrow> jv list \<Rightarrow> cm_state \<Rightarrow> cm_state" where
  "configDataTableOnChange ids records st =
     st\<lparr>selectedRowKeys := ids,
        configsTableSelected := fold (\<lambda>r. AList.update (field r ''id'') r) records []\<rparr>"

text \<open>The handlers of the older table, kept in the class.\<close>

definition onSelectChange :: "jv list \<Rightarrow> jv list \<Rightarrow> cm_state \<Rightarrow> cm_state" where
  "onSelectChange keys rows st =
     (let recs = filter (\<lambda>item. field item ''id'' \<in> set keys \<and> field item ''id'' \<notin> set (st_selectedKeys st)) rows
                 @ filter (\<lambda>item. field item ''id'' \<in> set keys) (st_selectedRecord st)
      in st\<lparr>st_selectedRecord := recs, st_selectedKeys := keys,
            st_isCheckAll := (length recs > 0 \<and> length recs = length (st_dataSource st))\<rparr>)"

definition checkAllHandle :: "bool \<Rightarrow> cm_state \<Rightarrow> cm_state" where
  "checkAllHandle checked st =
     st\<lparr>st_isCheckAll := checked, st_selectedKeys := (if checked then map (\<lambda>item. field item ''id'') (st_dataSource st) else []),
        st_selectedRecord := (if checked then st_dataSource st else [])\<rparr>"

definition onClickBatchHandle :: "cm_state \<Rightarrow> effect" where
  "onClickBatchHandle st = Open_Dialog ''batchHandle'' (Obj [(''serverId'', Str (cm_serverId st)), (''group'', Str (cm_group st)),
     (''dataId'', Str (cm_dataId st)), (''appName'', Str (cm_appName st)),
     (''config_tags'', Arr (map Str (st_config_tags st))), (''pageSize'', st_pageSize st)])"

definition selected_ids :: "cm_state \<Rightarrow> string" where
  "selected_ids st = join '','' (map (join_str \<circ> fst) (configsTableSelected st))"

definition multipleSelectionDeletion :: "jv \<Rightarrow> cm_state \<Rightarrow> effect list" where
  "multipleSelectionDeletion loc st =
     (if configsTableSelected st = [] then [Alert (tr loc ''delSelectedAlertTitle'') (tr loc ''delSelectedAlertContent'')]
      else [Confirm (tr loc ''removeConfiguration'')
              (Arr (map (\<lambda>kv. Obj [(''dataId'', field (snd kv) ''dataId''), (''group'', field (snd kv) ''group'')])
                (configsTableSelected st)))])"

definition deletion_ok :: "cm_state \<Rightarrow> effect list" where
  "deletion_ok st = [Send ((req (''v1/cs/configs?delType=ids&ids='' @ selected_ids st))\<lparr>c_type := Some ''delete''\<rparr>)]"

definition deletion_replied :: "jv \<Rightarrow> browser \<Rightarrow> cm_state \<Rightarrow> cm_result" where
  "deletion_replied loc b st =
     and_then (getData (num 1) b st) (\<lambda>(b, st, es). Inr (b, st, Toast ''success'' (tr loc ''delSuccessMsg'') # es))"

section \<open>Export\<close>

definition openUri :: "string \<Rightarrow> jv obj \<Rightarrow> effect" where
  "openUri url ps = Open_Window (join ''?'' [url, join ''&'' (map (\<lambda>kv. fst kv @ ''='' @ to_str (snd kv)) (key_order ps))])"

text \<open>\<open>const { accessToken = '' } = JSON.parse(localStorage.token || '{}')\<close>, outside any \<open>try\<close>.\<close>

definition export_token :: "browser \<Rightarrow> js_error + jv" where
  "export_token b =
     and_then (parse_json (str_or (getItem b ''token'') ''{}'')) (\<lambda>v.
       if v = Null then Inl TypeError
       else Inr (if field v ''accessToken'' = Undefined then Str [] else field v ''accessToken''))"

definition exportData :: "browser \<Rightarrow> cm_state \<Rightarrow> js_error + effect list" where
  "exportData b st =
     and_then (export_token b) (\<lambda>accessToken.
     and_then (param b ''namespace'') (\<lambda>tenant.
       Inr [openUri ''v1/cs/configs'' [(''export'', Str ''true''), (''tenant'', tenant), (''group'', Str (cm_group st)),
         (''appName'', Str (cm_appName st)), (''dataId'', Str (cm_dataId st)), (''ids'', Str []), (''accessToken'', accessToken)]]))"

definition exportSelectedData :: "jv \<Rightarrow> browser \<Rightarrow> cm_state \<Rightarrow> js_error + effect list" where
  "exportSelectedData loc b st =
     and_then (export_token b) (\<lambda>accessToken.
       if configsTableSelected st = []
       then Inr [Alert (tr loc ''exportSelectedAlertTitle'') (tr loc ''exportSelectedAlertContent'')]
       else Inr [openUri ''v1/cs/configs'' [(''export'', Str ''true''), (''tenant'', Str []), (''group'', Str []),
              (''appName'', Str []), (''ids'', Str (selected_ids st)), (''accessToken'', accessToken)]])"

section \<open>Clone and import\<close>

text \<open>
  The clone dialog: the chosen target and policy, the warning for a missing target, and the
  copies of the selected records that the table of the dialog edits.
\<close>

record clone_dialog =
  cd_target :: jv
  cd_policy :: jv
  cd_warning :: bool
  cd_copies :: "(jv \<times> jv) list"

definition cloneSelectedDataConfirm :: "jv \<Rightarrow> cm_state \<Rightarrow> cm_state \<times> effect list" where
  "cloneSelectedDataConfirm loc st =
     (if configsTableSelected st = [] then (st, [Alert (tr loc ''cloneSelectedAlertTitle'') (tr loc ''cloneSelectedAlertContent'')])
      else (cm_openLoading st,
            [Send ((req ''v1/console/namespaces?namespaceId='')
               \<lparr>c_error := UserFn 1, c_complete := UserFn 2, c_beforeSend := UserFn 3\<rparr>)]))"

definition namespace_option :: "cm_state \<Rightarrow> jv \<Rightarrow> jv" where
  "namespace_option st item =
     (let current = (''isCurrent'', Bool (Str (st_nownamespace_id st) = field item ''namespace''))
      in if field item ''namespaceShowName'' = Str ''public''
         then Obj [current, (''label'', Str ''public | public''), (''value'', Str ''public'')]
         else Obj [current, (''label'', Str (to_str (field item ''namespaceShowName'') @ '' | '' @ to_str (field item ''namespace''))),
                   (''value'', field item ''namespace'')])"

text \<open>\<open>JSON.parse(JSON.stringify(value))\<close>.\<close>

definition deep_copy :: "jv \<Rightarrow> js_error + jv" where
  "deep_copy v = (case stringify v of Text t \<Rightarrow> parse_json t | Omit \<Rightarrow> Inl SyntaxError | NoText \<Rightarrow> Inl OutsideModel)"

fun copy_all :: "(jv \<times> jv) list \<Rightarrow> js_error + (jv \<times> jv) list" where
  "copy_all [] = Inr []"
| "copy_all ((k, v) # kvs) = and_then (deep_copy v) (\<lambda>w. and_then (copy_all kvs) (\<lambda>ws. Inr ((k, w) # ws)))"

definition clone_loaded :: "jv \<Rightarrow> jv \<Rightarrow> cm_state \<Rightarrow> js_error + cm_state \<times> clone_dialog option \<times> effect list" where
  "clone_loaded loc data st =
     (let st = cm_closeLoading st;
          bad = (\<not> truthy data \<or> field data ''code'' \<noteq> num 200 \<or> \<not> truthy (field data ''data''));
          alert = (if bad then [Alert (tr loc ''getNamespaceFailed'') (tr loc ''getNamespaceFailed'')] else [])
      in case field data ''data'' of
           Arr namespaces \<Rightarrow>
             and_then (copy_all (configsTableSelected st)) (\<lambda>copies.
               Inr (st, Some \<lparr>cd_target = Undefined, cd_policy = Str ''ABORT'', cd_warning = False, cd_copies = copies\<rparr>,
                    alert @ [Confirm (tr loc ''cloningConfiguration'')
                      (Obj [(''namespaces'', Arr (map (namespace_option st) namespaces)),
                            (''rows'', Arr (map (\<lambda>kv. Obj [(''id'', fst kv), (''dataId'', field (snd kv) ''dataId''),
                               (''group'', field (snd kv) ''group'')]) (configsTableSelected st)))])]))
         | _ \<Rightarrow> Inl TypeError)"

definition clone_failed :: "cm_state \<Rightarrow> cm_state" where
  "clone_failed st = (cm_closeLoading st)\<lparr>st_dataSource := [], st_total := num 0, st_currentPage := num 0\<rparr>"

definition clone_target :: "jv \<Rightarrow> clone_dialog \<Rightarrow> clone_dialog" where
  "clone_target v d = (if truthy v then d\<lparr>cd_warning := False, cd_target := v\<rparr> else d)"

definition clone_policy :: "jv \<Rightarrow> clone_dialog \<Rightarrow> clone_dialog" where
  "clone_policy v d = (if truthy v then d\<lparr>cd_policy := v\<rparr> else d)"

text \<open>\<open>editableTableOnBlur(record, type, e)\<close>: 1 edits the data identifier, another type the group.\<close>

definition editableTableOnBlur :: "jv \<Rightarrow> nat \<Rightarrow> jv \<Rightarrow> clone_dialog \<Rightarrow> js_error + clone_dialog" where
  "editableTableOnBlur id0 type0 v d =
     (case map_of (cd_copies d) id0 of
        Some (Obj kvs) \<Rightarrow>
          Inr (d\<lparr>cd_copies := AList.update id0 (Obj (obj_put (if type0 = 1 then ''dataId'' else ''group'') v kvs)) (cd_copies d)\<rparr>)
      | _ \<Rightarrow> Inl TypeError)"

definition clone_post_data :: "clone_dialog \<Rightarrow> jv" where
  "clone_post_data d = Arr (map (\<lambda>kv. Obj [(''cfgId'', fst kv), (''dataId'', field (snd kv) ''dataId''),
     (''group'', field (snd kv) ''group'')]) (cd_copies d))"

definition start_clone :: "clone_dialog \<Rightarrow> cm_state \<Rightarrow> js_error + clone_dialog \<times> cm_state \<times> effect list" where
  "start_clone d st =
     (if \<not> truthy (cd_target d) then Inr (d\<lparr>cd_warning := True\<rparr>, st, [])
      else case stringify (clone_post_data d) of
          Text t \<Rightarrow>
            Inr (d\<lparr>cd_warning := False\<rparr>, cm_openLoading st,
              [Send ((req (''v1/cs/configs?clone=true&tenant='' @ to_str (cd_target d) @ ''&policy='' @ to_str (cd_policy d) @ ''&namespaceId=''))
                 \<lparr>c_method := Some ''post'', c_data := Str t, c_contentType := Some ''application/json'',
                  c_error := UserFn 1, c_complete := UserFn 2, c_beforeSend := UserFn 3\<rparr>)])
        | _ \<Rightarrow> Inl OutsideModel)"

text \<open>
  \<open>processImportAndCloneResult\<close>. The alert of an aborted run lists the failed and the skipped
  entries, the one of a partial run the skipped ones.
\<close>

definition arr_len :: "jv \<Rightarrow> nat" where
  "arr_len v = (case v of Arr xs \<Rightarrow> length xs | _ \<Rightarrow> 0)"

definition positive :: "jv \<Rightarrow> bool" where
  "positive v = (case v of Num m k \<Rightarrow> m > 0 | _ \<Rightarrow> False)"

definition fail_content :: "jv \<Rightarrow> jv \<Rightarrow> bool \<Rightarrow> jv" where
  "fail_content loc code isImport =
     (if code \<in> {num 100003, num 100004, num 100005} then tr loc ''importDataValidationError''
      else if code = num 100002 then tr loc ''metadataIllegal''
      else if code = num 100001 then tr loc ''namespaceNotExist''
      else if isImport then tr loc ''importFailMsg'' else tr loc ''cloneFailMsg'')"

definition result_notice :: "jv \<Rightarrow> jv \<Rightarrow> bool \<Rightarrow> effect" where
  "result_notice loc data isImport =
     (if arr_len (field data ''failData'') > 0 then
        Alert (tr loc (if isImport then ''importAbort'' else ''cloneAbort'')) (Arr [field data ''failData'', field data ''skipData''])
      else if positive (field data ''skipCount'') then
        Alert (tr loc (if isImport then ''importSucc'' else ''cloneSucc'')) (field data ''skipData'')
      else Toast ''success'' (Str (to_str (tr loc (if isImport then ''importSuccBegin'' else ''cloneSuccBegin''))
             @ to_str (field data ''succCount'') @ to_str (tr loc (if isImport then ''importSuccEnd'' else ''cloneSuccEnd'')))))"

definition processImportAndCloneResult :: "jv \<Rightarrow> jv \<Rightarrow> bool \<Rightarrow> browser \<Rightarrow> cm_state \<Rightarrow> cm_result" where
  "processImportAndCloneResult loc ret isImport b st =
     (if field ret ''code'' = num 200 then
        (if field ret ''data'' = Null \<or> field ret ''data'' = Undefined then Inl TypeError
         else and_then (getData (num 1) b st) (\<lambda>(b, st, es).
           Inr (b, st, Callback ''confirm.hide'' [] # result_notice loc (field ret ''data'') isImport # es)))
      else Inr (b, st, [Alert (tr loc (if isImport then ''importFail'' else ''cloneFail'')) (fail_content loc (field ret ''code'') isImport)]))"

definition clone_replied :: "jv \<Rightarrow> jv \<Rightarrow> browser \<Rightarrow> cm_state \<Rightarrow> cm_result" where
  "clone_replied loc ret b st = processImportAndCloneResult loc ret False b (cm_closeLoading st)"

record upload =
  up_action :: string
  up_headers :: "jv obj"
  up_policy :: jv

definition importData :: "jv \<Rightarrow> browser \<Rightarrow> js_error + browser \<times> upload \<times> effect list" where
  "importData loc b =
     and_then (read_token b) (\<lambda>(b, accessToken).
     and_then (param b ''namespace'') (\<lambda>namespace0.
       Inr (b, \<lparr>up_action = ''v1/cs/configs?import=true&namespace='' @ to_str namespace0 @ ''&accessToken='' @ to_str accessToken,
                up_headers = [(''accessToken'', accessToken)], up_policy = Str ''ABORT''\<rparr>,
            [Confirm (tr loc ''import'') (tr loc ''targetNamespace'')])))"

definition import_policy :: "jv \<Rightarrow> upload \<Rightarrow> upload" where
  "import_policy v u = u\<lparr>up_policy := v\<rparr>"

definition import_error :: "jv \<Rightarrow> jv \<Rightarrow> effect" where
  "import_error loc status =
     Alert (tr loc ''importFail'') (tr loc (if status \<in> {num 401, num 403} then ''importFail403'' else ''importDataValidationError''))"

section \<open>Properties of the query\<close>

text \<open>A parameter of the location as the page reads it.\<close>

abbreviation url_val :: "string obj \<Rightarrow> string \<Rightarrow> jv" where
  "url_val kvs n \<equiv> (case map_of kvs n of None \<Rightarrow> Null | Some s \<Rightarrow> Str s)"

lemma page_params [simp]:
  "''pageNo'' \<in> set console_params" "''pageSize'' \<in> set console_params" "''serverId'' \<in> set console_params"
  "''dataId'' \<in> set console_params" "''group'' \<in> set console_params" "''appName'' \<in> set console_params"
  by (simp_all add: console_params_def)

lemma param_shows: "hash_shows path b kvs \<Longrightarrow> n \<in> set console_params \<Longrightarrow> param b n = Inr (url_val kvs n)"
  by (simp add: param_def getParams_shows split: option.splits)

lemma param_or_shows: "hash_shows path b kvs \<Longrightarrow> n \<in> set console_params \<Longrightarrow> param_or b n d = Inr (str_or (map_of kvs n) d)"
  by (simp add: param_or_def getParams_shows)

definition asked :: "string obj \<Rightarrow> jv \<Rightarrow> cm_state \<Rightarrow> cm_state" where
  "asked kvs pageNo st = st\<lparr>cm_tenant := str_or (map_of kvs ''namespace'') [], cm_serverId := str_or (map_of kvs ''serverId'') [],
     cm_pageNo := js_or (url_val kvs ''pageNo'') pageNo, cm_pageSize := js_or (url_val kvs ''pageSize'') (st_pageSize st),
     st_loading := True\<rparr>"

definition page_taken :: "string obj \<Rightarrow> string obj" where
  "page_taken kvs = AList.update ''pageNo'' [] (AList.update ''pageSize'' [] kvs)"

lemma page_taken_val: "url_val (page_taken kvs) n = (if n \<in> {''pageNo'', ''pageSize''} then Str [] else url_val kvs n)"
  by (auto simp: page_taken_def update_conv')

lemma getData_asks:
  assumes "hash_shows path b kvs" "\<not> st_loading st"
  shows "\<exists>h. getData pageNo b st = Inr (b\<lparr>href := h\<rparr>, asked kvs pageNo st,
      [Axios (thunk_call (getConfigs (Obj (query_params_of (asked kvs pageNo st)))))]) \<and>
    hash_shows path (b\<lparr>href := h\<rparr>) (page_taken kvs)"
proof -
  obtain h1 where h1: "setParams ''pageSize'' Null b = Inr (b\<lparr>href := h1\<rparr>)"
    "hash_shows path (b\<lparr>href := h1\<rparr>) (AList.update ''pageSize'' [] kvs)"
    using setParams_value_href[OF assms(1), of "''pageSize''" Null] by auto
  obtain h2 where h2: "setParams ''pageNo'' Null (b\<lparr>href := h1\<rparr>) = Inr (b\<lparr>href := h2\<rparr>)"
    "hash_shows path (b\<lparr>href := h2\<rparr>) (page_taken kvs)"
    using setParams_value_href[OF h1(2), of "''pageNo''" Null] by (auto simp: page_taken_def)
  show ?thesis
    using h1(1) h2 assms(2)
    by (intro exI[of _ h2]) (simp add: getData_def param_or_shows[OF assms(1)] param_shows[OF assms(1)] asked_def Let_def)
qed

text \<open>The query after a switch of the namespace: no search, no selection, the first page unless the location names one.\<close>

lemma cleanAndGetData_asks:
  assumes "hash_shows path b kvs" "\<not> st_loading st" "map_of kvs ''namespace'' = Some ns"
  shows "\<exists>h st' q. cleanAndGetData True b st = Inr (b\<lparr>href := h\<rparr>, st', [Axios (thunk_call (getConfigs (Obj q)))]) \<and>
    map_of q ''tenant'' = Some (Str ns) \<and> map_of q ''dataId'' = Some (Str []) \<and> map_of q ''group'' = Some (Str []) \<and>
    map_of q ''appName'' = Some (Str (cm_appName st)) \<and> map_of q ''config_tags'' = Some (Str (join '','' (st_config_tags st))) \<and>
    configsTableSelected st' = []"
proof -
  let ?ps = "[(''group'', Str []), (''dataId'', Str [])]" and ?k = "put_all [(''group'', []), (''dataId'', [])] kvs"
  obtain h where h: "setParamsObj ?ps b = Inr (b\<lparr>href := h\<rparr>)" "hash_shows path (b\<lparr>href := h\<rparr>) ?k"
    using setParamsObj_href[OF assms(1), of ?ps] by auto
  let ?st = "st\<lparr>cm_dataId := [], cm_group := [], st_group := [], st_dataId := []\<rparr>"
  have "\<not> st_loading ?st" using assms(2) by simp
  from getData_asks[OF h(2) this, of "num 1"] obtain h2 where
    g: "getData (num 1) (b\<lparr>href := h\<rparr>) ?st = Inr (b\<lparr>href := h2\<rparr>, asked ?k (num 1) ?st,
      [Axios (thunk_call (getConfigs (Obj (query_params_of (asked ?k (num 1) ?st)))))])" by auto
  have "map_of ?k ''namespace'' = Some ns" using assms(3) by (simp add: update_conv')
  then show ?thesis by (auto simp: cleanAndGetData_def h(1) g query_params_of_def asked_def str_or_def)
qed

lemma getData_busy: "st_loading st \<Longrightarrow> getData pageNo b st = Inr (b, st, [])"
  by (simp add: getData_def)

lemma cm_init_shows:
  assumes "hash_shows path b kvs" "cm_init selected b = Inr (b0, st)"
  shows "\<exists>h. b0 = b\<lparr>href := h\<rparr> \<and> hash_shows path b0 (put_all [(''dataId'', cm_dataId st), (''group'', cm_group st), (''appName'', cm_appName st)] kvs)"
    "\<not> st_loading st" "st_pageSize st = js_or (url_val kvs ''pageSize'') (num 10)"
proof -
  have f: "cm_fields selected b = Inr st"
    and p: "setParamsObj [(''dataId'', Str (cm_dataId st)), (''group'', Str (cm_group st)), (''appName'', Str (cm_appName st))] b = Inr b0"
    using assms(2) by (auto simp: cm_init_def and_then_Inr_iff)
  show "\<not> st_loading st" "st_pageSize st = js_or (url_val kvs ''pageSize'') (num 10)"
    using f by (auto simp: cm_fields_def and_then_Inr_iff param_shows[OF assms(1)])
  show "\<exists>h. b0 = b\<lparr>href := h\<rparr> \<and> hash_shows path b0 (put_all [(''dataId'', cm_dataId st), (''group'', cm_group st), (''appName'', cm_appName st)] kvs)"
    using setParamsObj_href[OF assms(1), of "[(''dataId'', Str (cm_dataId st)), (''group'', Str (cm_group st)), (''appName'', Str (cm_appName st))]"] p
    by auto
qed

text \<open>
  C9: a page number left in the location is used by exactly one query, a page size by all of them.
  The first query after the list opens asks for the page and the size of the location and empties both
  parameters; once it is answered the next query asks for the page its caller wants, still with
  the size the location had (ten without one), and a size the user chooses replaces it. Every query goes
  to the namespace of the location and is fuzzy exactly when an asterisk was typed.
\<close>

theorem restored_page_used_once:
  assumes "hash_shows path b kvs" and "cm_init selected b = Inr (b0, st)"
  shows "\<exists>b1 st1 b2 st2 b3 st3 q1 q2 q3.
    getData p b0 st = Inr (b1, st1, [Axios (thunk_call (getConfigs (Obj q1)))]) \<and>
    field (Obj q1) ''pageNo'' = js_or (url_val kvs ''pageNo'') p \<and>
    field (Obj q1) ''pageSize'' = js_or (url_val kvs ''pageSize'') (num 10) \<and>
    field (Obj q1) ''tenant'' = Str (str_or (map_of kvs ''namespace'') []) \<and>
    (field (Obj q1) ''search'' = Str ''blur'' \<longleftrightarrow> CHR ''*'' \<in> set (cm_dataId st) \<or> CHR ''*'' \<in> set (cm_group st)) \<and>
    getData p' b1 (getData_resolved st1) = Inr (b2, st2, [Axios (thunk_call (getConfigs (Obj q2)))]) \<and>
    field (Obj q2) ''pageNo'' = p' \<and> field (Obj q2) ''pageSize'' = js_or (url_val kvs ''pageSize'') (num 10) \<and>
    field (Obj q2) ''tenant'' = field (Obj q1) ''tenant'' \<and>
    handlePageSizeChange n b1 (getData_resolved st1) = Inr (b3, st3, [Axios (thunk_call (getConfigs (Obj q3)))]) \<and>
    field (Obj q3) ''pageNo'' = num 1 \<and> field (Obj q3) ''pageSize'' = n \<and> st_pageSize st3 = n"
proof -
  let ?k = "put_all [(''dataId'', cm_dataId st), (''group'', cm_group st), (''appName'', cm_appName st)] kvs"
  have s: "hash_shows path b0 ?k" using cm_init_shows(1)[OF assms] by blast
  have kv: "map_of ?k m = map_of kvs m" if "m \<in> {''pageNo'', ''pageSize'', ''namespace''}" for m
    using that by (auto simp: update_conv')
  obtain h where h: "getData p b0 st = Inr (b0\<lparr>href := h\<rparr>, asked ?k p st,
      [Axios (thunk_call (getConfigs (Obj (query_params_of (asked ?k p st)))))])"
    "hash_shows path (b0\<lparr>href := h\<rparr>) (page_taken ?k)"
    using getData_asks[OF s cm_init_shows(2)[OF assms]] by blast
  let ?st = "getData_resolved (asked ?k p st)"
  let ?st3 = "?st\<lparr>st_pageSize := n, st_isPageEnter := (truthy Undefined \<and> field Undefined ''keyCode'' = num 13), st_currentPage := num 1\<rparr>"
  have l: "\<not> st_loading ?st" "\<not> st_loading ?st3" by (simp_all add: getData_resolved_def)
  from getData_asks[OF h(2) l(1), of p'] obtain h' where h': "getData p' (b0\<lparr>href := h\<rparr>) ?st =
      Inr (b0\<lparr>href := h'\<rparr>, asked (page_taken ?k) p' ?st,
        [Axios (thunk_call (getConfigs (Obj (query_params_of (asked (page_taken ?k) p' ?st)))))])"
    by auto
  from getData_asks[OF h(2) l(2), of "num 1"] obtain h3 where h3: "handlePageSizeChange n (b0\<lparr>href := h\<rparr>) ?st =
      Inr (b0\<lparr>href := h3\<rparr>, asked (page_taken ?k) (num 1) ?st3,
        [Axios (thunk_call (getConfigs (Obj (query_params_of (asked (page_taken ?k) (num 1) ?st3)))))])"
    by (auto simp: handlePageSizeChange_def changePage_def)
  have t: "map_of (page_taken ?k) ''namespace'' = map_of kvs ''namespace''" "map_of (page_taken ?k) ''pageNo'' = Some []"
      "map_of (page_taken ?k) ''pageSize'' = Some []"
    by (simp_all add: page_taken_def update_conv')
  show ?thesis
    by (rule exI, rule exI, rule exI, rule exI, rule exI, rule exI, rule exI, rule exI, rule exI, intro conjI,
        rule h(1), rule_tac [5] h', rule_tac [8] h3)
      (simp_all add: asked_def query_params_of_def field_def getData_resolved_def js_or_def t kv cm_init_shows(3)[OF assms] del: put_all_simps)
qed

definition sample_list_browser :: browser where
  "sample_list_browser = sample_browser\<lparr>href := ''http://h:8848/nacos/#/configurationManagement?namespace=dev&pageNo=3''\<rparr>"

lemma sample_list_shows:
  "hash_shows ''#/configurationManagement'' sample_list_browser [(''namespace'', ''dev''), (''pageNo'', ''3'')]"
  by code_simp

definition sample_cm :: cm_state where
  "sample_cm = (case cm_fields [] sample_list_browser of Inr st \<Rightarrow> st | Inl _ \<Rightarrow> undefined)"

lemma sample_cm_fields:
  "cm_fields [] sample_list_browser = Inr sample_cm" "\<not> st_loading sample_cm" "st_pageSize sample_cm = num 10"
  "configsTableSelected sample_cm = []"
proof -
  note p = param_or_shows[OF sample_list_shows] param_shows[OF sample_list_shows]
  have c: "''edasAppId'' \<in> set console_params" "''edasAppName'' \<in> set console_params" by (simp_all add: console_params_def)
  show "cm_fields [] sample_list_browser = Inr sample_cm" "\<not> st_loading sample_cm" "st_pageSize sample_cm = num 10"
    "configsTableSelected sample_cm = []"
    by (simp_all add: sample_cm_def cm_fields_def p c js_or_def)
qed

definition sized_browser :: browser where
  "sized_browser = sample_browser\<lparr>href := ''http://h:8848/nacos/#/configurationManagement?namespace=dev&pageNo=3&pageSize=20''\<rparr>"

lemma sized_shows: "hash_shows ''#/configurationManagement'' sized_browser [(''namespace'', ''dev''), (''pageNo'', ''3''), (''pageSize'', ''20'')]"
  by code_simp

lemma cm_init_opens:
  assumes "hash_shows path b kvs"
  shows "\<exists>b0 st. cm_init selected b = Inr (b0, st)"
proof -
  have c: "''edasAppId'' \<in> set console_params" "''edasAppName'' \<in> set console_params" by (simp_all add: console_params_def)
  obtain st where f: "cm_fields selected b = Inr st"
    by (simp add: cm_fields_def param_or_shows[OF assms] param_shows[OF assms] c)
  show ?thesis
    using setParamsObj_href[OF assms, of "[(''dataId'', Str (cm_dataId st)), (''group'', Str (cm_group st)), (''appName'', Str (cm_appName st))]"]
    by (auto simp: cm_init_def f)
qed

theorem restored_page_used_once_witness:
  "\<exists>b0 st b1 st1 b2 st2 q1 q2. cm_init [] sized_browser = Inr (b0, st) \<and>
    getData (num 1) b0 st = Inr (b1, st1, [Axios (thunk_call (getConfigs (Obj q1)))]) \<and>
    field (Obj q1) ''pageNo'' = Str ''3'' \<and> field (Obj q1) ''pageSize'' = Str ''20'' \<and> field (Obj q1) ''tenant'' = Str ''dev'' \<and>
    getData (num 2) b1 (getData_resolved st1) = Inr (b2, st2, [Axios (thunk_call (getConfigs (Obj q2)))]) \<and>
    field (Obj q2) ''pageNo'' = num 2 \<and> field (Obj q2) ''pageSize'' = Str ''20''"
proof -
  obtain b0 st where i: "cm_init [] sized_browser = Inr (b0, st)" using cm_init_opens[OF sized_shows] by blast
  have u: "js_or (url_val [(''namespace'', ''dev''), (''pageNo'', ''3''), (''pageSize'', ''20'')] ''pageNo'') (num 1) = Str ''3''"
      "js_or (url_val [(''namespace'', ''dev''), (''pageNo'', ''3''), (''pageSize'', ''20'')] ''pageSize'') (num 10) = Str ''20''"
      "str_or (map_of [(''namespace'', ''dev''), (''pageNo'', ''3''), (''pageSize'', ''20'')] ''namespace'') [] = ''dev''"
    by (simp_all add: js_or_def)
  from restored_page_used_once[OF sized_shows i, of "num 1" "num 2" "num 50", unfolded u] i show ?thesis by blast
qed

text \<open>
  a namespace switch that comes while a query is under way asks nothing. The search fields and
  the selection are cleared, no request is sent, and the answer of the query to the old
  namespace becomes the list shown under the new one.
\<close>

theorem switch_while_loading_asks_nothing:
  assumes "hash_shows path b kvs" and "st_loading st"
  shows "\<exists>b'. cleanAndGetData True b st =
      Inr (b', st\<lparr>cm_dataId := [], cm_group := [], st_group := [], st_dataId := [], configsTableSelected := [], selectedRowKeys := []\<rparr>, [])"
proof -
  obtain h where "setParamsObj [(''group'', Str []), (''dataId'', Str [])] b = Inr (b\<lparr>href := h\<rparr>)"
    using setParamsObj_href[OF assms(1), of "[(''group'', Str []), (''dataId'', Str [])]"] by auto
  then show ?thesis using assms(2) by (simp add: cleanAndGetData_def getData_busy)
qed

theorem switch_while_loading_asks_nothing_witness:
  "\<exists>b' st'. cleanAndGetData True sample_list_browser (cm_openLoading sample_cm) = Inr (b', st', [])"
  using switch_while_loading_asks_nothing[OF sample_list_shows, of "cm_openLoading sample_cm"]
  by (auto simp: cm_openLoading_def)

section \<open>Properties of the selection\<close>

lemma selected_after_change:
  assumes "distinct (map (\<lambda>r. field r ''id'') records)"
  shows "configsTableSelected (configDataTableOnChange ids records st) = map (\<lambda>r. (field r ''id'', r)) records"
proof -
  have "fold (\<lambda>r. AList.update (field r ''id'') r) rs acc = acc @ map (\<lambda>r. (field r ''id'', r)) rs"
    if "distinct (map (\<lambda>r. field r ''id'') rs)" "\<forall>r \<in> set rs. field r ''id'' \<notin> fst ` set acc" for rs acc
    using that
  proof (induction rs arbitrary: acc)
    case (Cons r rs)
    have "AList.update (field r ''id'') r acc = acc @ [(field r ''id'', r)]"
      using Cons.prems(2) by (intro update_fresh) auto
    moreover have "\<forall>x \<in> set rs. field x ''id'' \<noteq> field r ''id''" using Cons.prems(1) by (simp add: image_iff) metis
    ultimately show ?case using Cons.prems Cons.IH[of "acc @ [(field r ''id'', r)]"] by (auto simp: image_iff)
  qed simp
  from this[of records "[]"] assms show ?thesis by (simp add: configDataTableOnChange_def)
qed

text \<open>
  C16: the operations on a selection act on the rows the user checked. After the table reports the
  checked rows, the confirmation of the deletion lists them in order, the deletion names exactly
  their identifiers, and the export asks for the same identifiers.
\<close>

theorem selection_operations_target_rows:
  assumes "distinct (map (\<lambda>r. field r ''id'') records)" and "records \<noteq> []" and "export_token b = Inr tok"
  shows "let st' = configDataTableOnChange ids records st; names = join '','' (map (\<lambda>r. join_str (field r ''id'')) records)
    in multipleSelectionDeletion loc st' = [Confirm (tr loc ''removeConfiguration'')
         (Arr (map (\<lambda>r. Obj [(''dataId'', field r ''dataId''), (''group'', field r ''group'')]) records))] \<and>
       deletion_ok st' = [Send ((req (''v1/cs/configs?delType=ids&ids='' @ names))\<lparr>c_type := Some ''delete''\<rparr>)] \<and>
       exportSelectedData loc b st' = Inr [openUri ''v1/cs/configs'' [(''export'', Str ''true''), (''tenant'', Str []), (''group'', Str []),
         (''appName'', Str []), (''ids'', Str names), (''accessToken'', tok)]]"
  using assms
  by (simp add: Let_def multipleSelectionDeletion_def deletion_ok_def exportSelectedData_def selected_ids_def
      selected_after_change o_def)

definition sample_row :: "int \<Rightarrow> jv" where
  "sample_row n = Obj [(''id'', num n), (''dataId'', Str ''d''), (''group'', Str ''G'')]"

theorem selection_operations_target_rows_witness:
  "deletion_ok (configDataTableOnChange [num 4, num 7] [sample_row 4, sample_row 7] sample_cm) =
     [Send ((req ''v1/cs/configs?delType=ids&ids=4,7'')\<lparr>c_type := Some ''delete''\<rparr>)]"
proof -
  have h: "distinct (map (\<lambda>r. field r ''id'') [sample_row 4, sample_row 7])" "[sample_row 4, sample_row 7] \<noteq> []"
    "export_token sample_login = Inr (Str ''abc.def'')"
    "join '','' (map (\<lambda>r. join_str (field r ''id'')) [sample_row 4, sample_row 7]) = ''4,7''"
    by code_simp+
  show ?thesis
    using selection_operations_target_rows[OF h(1-3), of "[num 4, num 7]" sample_cm Null] h(4)
    by (simp only: Let_def) simp
qed

text \<open>
  deleted configurations stay selected. The reply to a deletion starts a new query but leaves
  the selection as it was, and so does the answer of that query: a second deletion names the
  identifiers that no longer exist.
\<close>

theorem deleted_stay_selected:
  assumes "hash_shows path b kvs" and "\<not> st_loading st"
  shows "\<exists>b' st' es. deletion_replied loc b st = Inr (b', st', es) \<and>
    deletion_ok (getData_resolved st') = deletion_ok st \<and>
    selectedRowKeys (getData_resolved st') = selectedRowKeys st \<and>
    configsTableSelected (getData_resolved st') = configsTableSelected st"
proof -
  obtain h where "getData (num 1) b st = Inr (b\<lparr>href := h\<rparr>, asked kvs (num 1) st,
      [Axios (thunk_call (getConfigs (Obj (query_params_of (asked kvs (num 1) st)))))])"
    using getData_asks[OF assms] by blast
  then show ?thesis
    by (simp add: deletion_replied_def deletion_ok_def selected_ids_def getData_resolved_def asked_def)
qed

theorem deleted_stay_selected_witness:
  "\<exists>b' st' es. deletion_replied Null sample_list_browser (configDataTableOnChange [num 4] [sample_row 4] sample_cm) = Inr (b', st', es) \<and>
    selectedRowKeys (getData_resolved st') = [num 4]"
  using deleted_stay_selected[OF sample_list_shows, of "configDataTableOnChange [num 4] [sample_row 4] sample_cm" Null]
    sample_cm_fields(2)
  by (auto simp: configDataTableOnChange_def)

section \<open>Properties of clone and remove\<close>

lemma deep_copy_plain: "plain_json v \<Longrightarrow> deep_copy v = Inr v"
  using parse_stringify[of v] by (auto simp: deep_copy_def simp del: stringify.simps)

lemma copy_all_plain: "\<forall>kv \<in> set kvs. plain_json (snd kv) \<Longrightarrow> copy_all kvs = Inr kvs"
  by (induction kvs) (auto simp: deep_copy_plain)

lemma plain_field: "plain_json (Obj kvs) \<Longrightarrow> map_of kvs k = Some v \<Longrightarrow> plain_json v"
  by (auto simp: list_all_iff dest!: map_of_SomeD)

definition clonable :: "jv \<times> jv \<Rightarrow> bool" where
  "clonable kv \<longleftrightarrow> plain_json (fst kv) \<and> plain_json (snd kv) \<and> plain_json (field (snd kv) ''dataId'')
     \<and> plain_json (field (snd kv) ''group'')"

lemma plain_post_data: "list_all clonable (cd_copies d) \<Longrightarrow> plain_json (clone_post_data d)"
  by (auto simp: clone_post_data_def list_all_iff clonable_def is_index_key_def is_digit_def)

text \<open>
  C17: a clone sends the selection. The dialog works on copies of the selected records, and when
  the user starts the clone without edits the body of the request parses to the identifier, data
  identifier and group of every selected record, in the order of the selection, for the target
  and policy of the dialog; without a target nothing is sent.
\<close>

theorem clone_sends_selection:
  assumes "field data ''code'' = num 200" and "field data ''data'' = Arr namespaces" and "truthy data"
    and "list_all clonable (configsTableSelected st)" and "truthy target"
  shows "\<exists>st' d es. clone_loaded loc data st = Inr (st', Some d, es) \<and>
    start_clone d st' = Inr (d\<lparr>cd_warning := True\<rparr>, st', []) \<and>
    (\<exists>d' st'' c t. start_clone (clone_target target d) st' = Inr (d', st'', [Send c]) \<and>
       c_url c = ''v1/cs/configs?clone=true&tenant='' @ to_str target @ ''&policy=ABORT&namespaceId='' \<and>
       c_data c = Str t \<and>
       parse_json t = Inr (Arr (map (\<lambda>kv. Obj [(''cfgId'', fst kv), (''dataId'', field (snd kv) ''dataId''),
         (''group'', field (snd kv) ''group'')]) (configsTableSelected st))))"
proof -
  let ?d = "\<lparr>cd_target = Undefined, cd_policy = Str ''ABORT'', cd_warning = False, cd_copies = configsTableSelected st\<rparr>"
  have "copy_all (configsTableSelected st) = Inr (configsTableSelected st)"
    using assms(4) by (intro copy_all_plain) (auto simp: list_all_iff clonable_def)
  then have l: "\<exists>es. clone_loaded loc data st = Inr (cm_closeLoading st, Some ?d, es)"
    using assms(1-3) by (simp add: clone_loaded_def Let_def cm_closeLoading_def)
  have "list_all clonable (cd_copies (clone_target target ?d))"
    using assms(4,5) by (simp add: clone_target_def)
  from parse_stringify[OF plain_post_data[OF this]] obtain t where
    t: "stringify (clone_post_data (clone_target target ?d)) = Text t"
    "parse_json t = Inr (clone_post_data (clone_target target ?d))" by blast
  let ?c = "(req (''v1/cs/configs?clone=true&tenant='' @ to_str target @ ''&policy=ABORT&namespaceId=''))
     \<lparr>c_method := Some ''post'', c_data := Str t, c_contentType := Some ''application/json'',
      c_error := UserFn 1, c_complete := UserFn 2, c_beforeSend := UserFn 3\<rparr>"
  have D: "cd_target (clone_target target ?d) = target" "cd_policy (clone_target target ?d) = Str ''ABORT''"
    "cd_copies (clone_target target ?d) = configsTableSelected st"
    using assms(5) by (simp_all add: clone_target_def)
  have s: "start_clone (clone_target target ?d) (cm_closeLoading st) =
      Inr ((clone_target target ?d)\<lparr>cd_warning := False\<rparr>, cm_openLoading (cm_closeLoading st), [Send ?c])"
    using assms(5) by (simp add: start_clone_def t(1) D)
  have p: "parse_json t = Inr (Arr (map (\<lambda>kv. Obj [(''cfgId'', fst kv), (''dataId'', field (snd kv) ''dataId''),
      (''group'', field (snd kv) ''group'')]) (configsTableSelected st)))"
    using t(2) by (simp add: clone_post_data_def D)
  have w: "start_clone ?d (cm_closeLoading st) = Inr (?d\<lparr>cd_warning := True\<rparr>, cm_closeLoading st, [])"
    by (simp add: start_clone_def)
  have c: "c_data ?c = Str t" "c_url ?c = ''v1/cs/configs?clone=true&tenant='' @ to_str target @ ''&policy=ABORT&namespaceId=''"
    by (simp_all add: req_def)
  from l obtain es where "clone_loaded loc data st = Inr (cm_closeLoading st, Some ?d, es)" ..
  with w s c p show ?thesis by blast
qed

theorem clone_sends_selection_witness:
  "\<exists>st' d es. clone_loaded Null (Obj [(''code'', num 200), (''data'', Arr [])])
      (configDataTableOnChange [num 4] [sample_row 4] sample_cm) = Inr (st', Some d, es) \<and>
    (\<exists>d' st'' c t. start_clone (clone_target (Str ''prod'') d) st' = Inr (d', st'', [Send c]) \<and> c_data c = Str t \<and>
       parse_json t = Inr (Arr [Obj [(''cfgId'', num 4), (''dataId'', Str ''d''), (''group'', Str ''G'')]]))"
proof -
  let ?st = "configDataTableOnChange [num 4] [sample_row 4] sample_cm"
  have s: "configsTableSelected ?st = [(num 4, sample_row 4)]"
    by (simp add: configDataTableOnChange_def sample_row_def field_def)
  have h: "field (Obj [(''code'', num 200), (''data'', Arr [])]) ''code'' = num 200"
    "field (Obj [(''code'', num 200), (''data'', Arr [])]) ''data'' = Arr []"
    "truthy (Obj [(''code'', num 200), (''data'', Arr [])])" "truthy (Str ''prod'')" by code_simp+
  have c: "list_all clonable (configsTableSelected ?st)" unfolding s by code_simp
  have f: "field (sample_row 4) ''dataId'' = Str ''d''" "field (sample_row 4) ''group'' = Str ''G''"
    by (simp_all add: sample_row_def field_def)
  show ?thesis
    using clone_sends_selection[OF h(1-3) c h(4), of Null] unfolding s by (simp only: list.map fst_conv snd_conv f) blast
qed

text \<open>
  C25: the deletion of a configuration reaches the right one. For a record whose names hold no
  separator, the confirmed deletion goes through the request pipeline as a DELETE whose query
  names the record's data identifier and group, the tenant of the current namespace and the
  access token of the session.
\<close>

theorem removeConfig_reaches_record:
  assumes "read_token b = Inr (b', tok)" and "lib_tenant b = Inr tenant" and "url_safe (to_str tok)" and "url_safe tenant"
    and "field rec0 ''dataId'' = Str d" and "field rec0 ''group'' = Str g" and "url_safe d" and "url_safe g"
  shows "\<exists>c call. removeConfig_ok rec0 = [Send c] \<and> console_request pv b c = Inr (b', Sent call) \<and>
    a_type call = Some ''delete'' \<and> getParameter (a_url call) ''dataId'' = d \<and> getParameter (a_url call) ''group'' = g \<and>
    getParameter (a_url call) ''tenant'' = tenant \<and> getParameter (a_url call) ''accessToken'' = to_str tok"
proof -
  let ?kvs = "[(''dataId'', d), (''group'', g)]"
  let ?c = "(req (link ''v1/cs/configs'' ?kvs))\<lparr>c_type := Some ''delete''\<rparr>"
  have u: "c_url ?c = ''v1/cs/configs'' @ ''?'' @ query_text ?kvs" and l: "c_url ?c = link ''v1/cs/configs'' ?kvs"
    by (simp_all add: req_def link_def)
  have pl: "plain_link ''v1/cs/configs'' ?kvs" using assms(7,8) by (simp add: plain_link_def url_safe_def)
  have q: "CHR ''?'' \<notin> set (query_text ?kvs)" by (rule plain_link_free(1)[OF pl])
  have np: "\<not> has_param ''tenant'' (query_params (c_url ?c))" "\<not> has_param ''accessToken'' (query_params (c_url ?c))"
    unfolding l has_param_link[OF pl] by simp_all
  have inc: "str_includes (query_text ?kvs) ''dataId''"
    by (simp add: str_includes_def query_text_def kv_text_def)
  obtain call where call: "console_request pv b ?c = Inr (b', Sent call)"
    "getParameter (a_url call) ''tenant'' = tenant" "getParameter (a_url call) ''accessToken'' = to_str tok"
    "\<forall>n. n \<notin> {''tenant'', ''accessToken''} \<longrightarrow> getParameter (a_url call) n = getParameter (c_url ?c) n"
    using console_request_url[OF assms(1,2) u _ q inc assms(3,4) np, of pv] by auto
  have "a_type call = Some ''delete''"
    using console_request_unfold[OF assms(1,2), of pv ?c] call(1) by (auto simp: req_def)
  moreover have "getParameter (c_url ?c) ''dataId'' = d" "getParameter (c_url ?c) ''group'' = g"
    unfolding l getParameter_link[OF pl] by simp_all
  ultimately show ?thesis
    using call assms(5,6) by (auto simp: removeConfig_ok_def)
qed

theorem removeConfig_reaches_record_witness:
  "\<exists>c call. removeConfig_ok (sample_row 4) = [Send c] \<and> console_request False sample_login c = Inr (sample_login, Sent call) \<and>
    a_type call = Some ''delete'' \<and> getParameter (a_url call) ''dataId'' = ''d'' \<and> getParameter (a_url call) ''tenant'' = ''dev''"
proof -
  have h: "url_safe (to_str (Str ''abc.def''))" "url_safe ''dev''" "field (sample_row 4) ''dataId'' = Str ''d''"
    "field (sample_row 4) ''group'' = Str ''G''" "url_safe ''d''" "url_safe ''G''"
    by code_simp+
  show ?thesis using removeConfig_reaches_record[OF sample_login_facts(1,2) h, of False] by auto
qed

end
