(* ===== verification/Config_Editor.thy ===== *)
theory Config_Editor
  imports Config_List Validate_Content
begin

text \<open>
  The editor of a configuration, \<^verbatim>\<open>pages/ConfigurationManagement/ConfigEditor/NewConfigEditor.js\<close>,
  with the dialogs it opens (\<^verbatim>\<open>DiffEditorDialog.js\<close>, \<^verbatim>\<open>SuccessDialog.js\<close>): loading a configuration
  and its beta version, the text editor, checking and publishing, the beta release and its end,
  and the way back to the list.

  The libraries the page calls are the fields of \<open>ed_env\<close>: \<open>env_monaco v\<close> is the text an editor
  created or filled with the value \<open>v\<close> answers, \<open>env_loaded\<close> says whether the script of the editor
  is there, \<open>env_qs\<close> prints a form body, \<open>env_yaml\<close> and \<open>env_xml\<close> are the parsers of the checks.
\<close>

section \<open>State\<close>

record ed_env =
  env_yaml :: "string \<Rightarrow> jv option"
  env_xml :: xml_env
  env_monaco :: "jv \<Rightarrow> string"
  env_loaded :: bool
  env_qs :: "jv \<Rightarrow> string"

text \<open>
  \<open>ce_editor\<close> holds the language and the text of the editor; \<open>ce_group\<close> is the entry \<open>group\<close> of
  the state, which only the mount writes; \<open>ce_codeVal\<close> and \<open>ce_diffcb\<close> are instance fields.
\<close>

record ce_state =
  ce_isBeta :: bool
  ce_isNewConfig :: bool
  ce_betaPublishSuccess :: bool
  ce_betaIps :: jv
  ce_tabActiveKey :: string
  ce_form :: "jv obj"
  ce_tagDataSource :: "jv list"
  ce_openAdvancedSettings :: bool
  ce_group :: jv
  ce_dataIdError :: jv
  ce_groupError :: jv
  ce_editor :: "(jv \<times> string) option"
  ce_codeVal :: jv
  ce_diffcb :: string

type_synonym ce_result = "js_error + ce_state \<times> effect list"

definition ce_init :: ce_state where
  "ce_init = \<lparr>ce_isBeta = False, ce_isNewConfig = True, ce_betaPublishSuccess = False, ce_betaIps = Str [],
     ce_tabActiveKey = [],
     ce_form = [(''dataId'', Str []), (''group'', Str []), (''content'', Str []), (''appName'', Str []),
                (''desc'', Str []), (''config_tags'', Arr []), (''type'', Str ''text'')],
     ce_tagDataSource = [], ce_openAdvancedSettings = False, ce_group = Undefined, ce_dataIdError = Undefined,
     ce_groupError = Undefined, ce_editor = None, ce_codeVal = Undefined, ce_diffcb = []\<rparr>"

definition form_field :: "ce_state \<Rightarrow> string \<Rightarrow> jv" where
  "form_field st k = field (Obj (ce_form st)) k"

definition changeForm :: "jv obj \<Rightarrow> ce_state \<Rightarrow> ce_state" where
  "changeForm item st = st\<lparr>ce_form := obj_assign (ce_form st) item\<rparr>"

section \<open>Loading\<close>

text \<open>A missing editor script is imported first; \<open>editor_imported\<close> is the callback.\<close>

definition editor_imported :: "ed_env \<Rightarrow> jv \<Rightarrow> jv \<Rightarrow> ce_state \<Rightarrow> ce_state" where
  "editor_imported env language v st = st\<lparr>ce_editor := Some (language, env_monaco env v)\<rparr>"

definition initMoacoEditor :: "ed_env \<Rightarrow> jv \<Rightarrow> jv \<Rightarrow> ce_state \<Rightarrow> ce_state \<times> effect list" where
  "initMoacoEditor env language v st =
     (if env_loaded env then (editor_imported env language v st, [])
      else (st\<lparr>ce_editor := None\<rparr>, [Callback ''importEditor'' [language, v]]))"

definition getConfig :: "bool \<Rightarrow> browser \<Rightarrow> ce_state \<Rightarrow> js_error + effect list" where
  "getConfig beta b st =
     and_then (param b ''namespace'') (\<lambda>namespace.
       Inr [Axios (get_with ''v1/cs/configs'' (Obj ([(''dataId'', form_field st ''dataId''), (''group'', form_field st ''group''),
         (''namespaceId'', namespace), (''tenant'', namespace)]
         @ (if beta then [(''beta'', Bool True)] else [(''show'', Str ''all'')]))))])"

text \<open>\<open>configTags ? configTags.split(',') : []\<close>.\<close>

definition split_tags :: "jv \<Rightarrow> js_error + jv" where
  "split_tags v = (if \<not> truthy v then Inr (Arr []) else
     case v of Str s \<Rightarrow> Inr (Arr (map Str (split_on (CHR '','') s))) | _ \<Rightarrow> Inl TypeError)"

text \<open>The reply to \<open>getConfig\<close>; the first component is the value the promise resolves to.\<close>

definition getConfig_replied :: "ed_env \<Rightarrow> bool \<Rightarrow> jv \<Rightarrow> ce_state \<Rightarrow> js_error + jv \<times> ce_state \<times> effect list" where
  "getConfig_replied env beta res st =
     (if beta \<and> (res = Null \<or> res = Undefined) then Inl TypeError
      else let form = (if beta then field res ''data'' else res)
           in if \<not> truthy form then Inr (Bool False, st, [])
              else and_then (split_tags (field form ''configTags'')) (\<lambda>tags.
                let st1 = changeForm (obj_assign (own_props form) [(''config_tags'', tags)]) (st\<lparr>ce_betaIps := field form ''betaIps''\<rparr>);
                    (st2, es) = initMoacoEditor env (field form ''type'') (field form ''content'') st1
                in Inr (res, st2\<lparr>ce_codeVal := field form ''content''\<rparr>, es)))"

definition ce_mount :: "ed_env \<Rightarrow> browser \<Rightarrow> ce_state \<Rightarrow> ce_result" where
  "ce_mount env b st =
     and_then (getParams b ''dataId'') (\<lambda>dataId.
     and_then (getParams b ''group'') (\<lambda>group.
       case group of None \<Rightarrow> Inl TypeError
       | Some g \<Rightarrow>
           let st = st\<lparr>ce_isNewConfig := (str_or dataId [] = [])\<rparr>
           in if \<not> ce_isNewConfig st then
                (let st = changeForm [(''dataId'', Str (trim (str_or dataId []))), (''group'', Str (trim g))] st
                 in and_then (getConfig True b st) (\<lambda>es. Inr (st, es)))
              else Inr (initMoacoEditor env (Str ''text'') (Str [])
                     (if trim g \<noteq> [] then st\<lparr>ce_group := Str (trim g)\<rparr> else st))))"

text \<open>The beta version was asked for first; without one the configuration itself is asked for.\<close>

definition mount_replied :: "ed_env \<Rightarrow> browser \<Rightarrow> jv \<Rightarrow> ce_state \<Rightarrow> ce_result" where
  "mount_replied env b res st =
     and_then (getConfig_replied env True res st) (\<lambda>(r, st, es).
       if \<not> truthy r then and_then (getConfig False b st) (\<lambda>es'. Inr (st, es @ es'))
       else Inr (st\<lparr>ce_isBeta := True, ce_tabActiveKey := ''beta'', ce_betaPublishSuccess := True\<rparr>, es))"

definition clickTab :: "string \<Rightarrow> browser \<Rightarrow> ce_state \<Rightarrow> ce_result" where
  "clickTab key b st =
     (let st = st\<lparr>ce_tabActiveKey := key\<rparr> in and_then (getConfig (key = ''beta'') b st) (\<lambda>es. Inr (st, es)))"

section \<open>The text and the form\<close>

text \<open>\<open>s.replace(/\r\n/g, '\n').replace(/\n/g, '\r\n')\<close>.\<close>

fun crlf_to_lf :: "string \<Rightarrow> string" where
  "crlf_to_lf (c # d # cs) =
     (if c = CHR 0x0D \<and> d = CHR 0x0A then CHR 0x0A # crlf_to_lf cs else c # crlf_to_lf (d # cs))"
| "crlf_to_lf cs = cs"

definition lf_to_crlf :: "string \<Rightarrow> string" where
  "lf_to_crlf s = concat (map (\<lambda>c. if c = CHR 0x0A then [CHR 0x0D, CHR 0x0A] else [c]) s)"

definition diff_text :: "string \<Rightarrow> string" where
  "diff_text s = lf_to_crlf (crlf_to_lf s)"

definition openDiff :: "string \<Rightarrow> ce_state \<Rightarrow> ce_result" where
  "openDiff cbName st =
     (case ce_editor st of None \<Rightarrow> Inl TypeError
      | Some (_, left) \<Rightarrow>
          (case js_or (ce_codeVal st) (Str []) of
             Str right \<Rightarrow> Inr (st\<lparr>ce_diffcb := cbName\<rparr>,
               [Open_Dialog ''diffEditorDialog'' (Arr [Str (diff_text left), Str (diff_text right)])])
           | _ \<Rightarrow> Inl TypeError))"

definition getCodeVal :: "jv \<Rightarrow> ce_state \<Rightarrow> jv \<times> effect list" where
  "getCodeVal loc st =
     (let codeVal = (case ce_editor st of Some (_, s) \<Rightarrow> Str s | None \<Rightarrow> form_field st ''content'')
      in if \<not> truthy codeVal then (Bool False, [Toast ''error'' (tr loc ''submitFailed'')]) else (codeVal, []))"

definition setCodeVal :: "ed_env \<Rightarrow> string \<Rightarrow> ce_state \<Rightarrow> ce_state" where
  "setCodeVal env codeVal st =
     (let st = changeForm [(''content'', Str codeVal)] st
      in case ce_editor st of None \<Rightarrow> st
         | Some (language, _) \<Rightarrow> st\<lparr>ce_editor := Some (language, env_monaco env (Str codeVal))\<rparr>)"

definition validation :: "jv \<Rightarrow> ce_state \<Rightarrow> bool \<times> ce_state" where
  "validation loc st =
     (if \<not> truthy (form_field st ''dataId'') then
        (False, st\<lparr>ce_dataIdError := Obj [(''validateState'', Str ''error''), (''help'', tr loc ''recipientFrom'')]\<rparr>)
      else if \<not> truthy (form_field st ''group'') then
        (False, st\<lparr>ce_groupError := Obj [(''validateState'', Str ''error''), (''help'', tr loc ''homeApplication'')]\<rparr>)
      else (True, st))"

definition input_dataId :: "string \<Rightarrow> ce_state \<Rightarrow> ce_state" where
  "input_dataId v st = (changeForm [(''dataId'', Str v)] st)\<lparr>ce_dataIdError := Obj []\<rparr>"

definition input_group :: "string \<Rightarrow> ce_state \<Rightarrow> ce_state" where
  "input_group v st = (changeForm [(''group'', Str v)] st)\<lparr>ce_groupError := Obj []\<rparr>"

definition toggle_advanced :: "ce_state \<Rightarrow> ce_state" where
  "toggle_advanced st = st\<lparr>ce_openAdvancedSettings := \<not> ce_openAdvancedSettings st\<rparr>"

definition choose_type :: "ed_env \<Rightarrow> string \<Rightarrow> ce_state \<Rightarrow> ce_state \<times> effect list" where
  "choose_type env type st =
     (let (st1, es) = initMoacoEditor env (Str type) (form_field st ''content'') st
      in (changeForm [(''type'', Str type)] st1, es))"

text \<open>
  The tags. \<open>tags.forEach((v, i) => ... tags.splice(i, 1))\<close> visits the indices of the list as it
  was and reads the list as it has become: \<open>strip_from n i tags\<close> has \<open>n\<close> visits left, from \<open>i\<close> on.
\<close>

definition bad_tag :: "string \<Rightarrow> bool" where
  "bad_tag v \<longleftrightarrow> CHR '','' \<in> set v \<or> CHR ''='' \<in> set v"

fun strip_from :: "nat \<Rightarrow> nat \<Rightarrow> string list \<Rightarrow> string list" where
  "strip_from 0 i tags = tags"
| "strip_from (Suc n) i tags =
     strip_from n (Suc i) (if i < length tags \<and> bad_tag (tags ! i) then take i tags @ drop (Suc i) tags else tags)"

definition strip_tags :: "string list \<Rightarrow> string list" where
  "strip_tags tags = strip_from (length tags) 0 tags"

definition limit_tags :: "string list \<Rightarrow> string list" where
  "limit_tags tags = (if length tags > 5 then butlast tags else tags)"

definition ce_setConfigTags :: "string list \<Rightarrow> ce_state \<Rightarrow> ce_state" where
  "ce_setConfigTags tags st =
     (let lastTag = (if tags = [] then Undefined else Str (last tags))
      in changeForm [(''config_tags'', Arr (map Str (strip_tags (limit_tags tags))))]
           (if lastTag \<in> set (ce_tagDataSource st) then st
            else st\<lparr>ce_tagDataSource := ce_tagDataSource st @ [lastTag]\<rparr>))"

section \<open>Publishing\<close>

text \<open>The body and headers of the publication; \<open>None\<close> of \<open>publish\<close> is an undefined result.\<close>

definition ce_publishConfig :: "ed_env \<Rightarrow> jv \<Rightarrow> bool \<Rightarrow> ce_state \<Rightarrow> effect list" where
  "ce_publishConfig env loc beta st =
     (let (content, es) = getCodeVal loc st;
          payload = obj_assign (ce_form st) [(''content'', content)]
      in es @ [Axios_Headers \<lparr>api_verb = ''post'', api_path = ''v1/cs/configs'', api_query = Undefined, api_body = Str (env_qs env (Obj payload))\<rparr>
           (Obj ([(''Content-Type'', Str ''application/x-www-form-urlencoded'')]
             @ (if beta then [(''betaIps'', ce_betaIps st)] else [])))])"

datatype publication = Unstarted | Sent_Off | Asked_First

definition publish :: "ed_env \<Rightarrow> jv \<Rightarrow> ce_state \<Rightarrow> js_error + publication \<times> ce_state \<times> effect list" where
  "publish env loc st =
     (let st = (if ce_isNewConfig st then snd (validation loc st) else st);
          (content, es) = getCodeVal loc st
      in if \<not> truthy content then Inr (Unstarted, st, es)
         else case content of
           Str s \<Rightarrow> and_then (validate (env_yaml env) (env_xml env) s (to_str (form_field st ''type''))) (\<lambda>ok.
             if truthy ok then Inr (Sent_Off, st, ce_publishConfig env loc False st)
             else Inr (Asked_First, st, [Confirm Undefined (tr loc ''codeValErrorPrompt'')]))
         | _ \<Rightarrow> Inl OutsideModel)"

text \<open>\<open>onOk\<close> of the confirmation, in the state the user confirms in.\<close>

definition publish_confirmed :: "ed_env \<Rightarrow> jv \<Rightarrow> ce_state \<Rightarrow> effect list" where
  "publish_confirmed env loc st = ce_publishConfig env loc False st"

text \<open>The reply to a publication; \<open>wasNew\<close> is \<open>isNewConfig\<close> when the request was sent.\<close>

definition published :: "bool \<Rightarrow> bool \<Rightarrow> browser \<Rightarrow> jv \<Rightarrow> ce_state \<Rightarrow> ce_result" where
  "published beta wasNew b res st =
     (if \<not> truthy res then Inr (st, [])
      else let st = (if wasNew then st\<lparr>ce_isNewConfig := False\<rparr> else st)
           in and_then (getConfig beta b st) (\<lambda>es. Inr (st, es)))"

definition publishBeta :: "ed_env \<Rightarrow> jv \<Rightarrow> ce_state \<Rightarrow> effect list" where
  "publishBeta env loc st = ce_publishConfig env loc True st"

definition publishBeta_replied :: "bool \<Rightarrow> browser \<Rightarrow> jv \<Rightarrow> ce_state \<Rightarrow> ce_result" where
  "publishBeta_replied wasNew b res st =
     and_then (published True wasNew b res st) (\<lambda>(st, es).
       Inr (if truthy res then st\<lparr>ce_betaPublishSuccess := True, ce_tabActiveKey := ''beta''\<rparr> else st, es))"

definition stopBeta :: "browser \<Rightarrow> ce_state \<Rightarrow> js_error + effect list" where
  "stopBeta b st =
     and_then (param b ''namespace'') (\<lambda>tenant.
       Inr [Axios (delete_with ''v1/cs/configs'' (Obj [(''beta'', Bool True), (''dataId'', form_field st ''dataId''),
         (''group'', form_field st ''group''), (''tenant'', tenant)]))])"

definition stopBeta_replied :: "browser \<Rightarrow> jv \<Rightarrow> ce_state \<Rightarrow> ce_result" where
  "stopBeta_replied b res st =
     (if res = Null \<or> res = Undefined then Inl TypeError
      else if truthy (field res ''data'') then
        (let st = st\<lparr>ce_isBeta := False, ce_betaPublishSuccess := False, ce_tabActiveKey := []\<rparr>
         in and_then (getConfig False b st) (\<lambda>es. Inr (st, es)))
      else Inr (st, []))"

definition success_dialog :: "jv \<Rightarrow> ce_state \<Rightarrow> effect" where
  "success_dialog title rendered =
     Open_Dialog ''successDialog'' (Obj (obj_assign [(''title'', title), (''isok'', Bool True)] (ce_form rendered)))"

definition stop_clicked :: "jv \<Rightarrow> ce_state \<Rightarrow> effect list" where
  "stop_clicked loc rendered = [success_dialog (tr loc ''stopPublishBeta'') rendered]"

text \<open>
  The difference dialog was confirmed with the text it shows. The callback runs \<open>publish\<close> or
  \<open>publishBeta\<close>; an undefined result has no \<open>then\<close>. \<open>diff_done\<close> follows the reply of the
  publication, with the state \<open>rendered\<close> the handler was rendered with.
\<close>

definition diff_confirmed :: "ed_env \<Rightarrow> jv \<Rightarrow> string \<Rightarrow> ce_state \<Rightarrow> ce_result" where
  "diff_confirmed env loc codeVal st =
     (let st = setCodeVal env codeVal st
      in if ce_diffcb st = ''publishBeta'' then Inr (st, publishBeta env loc st)
         else if ce_diffcb st = ''publish'' then
           and_then (publish env loc st) (\<lambda>(how, st, es). if how = Unstarted then Inl TypeError else Inr (st, es))
         else Inl TypeError)"

definition diff_done :: "jv \<Rightarrow> ce_state \<Rightarrow> browser \<Rightarrow> jv \<Rightarrow> ce_state \<Rightarrow> js_error + effect list" where
  "diff_done loc rendered b res st =
     (if \<not> truthy res then Inr []
      else let title = (if ce_isNewConfig rendered then tr loc ''newConfigEditor'' else tr loc ''toedit'');
               title = (if ce_diffcb st = ''publishBeta'' then tr loc ''betaPublish'' else title)
           in if ce_diffcb st = ''publish'' \<and> ce_tabActiveKey rendered = ''beta''
              then and_then (stopBeta b st) (\<lambda>es. Inr (es @ [success_dialog (tr loc ''stopPublishBeta'') rendered]))
              else Inr [success_dialog title rendered])"

section \<open>The way back and the buttons\<close>

definition ce_goBack :: "browser \<Rightarrow> js_error + effect list" where
  "ce_goBack b =
     and_then (param_or b ''serverId'' []) (\<lambda>serverId.
     and_then (param b ''namespace'') (\<lambda>namespace.
     and_then (param_or b ''searchGroup'' []) (\<lambda>group.
     and_then (param_or b ''searchDataId'' []) (\<lambda>dataId.
     and_then (param b ''pageSize'') (\<lambda>pageSize.
     and_then (param b ''pageNo'') (\<lambda>pageNo.
       Inr [Push (generateUrl ''/configurationManagement'' [(''serverId'', Str serverId), (''group'', Str group),
         (''dataId'', Str dataId), (''namespace'', namespace), (''pageSize'', pageSize), (''pageNo'', pageNo)])]))))))"

definition can_edit_names :: "ce_state \<Rightarrow> bool" where
  "can_edit_names st = ce_isNewConfig st"

definition shows_tabs :: "ce_state \<Rightarrow> bool" where
  "shows_tabs st = ce_betaPublishSuccess st"

definition shows_beta_box :: "ce_state \<Rightarrow> bool" where
  "shows_beta_box st = (\<not> ce_isNewConfig st \<and> ce_tabActiveKey st \<noteq> ''production'' \<and> \<not> ce_betaPublishSuccess st)"

definition shows_beta_ips :: "ce_state \<Rightarrow> bool" where
  "shows_beta_ips st = (\<not> ce_isNewConfig st \<and> ce_tabActiveKey st \<noteq> ''production'' \<and> ce_isBeta st)"

definition can_stop :: "ce_state \<Rightarrow> bool" where
  "can_stop st = (ce_isBeta st \<and> ce_betaPublishSuccess st \<and> ce_tabActiveKey st \<noteq> ''production'')"

definition can_release :: "ce_state \<Rightarrow> bool" where
  "can_release st = (ce_isBeta st \<and> ce_tabActiveKey st \<noteq> ''production'' \<and> \<not> (\<not> truthy (ce_betaIps st) \<or> ce_betaPublishSuccess st))"

definition can_publish :: "ce_state \<Rightarrow> bool" where
  "can_publish st = (ce_tabActiveKey st \<noteq> ''production'')"

section \<open>The dialogs\<close>

text \<open>\<open>DiffEditorDialog\<close>: the two texts it shows, created on the next tick; the merge view is a library.\<close>

record diff_dialog =
  dd_visible :: bool
  dd_view :: "(string \<times> string) option"

definition diff_openDialog :: "diff_dialog \<Rightarrow> diff_dialog" where
  "diff_openDialog d = d\<lparr>dd_visible := True\<rparr>"

definition createDiffCodeMirror :: "string \<Rightarrow> string \<Rightarrow> diff_dialog \<Rightarrow> diff_dialog" where
  "createDiffCodeMirror leftCode rightCode d = d\<lparr>dd_view := Some (leftCode, rightCode)\<rparr>"

definition diff_closeDialog :: "diff_dialog \<Rightarrow> diff_dialog" where
  "diff_closeDialog d = d\<lparr>dd_visible := False\<rparr>"

definition confirmPub :: "(string \<Rightarrow> string) \<Rightarrow> diff_dialog \<Rightarrow> js_error + diff_dialog \<times> effect list" where
  "confirmPub mergeText d =
     (case dd_view d of None \<Rightarrow> Inl TypeError
      | Some (left, _) \<Rightarrow> Inr (diff_closeDialog d, [Callback ''publishConfig'' [Str (mergeText left)]]))"

text \<open>\<open>SuccessDialog\<close>.\<close>

record success_state =
  sd_visible :: bool
  sd_payload :: "jv obj"

definition success_keys :: "string list" where
  "success_keys = [''maintitle'', ''title'', ''content'', ''isok'', ''dataId'', ''group'', ''message'']"

definition success_initData :: "jv \<Rightarrow> success_state" where
  "success_initData loc = \<lparr>sd_visible = False, sd_payload = [(''title'', tr loc ''title''), (''maintitle'', Str []),
     (''content'', Str []), (''isok'', Bool True), (''dataId'', Str []), (''group'', Str [])]\<rparr>"

definition success_openDialog :: "bool \<Rightarrow> jv \<Rightarrow> success_state \<Rightarrow> success_state" where
  "success_openDialog unpushtrace payload d =
     (let payload = (if unpushtrace then Obj (obj_assign (own_props payload) [(''title'', Str [])]) else payload)
      in d\<lparr>sd_visible := True, sd_payload := obj_assign (sd_payload d) (map (\<lambda>k. (k, field payload k)) success_keys)\<rparr>)"

definition success_closeDialog :: "success_state \<Rightarrow> success_state" where
  "success_closeDialog d = d\<lparr>sd_visible := False\<rparr>"

definition success_title :: "success_state \<Rightarrow> jv" where
  "success_title d = js_or (field (Obj (sd_payload d)) ''maintitle'') (field (Obj (sd_payload d)) ''title'')"

section \<open>Lemmas\<close>

subsection \<open>Line endings\<close>

lemma crlf_lf_Cons: "c \<noteq> CHR 0x0D \<Longrightarrow> crlf_to_lf (c # s) = c # crlf_to_lf s"
  by (cases s) auto

lemma crlf_lf_CR: "(\<forall>t. s \<noteq> CHR 0x0A # t) \<Longrightarrow> crlf_to_lf (CHR 0x0D # s) = CHR 0x0D # crlf_to_lf s"
  by (cases s) auto

lemma lf_to_crlf_simps [simp]:
  "lf_to_crlf [] = []" "lf_to_crlf (c # s) = (if c = CHR 0x0A then [CHR 0x0D, CHR 0x0A] else [c]) @ lf_to_crlf s"
  by (simp_all add: lf_to_crlf_def)

lemma lf_to_crlf_head: "lf_to_crlf s \<noteq> CHR 0x0A # t"
  by (cases s) auto

lemma crlf_of_lf: "crlf_to_lf (lf_to_crlf s) = s"
proof (induction s)
  case Nil
  then show ?case by simp
next
  case (Cons c s)
  then show ?case
    by (cases "c = CHR 0x0D") (auto simp: crlf_lf_Cons crlf_lf_CR lf_to_crlf_head)
qed

subsection \<open>Tags\<close>

text \<open>What the loop over the tags computes: the tag after a removed one is not looked at.\<close>

fun skip_strip :: "string list \<Rightarrow> string list" where
  "skip_strip [] = []"
| "skip_strip [t] = (if bad_tag t then [] else [t])"
| "skip_strip (t # u # us) = (if bad_tag t then u # skip_strip us else t # skip_strip (u # us))"

lemma strip_from_done: "length tags \<le> i \<Longrightarrow> strip_from n i tags = tags"
  by (induction n arbitrary: i) auto

lemma strip_from_skip: "length ts \<le> n \<Longrightarrow> strip_from n (length pre) (pre @ ts) = pre @ skip_strip ts"
proof (induction ts arbitrary: n pre rule: skip_strip.induct)
  case 1
  then show ?case by (simp add: strip_from_done)
next
  case (2 t)
  then obtain m where "n = Suc m" by (cases n) auto
  then show ?case by (auto simp: strip_from_done)
next
  case (3 t u us)
  then obtain m where m: "n = Suc m" by (cases n) auto
  show ?case
  proof (cases "bad_tag t")
    case True
    have "strip_from m (length (pre @ [u])) ((pre @ [u]) @ us) = (pre @ [u]) @ skip_strip us"
      using 3 True m by (intro "3.IH"(1)) auto
    then show ?thesis using True m by simp
  next
    case False
    have "strip_from m (length (pre @ [t])) ((pre @ [t]) @ u # us) = (pre @ [t]) @ skip_strip (u # us)"
      using 3 False m by (intro "3.IH"(2)) auto
    then show ?thesis using False m by (simp add: nth_append)
  qed
qed

lemma strip_tags_skip: "strip_tags ts = skip_strip ts"
  using strip_from_skip[of ts "length ts" "[]"] by (simp add: strip_tags_def)

definition lone_bad :: "string list \<Rightarrow> bool" where
  "lone_bad ts \<longleftrightarrow> (\<forall>i. Suc i < length ts \<longrightarrow> \<not> (bad_tag (ts ! i) \<and> bad_tag (ts ! Suc i)))"

lemma lone_bad_Cons: "lone_bad (t # u # us) \<longleftrightarrow> \<not> (bad_tag t \<and> bad_tag u) \<and> lone_bad (u # us)"
  unfolding lone_bad_def by (auto simp: nth_Cons split: nat.splits)

lemma lone_bad_tail: "lone_bad (u # us) \<Longrightarrow> lone_bad us"
  by (cases us) (simp add: lone_bad_def, simp add: lone_bad_Cons)

lemma lone_bad_good: "\<not> bad_tag u \<Longrightarrow> lone_bad (u # us) \<longleftrightarrow> lone_bad us"
  by (cases us) (simp add: lone_bad_def, simp add: lone_bad_Cons)

lemma skip_strip_filter: "skip_strip ts = filter (\<lambda>t. \<not> bad_tag t) ts \<longleftrightarrow> lone_bad ts"
proof (induction ts rule: skip_strip.induct)
  case (3 t u us)
  have u: "u # skip_strip us \<noteq> filter (\<lambda>t. \<not> bad_tag t) us" if "bad_tag u"
  proof
    assume "u # skip_strip us = filter (\<lambda>t. \<not> bad_tag t) us"
    then have "u \<in> set (filter (\<lambda>t. \<not> bad_tag t) us)" by (metis list.set_intros(1))
    with that show False by simp
  qed
  with 3 show ?case by (cases "bad_tag t"; cases "bad_tag u") (auto simp: lone_bad_Cons lone_bad_good)
qed (auto simp: lone_bad_def)

lemma skip_strip_length: "length (skip_strip ts) \<le> length ts"
  by (induction ts rule: skip_strip.induct) auto

lemma form_field_change:
  "k \<noteq> ''__proto__'' \<Longrightarrow> form_field (changeForm [(k, v)] st) j = (if j = k then v else form_field st j)"
  by (simp add: form_field_def changeForm_def obj_assign_def field_def map_of_obj_put split: option.splits)

subsection \<open>The beta release\<close>

text \<open>
  The states of the page: the mount, then the replies in any order, the edits of the form and of
  the text, and the clicks on what the page shows and enables.
\<close>

inductive ce_reachable :: "ed_env \<Rightarrow> jv \<Rightarrow> browser \<Rightarrow> ce_state \<Rightarrow> bool" for env loc b where
  mounted: "ce_mount env b ce_init = Inr (st, es) \<Longrightarrow> ce_reachable env loc b st"
| first_reply: "ce_reachable env loc b st \<Longrightarrow> mount_replied env b res st = Inr (st', es) \<Longrightarrow> ce_reachable env loc b st'"
| config_reply: "ce_reachable env loc b st \<Longrightarrow> getConfig_replied env beta res st = Inr (r, st', es) \<Longrightarrow> ce_reachable env loc b st'"
| imported: "ce_reachable env loc b st \<Longrightarrow> ce_reachable env loc b (editor_imported env l v st)"
| typed: "ce_reachable env loc b st \<Longrightarrow> ce_editor st = Some (l, s) \<Longrightarrow> ce_reachable env loc b (st\<lparr>ce_editor := Some (l, s')\<rparr>)"
| edited: "ce_reachable env loc b st \<Longrightarrow> ce_reachable env loc b (changeForm item st)"
| named: "ce_reachable env loc b st \<Longrightarrow> can_edit_names st \<Longrightarrow> ce_reachable env loc b (input_dataId v (input_group g st))"
| tagged: "ce_reachable env loc b st \<Longrightarrow> ce_reachable env loc b (ce_setConfigTags tags st)"
| retyped: "ce_reachable env loc b st \<Longrightarrow> choose_type env t st = (st', es) \<Longrightarrow> ce_reachable env loc b st'"
| tab: "ce_reachable env loc b st \<Longrightarrow> shows_tabs st \<Longrightarrow> key \<in> {''production'', ''beta''} \<Longrightarrow>
    clickTab key b st = Inr (st', es) \<Longrightarrow> ce_reachable env loc b st'"
| box: "ce_reachable env loc b st \<Longrightarrow> shows_beta_box st \<Longrightarrow> ce_reachable env loc b (st\<lparr>ce_isBeta := v\<rparr>)"
| ips: "ce_reachable env loc b st \<Longrightarrow> shows_beta_ips st \<Longrightarrow> ce_reachable env loc b (st\<lparr>ce_betaIps := ips\<rparr>)"
| diff: "ce_reachable env loc b st \<Longrightarrow> cb = ''publish'' \<and> can_publish st \<or> cb = ''publishBeta'' \<and> can_release st \<Longrightarrow>
    openDiff cb st = Inr (st', es) \<Longrightarrow> ce_reachable env loc b st'"
| confirmed: "ce_reachable env loc b st \<Longrightarrow> diff_confirmed env loc codeVal st = Inr (st', es) \<Longrightarrow> ce_reachable env loc b st'"
| publish_reply: "ce_reachable env loc b st \<Longrightarrow> published False wasNew b res st = Inr (st', es) \<Longrightarrow> ce_reachable env loc b st'"
| beta_reply: "ce_reachable env loc b st \<Longrightarrow> publishBeta_replied wasNew b res st = Inr (st', es) \<Longrightarrow> ce_reachable env loc b st'"
| stop_reply: "ce_reachable env loc b st \<Longrightarrow> stopBeta_replied b res st = Inr (st', es) \<Longrightarrow> ce_reachable env loc b st'"

definition beta_view :: "ce_state \<Rightarrow> bool \<times> string" where
  "beta_view st = (ce_betaPublishSuccess st, ce_tabActiveKey st)"

definition beta_ok :: "ce_state \<Rightarrow> bool" where
  "beta_ok st \<longleftrightarrow> beta_view st \<in> {(False, []), (True, ''production''), (True, ''beta'')}"

text \<open>Most operations leave this view of the state alone.\<close>

lemma beta_view_updates [simp]:
  "beta_view (changeForm item st) = beta_view st"
  "beta_view (st\<lparr>ce_betaIps := v\<rparr>) = beta_view st"
  "beta_view (st\<lparr>ce_isBeta := x\<rparr>) = beta_view st"
  "beta_view (st\<lparr>ce_isNewConfig := x\<rparr>) = beta_view st"
  "beta_view (st\<lparr>ce_editor := e\<rparr>) = beta_view st"
  "beta_view (st\<lparr>ce_codeVal := v\<rparr>) = beta_view st"
  "beta_view (st\<lparr>ce_diffcb := s\<rparr>) = beta_view st"
  "beta_view (st\<lparr>ce_group := v\<rparr>) = beta_view st"
  "beta_view (st\<lparr>ce_dataIdError := v\<rparr>) = beta_view st"
  "beta_view (st\<lparr>ce_groupError := v\<rparr>) = beta_view st"
  "beta_view (st\<lparr>ce_tagDataSource := ts\<rparr>) = beta_view st"
  "beta_view (editor_imported env l w st) = beta_view st"
  by (simp_all add: beta_view_def changeForm_def editor_imported_def)

lemma beta_view_init: "initMoacoEditor env l v st = (st', es) \<Longrightarrow> beta_view st' = beta_view st"
  by (auto simp: initMoacoEditor_def split: if_splits)

lemma beta_view_config: "getConfig_replied env beta res st = Inr (r, st', es) \<Longrightarrow> beta_view st' = beta_view st"
  by (auto simp: getConfig_replied_def and_then_Inr_iff Let_def dest!: beta_view_init split: if_splits prod.splits)

lemma beta_view_published: "published beta wasNew b res st = Inr (st', es) \<Longrightarrow> beta_view st' = beta_view st"
  by (auto simp: published_def Let_def and_then_Inr_iff split: if_splits)

lemma beta_view_setCodeVal [simp]: "beta_view (setCodeVal env s st) = beta_view st"
  by (simp add: setCodeVal_def Let_def split: option.splits prod.splits)

lemma beta_view_validation [simp]: "beta_view (snd (validation loc st)) = beta_view st"
  by (simp add: validation_def)

lemma beta_view_publish: "publish env loc st = Inr (how, st', es) \<Longrightarrow> beta_view st' = beta_view st"
  by (auto simp: publish_def Let_def and_then_Inr_iff split: if_splits prod.splits jv.splits)

lemma beta_view_confirmed: "diff_confirmed env loc s st = Inr (st', es) \<Longrightarrow> beta_view st' = beta_view st"
  by (auto simp: diff_confirmed_def Let_def and_then_Inr_iff dest!: beta_view_publish split: if_splits)

lemma beta_view_mount: "ce_mount env b st = Inr (st', es) \<Longrightarrow> beta_view st' = beta_view st"
  by (auto simp: ce_mount_def Let_def and_then_Inr_iff dest!: beta_view_init split: if_splits option.splits)

lemmas beta_view_steps = beta_view_init beta_view_config beta_view_published beta_view_confirmed beta_view_mount

lemma beta_ok_reachable: "ce_reachable env loc b st \<Longrightarrow> beta_ok st"
proof (induction rule: ce_reachable.induct)
  case (mounted st es)
  have "beta_view ce_init = (False, [])" by (simp add: beta_view_def ce_init_def)
  with beta_view_mount[OF mounted] show ?case by (simp add: beta_ok_def)
next
  case (first_reply st res st' es)
  then show ?case
    by (auto simp: mount_replied_def and_then_Inr_iff beta_ok_def dest!: beta_view_config split: if_splits)
       (auto simp: beta_view_def)
next
  case (tab st key st' es)
  then show ?case by (auto simp: clickTab_def Let_def and_then_Inr_iff beta_ok_def beta_view_def shows_tabs_def)
next
  case (beta_reply st wasNew res st' es)
  then show ?case
    by (auto simp: publishBeta_replied_def and_then_Inr_iff beta_ok_def dest!: beta_view_published split: if_splits)
       (auto simp: beta_view_def)
next
  case (stop_reply st res st' es)
  then show ?case
    by (auto simp: stopBeta_replied_def Let_def and_then_Inr_iff beta_ok_def split: if_splits) (auto simp: beta_view_def)
qed (auto simp: beta_ok_def input_dataId_def input_group_def ce_setConfigTags_def Let_def choose_type_def openDiff_def
       dest!: beta_view_steps split: prod.splits option.splits jv.splits)

text \<open>The request that publishes the form of a state with some content.\<close>

definition publication_of :: "ed_env \<Rightarrow> ce_state \<Rightarrow> jv \<Rightarrow> api_call" where
  "publication_of env st content = \<lparr>api_verb = ''post'', api_path = ''v1/cs/configs'', api_query = Undefined,
     api_body = Str (env_qs env (Obj (obj_assign (ce_form st) [(''content'', content)])))\<rparr>"

subsection \<open>Links\<close>

definition list_link :: "cm_state \<Rightarrow> string" where
  "list_link st = link ''/configurationManagement'' [(''serverId'', cm_serverId st), (''group'', cm_group st), (''dataId'', cm_dataId st),
     (''namespace'', cm_tenant st), (''pageSize'', to_str (cm_pageSize st)), (''pageNo'', to_str (cm_pageNo st))]"

definition list_texts :: "cm_state \<Rightarrow> string list" where
  "list_texts st = [cm_serverId st, cm_group st, cm_dataId st, cm_tenant st, to_str (cm_pageSize st), to_str (cm_pageNo st)]"

text \<open>
  \<open>restores b st\<close>: the list opened in \<open>b\<close> looks for the data identifier and the group of \<open>st\<close> in its
  namespace, on its page and with its page size. The links between the pages carry neither the
  application nor the tags of a search: the list opened in \<open>b\<close> looks for any of them.
\<close>

definition restores :: "browser \<Rightarrow> cm_state \<Rightarrow> bool" where
  "restores b st \<longleftrightarrow> (\<exists>st'. cm_fields [] b = Inr st' \<and> cm_dataId st' = cm_dataId st \<and> cm_group st' = cm_group st \<and>
       cm_appName st' = [] \<and> st_config_tags st' = []) \<and>
     param_or b ''namespace'' [] = Inr (cm_tenant st) \<and>
     param b ''pageNo'' = Inr (Str (to_str (cm_pageNo st))) \<and> param b ''pageSize'' = Inr (Str (to_str (cm_pageSize st)))"

lemma restores_any_link:
  assumes "arrived b (link url kvs)" "good_link url kvs"
    and "map_of kvs ''dataId'' = Some (cm_dataId st)" "map_of kvs ''group'' = Some (cm_group st)"
    and "map_of kvs ''namespace'' = Some (cm_tenant st)" "map_of kvs ''pageNo'' = Some (to_str (cm_pageNo st))"
    and "map_of kvs ''pageSize'' = Some (to_str (cm_pageSize st))"
    and "map_of kvs ''appName'' = None" "map_of kvs ''edasAppId'' = None"
  shows "restores b st"
  unfolding restores_def cm_fields_def
  by (simp add: param_link[OF assms(1,2)] param_or_link[OF assms(1,2)] assms(3-9))

lemma restores_link:
  assumes "arrived b (list_link st)" "list_all link_safe (list_texts st)"
  shows "restores b st"
  using assms(1) unfolding list_link_def
  by (rule restores_any_link) (use assms(2) in \<open>simp_all add: good_link_def list_texts_def\<close>)

lemma generateUrl_list:
  "generateUrl ''/configurationManagement'' [(''serverId'', Str (cm_serverId st)), (''group'', Str (cm_group st)),
     (''dataId'', Str (cm_dataId st)), (''namespace'', Str (cm_tenant st)), (''pageSize'', Str (to_str (cm_pageSize st))),
     (''pageNo'', Str (to_str (cm_pageNo st)))] = list_link st"
  by (simp add: generateUrl_link is_index_key_def is_digit_def list_link_def join_str_def)

section \<open>Properties\<close>

text \<open>
  C10: from the list to the editor and back. The editor that the link of a row opens asks for the beta
  version of that row's configuration in the namespace of the list, and its way back is a link
  that gives the list the data identifier and the group searched for, its namespace, its page and its
  page size again, as long as no value holds a separator or a percent sign. The application and the tags
  searched for are not restored.
\<close>

theorem editor_round_trip:
  assumes "goEditor rec0 b st = Inr (b', st', [Push url])" and "field rec0 ''dataId'' = Str d" and "field rec0 ''group'' = Str g"
    and "d \<noteq> []" and "trim d = d" and "trim g = g"
    and "list_all link_safe ([d, g, cm_edasAppName st', cm_edasAppId st'] @ list_texts st')"
    and "arrived b2 url"
  shows "\<exists>st2 home. ce_mount env b2 ce_init = Inr (st2, [Axios (get_with ''v1/cs/configs'' (Obj [(''dataId'', Str d),
        (''group'', Str g), (''namespaceId'', Str (cm_tenant st')), (''tenant'', Str (cm_tenant st')), (''beta'', Bool True)]))]) \<and>
      \<not> can_edit_names st2 \<and>
      ce_goBack b2 = Inr [Push home] \<and> (\<forall>b3. arrived b3 home \<longrightarrow> restores b3 st')"
proof -
  let ?kvs = "[(''serverId'', cm_serverId st'), (''dataId'', d), (''group'', g), (''namespace'', cm_tenant st'),
      (''edasAppName'', cm_edasAppName st'), (''edasAppId'', cm_edasAppId st'), (''searchDataId'', cm_dataId st'),
      (''searchGroup'', cm_group st'), (''pageSize'', to_str (cm_pageSize st')), (''pageNo'', to_str (cm_pageNo st'))]"
  have "url = link ''/configeditor'' ?kvs"
    using assms(1-3) by (auto simp: goEditor_def at_center_def and_then_Inr_iff Let_def)
  then have a: "arrived b2 (link ''/configeditor'' ?kvs)" using assms(8) by simp
  have gl: "good_link ''/configeditor'' ?kvs" using assms(7) by (simp add: good_link_def list_texts_def)
  note reads = getParams_link[OF a gl] param_link[OF a gl] param_or_link[OF a gl]
  have mount: "\<exists>st2. ce_mount env b2 ce_init = Inr (st2, [Axios (get_with ''v1/cs/configs'' (Obj [(''dataId'', Str d),
        (''group'', Str g), (''namespaceId'', Str (cm_tenant st')), (''tenant'', Str (cm_tenant st')), (''beta'', Bool True)]))]) \<and>
      \<not> can_edit_names st2"
    using assms(4-6)
    by (simp add: ce_mount_def reads getConfig_def can_edit_names_def changeForm_def form_field_def ce_init_def obj_assign_def field_def map_of_obj_put)
  have home: "ce_goBack b2 = Inr [Push (list_link st')]"
    by (simp add: ce_goBack_def reads generateUrl_list)
  have "list_all link_safe (list_texts st')" using assms(7) by simp
  with mount home restores_link show ?thesis by blast
qed

text \<open>
  C14: the two ways to publish from the editor. The publish button starts unless the text is empty; it
  sends the publication at once exactly when the check of the format accepts the text, and for a rejected
  text nothing is sent before the user confirms, which sends what the editor shows then. The
  release of a beta version has no check: it sends whatever the editor shows, a rejected text included,
  with the addresses of the beta machines in a header. Every publication carries the form with the text of
  the editor as its content; the last two carry the value false when the editor is empty.
\<close>

theorem publish_checks_content:
  assumes "publish env loc st = Inr (how, st', es)" and "ce_editor st = Some (l, s)"
    and "ce_editor later = Some (l2, s2)"
  shows "(how = Unstarted \<longleftrightarrow> s = []) \<and>
    (how = Sent_Off \<longleftrightarrow> s \<noteq> [] \<and> (\<exists>ok. validate (env_yaml env) (env_xml env) s (to_str (form_field st ''type'')) = Inr ok \<and> truthy ok)) \<and>
    (how = Sent_Off \<longrightarrow> es = [Axios_Headers (publication_of env st (Str s)) (Obj [(''Content-Type'', Str ''application/x-www-form-urlencoded'')])]) \<and>
    (how \<noteq> Sent_Off \<longrightarrow> (\<forall>call h. Axios_Headers call h \<notin> set es)) \<and>
    (\<exists>es'. publish_confirmed env loc later = es' @ [Axios_Headers (publication_of env later (if s2 = [] then Bool False else Str s2))
       (Obj [(''Content-Type'', Str ''application/x-www-form-urlencoded'')])]) \<and>
    (\<exists>es'. publishBeta env loc later = es' @ [Axios_Headers (publication_of env later (if s2 = [] then Bool False else Str s2))
       (Obj [(''Content-Type'', Str ''application/x-www-form-urlencoded''), (''betaIps'', ce_betaIps later)])])"
proof -
  have st': "ce_form st' = ce_form st" "ce_editor st' = ce_editor st" "\<And>k. form_field st' k = form_field st k"
    using assms(1)
    by (auto simp: publish_def validation_def Let_def and_then_Inr_iff form_field_def split: if_splits prod.splits jv.splits)
  have v: "ce_editor (snd (validation loc st)) = ce_editor st" "form_field (snd (validation loc st)) ''type'' = form_field st ''type''"
    by (simp_all add: validation_def form_field_def)
  have sent: "ce_publishConfig env loc False x = [Axios_Headers (publication_of env x (Str t))
      (Obj [(''Content-Type'', Str ''application/x-www-form-urlencoded'')])]" if "t \<noteq> []" "ce_editor x = Some (k, t)" for x k t
    using that by (simp add: ce_publishConfig_def getCodeVal_def publication_of_def)
  have "how = Sent_Off \<Longrightarrow> s \<noteq> [] \<and> es = ce_publishConfig env loc False st'"
    using assms(1,2) v by (auto simp: publish_def getCodeVal_def Let_def and_then_Inr_iff split: if_splits)
  then have off: "how = Sent_Off \<longrightarrow> es = [Axios_Headers (publication_of env st (Str s)) (Obj [(''Content-Type'', Str ''application/x-www-form-urlencoded'')])]"
    using sent[of s st'] st' assms(2) by (simp add: publication_of_def)
  have beta: "\<exists>es'. publishBeta env loc later = es' @ [Axios_Headers (publication_of env later (if s2 = [] then Bool False else Str s2))
       (Obj [(''Content-Type'', Str ''application/x-www-form-urlencoded''), (''betaIps'', ce_betaIps later)])]"
    using assms(3) by (simp add: publishBeta_def ce_publishConfig_def getCodeVal_def publication_of_def)
  have conf: "\<exists>es'. publish_confirmed env loc later = es' @ [Axios_Headers (publication_of env later (if s2 = [] then Bool False else Str s2))
       (Obj [(''Content-Type'', Str ''application/x-www-form-urlencoded'')])]"
    using assms(3) by (simp add: publish_confirmed_def ce_publishConfig_def getCodeVal_def publication_of_def)
  have "(how = Unstarted \<longleftrightarrow> s = []) \<and>
    (how = Sent_Off \<longleftrightarrow> s \<noteq> [] \<and> (\<exists>ok. validate (env_yaml env) (env_xml env) s (to_str (form_field st ''type'')) = Inr ok \<and> truthy ok)) \<and>
    (how \<noteq> Sent_Off \<longrightarrow> (\<forall>call h. Axios_Headers call h \<notin> set es))"
    using assms(1,2) v by (auto simp: publish_def getCodeVal_def Let_def and_then_Inr_iff split: if_splits)
  with off beta conf show ?thesis by blast
qed

definition plain_env :: ed_env where
  "plain_env = \<lparr>env_yaml = (\<lambda>_. None), env_xml = NoXml, env_monaco = to_str, env_loaded = True, env_qs = to_str\<rparr>"

definition paged_cm :: cm_state where
  "paged_cm = sample_cm\<lparr>cm_pageNo := Str ''3'', cm_pageSize := Str ''10''\<rparr>"

theorem editor_round_trip_witness:
  "\<exists>st' url st2 home. goEditor (sample_row 4) sample_list_browser paged_cm = Inr (sample_list_browser, st', [Push url]) \<and>
     ce_mount plain_env (at_link url) ce_init = Inr (st2, [Axios (get_with ''v1/cs/configs'' (Obj [(''dataId'', Str ''d''),
        (''group'', Str ''G''), (''namespaceId'', Str ''dev''), (''tenant'', Str ''dev''), (''beta'', Bool True)]))]) \<and>
     ce_goBack (at_link url) = Inr [Push home] \<and> (\<forall>b3. arrived b3 home \<longrightarrow> restores b3 st')"
proof -
  note p = param_or_shows[OF sample_list_shows] param_shows[OF sample_list_shows]
  have c: "cm_edasAppName paged_cm = []" "cm_edasAppId paged_cm = []" "cm_dataId paged_cm = []" "cm_group paged_cm = []"
    by (simp_all add: paged_cm_def sample_cm_def cm_fields_def p js_or_def)
  let ?st = "paged_cm\<lparr>cm_serverId := ''center'', cm_tenant := ''dev''\<rparr>"
  obtain url where g: "goEditor (sample_row 4) sample_list_browser paged_cm = Inr (sample_list_browser, ?st, [Push url])"
      and u: "url \<noteq> []"
    by (simp add: goEditor_def at_center_def p Let_def link_def str_or_def)
  have r: "field (sample_row 4) ''dataId'' = Str ''d''" "field (sample_row 4) ''group'' = Str ''G''"
    by (simp_all add: sample_row_def field_def)
  have t: "trim ''d'' = ''d''" "trim ''G'' = ''G''" by (simp_all add: trim_def is_ws_def)
  have "list_all link_safe ([''d'', ''G'', cm_edasAppName ?st, cm_edasAppId ?st] @ list_texts ?st)"
    using c by (simp add: list_texts_def link_safe_def paged_cm_def)
  from editor_round_trip[OF g r _ t this arrived_at_link[OF u], of plain_env] g show ?thesis
    by auto
qed

text \<open>
  the two sides of the difference dialog differ only where the texts do. Both texts are shown
  with the same line endings: normalising twice changes nothing, and two texts look the same
  exactly when they are the same up to the way their lines end.
\<close>

theorem diff_ignores_line_endings:
  "diff_text (diff_text s) = diff_text s \<and> (diff_text s = diff_text t \<longleftrightarrow> crlf_to_lf s = crlf_to_lf t)"
  by (metis crlf_of_lf diff_text_def)

text \<open>
  C37: the tags a user may not enter. Of at most six tags at most five are kept, and the kept
  ones are the tags without comma and equals sign exactly when no two forbidden tags stand side by
  side: removing a tag while the list is walked makes the walk skip its right neighbour.
\<close>

theorem config_tags_filtered:
  "(form_field (ce_setConfigTags tags st) ''config_tags'' = Arr (map Str (filter (\<lambda>t. \<not> bad_tag t) (limit_tags tags))) \<longleftrightarrow>
      lone_bad (limit_tags tags)) \<and>
   (length tags \<le> 6 \<longrightarrow> length (strip_tags (limit_tags tags)) \<le> 5)"
proof -
  have "form_field (ce_setConfigTags tags st) ''config_tags'' = Arr (map Str (strip_tags (limit_tags tags)))"
    by (simp add: ce_setConfigTags_def Let_def form_field_change)
  moreover have "map Str xs = map Str ys \<longleftrightarrow> xs = ys" for xs ys by (simp add: inj_map_eq_map inj_def)
  moreover have "length tags \<le> 6 \<longrightarrow> length (strip_tags (limit_tags tags)) \<le> 5"
    using skip_strip_length[of "limit_tags tags"] by (auto simp: strip_tags_skip limit_tags_def split: if_splits)
  ultimately show ?thesis
    using skip_strip_filter[of "limit_tags tags"] by (simp add: strip_tags_skip)
qed

theorem config_tags_filtered_witness:
  "form_field (ce_setConfigTags [''a,b'', ''c=d'', ''e''] ce_init) ''config_tags'' \<noteq> Arr [Str ''e''] \<and>
   length (strip_tags (limit_tags [''a,b'', ''c=d'', ''e''])) \<le> 5"
proof -
  have "\<not> lone_bad [''a,b'', ''c=d'', ''e'']" by (simp add: lone_bad_Cons bad_tag_def)
  with config_tags_filtered[of "[''a,b'', ''c=d'', ''e'']" ce_init] show ?thesis
    by (simp add: limit_tags_def bad_tag_def)
qed

text \<open>
  C12: whatever the user does and in whatever order the replies arrive, the tabs are shown exactly
  while a beta version is out and one of them is active; a beta version is released only when
  none is out, so releasing and stopping are never offered together; and publishing is off
  exactly on the production tab.
\<close>

theorem beta_tabs_consistent:
  assumes "ce_reachable env loc b st"
  shows "(shows_tabs st \<longleftrightarrow> ce_tabActiveKey st \<in> {''production'', ''beta''}) \<and>
    (can_release st \<longrightarrow> ce_tabActiveKey st = []) \<and> \<not> (can_stop st \<and> can_release st) \<and>
    (\<not> can_publish st \<longleftrightarrow> shows_tabs st \<and> ce_tabActiveKey st = ''production'')"
  using beta_ok_reachable[OF assms]
  by (auto simp: beta_ok_def beta_view_def shows_tabs_def can_release_def can_stop_def can_publish_def)

definition edit_link :: string where
  "edit_link = link ''/configeditor'' [(''dataId'', ''d''), (''group'', ''G''), (''namespace'', ''dev'')]"

definition beta_answer :: jv where
  "beta_answer = Obj [(''data'', Obj [(''dataId'', Str ''d''), (''group'', Str ''G''), (''content'', Str ''k=v''),
     (''type'', Str ''properties''), (''betaIps'', Str ''1.1.1.1'')])]"

lemma edit_link_reads:
  "n \<in> set console_params \<Longrightarrow> getParams (at_link edit_link) n = Inr (map_of [(''dataId'', ''d''), (''group'', ''G''), (''namespace'', ''dev'')] n)"
  unfolding edit_link_def by (rule getParams_link[OF arrived_at_link]) (simp_all add: link_def good_link_def link_safe_def)

theorem beta_tabs_consistent_witness:
  "\<exists>st. ce_reachable plain_env (Obj []) (at_link edit_link) st \<and> ce_tabActiveKey st = ''beta'' \<and> shows_tabs st \<and> can_stop st \<and> \<not> can_release st"
proof -
  obtain st es where m: "ce_mount plain_env (at_link edit_link) ce_init = Inr (st, es)"
    by (simp add: ce_mount_def edit_link_reads getConfig_def param_def Let_def)
  obtain st' es' where r: "mount_replied plain_env (at_link edit_link) beta_answer st = Inr (st', es')"
      and s: "ce_tabActiveKey st' = ''beta''" "ce_isBeta st'"
    by (auto simp: mount_replied_def getConfig_replied_def beta_answer_def field_def split_tags_def initMoacoEditor_def plain_env_def Let_def)
  have reach: "ce_reachable plain_env (Obj []) (at_link edit_link) st'"
    by (rule first_reply[OF mounted[OF m] r])
  from beta_tabs_consistent[OF this] s have "shows_tabs st' \<and> can_stop st' \<and> \<not> can_release st'"
    by (auto simp: can_stop_def shows_tabs_def)
  with reach s(1) show ?thesis by blast
qed

definition broken_json :: ce_state where
  "broken_json = changeForm [(''type'', Str ''json'')] (ce_init\<lparr>ce_isNewConfig := False, ce_editor := Some (Str ''json'', ''{'')\<rparr>)"

theorem publish_checks_content_witness:
  "publish plain_env (Obj []) broken_json = Inr (Asked_First, broken_json, [Confirm Undefined Undefined]) \<and>
   \<not> (\<exists>ok. validate (env_yaml plain_env) (env_xml plain_env) ''{'' ''json'' = Inr ok \<and> truthy ok) \<and>
   (\<exists>es call h. publishBeta plain_env (Obj []) broken_json = es @ [Axios_Headers call h])"
proof -
  have p: "parse_json ''{'' = Inl SyntaxError" by code_simp
  have s: "ce_editor broken_json = Some (Str ''json'', ''{'')" by (simp add: broken_json_def changeForm_def)
  have t: "form_field broken_json ''type'' = Str ''json''" by (simp add: broken_json_def form_field_change)
  have r: "publish plain_env (Obj []) broken_json = Inr (Asked_First, broken_json, [Confirm Undefined Undefined])"
    using s t p by (simp add: publish_def getCodeVal_def validate_def validateJson_def tr_def field_def)
      (simp add: broken_json_def changeForm_def)
  from publish_checks_content[OF r s s] t r show ?thesis by auto
qed

text \<open>
  C36: publishing from the beta tab ends the beta release. After the server accepted the publication
  the page reads the configuration again and asks the server to delete the beta version of the
  same configuration, and once that is done the tabs and the stop button are gone, publishing is
  possible and a new beta release can be chosen.
\<close>

theorem beta_publication_ends_beta:
  assumes "param b ''namespace'' = Inr ns" and "ce_tabActiveKey st = ''beta''" and "ce_diffcb st = ''publish''"
    and "\<not> ce_isNewConfig st" and "truthy res" and "truthy (field r ''data'')"
  shows "\<exists>ask st2. published False False b res st = Inr (st, [ask]) \<and>
    diff_done loc st b res st = Inr [Axios (delete_with ''v1/cs/configs'' (Obj [(''beta'', Bool True),
       (''dataId'', form_field st ''dataId''), (''group'', form_field st ''group''), (''tenant'', ns)])),
       success_dialog (tr loc ''stopPublishBeta'') st] \<and>
    stopBeta_replied b r st = Inr (st2, [ask]) \<and> ce_form st2 = ce_form st \<and>
    \<not> shows_tabs st2 \<and> \<not> can_stop st2 \<and> can_publish st2 \<and> shows_beta_box st2"
proof -
  have "r \<noteq> Null" "r \<noteq> Undefined" using assms(6) by (auto simp: field_def)
  with assms show ?thesis
    by (simp add: published_def diff_done_def stopBeta_def stopBeta_replied_def getConfig_def form_field_def
        shows_tabs_def can_stop_def can_publish_def shows_beta_box_def)
qed

theorem beta_publication_ends_beta_witness:
  "\<exists>ask st2. published False False (at_link edit_link) (Bool True)
      (ce_init\<lparr>ce_isNewConfig := False, ce_tabActiveKey := ''beta'', ce_diffcb := ''publish''\<rparr>) =
      Inr (ce_init\<lparr>ce_isNewConfig := False, ce_tabActiveKey := ''beta'', ce_diffcb := ''publish''\<rparr>, [ask]) \<and>
    stopBeta_replied (at_link edit_link) (Obj [(''data'', Bool True)])
      (ce_init\<lparr>ce_isNewConfig := False, ce_tabActiveKey := ''beta'', ce_diffcb := ''publish''\<rparr>) = Inr (st2, [ask]) \<and> \<not> shows_tabs st2"
proof -
  have n: "param (at_link edit_link) ''namespace'' = Inr (Str ''dev'')" by (simp add: param_def edit_link_reads)
  have d: "truthy (field (Obj [(''data'', Bool True)]) ''data'')" by (simp add: field_def)
  let ?st = "ce_init\<lparr>ce_isNewConfig := False, ce_tabActiveKey := ''beta'', ce_diffcb := ''publish''\<rparr>"
  from beta_publication_ends_beta[OF n, of ?st "Bool True", OF _ _ _ _ d, of "Obj []"] show ?thesis by auto
qed

text \<open>
  choosing another format throws the edits away. The editor is created again with the content
  last loaded, whatever text it held.
\<close>

theorem format_change_discards_edits:
  assumes "env_loaded env"
  shows "ce_editor (fst (choose_type env t (st\<lparr>ce_editor := Some (l, s)\<rparr>))) = Some (Str t, env_monaco env (form_field st ''content''))"
  using assms by (simp add: choose_type_def initMoacoEditor_def editor_imported_def changeForm_def form_field_def)

theorem format_change_discards_edits_witness:
  "ce_editor (fst (choose_type plain_env ''json'' (ce_init\<lparr>ce_editor := Some (Str ''text'', ''typed'')\<rparr>))) = Some (Str ''json'', [])"
proof -
  have "env_loaded plain_env" by (simp add: plain_env_def)
  from format_change_discards_edits[OF this, where t = "''json''" and st = ce_init and l = "Str ''text''" and s = "''typed''"] show ?thesis
    by (simp add: plain_env_def form_field_def ce_init_def field_def)
qed

end
