(* ===== verification/New_Config.thy ===== *)
theory New_Config
  imports Config_Editor
begin

text \<open>
  The form for a new configuration, \<^verbatim>\<open>pages/ConfigurationManagement/NewConfig/NewConfig.js\<close>. The
  values of the form library are an object (\<open>nc_values\<close>); whether its validation reports errors is
  an argument of the handler. \<open>nc_text\<close> is the instance field \<open>codeValue\<close>, \<open>nc_codeValue\<close> the
  entry of the state. An editor without a model answers the empty text.
\<close>

section \<open>State\<close>

record nc_state =
  nc_edasAppName :: string
  nc_edasAppId :: string
  nc_inEdas :: bool
  nc_dataId :: string
  nc_group :: string
  nc_searchDataId :: string
  nc_searchGroup :: string
  nc_tenant :: string
  nc_serverId :: string
  nc_values :: "jv obj"
  nc_configType :: string
  nc_codeValue :: string
  nc_groupNames :: "string list"
  nc_tagLst :: "jv list"
  nc_config_tags :: "string list"
  nc_envvalues :: jv
  nc_showmore :: bool
  nc_loading :: bool
  nc_addonBefore :: string
  nc_showGroupWarning :: bool
  nc_text :: string
  nc_ips :: jv
  nc_betaShown :: bool
  nc_timer :: "string option"
  nc_editor :: "(jv \<times> string) option"

definition setValue :: "string \<Rightarrow> jv \<Rightarrow> nc_state \<Rightarrow> nc_state" where
  "setValue k v st = st\<lparr>nc_values := AList.update k v (nc_values st)\<rparr>"

definition getValue :: "nc_state \<Rightarrow> string \<Rightarrow> jv" where
  "getValue st k = (case map_of (nc_values st) k of None \<Rightarrow> Undefined | Some v \<Rightarrow> v)"

definition nc_init :: "bool \<Rightarrow> browser \<Rightarrow> js_error + nc_state" where
  "nc_init inEdas b =
     and_then (param_or b ''edasAppName'' []) (\<lambda>edasAppName.
     and_then (param_or b ''edasAppId'' []) (\<lambda>edasAppId.
     and_then (param_or b ''dataId'' []) (\<lambda>dataId.
     and_then (param_or b ''group'' ''DEFAULT_GROUP'') (\<lambda>group.
     and_then (param_or b ''searchDataId'' []) (\<lambda>searchDataId.
     and_then (param_or b ''searchGroup'' []) (\<lambda>searchGroup.
       Inr \<lparr>nc_edasAppName = edasAppName, nc_edasAppId = edasAppId, nc_inEdas = inEdas, nc_dataId = dataId, nc_group = group,
            nc_searchDataId = searchDataId, nc_searchGroup = searchGroup, nc_tenant = [], nc_serverId = [],
            nc_values = [(''appName'', Str edasAppName)], nc_configType = ''text'', nc_codeValue = [], nc_groupNames = [],
            nc_tagLst = [], nc_config_tags = [], nc_envvalues = Arr [], nc_showmore = False, nc_loading = False,
            nc_addonBefore = [], nc_showGroupWarning = False, nc_text = [], nc_ips = Str [], nc_betaShown = True,
            nc_timer = None, nc_editor = None\<rparr>))))))"

definition nc_initEditor :: "ed_env \<Rightarrow> nc_state \<Rightarrow> nc_state" where
  "nc_initEditor env st = st\<lparr>nc_editor := Some (Str (nc_configType st), env_monaco env (Str (nc_text st)))\<rparr>"

definition nc_mount :: "ed_env \<Rightarrow> browser \<Rightarrow> nc_state \<Rightarrow> js_error + nc_state \<times> effect list" where
  "nc_mount env b st =
     and_then (param_or b ''namespace'' []) (\<lambda>tenant.
       let st = setValue ''group'' (Str (nc_group st)) (st\<lparr>nc_tenant := tenant\<rparr>)
       in Inr (if env_loaded env then (nc_initEditor env st, []) else (st, [Callback ''importEditor'' []])))"

definition changeModel :: "ed_env \<Rightarrow> string \<Rightarrow> nc_state \<Rightarrow> nc_state" where
  "changeModel env type st =
     (case nc_editor st of
        None \<Rightarrow> st\<lparr>nc_editor := Some (Undefined, [])\<rparr>
      | Some (_, oldValue) \<Rightarrow> st\<lparr>nc_editor := Some (Str type, env_monaco env (Str oldValue))\<rparr>)"

definition newChangeConfig :: "ed_env \<Rightarrow> string \<Rightarrow> nc_state \<Rightarrow> nc_state" where
  "newChangeConfig env v st = changeModel env v (st\<lparr>nc_configType := v\<rparr>)"

section \<open>The form\<close>

definition nc_setGroup :: "string option \<Rightarrow> nc_state \<Rightarrow> nc_state" where
  "nc_setGroup v st =
     (let g = str_or v [];
          st = setValue ''group'' (Str g) (st\<lparr>nc_group := g\<rparr>)
      in if nc_inEdas st then st\<lparr>nc_showGroupWarning := (g \<noteq> [] \<and> g \<notin> set (nc_groupNames st))\<rparr> else st)"

definition tagSearch :: "string \<Rightarrow> nc_state \<Rightarrow> nc_state" where
  "tagSearch v st = (if Str v \<in> set (nc_tagLst st) then st else st\<lparr>nc_tagLst := Str v # nc_tagLst st\<rparr>)"

definition nc_setConfigTags :: "string list \<Rightarrow> nc_state \<Rightarrow> nc_state" where
  "nc_setConfigTags v st =
     (let tags = strip_tags (limit_tags v) in st\<lparr>nc_tagLst := map Str tags, nc_config_tags := tags\<rparr>)"

text \<open>A pending update of the list of tags is replaced by the next one; \<open>time\<close> is a random number.\<close>

definition onInputUpdate :: "string \<Rightarrow> nc_state \<Rightarrow> nc_state" where
  "onInputUpdate v st = st\<lparr>nc_timer := Some v\<rparr>"

definition input_updated :: "jv \<Rightarrow> nc_state \<Rightarrow> nc_state" where
  "input_updated time st =
     (case nc_timer st of None \<Rightarrow> st
      | Some v \<Rightarrow>
          let hastag = list_ex (\<lambda>t. field t ''value'' = Str v) (nc_tagLst st)
          in st\<lparr>nc_timer := None, nc_tagLst := (if hastag then nc_tagLst st
               else nc_tagLst st @ [Obj [(''value'', Str v), (''label'', Str v), (''time'', time)]])\<rparr>)"

definition toggleMore :: "nc_state \<Rightarrow> nc_state" where
  "toggleMore st = st\<lparr>nc_showmore := \<not> nc_showmore st\<rparr>"

definition nc_openLoading :: "nc_state \<Rightarrow> nc_state" where
  "nc_openLoading st = st\<lparr>nc_loading := True\<rparr>"

definition nc_closeLoading :: "nc_state \<Rightarrow> nc_state" where
  "nc_closeLoading st = st\<lparr>nc_loading := False\<rparr>"

definition setCodeValue :: "string \<Rightarrow> nc_state \<Rightarrow> nc_state" where
  "setCodeValue v st = st\<lparr>nc_codeValue := v\<rparr>"

definition changeEnv :: "jv \<Rightarrow> nc_state \<Rightarrow> nc_state" where
  "changeEnv v st = st\<lparr>nc_envvalues := v\<rparr>"

definition changeBeta :: "bool \<Rightarrow> nc_state \<Rightarrow> nc_state" where
  "changeBeta selected st = st\<lparr>nc_betaShown := selected\<rparr>"

definition getIps :: "jv \<Rightarrow> nc_state \<Rightarrow> nc_state" where
  "getIps v st = st\<lparr>nc_ips := v\<rparr>"

text \<open>\<open>/[@#$%^&*\s]+/\<close> matches somewhere in the value.\<close>

definition nc_forbidden :: "char \<Rightarrow> bool" where
  "nc_forbidden c \<longleftrightarrow> c \<in> set ''@#$%^&*'' \<or> is_ws c"

definition nc_validateChart :: "jv \<Rightarrow> string \<Rightarrow> jv option" where
  "nc_validateChart loc v = (if list_ex nc_forbidden v then Some (tr loc ''doNotEnter'') else None)"

section \<open>Publishing\<close>

definition nc_goList :: "browser \<Rightarrow> nc_state \<Rightarrow> js_error + nc_state \<times> effect list" where
  "nc_goList b st =
     and_then (param_or b ''namespace'' []) (\<lambda>tenant.
     and_then (param_or b ''serverId'' []) (\<lambda>serverId.
       Inr (st\<lparr>nc_tenant := tenant, nc_serverId := serverId\<rparr>,
            [Push (generateUrl ''/configurationManagement'' [(''serverId'', Str serverId), (''group'', Str (nc_searchGroup st)),
               (''dataId'', Str (nc_searchDataId st)), (''namespace'', Str tenant)])])))"

definition nc_full_dataId :: "nc_state \<Rightarrow> jv" where
  "nc_full_dataId st = Str (nc_addonBefore st @ to_str (getValue st ''dataId''))"

text \<open>The server overwrites an existing configuration, so the page first asks whether there is one.\<close>

definition publicConfigBeforeCheck :: "browser \<Rightarrow> nc_state \<Rightarrow> js_error + effect list" where
  "publicConfigBeforeCheck b st =
     and_then (param_or b ''namespace'' []) (\<lambda>tenant.
       Inr [Send ((req ''v1/cs/configs'')\<lparr>c_data := Obj [(''show'', Str ''all''), (''dataId'', nc_full_dataId st),
         (''group'', getValue st ''group''), (''tenant'', Str tenant)], c_error := UserFn 1\<rparr>)])"

definition nc_publishConfig :: "browser \<Rightarrow> string \<Rightarrow> nc_state \<Rightarrow> js_error + nc_state \<times> jv obj \<times> effect list" where
  "nc_publishConfig b content st =
     and_then (param_or b ''namespace'' []) (\<lambda>tenant.
     and_then (param_or b ''serverId'' ''center'') (\<lambda>serverId.
       let payload = [(''dataId'', nc_full_dataId st), (''group'', getValue st ''group''), (''content'', Str content),
             (''desc'', getValue st ''desc''), (''config_tags'', Str (join '','' (nc_config_tags st))),
             (''type'', Str (nc_configType st)),
             (''appName'', if nc_edasAppName st \<noteq> [] then Str (nc_edasAppId st) else getValue st ''appName''),
             (''tenant'', Str tenant)]
       in Inr (st\<lparr>nc_tenant := tenant, nc_serverId := serverId\<rparr>, payload,
            [Send ((req ''v1/cs/configs'')\<lparr>c_type := Some ''post'', c_contentType := Some ''application/x-www-form-urlencoded'',
               c_data := Obj payload, c_error := UserFn 1, c_complete := UserFn 2, c_beforeSend := UserFn 3\<rparr>)])))"

text \<open>The answers to the question: a successful one reports the conflict, a failed one publishes.\<close>

definition check_found :: "jv \<Rightarrow> effect list" where
  "check_found loc = [Toast ''error'' (tr loc ''dataIdExists'')]"

definition check_failed :: "browser \<Rightarrow> string \<Rightarrow> nc_state \<Rightarrow> js_error + nc_state \<times> jv obj \<times> effect list" where
  "check_failed b content st = nc_publishConfig b content st"

definition publishConfig :: "ed_env \<Rightarrow> jv \<Rightarrow> bool \<Rightarrow> browser \<Rightarrow> nc_state \<Rightarrow> js_error + effect list" where
  "publishConfig env loc errors b st =
     (if errors then Inr []
      else let content = (case nc_editor st of Some (_, s) \<Rightarrow> s | None \<Rightarrow> nc_text st)
           in if content = [] then Inr [Toast ''error'' (tr loc ''dataRequired'')]
              else and_then (validate (env_yaml env) (env_xml env) content (nc_configType st)) (\<lambda>ok.
                if truthy ok then publicConfigBeforeCheck b st
                else Inr [Confirm Undefined (tr loc ''confirmSyanx'')]))"

text \<open>\<open>onOk\<close> of the confirmation, in the state the user confirms in.\<close>

definition nc_confirmed :: "browser \<Rightarrow> nc_state \<Rightarrow> js_error + effect list" where
  "nc_confirmed b st = publicConfigBeforeCheck b st"

definition nc_published :: "jv \<Rightarrow> jv obj \<Rightarrow> jv \<Rightarrow> browser \<times> nc_state \<Rightarrow> js_error + browser \<times> nc_state \<times> effect list" where
  "nc_published loc payload res bs =
     (let (b, st) = bs;
          shown = [(''maintitle'', tr loc ''newListingMain''), (''title'', tr loc ''newListing''), (''content'', Str []),
                   (''dataId'', field (Obj payload) ''dataId''), (''group'', field (Obj payload) ''group'')]
      in if res = Bool True then
           and_then (setParamsObj [(''group'', field (Obj payload) ''group''), (''dataId'', field (Obj payload) ''dataId'')] b) (\<lambda>b.
             Inr (b, st\<lparr>nc_group := to_str (field (Obj payload) ''group''), nc_dataId := to_str (field (Obj payload) ''dataId'')\<rparr>,
                  [Open_Dialog ''successDialog'' (Obj (shown @ [(''isok'', Bool True)]))]))
         else if res = Null \<or> res = Undefined then Inl TypeError
         else Inr (b, st, [Open_Dialog ''successDialog'' (Obj (shown @ [(''isok'', Bool False), (''message'', field res ''message'')]))]))"

definition nc_publish_failed :: "jv \<Rightarrow> nc_state \<Rightarrow> nc_state \<times> effect list" where
  "nc_publish_failed loc st = (nc_closeLoading st, [Alert Undefined (tr loc ''publishFailed'')])"

section \<open>Properties\<close>

text \<open>The question whether the configuration of the form exists in a namespace.\<close>

definition asks_for :: "nc_state \<Rightarrow> string \<Rightarrow> config \<Rightarrow> bool" where
  "asks_for st tenant c \<longleftrightarrow> c_type c = None \<and> c_method c = None \<and> c_url c = ''v1/cs/configs'' \<and>
     field (c_data c) ''dataId'' = nc_full_dataId st \<and> field (c_data c) ''group'' = getValue st ''group'' \<and>
     field (c_data c) ''tenant'' = Str tenant"

lemma publicConfigBeforeCheck_asks:
  assumes "hash_shows path b kvs"
  shows "\<exists>c. publicConfigBeforeCheck b st = Inr [Send c] \<and> asks_for st (str_or (map_of kvs ''namespace'') []) c"
  by (simp add: publicConfigBeforeCheck_def param_or_shows[OF assms] asks_for_def req_def field_def)


definition filled_form :: nc_state where
  "filled_form = (case nc_init False sample_list_browser of
     Inr st \<Rightarrow> setValue ''dataId'' (Str ''a.txt'') (setValue ''group'' (Str ''G'') (st\<lparr>nc_editor := Some (Str ''text'', ''hello'')\<rparr>))
   | Inl _ \<Rightarrow> undefined)"

lemma filled_form_fields:
  "nc_editor filled_form = Some (Str ''text'', ''hello'')" "nc_configType filled_form = ''text''"
  "nc_full_dataId filled_form = Str ''a.txt''" "getValue filled_form ''group'' = Str ''G''"
  by (simp_all add: filled_form_def nc_init_def param_or_shows[OF sample_list_shows] setValue_def getValue_def nc_full_dataId_def)


subsection \<open>Names and links\<close>

text \<open>
  A value of a link that holds a question mark is cut there: the query of the location is what stands
  between the first and the second question mark.
\<close>

lemma join_last: "join sep (xs @ [x @ y]) = join sep (xs @ [x]) @ y"
  by (induction xs) (auto simp: join_Cons)

lemma cut_query:
  "query_text (kvs @ (n, w @ y) # rest) = query_text (kvs @ [(n, w)]) @ y @ (if rest = [] then [] else ''&'' @ query_text rest)"
proof -
  have "query_text (kvs @ [(n, w @ y)]) = query_text (kvs @ [(n, w)]) @ y"
    using join_last[of "''&''" "map kv_text kvs" "n @ ''='' @ w" y] by (simp add: query_text_def kv_text_def)
  moreover have "query_text ((kvs @ [(n, w @ y)]) @ rest) = query_text (kvs @ [(n, w @ y)]) @ (if rest = [] then [] else ''&'' @ query_text rest)"
    by (simp only: query_text_def map_append) (simp add: join_append del: append_assoc)
  ultimately show ?thesis by simp
qed

lemma getParams_cut:
  assumes "arrived b (link url (kvs @ (n, v) # rest))" "good_link url (kvs @ (n, []) # rest)" "n \<notin> fst ` set kvs"
    and "CHR ''&'' \<notin> set v" "CHR ''%'' \<notin> set v"
  shows "getParams b n = Inr (Some (takeWhile (\<lambda>c. c \<noteq> CHR ''?'') v))"
proof (cases "CHR ''?'' \<in> set v")
  case False
  then have "good_link url (kvs @ (n, v) # rest)" using assms(2,4,5) by (simp add: good_link_def link_safe_def)
  moreover have "n \<in> set console_params" using assms(2) by (simp add: good_link_def)
  moreover have "map_of (kvs @ (n, v) # rest) n = Some v"
    using assms(3) by (simp add: map_add_def map_of_eq_None_iff[THEN iffD2])
  ultimately have "getParams b n = Inr (Some v)" using getParams_link[OF assms(1), of n] by simp
  moreover have "takeWhile (\<lambda>c. c \<noteq> CHR ''?'') v = v" using False by (intro takeWhile_eq_all_conv[THEN iffD2]) auto
  ultimately show ?thesis by (simp only:)
next
  case True
  let ?w = "takeWhile (\<lambda>c. c \<noteq> CHR ''?'') v" and ?ks = "kvs @ [(n, takeWhile (\<lambda>c. c \<noteq> CHR ''?'') v)]"
  obtain t where t: "v = ?w @ CHR ''?'' # t"
  proof -
    have "dropWhile (\<lambda>c. c \<noteq> CHR ''?'') v \<noteq> []" using True by (auto simp: dropWhile_eq_Nil_conv)
    then obtain c t where "dropWhile (\<lambda>c. c \<noteq> CHR ''?'') v = c # t" by (cases "dropWhile (\<lambda>c. c \<noteq> CHR ''?'') v") auto
    with hd_dropWhile[of "\<lambda>c. c \<noteq> CHR ''?''" v] takeWhile_dropWhile_id[of "\<lambda>c. c \<noteq> CHR ''?''" v]
    have "?w @ CHR ''?'' # t = v" by simp
    then show ?thesis by (intro that) (rule sym)
  qed
  have w: "CHR ''?'' \<notin> set ?w" "CHR ''&'' \<notin> set ?w" "CHR ''%'' \<notin> set ?w"
    using assms(4,5) by (auto dest: set_takeWhileD)
  have g: "list_all (\<lambda>kv. fst kv \<in> set console_params \<and> link_safe (snd kv)) ?ks" "CHR ''?'' \<notin> set url" "n \<in> set console_params"
    using assms(2) w by (simp_all add: good_link_def link_safe_def)
  obtain more where q: "query_text (kvs @ (n, v) # rest) = query_text ?ks @ CHR ''?'' # more"
    using cut_query[of kvs n ?w "CHR ''?'' # t" rest] t by (metis append_Cons)
  have f: "CHR ''?'' \<notin> set (query_text ?ks)"
    unfolding query_text_def
  proof (rule join_free)
    show "\<forall>p \<in> set (map kv_text ?ks). CHR ''?'' \<notin> set p"
      using g(1) good_name_free[OF console_params_good] by (fastforce simp: list_all_iff link_safe_def kv_text_def)
  qed simp
  have h: "hash b = (CHR ''#'' # url) @ CHR ''?'' # query_text ?ks @ CHR ''?'' # more"
    using assms(1) q by (simp add: arrived_def link_def)
  have "split_on (CHR ''?'') (hash b) = (CHR ''#'' # url) # query_text ?ks # split_on (CHR ''?'') more"
    unfolding h using g(2) f by (simp add: split_on_append_sep)
  moreover have "match_param n (query_text ?ks) = Some ?w"
    using match_param_link[of ?ks n] g(1,3) assms(3)
    by (auto simp: list_all_iff link_safe_def map_add_def map_of_eq_None_iff[THEN iffD2])
  moreover have "list_all word_char n" using console_params_good[OF g(3)] by (simp add: good_name_def)
  ultimately show ?thesis using h decode_plain[OF w(3)] by (simp add: getParams_def Let_def)
qed

text \<open>
  C38: the names the form accepts and the links of the list. The form accepts a name exactly when it has
  none of the characters @, #, $, %, ^, & and * and no white space. The editor opened by the link of a
  row with an accepted name reads that name up to its first question mark: a name without one opens the
  right configuration, a name with one, which the form accepts, another.
\<close>

theorem accepted_name_linkable:
  assumes "nc_validateChart loc v = None" and "field rec0 ''dataId'' = Str v" and "field rec0 ''group'' = Str g"
    and "goEditor rec0 b st = Inr (b', st', [Push url])" and "arrived b2 url"
    and "list_all link_safe ([g, cm_edasAppName st', cm_edasAppId st'] @ list_texts st')"
  shows "(nc_validateChart loc w = None \<longleftrightarrow> (\<forall>c \<in> set w. c \<notin> set ''@#$%^&*'' \<and> \<not> is_ws c)) \<and>
    getParams b2 ''dataId'' = Inr (Some (takeWhile (\<lambda>c. c \<noteq> CHR ''?'') v)) \<and> trim v = v \<and>
    (getParams b2 ''dataId'' = Inr (Some v) \<longleftrightarrow> CHR ''?'' \<notin> set v)"
proof -
  have chars: "nc_validateChart loc w = None \<longleftrightarrow> (\<forall>c \<in> set w. c \<notin> set ''@#$%^&*'' \<and> \<not> is_ws c)" for w
    by (auto simp: nc_validateChart_def nc_forbidden_def list_ex_iff)
  have free: "\<not> nc_forbidden c" if "c \<in> set v" for c
    using assms(1) that by (auto simp: nc_validateChart_def list_ex_iff split: if_splits)
  have "dropWhile is_ws v = v" using free by (cases v) (auto simp: nc_forbidden_def)
  moreover have "dropWhile is_ws (rev v) = rev v" using free by (cases "rev v") (auto simp: nc_forbidden_def dest: arg_cong[of _ _ set])
  ultimately have t: "trim v = v" by (simp add: trim_def)
  let ?rest = "[(''group'', g), (''namespace'', cm_tenant st'), (''edasAppName'', cm_edasAppName st'), (''edasAppId'', cm_edasAppId st'),
      (''searchDataId'', cm_dataId st'), (''searchGroup'', cm_group st'), (''pageSize'', to_str (cm_pageSize st')), (''pageNo'', to_str (cm_pageNo st'))]"
  have "url = link ''/configeditor'' ([(''serverId'', cm_serverId st')] @ (''dataId'', v) # ?rest)"
    using assms(2-4) by (auto simp: goEditor_def at_center_def and_then_Inr_iff Let_def)
  then have "arrived b2 (link ''/configeditor'' ([(''serverId'', cm_serverId st')] @ (''dataId'', v) # ?rest))" using assms(5) by simp
  moreover have "good_link ''/configeditor'' ([(''serverId'', cm_serverId st')] @ (''dataId'', []) # ?rest)"
    using assms(6) by (simp add: good_link_def list_texts_def link_safe_def)
  moreover have "CHR ''&'' \<notin> set v" "CHR ''%'' \<notin> set v" using free by (auto simp: nc_forbidden_def)
  ultimately have r: "getParams b2 ''dataId'' = Inr (Some (takeWhile (\<lambda>c. c \<noteq> CHR ''?'') v))"
    using getParams_cut[of b2 "''/configeditor''" "[(''serverId'', cm_serverId st')]" "''dataId''" v ?rest] by simp
  have "takeWhile (\<lambda>c. c \<noteq> CHR ''?'') v = v \<longleftrightarrow> CHR ''?'' \<notin> set v" by (auto simp: takeWhile_eq_all_conv)
  with chars r t show ?thesis by simp
qed

definition odd_row :: jv where
  "odd_row = Obj [(''id'', num 4), (''dataId'', Str ''a?b''), (''group'', Str ''G'')]"

theorem accepted_name_linkable_witness:
  "\<exists>st' url. goEditor odd_row sample_list_browser paged_cm = Inr (sample_list_browser, st', [Push url]) \<and>
     nc_validateChart (Obj []) ''a?b'' = None \<and> getParams (at_link url) ''dataId'' = Inr (Some ''a'')"
proof -
  note p = param_or_shows[OF sample_list_shows] param_shows[OF sample_list_shows]
  have c: "cm_edasAppName paged_cm = []" "cm_edasAppId paged_cm = []" "cm_dataId paged_cm = []" "cm_group paged_cm = []"
    by (simp_all add: paged_cm_def sample_cm_def cm_fields_def p js_or_def)
  let ?st = "paged_cm\<lparr>cm_serverId := ''center'', cm_tenant := ''dev''\<rparr>"
  obtain url where g: "goEditor odd_row sample_list_browser paged_cm = Inr (sample_list_browser, ?st, [Push url])" and u: "url \<noteq> []"
    by (simp add: goEditor_def at_center_def p Let_def link_def str_or_def)
  have r: "field odd_row ''dataId'' = Str ''a?b''" "field odd_row ''group'' = Str ''G''" by (simp_all add: odd_row_def field_def)
  have a: "nc_validateChart (Obj []) ''a?b'' = None" by (simp add: nc_validateChart_def nc_forbidden_def is_ws_def)
  have "list_all link_safe ([''G'', cm_edasAppName ?st, cm_edasAppId ?st] @ list_texts ?st)"
    using c by (simp add: list_texts_def link_safe_def paged_cm_def)
  from accepted_name_linkable[OF a r g arrived_at_link[OF u] this] a g show ?thesis by auto
qed

text \<open>
  after the server created a configuration the location names it. Its data identifier and group
  read back from the address as they were published, whatever characters they hold, and the other
  parameters are as before.
\<close>

theorem created_config_in_location:
  assumes "hash_shows path b kvs" and "field (Obj payload) ''dataId'' = Str d" and "field (Obj payload) ''group'' = Str g"
  shows "\<exists>b' st' e. nc_published loc payload (Bool True) (b, st) = Inr (b', st', [e]) \<and>
    getParams b' ''dataId'' = Inr (Some d) \<and> getParams b' ''group'' = Inr (Some g) \<and>
    (\<forall>n \<in> set console_params. n \<notin> {''dataId'', ''group''} \<longrightarrow> getParams b' n = getParams b n) \<and>
    nc_dataId st' = d \<and> nc_group st' = g"
proof -
  obtain h where h: "setParamsObj [(''group'', Str g), (''dataId'', Str d)] b = Inr (b\<lparr>href := h\<rparr>)"
      "hash_shows path (b\<lparr>href := h\<rparr>) (put_all [(''group'', g), (''dataId'', d)] kvs)"
    using setParamsObj_href[OF assms(1), of "[(''group'', Str g), (''dataId'', Str d)]"] by auto
  let ?b = "b\<lparr>href := h\<rparr>"
  have new: "getParams ?b n = Inr (if n = ''dataId'' then Some d else if n = ''group'' then Some g else map_of kvs n)"
    if "n \<in> set console_params" for n
    using getParams_shows[OF h(2) that] by (simp add: update_conv)
  let ?st = "st\<lparr>nc_group := g, nc_dataId := d\<rparr>"
  obtain e where e: "nc_published loc payload (Bool True) (b, st) = Inr (?b, ?st, [e])"
    using assms(2,3) h(1) by (simp add: nc_published_def)
  have r: "getParams ?b ''dataId'' = Inr (Some d)" "getParams ?b ''group'' = Inr (Some g)" by (simp_all add: new)
  have o: "\<forall>n \<in> set console_params. n \<notin> {''dataId'', ''group''} \<longrightarrow> getParams ?b n = getParams b n"
    by (auto simp: new getParams_shows[OF assms(1)])
  show ?thesis
    by (rule exI[of _ ?b], rule exI[of _ ?st], rule exI[of _ e]) (intro conjI e r o, simp_all)
qed

theorem created_config_in_location_witness:
  "\<exists>b' st' e. nc_published (Obj []) [(''dataId'', Str ''a&b''), (''group'', Str ''G'')] (Bool True) (sample_list_browser, filled_form) = Inr (b', st', [e]) \<and>
    getParams b' ''dataId'' = Inr (Some ''a&b'')"
proof -
  have f: "field (Obj [(''dataId'', Str ''a&b''), (''group'', Str ''G'')]) ''dataId'' = Str ''a&b''"
    "field (Obj [(''dataId'', Str ''a&b''), (''group'', Str ''G'')]) ''group'' = Str ''G''"
    by (simp_all add: field_def)
  from created_config_in_location[OF sample_list_shows f, of "Obj []" filled_form] show ?thesis
    by (elim exE conjE) (intro exI conjI)
qed

end
