(* ===== verification/Config_Pages.thy ===== *)
theory Config_Pages
  imports New_Config
begin

text \<open>
  The pages around a configuration: its details (\<^verbatim>\<open>ConfigDetail.js\<close>), its history and the entry of a
  history (\<^verbatim>\<open>HistoryRollback.js\<close>, \<^verbatim>\<open>HistoryDetail.js\<close>), going back to an entry (\<^verbatim>\<open>ConfigRollback.js\<close>),
  its listeners (\<^verbatim>\<open>ListeningToQuery.js\<close>) and its synchronisation (\<^verbatim>\<open>ConfigSync.js\<close>), all under
  \<^verbatim>\<open>pages/ConfigurationManagement\<close>. The values of a form are an object.
\<close>

definition set_values :: "jv obj \<Rightarrow> jv obj \<Rightarrow> jv obj" where
  "set_values new vs = fold (\<lambda>(k, v). AList.update k v) new vs"

definition form_value :: "jv obj \<Rightarrow> string \<Rightarrow> jv" where
  "form_value vs k = (case map_of vs k of None \<Rightarrow> Undefined | Some v \<Rightarrow> v)"

text \<open>\<open>text.trim()\<close> of a value.\<close>

definition trimmed :: "jv \<Rightarrow> js_error + string" where
  "trimmed v = (case v of Str s \<Rightarrow> Inr (trim s) | _ \<Rightarrow> Inl TypeError)"

section \<open>Details\<close>

record dt_state =
  dt_loading :: bool
  dt_showmore :: bool
  dt_activeKey :: string
  dt_ips :: jv
  dt_switchEncrypt :: bool
  dt_tag :: jv
  dt_values :: "jv obj"
  dt_dataId :: string
  dt_group :: string
  dt_tenant :: string
  dt_searchDataId :: string
  dt_searchGroup :: string
  dt_pageSize :: jv
  dt_pageNo :: jv
  dt_valueMap :: "jv obj"
  dt_serverId :: jv
  dt_edasAppName :: string
  dt_editor :: "(jv \<times> string) option"

definition dt_init :: "browser \<Rightarrow> js_error + dt_state" where
  "dt_init b =
     and_then (param_or b ''dataId'' ''yanlin'') (\<lambda>dataId.
     and_then (param_or b ''group'' ''DEFAULT_GROUP'') (\<lambda>group.
     and_then (param_or b ''namespace'' []) (\<lambda>tenant.
     and_then (param_or b ''searchDataId'' []) (\<lambda>searchDataId.
     and_then (param_or b ''searchGroup'' []) (\<lambda>searchGroup.
     and_then (param b ''pageSize'') (\<lambda>pageSize.
     and_then (param b ''pageNo'') (\<lambda>pageNo.
       Inr \<lparr>dt_loading = False, dt_showmore = False, dt_activeKey = ''normal'', dt_ips = Str [], dt_switchEncrypt = False,
            dt_tag = Arr [], dt_values = [], dt_dataId = dataId, dt_group = group, dt_tenant = tenant,
            dt_searchDataId = searchDataId, dt_searchGroup = searchGroup, dt_pageSize = pageSize, dt_pageNo = pageNo,
            dt_valueMap = [], dt_serverId = Undefined, dt_edasAppName = [], dt_editor = None\<rparr>)))))))"

definition dt_initData :: "jv \<Rightarrow> dt_state \<Rightarrow> dt_state" where
  "dt_initData loc st =
     (if prefix ''cipher-'' (dt_dataId st) then st\<lparr>dt_switchEncrypt := True\<rparr> else st)
       \<lparr>dt_tag := Arr [Obj [(''title'', tr loc ''official''), (''key'', Str ''normal'')]]\<rparr>"

definition dt_openLoading :: "dt_state \<Rightarrow> dt_state" where
  "dt_openLoading st = st\<lparr>dt_loading := True\<rparr>"

definition dt_closeLoading :: "dt_state \<Rightarrow> dt_state" where
  "dt_closeLoading st = st\<lparr>dt_loading := False\<rparr>"

definition dt_changeTab :: "string \<Rightarrow> dt_state \<Rightarrow> js_error + dt_state" where
  "dt_changeTab v st =
     (let data = form_value (dt_valueMap st) (nth_or (split_on (CHR ''-'') v) 0 [])
      in if data = Undefined \<or> data = Null then Inl TypeError
         else let st = st\<lparr>dt_activeKey := v, dt_values := set_values [(''content'', field data ''content'')] (dt_values st)\<rparr>
              in Inr (if truthy (field data ''betaIps'') then st\<lparr>dt_ips := field data ''betaIps''\<rparr> else st))"

definition dt_toggleMore :: "dt_state \<Rightarrow> dt_state" where
  "dt_toggleMore st = st\<lparr>dt_showmore := \<not> dt_showmore st\<rparr>"

definition dt_getDataDetail :: "browser \<Rightarrow> dt_state \<Rightarrow> js_error + dt_state \<times> effect list" where
  "dt_getDataDetail b st =
     and_then (param_or b ''serverId'' ''center'') (\<lambda>serverId.
     and_then (param_or b ''namespace'' []) (\<lambda>tenant.
     and_then (param_or b ''edasAppName'' []) (\<lambda>edasAppName.
       Inr (st\<lparr>dt_serverId := Str serverId, dt_tenant := tenant, dt_edasAppName := edasAppName\<rparr>,
            [Send ((req (link ''v1/cs/configs'' [(''show'', ''all''), (''dataId'', dt_dataId st), (''group'', dt_group st)]))
               \<lparr>c_complete := UserFn 2, c_beforeSend := UserFn 3\<rparr>)]))))"

definition dt_mount :: "jv \<Rightarrow> browser \<Rightarrow> dt_state \<Rightarrow> js_error + dt_state \<times> effect list" where
  "dt_mount loc b st = dt_getDataDetail b (dt_initData loc st)"

definition dt_initEditor :: "ed_env \<Rightarrow> jv \<Rightarrow> jv \<Rightarrow> dt_state \<Rightarrow> dt_state \<times> effect list" where
  "dt_initEditor env language v st =
     (if env_loaded env then (st\<lparr>dt_editor := Some (language, env_monaco env v)\<rparr>, [])
      else (st\<lparr>dt_editor := None\<rparr>, [Callback ''importEditor'' [language, v]]))"

definition dt_loaded :: "ed_env \<Rightarrow> jv \<Rightarrow> dt_state \<Rightarrow> js_error + dt_state \<times> effect list" where
  "dt_loaded env data st =
     (if data = Null \<or> data = Undefined then Inl TypeError
      else Inr (dt_initEditor env (field data ''type'') (field data ''content'')
        (st\<lparr>dt_valueMap := AList.update ''normal'' data (dt_valueMap st),
            dt_values := set_values [(''dataId'', field data ''dataId''), (''content'', field data ''content''),
              (''appName'', if dt_edasAppName st \<noteq> [] then Str (dt_edasAppName st) else field data ''appName''),
              (''envs'', dt_serverId st), (''group'', field data ''group''), (''config_tags'', field data ''configTags''),
              (''desc'', field data ''desc''), (''md5'', field data ''md5''), (''type'', field data ''type'')] (dt_values st)\<rparr>)))"

definition dt_goList :: "dt_state \<Rightarrow> effect list" where
  "dt_goList st = [Push (generateUrl ''/configurationManagement'' [(''serverId'', dt_serverId st), (''group'', Str (dt_searchGroup st)),
     (''dataId'', Str (dt_searchDataId st)), (''namespace'', Str (dt_tenant st)), (''pageNo'', dt_pageNo st), (''pageSize'', dt_pageSize st)])]"

section \<open>History\<close>

record hr_state =
  hr_values :: "jv obj"
  hr_appName :: string
  hr_group :: jv
  hr_preGroup :: jv
  hr_dataId :: jv
  hr_preDataId :: jv
  hr_serverId :: string
  hr_tenant :: string
  hr_total :: jv
  hr_pageSize :: nat
  hr_currentPage :: jv
  hr_dataSource :: jv
  hr_fieldValue :: jv
  hr_selectValue :: jv
  hr_showAppName :: bool
  hr_showgroup :: bool
  hr_st_dataId :: string
  hr_st_group :: string
  hr_st_appName :: string
  hr_loading :: bool

type_synonym hr_result = "js_error + browser \<times> hr_state \<times> effect list"

definition hr_init :: "browser \<Rightarrow> js_error + browser \<times> hr_state" where
  "hr_init b =
     and_then (param_or b ''appName'' []) (\<lambda>appName.
     and_then (param_or b ''group'' []) (\<lambda>group.
     and_then (param_or b ''dataId'' []) (\<lambda>dataId.
     and_then (param_or b ''serverId'' []) (\<lambda>serverId.
     and_then (setParamsObj [(''dataId'', Str dataId), (''group'', Str group), (''appName'', Str appName), (''serverId'', Str serverId)] b) (\<lambda>b.
       Inr (b, \<lparr>hr_values = [], hr_appName = appName, hr_group = Str group, hr_preGroup = Str group, hr_dataId = Str dataId,
            hr_preDataId = Str dataId, hr_serverId = serverId, hr_tenant = [], hr_total = num 0, hr_pageSize = 10,
            hr_currentPage = num 1, hr_dataSource = Arr [], hr_fieldValue = Arr [], hr_selectValue = Arr [], hr_showAppName = False,
            hr_showgroup = False, hr_st_dataId = dataId, hr_st_group = group, hr_st_appName = appName, hr_loading = False\<rparr>))))))"

definition hr_mount :: "hr_state \<Rightarrow> hr_state" where
  "hr_mount st = st\<lparr>hr_values := set_values [(''group'', hr_group st), (''dataId'', hr_dataId st)] (hr_values st)\<rparr>"

definition hr_openLoading :: "hr_state \<Rightarrow> hr_state" where
  "hr_openLoading st = st\<lparr>hr_loading := True\<rparr>"

definition hr_closeLoading :: "hr_state \<Rightarrow> hr_state" where
  "hr_closeLoading st = st\<lparr>hr_loading := False\<rparr>"

definition hr_url :: "jv \<Rightarrow> hr_state \<Rightarrow> string" where
  "hr_url pageNo st = link ''v1/cs/history'' [(''search'', ''accurate''), (''dataId'', to_str (hr_dataId st)), (''group'', to_str (hr_group st))]
     @ ''&&pageNo='' @ to_str pageNo @ ''&pageSize='' @ nat_str (hr_pageSize st)"

definition hr_getData :: "jv \<Rightarrow> browser \<Rightarrow> hr_state \<Rightarrow> hr_result" where
  "hr_getData pageNo b st =
     and_then (param_or b ''serverId'' []) (\<lambda>serverId.
       let st = st\<lparr>hr_serverId := serverId\<rparr>
       in if \<not> truthy (hr_dataId st) then Inr (b, st, [])
          else Inr (b, st, [Send ((req (hr_url pageNo st))\<lparr>c_complete := UserFn 2, c_beforeSend := UserFn 3\<rparr>)]))"

definition hr_loaded :: "jv \<Rightarrow> hr_state \<Rightarrow> hr_state" where
  "hr_loaded data st =
     (if data = Null \<or> data = Undefined then st
      else st\<lparr>hr_dataSource := js_or (field data ''pageItems'') (Arr []), hr_total := field data ''totalCount'',
              hr_currentPage := field data ''pageNumber''\<rparr>)"

definition hr_cleanAndGetData :: "bool \<Rightarrow> browser \<Rightarrow> hr_state \<Rightarrow> hr_result" where
  "hr_cleanAndGetData needclean b st =
     and_then
       (if needclean then
          and_then (setParamsObj [(''group'', Str []), (''dataId'', Str [])] b) (\<lambda>b.
            Inr (b, st\<lparr>hr_dataId := Str [], hr_group := Str [], hr_st_group := [], hr_st_dataId := []\<rparr>))
        else Inr (b, st))
       (\<lambda>(b, st). hr_getData (num 1) b st)"

definition hr_changePage :: "jv \<Rightarrow> browser \<Rightarrow> hr_state \<Rightarrow> hr_result" where
  "hr_changePage v b st = hr_getData v b (st\<lparr>hr_currentPage := v\<rparr>)"

definition hr_chooseFieldChange :: "jv \<Rightarrow> hr_state \<Rightarrow> hr_state" where
  "hr_chooseFieldChange v st = st\<lparr>hr_fieldValue := v\<rparr>"

text \<open>An unchanged name is remembered as it was.\<close>

definition hr_selectAll :: "browser \<Rightarrow> hr_state \<Rightarrow> hr_result" where
  "hr_selectAll b st =
     (let st = st\<lparr>hr_dataId := form_value (hr_values st) ''dataId'', hr_group := form_value (hr_values st) ''group''\<rparr>
      in if \<not> truthy (hr_dataId st) \<or> \<not> truthy (hr_group st) then Inr (b, st, [])
         else
           and_then (if hr_dataId st \<noteq> hr_preDataId st then setParams ''dataId'' (hr_dataId st) b else Inr b) (\<lambda>b.
           and_then (if hr_group st \<noteq> hr_preGroup st then setParams ''group'' (hr_preGroup st) b else Inr b) (\<lambda>b.
             hr_getData (num 1) b (st\<lparr>hr_preDataId := hr_dataId st, hr_preGroup := hr_group st\<rparr>))))"

definition hr_resetAll :: "browser \<Rightarrow> hr_state \<Rightarrow> js_error + browser \<times> hr_state" where
  "hr_resetAll b st =
     and_then (setParamsObj [(''group'', Str []), (''dataId'', Str [])] b) (\<lambda>b.
       Inr (b, st\<lparr>hr_dataId := Str [], hr_group := Str [], hr_selectValue := Arr [], hr_st_dataId := [], hr_st_appName := [],
         hr_st_group := [], hr_showAppName := False, hr_showgroup := False\<rparr>))"

definition hr_entry_link :: "string \<Rightarrow> jv \<Rightarrow> hr_state \<Rightarrow> string obj \<Rightarrow> string" where
  "hr_entry_link url rec0 st extra = link url ([(''serverId'', hr_serverId st), (''dataId'', to_str (field rec0 ''dataId'')),
     (''group'', to_str (field rec0 ''group'')), (''nid'', to_str (field rec0 ''id'')), (''namespace'', hr_tenant st)] @ extra)"

definition hr_at_center :: "browser \<Rightarrow> hr_state \<Rightarrow> js_error + hr_state" where
  "hr_at_center b st =
     and_then (param_or b ''serverId'' ''center'') (\<lambda>serverId.
     and_then (param_or b ''namespace'' []) (\<lambda>tenant. Inr (st\<lparr>hr_serverId := serverId, hr_tenant := tenant\<rparr>)))"

definition hr_goDetail :: "jv \<Rightarrow> browser \<Rightarrow> hr_state \<Rightarrow> js_error + hr_state \<times> effect list" where
  "hr_goDetail rec0 b st = and_then (hr_at_center b st) (\<lambda>st. Inr (st, [Push (hr_entry_link ''/historyDetail'' rec0 st [])]))"

definition hr_goRollBack :: "jv \<Rightarrow> browser \<Rightarrow> hr_state \<Rightarrow> js_error + hr_state \<times> effect list" where
  "hr_goRollBack rec0 b st =
     and_then (hr_at_center b st) (\<lambda>st. Inr (st, [Push (hr_entry_link ''/configRollback'' rec0 st [(''nid'', to_str (field rec0 ''id''))])]))"

section \<open>An entry of the history\<close>

record hd_state =
  hd_showmore :: bool
  hd_edasAppName :: jv
  hd_edasAppId :: jv
  hd_values :: "jv obj"
  hd_dataId :: string
  hd_group :: string
  hd_serverId :: string
  hd_nid :: string
  hd_tenant :: string

definition hd_init :: "browser \<Rightarrow> js_error + hd_state" where
  "hd_init b =
     and_then (param b ''edasAppName'') (\<lambda>edasAppName.
     and_then (param b ''edasAppId'') (\<lambda>edasAppId.
     and_then (param_or b ''dataId'' ''yanlin'') (\<lambda>dataId.
     and_then (param_or b ''group'' ''DEFAULT_GROUP'') (\<lambda>group.
     and_then (param_or b ''serverId'' ''center'') (\<lambda>serverId.
     and_then (param_or b ''nid'' ''123509854'') (\<lambda>nid.
     and_then (param_or b ''namespace'' []) (\<lambda>tenant.
       Inr \<lparr>hd_showmore = False, hd_edasAppName = edasAppName, hd_edasAppId = edasAppId, hd_values = [], hd_dataId = dataId,
            hd_group = group, hd_serverId = serverId, hd_nid = nid, hd_tenant = tenant\<rparr>)))))))"

definition hd_toggleMore :: "hd_state \<Rightarrow> hd_state" where
  "hd_toggleMore st = st\<lparr>hd_showmore := \<not> hd_showmore st\<rparr>"

definition hd_getDataDetail :: "hd_state \<Rightarrow> effect list" where
  "hd_getDataDetail st = [Send (req (link ''v1/cs/history'' [(''dataId'', hd_dataId st), (''group'', hd_group st), (''nid'', hd_nid st)]))]"

definition op_name :: "jv \<Rightarrow> jv \<Rightarrow> string \<Rightarrow> jv" where
  "op_name loc deleted t =
     (if t = ''U'' then tr loc ''update'' else if t = ''I'' then tr loc ''insert'' else if t = ''D'' then deleted else Undefined)"

text \<open>\<open>srcUser\<close> is read from the component, which has no such field.\<close>

definition hd_loaded :: "jv \<Rightarrow> jv \<Rightarrow> hd_state \<Rightarrow> js_error + hd_state" where
  "hd_loaded loc data st =
     (if data = Null \<or> data = Undefined then Inr st
      else and_then (trimmed (field data ''opType'')) (\<lambda>t.
        Inr (st\<lparr>hd_values := set_values [(''dataId'', field data ''dataId''), (''content'', field data ''content''),
          (''appName'', if truthy (hd_edasAppName st) then hd_edasAppName st else field data ''appName''), (''envs'', Str (hd_serverId st)),
          (''srcUser'', Undefined), (''opType'', op_name loc (tr loc ''deleteAction'') t), (''group'', field data ''group''),
          (''md5'', field data ''md5'')] (hd_values st)\<rparr>)))"

definition hd_goList :: "hd_state \<Rightarrow> effect list" where
  "hd_goList st = [Push (link ''/historyRollback'' [(''serverId'', hd_serverId st), (''group'', hd_group st), (''dataId'', hd_dataId st),
     (''namespace'', hd_tenant st)])]"

section \<open>Going back to an entry\<close>

record rb_state =
  rb_values :: "jv obj"
  rb_dataId :: jv
  rb_group :: jv
  rb_serverId :: string
  rb_nid :: string
  rb_tenant :: string
  rb_envName :: string
  rb_showmore :: bool
  rb_id :: jv
  rb_opType :: jv

definition rb_init :: "browser \<Rightarrow> js_error + rb_state" where
  "rb_init b =
     and_then (param_or b ''dataId'' ''yanlin'') (\<lambda>dataId.
     and_then (param_or b ''group'' ''DEFAULT_GROUP'') (\<lambda>group.
     and_then (param_or b ''serverId'' ''center'') (\<lambda>serverId.
     and_then (param_or b ''nid'' []) (\<lambda>nid.
       Inr \<lparr>rb_values = [], rb_dataId = Str dataId, rb_group = Str group, rb_serverId = serverId, rb_nid = nid, rb_tenant = [],
            rb_envName = [], rb_showmore = False, rb_id = Undefined, rb_opType = Undefined\<rparr>))))"

definition rb_toggleMore :: "rb_state \<Rightarrow> rb_state" where
  "rb_toggleMore st = st\<lparr>rb_showmore := \<not> rb_showmore st\<rparr>"

definition rb_getDataDetail :: "browser \<Rightarrow> rb_state \<Rightarrow> js_error + rb_state \<times> effect list" where
  "rb_getDataDetail b st =
     and_then (param_or b ''namespace'' []) (\<lambda>tenant.
     and_then (param_or b ''serverId'' ''center'') (\<lambda>serverId.
       Inr (st\<lparr>rb_tenant := tenant, rb_serverId := serverId\<rparr>,
            [Send (req (link ''v1/cs/history'' [(''dataId'', to_str (rb_dataId st)), (''group'', to_str (rb_group st)), (''nid'', rb_nid st)]))])))"

definition rb_loaded :: "jv \<Rightarrow> jv \<Rightarrow> rb_state \<Rightarrow> js_error + rb_state" where
  "rb_loaded loc data st =
     (if data = Null \<or> data = Undefined then Inr st
      else and_then (trimmed (field data ''opType'')) (\<lambda>t.
        Inr (st\<lparr>rb_id := field data ''id'', rb_opType := field data ''opType'', rb_envName := rb_serverId st,
          rb_values := set_values [(''dataId'', field data ''dataId''), (''content'', field data ''content''),
            (''appName'', field data ''appName''), (''opType'', op_name loc (tr loc ''rollbackDelete'') t),
            (''group'', field data ''group''), (''md5'', field data ''md5''), (''envName'', Str (rb_serverId st))] (rb_values st)\<rparr>)))"

definition rb_goList :: "browser \<Rightarrow> rb_state \<Rightarrow> js_error + effect list" where
  "rb_goList b st =
     and_then (param b ''namespace'') (\<lambda>namespace.
       Inr [Push (generateUrl ''/historyRollback'' [(''serverId'', Str (rb_serverId st)), (''dataId'', rb_dataId st),
         (''group'', rb_group st), (''namespace'', namespace)])])"

text \<open>The click decides the verb of the request; the confirmation (\<open>rollback_ok\<close>) sends it.\<close>

definition onOpenConfirm :: "jv \<Rightarrow> rb_state \<Rightarrow> js_error + string \<times> effect list" where
  "onOpenConfirm loc st =
     and_then (trimmed (rb_opType st)) (\<lambda>t.
       Inr (if t = ''I'' then ''delete'' else ''post'',
            [Confirm (tr loc ''rollBack'') (Arr [tr loc ''determine'', tr loc ''followingConfiguration'',
               form_value (rb_values st) ''dataId'', form_value (rb_values st) ''group''])]))"

definition rollback_ok :: "string \<Rightarrow> browser \<Rightarrow> rb_state \<Rightarrow> js_error + rb_state \<times> effect list" where
  "rollback_ok type b st =
     and_then (param_or b ''namespace'' []) (\<lambda>tenant.
     and_then (param_or b ''serverId'' ''center'') (\<lambda>serverId.
     and_then (trimmed (rb_opType st)) (\<lambda>t.
       let st = st\<lparr>rb_tenant := tenant, rb_serverId := serverId, rb_dataId := form_value (rb_values st) ''dataId'',
                   rb_group := form_value (rb_values st) ''group''\<rparr>;
           call = (if t = ''I''
             then (req (link ''v1/cs/configs'' [(''dataId'', to_str (rb_dataId st)), (''group'', to_str (rb_group st))]))\<lparr>c_data := Obj []\<rparr>
             else (req ''v1/cs/configs'')\<lparr>c_data := Obj [(''appName'', form_value (rb_values st) ''appName''), (''dataId'', rb_dataId st),
               (''group'', rb_group st), (''content'', form_value (rb_values st) ''content''), (''tenant'', Str tenant)]\<rparr>)
       in Inr (st, [Send (call\<lparr>c_type := Some type, c_contentType := Some ''application/x-www-form-urlencoded''\<rparr>)]))))"

definition rollback_replied :: "jv \<Rightarrow> jv \<Rightarrow> effect list" where
  "rollback_replied loc data = (if data = Bool True then [Alert Undefined (tr loc ''rollbackSuccessful'')] else [])"

section \<open>Listeners\<close>

record lq_state =
  lq_loading :: bool
  lq_total :: nat
  lq_currentPage :: jv
  lq_dataSource :: "jv list"
  lq_values :: "jv obj"
  lq_group :: string
  lq_dataId :: string
  lq_serverId :: string
  lq_tenant :: string

definition lq_init :: "browser \<Rightarrow> js_error + lq_state" where
  "lq_init b =
     and_then (param_or b ''group'' []) (\<lambda>group.
     and_then (param_or b ''dataId'' []) (\<lambda>dataId.
     and_then (param_or b ''serverId'' []) (\<lambda>serverId.
     and_then (param_or b ''namespace'' []) (\<lambda>tenant.
       Inr \<lparr>lq_loading = False, lq_total = 0, lq_currentPage = num 1, lq_dataSource = [], lq_values = [], lq_group = group,
            lq_dataId = dataId, lq_serverId = serverId, lq_tenant = tenant\<rparr>))))"

definition lq_mount :: "lq_state \<Rightarrow> lq_state" where
  "lq_mount st = st\<lparr>lq_values := set_values [(''type'', num 0), (''group'', Str (lq_group st)), (''dataId'', Str (lq_dataId st))] (lq_values st)\<rparr>"

definition lq_openLoading :: "lq_state \<Rightarrow> lq_state" where
  "lq_openLoading st = st\<lparr>lq_loading := True\<rparr>"

definition lq_closeLoading :: "lq_state \<Rightarrow> lq_state" where
  "lq_closeLoading st = st\<lparr>lq_loading := False\<rparr>"

definition queryTrackQuery :: "browser \<Rightarrow> lq_state \<Rightarrow> js_error + effect list" where
  "queryTrackQuery b st =
     (let send = (\<lambda>url. [Send ((req url)\<lparr>c_complete := UserFn 2, c_beforeSend := UserFn 3\<rparr>)])
      in if form_value (lq_values st) ''type'' = num 1 then
           and_then (if nownamespace b \<noteq> [] then Inr (nownamespace b) else param_or b ''namespace'' []) (\<lambda>tenant.
             Inr (send (link ''v1/cs/listener'' ([(''ip'', to_str (form_value (lq_values st) ''ip''))]
               @ (if tenant \<noteq> [] then [(''tenant'', tenant)] else [])))))
         else let dataId = form_value (lq_values st) ''dataId''; group = form_value (lq_values st) ''group''
              in Inr (if \<not> truthy dataId \<or> \<not> truthy group then []
                 else send (link ''v1/cs/configs/listener'' [(''dataId'', to_str dataId), (''group'', to_str group)])))"

definition listener_row :: "jv \<Rightarrow> string \<times> jv \<Rightarrow> jv" where
  "listener_row type kv =
     (if type = num 1 then
        (let parts = split_on (CHR ''+'') (fst kv)
         in Obj [(''dataId'', Str (hd parts)), (''group'', if length parts > 1 then Str (parts ! 1) else Undefined), (''md5'', snd kv)])
      else Obj [(''ip'', Str (fst kv)), (''md5'', snd kv)])"

text \<open>\<open>type\<close> is the kind of query that was sent; \<open>for (key in status)\<close> visits the own keys.\<close>

definition lq_loaded :: "jv \<Rightarrow> jv \<Rightarrow> lq_state \<Rightarrow> js_error + lq_state" where
  "lq_loaded type data st =
     (if data = Null \<or> data = Undefined then Inl TypeError
      else if field data ''collectStatus'' = num 200 then
        (let rows = map (listener_row type) (key_order (own_props (field data ''lisentersGroupkeyStatus'')))
         in Inr (st\<lparr>lq_dataSource := rows, lq_total := length rows\<rparr>))
      else Inr st)"

definition lq_changePage :: "jv \<Rightarrow> lq_state \<Rightarrow> lq_state" where
  "lq_changePage v st = st\<lparr>lq_currentPage := v\<rparr>"

definition lq_renderStatus :: "jv \<Rightarrow> jv \<Rightarrow> jv" where
  "lq_renderStatus loc rec0 = (if field rec0 ''pushStatus'' = Bool True then tr loc ''success'' else tr loc ''failure'')"

section \<open>Synchronisation\<close>

record cs_state =
  cs_values :: "jv obj"
  cs_dataId :: string
  cs_group :: string
  cs_serverId :: string
  cs_tenant :: string
  cs_envvalues :: jv
  cs_envGroups :: jv
  cs_envlist :: jv
  cs_loading :: bool
  cs_showmore :: bool
  cs_ips :: jv
  cs_envs :: jv
  cs_targetEnvs :: jv

definition cs_init :: "browser \<Rightarrow> js_error + cs_state" where
  "cs_init b =
     and_then (param_or b ''dataId'' ''yanlin'') (\<lambda>dataId.
     and_then (param_or b ''group'' []) (\<lambda>group.
     and_then (param_or b ''serverId'' []) (\<lambda>serverId.
       Inr \<lparr>cs_values = [], cs_dataId = dataId, cs_group = group, cs_serverId = serverId, cs_tenant = [], cs_envvalues = Arr [],
            cs_envGroups = Arr [], cs_envlist = Arr [], cs_loading = False, cs_showmore = False, cs_ips = Str [],
            cs_envs = Undefined, cs_targetEnvs = Undefined\<rparr>)))"

definition cs_toggleMore :: "cs_state \<Rightarrow> cs_state" where
  "cs_toggleMore st = st\<lparr>cs_showmore := \<not> cs_showmore st\<rparr>"

definition getEnvList :: "jv \<Rightarrow> cs_state \<Rightarrow> cs_state" where
  "getEnvList v st = st\<lparr>cs_envvalues := v, cs_envs := v\<rparr>"

definition getDomain :: "effect list" where
  "getDomain = [Send (req ''/diamond-ops/env/domain'')]"

definition domain_loaded :: "jv \<Rightarrow> cs_state \<Rightarrow> js_error + cs_state" where
  "domain_loaded data st =
     (if data = Null \<or> data = Undefined then Inl TypeError
      else if field data ''code'' = num 200 then
        (if field data ''data'' = Null \<or> field data ''data'' = Undefined then Inl TypeError
         else Inr (st\<lparr>cs_envGroups := field (field data ''data'') ''envGroups''\<rparr>))
      else Inr st)"

definition cs_getDataDetail :: "browser \<Rightarrow> cs_state \<Rightarrow> js_error + cs_state \<times> effect list" where
  "cs_getDataDetail b st =
     and_then (param_or b ''namespace'' []) (\<lambda>tenant.
     and_then (param_or b ''serverId'' ''center'') (\<lambda>serverId.
       let path = ''/diamond-ops/configList/detail/serverId/'' @ serverId @ ''/dataId/'' @ cs_dataId st @ ''/group/'' @ cs_group st;
           url = (if tenant = ''global'' \<or> tenant = [] then path @ ''?id='' else path @ ''/tenant/'' @ tenant @ ''?id='')
       in Inr (st\<lparr>cs_tenant := tenant, cs_serverId := serverId\<rparr>,
            [Send ((req url)\<lparr>c_complete := UserFn 2, c_beforeSend := UserFn 3\<rparr>)])))"

text \<open>The loop over the environments of the answer.\<close>

fun env_loop :: "string \<Rightarrow> jv list \<Rightarrow> js_error + jv list \<times> jv list" where
  "env_loop serverId [] = Inr ([], [])"
| "env_loop serverId (e # es) =
     (if e = Null \<or> e = Undefined then Inl TypeError
      else and_then (env_loop serverId es) (\<lambda>(l, v).
        Inr (Obj [(''value'', field e ''serverId''), (''label'', field e ''name'')] # l,
             if field e ''serverId'' = Str serverId then Str serverId # v else v)))"

definition cs_loaded :: "jv \<Rightarrow> jv \<Rightarrow> cs_state \<Rightarrow> js_error + cs_state \<times> effect list" where
  "cs_loaded loc result st =
     (if result = Null \<or> result = Undefined then Inl TypeError
      else if field result ''code'' = num 200 then
        (let data = (if field result ''data'' = Undefined then Obj [] else field result ''data'')
         in if data = Null then Inl TypeError
            else case js_or (field data ''envs'') (Arr []) of
              Arr env \<Rightarrow> and_then (env_loop (cs_serverId st) env) (\<lambda>(envlist, envvalues).
                Inr (st\<lparr>cs_values := set_values [(''dataId'', field data ''dataId''), (''appName'', field data ''appName''),
                       (''group'', field data ''group''), (''content'', js_or (field data ''content'') (Str []))] (cs_values st),
                     cs_envlist := Arr envlist, cs_envvalues := Arr envvalues\<rparr>, []))
            | _ \<Rightarrow> Inl OutsideModel)
      else Inr (st, [Alert (tr loc ''error'') (field result ''message'')]))"

definition cs_goList :: "cs_state \<Rightarrow> effect list" where
  "cs_goList st = [Push (link ''/configurationManagement'' [(''serverId'', cs_serverId st), (''group'', cs_group st), (''dataId'', cs_dataId st)])]"

definition sync_payload :: "cs_state \<Rightarrow> jv" where
  "sync_payload st = Obj [(''dataId'', form_value (cs_values st) ''dataId''), (''appName'', form_value (cs_values st) ''appName''),
     (''group'', form_value (cs_values st) ''group''), (''content'', form_value (cs_values st) ''content''),
     (''betaIps'', cs_ips st), (''targetEnvs'', cs_envs st)]"

definition sync :: "cs_state \<Rightarrow> js_error + effect list" where
  "sync st =
     (case stringify (sync_payload st) of
        Text t \<Rightarrow> Inr [Send ((req (''/diamond-ops/configList/serverId/'' @ cs_serverId st @ ''/dataId/''
            @ to_str (form_value (cs_values st) ''dataId'') @ ''/group/'' @ to_str (form_value (cs_values st) ''group'') @ ''?id=''))
          \<lparr>c_type := Some ''put'', c_contentType := Some ''application/json'', c_data := Str t\<rparr>)]
      | _ \<Rightarrow> Inl OutsideModel)"

definition sync_replied :: "jv \<Rightarrow> jv \<Rightarrow> cs_state \<Rightarrow> js_error + effect list" where
  "sync_replied loc res st =
     (if res = Null \<or> res = Undefined then Inl TypeError
      else let ok = (field res ''code'' = num 200)
           in Inr [Open_Dialog ''successDialog'' (Obj ([(''maintitle'', tr loc ''syncConfigurationMain''), (''title'', tr loc ''syncConfiguration''),
                (''content'', Str []), (''dataId'', form_value (cs_values st) ''dataId''), (''group'', form_value (cs_values st) ''group''),
                (''isok'', Bool ok)] @ (if ok then [] else [(''message'', field res ''message'')])))])"

definition syncResult :: "cs_state \<Rightarrow> effect list" where
  "syncResult st = [Push (generateUrl ''/diamond-ops/static/pages/config-sync/index.html''
     [(''dataId'', form_value (cs_values st) ''dataId''), (''gruop'', form_value (cs_values st) ''group'')])]"

definition cs_changeEnv :: "jv \<Rightarrow> cs_state \<Rightarrow> cs_state" where
  "cs_changeEnv v st = st\<lparr>cs_targetEnvs := v, cs_envvalues := v\<rparr>"

definition cs_getIps :: "jv \<Rightarrow> cs_state \<Rightarrow> cs_state" where
  "cs_getIps v st = st\<lparr>cs_ips := v\<rparr>"

definition goResult :: "cs_state \<Rightarrow> effect list" where
  "goResult st = [Push (generateUrl ''/consistencyEfficacy'' [(''serverId'', Str (cs_serverId st)), (''dataId'', Str (cs_dataId st)), (''group'', Str (cs_group st))])]"

definition cs_openLoading :: "cs_state \<Rightarrow> cs_state" where
  "cs_openLoading st = st\<lparr>cs_loading := True\<rparr>"

definition cs_closeLoading :: "cs_state \<Rightarrow> cs_state" where
  "cs_closeLoading st = st\<lparr>cs_loading := False\<rparr>"

section \<open>Lemmas\<close>

lemma form_value_set_Nil [simp]: "form_value (set_values [] vs) k = form_value vs k"
  by (simp add: set_values_def)

lemma form_value_set_Cons [simp]:
  "form_value (set_values ((j, v) # new) vs) k = form_value (set_values new (AList.update j v vs)) k"
  by (simp add: set_values_def)

lemma form_value_update [simp]: "form_value (AList.update j v vs) k = (if k = j then v else form_value vs k)"
  by (simp add: form_value_def update_conv)

lemma form_value_list [simp]: "form_value [] k = Undefined" "form_value ((j, v) # vs) k = (if k = j then v else form_value vs k)"
  by (simp_all add: form_value_def)

lemma console_param_nid [simp]: "''nid'' \<in> set console_params"
  by (simp add: console_params_def)

section \<open>Properties\<close>

text \<open>
  C11: from the list to the details and back. The page that the link of a row opens asks for that
  row's configuration, and its way back gives the list the data identifier and the group searched for, its
  namespace, its page and its page size again, as long as no value holds a separator or a percent
  sign. The application and the tags searched for are not restored, though a comment in the list asks
  for the search to be kept.
\<close>

theorem detail_round_trip:
  assumes "goDetail rec0 b st = Inr (b', st', [Push url])" and "field rec0 ''dataId'' = Str d" and "field rec0 ''group'' = Str g"
    and "d \<noteq> []" and "g \<noteq> []"
    and "list_all link_safe ([d, g, cm_edasAppName st'] @ list_texts st')" and "arrived b2 url"
  shows "\<exists>s0 s1 c home. dt_init b2 = Inr s0 \<and> dt_mount loc b2 s0 = Inr (s1, [Send c]) \<and>
      c_url c = link ''v1/cs/configs'' [(''show'', ''all''), (''dataId'', d), (''group'', g)] \<and>
      dt_goList s1 = [Push home] \<and> (\<forall>b3. arrived b3 home \<longrightarrow> restores b3 st')"
proof -
  let ?kvs = "[(''serverId'', cm_serverId st'), (''dataId'', d), (''group'', g), (''namespace'', cm_tenant st'),
      (''edasAppName'', cm_edasAppName st'), (''searchDataId'', cm_dataId st'), (''searchGroup'', cm_group st'),
      (''pageSize'', to_str (cm_pageSize st')), (''pageNo'', to_str (cm_pageNo st'))]"
  let ?home = "[(''serverId'', str_or (Some (cm_serverId st')) ''center''), (''group'', cm_group st'), (''dataId'', cm_dataId st'),
     (''namespace'', cm_tenant st'), (''pageNo'', to_str (cm_pageNo st')), (''pageSize'', to_str (cm_pageSize st'))]"
  have "url = link ''/configdetail'' ?kvs"
    using assms(1-3) by (auto simp: goDetail_def at_center_def and_then_Inr_iff Let_def)
  then have a: "arrived b2 (link ''/configdetail'' ?kvs)" using assms(7) by simp
  have gl: "good_link ''/configdetail'' ?kvs" using assms(6) by (simp add: good_link_def list_texts_def)
  note reads = param_link[OF a gl] param_or_link[OF a gl]
  have dg: "str_or (Some d) ''yanlin'' = d" "str_or (Some g) ''DEFAULT_GROUP'' = g" using assms(4,5) by (simp_all add: str_or_def)
  obtain s0 where s0: "dt_init b2 = Inr s0" "dt_dataId s0 = d" "dt_group s0 = g" "dt_searchDataId s0 = cm_dataId st'"
      "dt_searchGroup s0 = cm_group st'" "dt_pageSize s0 = Str (to_str (cm_pageSize st'))" "dt_pageNo s0 = Str (to_str (cm_pageNo st'))"
    by (simp add: dt_init_def reads dg)
  obtain s1 c where s1: "dt_mount loc b2 s0 = Inr (s1, [Send c])" "c_url c = link ''v1/cs/configs'' [(''show'', ''all''), (''dataId'', d), (''group'', g)]"
      and go: "dt_goList s1 = [Push (link ''/configurationManagement'' ?home)]"
    using s0 by (simp add: dt_mount_def dt_initData_def dt_getDataDetail_def reads dt_goList_def generateUrl_link
        is_index_key_def is_digit_def join_str_def req_def)
  have "good_link ''/configurationManagement'' ?home"
    using assms(6) by (simp add: good_link_def list_texts_def str_or_def link_safe_def)
  then have "\<forall>b3. arrived b3 (link ''/configurationManagement'' ?home) \<longrightarrow> restores b3 st'"
    using restores_any_link[of _ "''/configurationManagement''" ?home st'] by simp
  with s0(1) s1 go show ?thesis by blast
qed

text \<open>
  C13: going back to an entry of the history. The page opened from an entry asks for that entry;
  when the entry is an insertion the confirmed request deletes the configuration the entry names,
  and otherwise it publishes the content of the entry again under the same names in the namespace of
  the location. The verb chosen when the user clicks is the one the request needs.
\<close>

theorem rollback_follows_entry:
  assumes "hr_goRollBack rec0 b st = Inr (st', [Push url])" and "field rec0 ''dataId'' = Str d" and "field rec0 ''group'' = Str g"
    and "field rec0 ''id'' = Str n" and "d \<noteq> []" and "g \<noteq> []"
    and "list_all link_safe [d, g, n, hr_serverId st', hr_tenant st']" and "arrived b2 url"
    and "field entry ''opType'' = Str t" and "field entry ''dataId'' = Str d'" and "field entry ''group'' = Str g'"
  shows "\<exists>s0 s1 s2 s3 verb ask c. rb_init b2 = Inr s0 \<and>
      rb_getDataDetail b2 s0 = Inr (s1, [Send (req (link ''v1/cs/history'' [(''dataId'', d), (''group'', g), (''nid'', n)]))]) \<and>
      rb_loaded loc entry s1 = Inr s2 \<and> onOpenConfirm loc s2 = Inr (verb, [ask]) \<and> rollback_ok verb b2 s2 = Inr (s3, [Send c]) \<and>
      (if trim t = ''I''
       then c_type c = Some ''delete'' \<and> c_url c = link ''v1/cs/configs'' [(''dataId'', d'), (''group'', g')] \<and> c_data c = Obj []
       else c_type c = Some ''post'' \<and> c_url c = ''v1/cs/configs'' \<and> field (c_data c) ''dataId'' = Str d' \<and> field (c_data c) ''group'' = Str g' \<and>
         field (c_data c) ''content'' = field entry ''content'' \<and> field (c_data c) ''appName'' = field entry ''appName'' \<and>
         field (c_data c) ''tenant'' = Str (hr_tenant st'))"
proof -
  let ?kvs = "[(''serverId'', hr_serverId st'), (''dataId'', d), (''group'', g), (''nid'', n), (''namespace'', hr_tenant st'), (''nid'', n)]"
  have "url = link ''/configRollback'' ?kvs"
    using assms(1-4) by (auto simp: hr_goRollBack_def hr_at_center_def hr_entry_link_def and_then_Inr_iff)
  then have a: "arrived b2 (link ''/configRollback'' ?kvs)" using assms(8) by simp
  have gl: "good_link ''/configRollback'' ?kvs" using assms(7) by (simp add: good_link_def)
  note reads = param_link[OF a gl] param_or_link[OF a gl]
  have dg: "str_or (Some d) ''yanlin'' = d" "str_or (Some g) ''DEFAULT_GROUP'' = g" using assms(5,6) by (simp_all add: str_or_def)
  have e: "entry \<noteq> Null" "entry \<noteq> Undefined" using assms(9) by (auto simp: field_def)
  show ?thesis
    using assms(9-11) e
    by (simp add: rb_init_def rb_getDataDetail_def rb_loaded_def onOpenConfirm_def rollback_ok_def reads dg trimmed_def Let_def
        field_def[of "Obj _"] req_def)
qed

text \<open>
  a search in the history leaves the wrong group in the location. When the user searches with
  another group the query asks for it, but the group written to the address is the one of the
  previous search.
\<close>

theorem history_search_stale_group:
  assumes "hash_shows path b kvs" and "hr_preGroup st = Str g0" and "form_value (hr_values st) ''group'' = Str g"
    and "form_value (hr_values st) ''dataId'' = Str d" and "d \<noteq> []" and "g \<noteq> []" and "g \<noteq> g0"
  shows "\<exists>b' st' c. hr_selectAll b st = Inr (b', st', [Send c]) \<and> getParams b' ''group'' = Inr (Some g0) \<and>
    hr_group st' = Str g \<and> c_url c = hr_url (num 1) st' \<and>
    prefix (link ''v1/cs/history'' [(''search'', ''accurate''), (''dataId'', d), (''group'', g)]) (c_url c)"
proof -
  obtain b1 kvs1 where one: "(if Str d \<noteq> hr_preDataId st then setParams ''dataId'' (Str d) b else Inr b) = Inr b1"
      and s1: "hash_shows path b1 kvs1"
    using assms(1) setParams_href[OF assms(1), of "''dataId''" d] by (cases "Str d = hr_preDataId st") auto
  obtain h where h: "setParams ''group'' (Str g0) b1 = Inr (b1\<lparr>href := h\<rparr>)" "hash_shows path (b1\<lparr>href := h\<rparr>) (AList.update ''group'' g0 kvs1)"
    using setParams_href[OF s1, of "''group''" g0] by auto
  have read: "getParams (b1\<lparr>href := h\<rparr>) ''group'' = Inr (Some g0)"
    using getParams_shows[OF h(2), of "''group''"] by (simp add: update_conv)
  let ?st = "st\<lparr>hr_dataId := Str d, hr_group := Str g, hr_preDataId := Str d, hr_preGroup := Str g\<rparr>"
  have "hr_selectAll b st = hr_getData (num 1) (b1\<lparr>href := h\<rparr>) ?st"
    using assms(2-7) one h(1) by (cases "hr_preDataId st = Str d") (auto simp: hr_selectAll_def Let_def)
  moreover obtain sv where "param_or (b1\<lparr>href := h\<rparr>) ''serverId'' [] = Inr sv"
    using param_or_shows[OF h(2), of "''serverId''" "[]"] by simp
  ultimately show ?thesis
    using assms(5) read by (simp add: hr_getData_def Let_def hr_url_def req_def)
qed

text \<open>The states of the synchronisation page: its mount, the reply and the handlers it binds.\<close>

inductive cs_reachable :: "jv \<Rightarrow> browser \<Rightarrow> cs_state \<Rightarrow> bool" for loc b where
  opened: "cs_init b = Inr st \<Longrightarrow> cs_getDataDetail b st = Inr (st', es) \<Longrightarrow> cs_reachable loc b st'"
| replied: "cs_reachable loc b st \<Longrightarrow> cs_loaded loc res st = Inr (st', es) \<Longrightarrow> cs_reachable loc b st'"
| loading: "cs_reachable loc b st \<Longrightarrow> cs_reachable loc b (cs_openLoading st)"
| complete: "cs_reachable loc b st \<Longrightarrow> cs_reachable loc b (cs_closeLoading st)"
| more_clicked: "cs_reachable loc b st \<Longrightarrow> cs_reachable loc b (cs_toggleMore st)"
| checked: "cs_reachable loc b st \<Longrightarrow> cs_reachable loc b (cs_changeEnv v st)"

lemma cs_no_targets: "cs_reachable loc b st \<Longrightarrow> cs_envs st = Undefined"
proof (induction rule: cs_reachable.induct)
  case (opened st st' es)
  then show ?case by (auto simp: cs_init_def cs_getDataDetail_def and_then_Inr_iff Let_def)
next
  case (replied st res st' es)
  then show ?case by (auto simp: cs_loaded_def Let_def and_then_Inr_iff split: if_splits jv.splits)
qed (simp_all add: cs_openLoading_def cs_closeLoading_def cs_toggleMore_def cs_changeEnv_def)

lemma sync_changeEnv:
  "sync_payload (cs_changeEnv v st) = sync_payload st" "cs_serverId (cs_changeEnv v st) = cs_serverId st"
  "cs_values (cs_changeEnv v st) = cs_values st"
  by (simp_all add: sync_payload_def cs_changeEnv_def)

text \<open>
  the environments a user checks are not synchronised. The boxes change the shown selection, but
  in every state of the page the request does not depend on it, and its body has no targets.
\<close>

theorem sync_ignores_targets:
  assumes "cs_reachable loc b st"
  shows "cs_reachable loc b (cs_changeEnv v st) \<and> cs_envvalues (cs_changeEnv v st) = v \<and>
    sync (cs_changeEnv v st) = sync st \<and> field (sync_payload st) ''targetEnvs'' = Undefined"
proof -
  have "sync (cs_changeEnv v st) = sync st"
    unfolding sync_def sync_changeEnv ..
  then show ?thesis
    using checked[OF assms, of v] cs_no_targets[OF assms] by (simp add: sync_payload_def field_def) (simp add: cs_changeEnv_def)
qed

definition history_row :: jv where
  "history_row = Obj [(''id'', Str ''7''), (''dataId'', Str ''d''), (''group'', Str ''G'')]"

definition history_entry :: jv where
  "history_entry = Obj [(''id'', Str ''7''), (''dataId'', Str ''d''), (''group'', Str ''G''), (''opType'', Str ''I         ''), (''content'', Str ''x'')]"

theorem detail_round_trip_witness:
  "\<exists>st' url s0 s1 c home. goDetail (sample_row 4) sample_list_browser paged_cm = Inr (sample_list_browser, st', [Push url]) \<and>
     dt_init (at_link url) = Inr s0 \<and> dt_mount (Obj []) (at_link url) s0 = Inr (s1, [Send c]) \<and>
     c_url c = ''v1/cs/configs?show=all&dataId=d&group=G'' \<and> dt_goList s1 = [Push home] \<and> (\<forall>b3. arrived b3 home \<longrightarrow> restores b3 st')"
proof -
  note p = param_or_shows[OF sample_list_shows] param_shows[OF sample_list_shows]
  have c: "cm_edasAppName paged_cm = []" "cm_dataId paged_cm = []" "cm_group paged_cm = []"
    by (simp_all add: paged_cm_def sample_cm_def cm_fields_def p js_or_def)
  let ?st = "paged_cm\<lparr>cm_serverId := ''center'', cm_tenant := ''dev''\<rparr>"
  obtain url where g: "goDetail (sample_row 4) sample_list_browser paged_cm = Inr (sample_list_browser, ?st, [Push url])"
      and u: "url \<noteq> []"
    by (simp add: goDetail_def at_center_def p Let_def link_def str_or_def)
  have r: "field (sample_row 4) ''dataId'' = Str ''d''" "field (sample_row 4) ''group'' = Str ''G''"
    by (simp_all add: sample_row_def field_def)
  have "list_all link_safe ([''d'', ''G'', cm_edasAppName ?st] @ list_texts ?st)"
    using c by (simp add: list_texts_def link_safe_def paged_cm_def)
  from detail_round_trip[OF g r _ _ this arrived_at_link[OF u], of "Obj []"] g show ?thesis
    by (simp add: link_def query_text_def kv_text_def)
qed

definition fresh_history :: hr_state where
  "fresh_history = (case hr_init sample_list_browser of Inr (_, st) \<Rightarrow> st | Inl _ \<Rightarrow> undefined)"

theorem rollback_follows_entry_witness:
  "\<exists>st' url s0 s1 s2 s3 verb ask c. hr_goRollBack history_row sample_list_browser fresh_history = Inr (st', [Push url]) \<and>
     rb_init (at_link url) = Inr s0 \<and> rb_getDataDetail (at_link url) s0 = Inr (s1, [Send (req ''v1/cs/history?dataId=d&group=G&nid=7'')]) \<and>
     rb_loaded (Obj []) history_entry s1 = Inr s2 \<and> onOpenConfirm (Obj []) s2 = Inr (verb, [ask]) \<and>
     rollback_ok verb (at_link url) s2 = Inr (s3, [Send c]) \<and> c_type c = Some ''delete'' \<and> c_url c = ''v1/cs/configs?dataId=d&group=G''"
proof -
  note p = param_or_shows[OF sample_list_shows]
  let ?st = "fresh_history\<lparr>hr_serverId := ''center'', hr_tenant := ''dev''\<rparr>"
  obtain url where g: "hr_goRollBack history_row sample_list_browser fresh_history = Inr (?st, [Push url])" and u: "url \<noteq> []"
    by (simp add: hr_goRollBack_def hr_at_center_def hr_entry_link_def p link_def str_or_def)
  have r: "field history_row ''dataId'' = Str ''d''" "field history_row ''group'' = Str ''G''" "field history_row ''id'' = Str ''7''"
    by (simp_all add: history_row_def field_def)
  have e: "field history_entry ''opType'' = Str ''I         ''" "field history_entry ''dataId'' = Str ''d''" "field history_entry ''group'' = Str ''G''"
    by (simp_all add: history_entry_def field_def)
  have t: "trim ''I         '' = ''I''" by (simp add: trim_def is_ws_def)
  have "list_all link_safe [''d'', ''G'', ''7'', hr_serverId ?st, hr_tenant ?st]" by (simp add: link_safe_def)
  from rollback_follows_entry[OF g r _ _ this arrived_at_link[OF u] e, of "Obj []"] g t show ?thesis
    by (simp add: link_def query_text_def kv_text_def) blast
qed

theorem history_search_stale_group_witness:
  "\<exists>b' st' c. hr_selectAll sample_list_browser (fresh_history\<lparr>hr_values := [(''dataId'', Str ''d''), (''group'', Str ''new'')], hr_preGroup := Str ''old''\<rparr>)
      = Inr (b', st', [Send c]) \<and> getParams b' ''group'' = Inr (Some ''old'') \<and> hr_group st' = Str ''new''"
proof -
  let ?st = "fresh_history\<lparr>hr_values := [(''dataId'', Str ''d''), (''group'', Str ''new'')], hr_preGroup := Str ''old''\<rparr>"
  have v: "hr_preGroup ?st = Str ''old''" "form_value (hr_values ?st) ''group'' = Str ''new''" "form_value (hr_values ?st) ''dataId'' = Str ''d''"
    by (simp_all add: form_value_def)
  have "''d'' \<noteq> []" "''new'' \<noteq> []" "''new'' \<noteq> ''old''" by simp_all
  from history_search_stale_group[OF sample_list_shows v this] show ?thesis by (elim exE conjE) (intro exI conjI)
qed

theorem sync_ignores_targets_witness:
  "\<exists>st. cs_reachable (Obj []) sample_list_browser st \<and> sync (cs_changeEnv (Arr [Str ''env'']) st) = sync st \<and>
     field (sync_payload st) ''targetEnvs'' = Undefined"
proof -
  note p = param_or_shows[OF sample_list_shows]
  obtain s0 s1 es where "cs_init sample_list_browser = Inr s0" "cs_getDataDetail sample_list_browser s0 = Inr (s1, es)"
    by (simp add: cs_init_def cs_getDataDetail_def p Let_def)
  then have "cs_reachable (Obj []) sample_list_browser s1" by (rule opened)
  with sync_ignores_targets[OF this, of "Arr [Str ''env'']"] show ?thesis by blast
qed

end
