(* ===== verification/Services.thy ===== *)
theory Services
  imports Config_Pages
begin

text \<open>
  The naming pages: the list of services, the details of a service with its clusters and instances
  and their dialogs, the subscribers (\<^verbatim>\<open>pages/ServiceManagement\<close>) and the nodes of the cluster
  (\<^verbatim>\<open>pages/ClusterManagement\<close>).

  The rows of the instance table are shared by the objects a handler captured and by the state, and
  a handler changes a row in place: the table keeps its row lists in a store of addresses.
\<close>

section \<open>JavaScript helpers\<close>

text \<open>A destructuring default, and \<open>JSON.stringify\<close> as a value.\<close>

definition default_to :: "jv \<Rightarrow> jv \<Rightarrow> jv" where
  "default_to d v = (if v = Undefined then d else v)"

definition stringified :: "jv \<Rightarrow> js_error + jv" where
  "stringified v = (case stringify v of Text t \<Rightarrow> Inr (Str t) | Omit \<Rightarrow> Inr Undefined | NoText \<Rightarrow> Inl OutsideModel)"

text \<open>\<open>JSON.stringify(value, null, '\t')\<close>: \<open>d\<close> is the depth of the value.\<close>

definition indent :: "nat \<Rightarrow> string" where
  "indent d = CHR 10 # replicate d (CHR 9)"

definition bracketed :: "string \<Rightarrow> string \<Rightarrow> nat \<Rightarrow> string list option \<Rightarrow> js_text" where
  "bracketed l r d ts = (case ts of None \<Rightarrow> NoText
     | Some [] \<Rightarrow> Text (l @ r)
     | Some us \<Rightarrow> Text (l @ indent (Suc d) @ join ('','' @ indent (Suc d)) us @ indent d @ r))"

fun pretty_members :: "js_text obj \<Rightarrow> string list option" where
  "pretty_members [] = Some []"
| "pretty_members ((k, Omit) # ts) = pretty_members ts"
| "pretty_members ((k, NoText) # ts) = None"
| "pretty_members ((k, Text t) # ts) = map_option ((#) (quote k @ '': '' @ t)) (pretty_members ts)"

primrec pretty :: "jv \<Rightarrow> nat \<Rightarrow> js_text" where
  "pretty Undefined d = Omit"
| "pretty Null d = Text ''null''"
| "pretty (Bool b) d = Text (if b then ''true'' else ''false'')"
| "pretty (Num m k) d = (if k = 0 \<and> safe_int m then Text (int_str m) else NoText)"
| "pretty (Str s) d = Text (quote s)"
| "pretty (Arr xs) d = bracketed ''['' '']'' d (elems_text (map (\<lambda>f. f (Suc d)) (map pretty xs)))"
| "pretty (Obj kvs) d = bracketed ''{'' ''}'' d (pretty_members (key_order (map (map_prod id (\<lambda>f. f (Suc d))) (map (map_prod id pretty) kvs))))"

section \<open>The list of services\<close>

record sl_state =
  sl_loading :: bool
  sl_total :: jv
  sl_pageSize :: jv
  sl_currentPage :: jv
  sl_dataSource :: jv
  sl_serviceName :: string
  sl_groupName :: string
  sl_hasIpCount :: bool
  sl_nowNamespaceName :: jv
  sl_nowNamespaceId :: jv

definition sl_init :: "browser \<Rightarrow> sl_state" where
  "sl_init b = \<lparr>sl_loading = False, sl_total = num 0, sl_pageSize = num 10, sl_currentPage = num 1, sl_dataSource = Arr [],
     sl_serviceName = [], sl_groupName = [], sl_hasIpCount = (getItem b ''hasIpCount'' \<noteq> Some ''false''),
     sl_nowNamespaceName = Undefined, sl_nowNamespaceId = Undefined\<rparr>"

definition sl_openLoading :: "sl_state \<Rightarrow> sl_state" where
  "sl_openLoading st = st\<lparr>sl_loading := True\<rparr>"

definition sl_closeLoading :: "sl_state \<Rightarrow> sl_state" where
  "sl_closeLoading st = st\<lparr>sl_loading := False\<rparr>"

definition sl_query :: "sl_state \<Rightarrow> string obj" where
  "sl_query st = [(''hasIpCount'', to_str (Bool (sl_hasIpCount st))), (''withInstances'', ''false''), (''pageNo'', to_str (sl_currentPage st)),
     (''pageSize'', to_str (sl_pageSize st)), (''serviceNameParam'', sl_serviceName st), (''groupNameParam'', sl_groupName st)]"

definition queryServiceList :: "sl_state \<Rightarrow> sl_state \<times> effect list" where
  "queryServiceList st =
     (sl_openLoading st, [Send ((req (link ''v1/ns/catalog/services'' (sl_query st)))\<lparr>c_error := UserFn 1\<rparr>)])"

definition sl_loaded :: "jv \<Rightarrow> sl_state \<Rightarrow> js_error + sl_state" where
  "sl_loaded res st =
     (if res = Null then Inl TypeError
      else Inr (st\<lparr>sl_dataSource := default_to (Arr []) (field res ''serviceList''), sl_total := default_to (num 0) (field res ''count''),
                   sl_loading := False\<rparr>))"

definition sl_failed :: "sl_state \<Rightarrow> sl_state" where
  "sl_failed st = st\<lparr>sl_dataSource := Arr [], sl_total := num 0, sl_currentPage := num 0, sl_loading := False\<rparr>"

definition sl_handlePageSizeChange :: "jv \<Rightarrow> sl_state \<Rightarrow> sl_state \<times> effect list" where
  "sl_handlePageSizeChange pageSize st = queryServiceList (st\<lparr>sl_pageSize := pageSize\<rparr>)"

definition sl_changePage :: "jv \<Rightarrow> sl_state \<Rightarrow> sl_state \<times> effect list" where
  "sl_changePage n st = queryServiceList (st\<lparr>sl_currentPage := n\<rparr>)"

definition sl_search :: "sl_state \<Rightarrow> sl_state \<times> effect list" where
  "sl_search st = sl_changePage (num 1) st"

definition sl_inputService :: "string \<Rightarrow> sl_state \<Rightarrow> sl_state" where
  "sl_inputService serviceName st = st\<lparr>sl_serviceName := serviceName\<rparr>"

definition sl_inputGroup :: "string \<Rightarrow> sl_state \<Rightarrow> sl_state" where
  "sl_inputGroup groupName st = st\<lparr>sl_groupName := groupName\<rparr>"

definition sl_switch :: "bool \<Rightarrow> browser \<times> sl_state \<Rightarrow> browser \<times> sl_state \<times> effect list" where
  "sl_switch hasIpCount bs =
     (setItem ''hasIpCount'' (to_str (Bool hasIpCount)) (fst bs),
      queryServiceList ((snd bs)\<lparr>sl_hasIpCount := hasIpCount, sl_currentPage := num 1\<rparr>))"

definition sl_setNowNameSpace :: "jv \<Rightarrow> jv \<Rightarrow> sl_state \<Rightarrow> sl_state" where
  "sl_setNowNameSpace name id0 st = st\<lparr>sl_nowNamespaceName := name, sl_nowNamespaceId := id0\<rparr>"

definition sl_rowColor :: "jv \<Rightarrow> string" where
  "sl_rowColor row = (if \<not> truthy (field row ''healthyInstanceCount'') then ''row-bg-red'' else [])"

definition sl_goDetail :: "jv \<Rightarrow> effect list" where
  "sl_goDetail rec0 = [Push (generateUrl ''/serviceDetail'' [(''name'', field rec0 ''name''), (''groupName'', field rec0 ''groupName'')])]"

definition deleteService :: "jv \<Rightarrow> effect list" where
  "deleteService loc = [Confirm (tr loc ''prompt'') (tr loc ''promptDelete'')]"

definition deleteService_ok :: "jv \<Rightarrow> effect list" where
  "deleteService_ok service =
     [Send ((req (link ''v1/ns/service'' [(''serviceName'', to_str (field service ''name'')), (''groupName'', to_str (field service ''groupName''))]))
        \<lparr>c_method := Some ''DELETE'', c_dataType := Some ''text'', c_error := UserFn 1, c_complete := UserFn 2, c_beforeSend := UserFn 3\<rparr>)]"

text \<open>The texts a failed request is reported with, and the answer of a request that reads a text.\<close>

definition failure_text :: "jv \<Rightarrow> jv \<Rightarrow> effect" where
  "failure_text res d = Toast ''error'' (js_or (field res ''responseText'') d)"

definition deleteService_replied :: "jv \<Rightarrow> sl_state \<Rightarrow> sl_state \<times> effect list" where
  "deleteService_replied res st = (if res \<noteq> Str ''ok'' then (st, [Toast ''error'' res]) else queryServiceList st)"

section \<open>The details of a service\<close>

record sv_state =
  sv_serviceName :: string
  sv_groupName :: string
  sv_loading :: bool
  sv_clusters :: jv
  sv_service :: jv

definition sv_init :: "string \<Rightarrow> sv_state" where
  "sv_init search = \<lparr>sv_serviceName = getParameter search ''name'', sv_groupName = getParameter search ''groupName'',
     sv_loading = False, sv_clusters = Arr [], sv_service = Obj []\<rparr>"

definition getServiceDetail :: "sv_state \<Rightarrow> effect list" where
  "getServiceDetail st =
     [Send ((req (link ''v1/ns/catalog/service'' [(''serviceName'', sv_serviceName st), (''groupName'', sv_groupName st)]))
        \<lparr>c_error := UserFn 1, c_complete := UserFn 2, c_beforeSend := UserFn 3\<rparr>)]"

definition sv_mount :: "sv_state \<Rightarrow> effect list" where
  "sv_mount st = (if sv_serviceName st = [] then [Go_Back] else getServiceDetail st)"

definition sv_loaded :: "jv \<Rightarrow> sv_state \<Rightarrow> js_error + sv_state" where
  "sv_loaded res st =
     (if res = Null \<or> res = Undefined then Inl TypeError
      else Inr (st\<lparr>sv_service := default_to (Obj []) (field res ''service''), sv_clusters := default_to (Arr []) (field res ''clusters'')\<rparr>))"

definition sv_failed :: "jv \<Rightarrow> effect list" where
  "sv_failed e = [failure_text e (Str ''error'')]"

definition sv_openLoading :: "sv_state \<Rightarrow> sv_state" where
  "sv_openLoading st = st\<lparr>sv_loading := True\<rparr>"

definition sv_closeLoading :: "sv_state \<Rightarrow> sv_state" where
  "sv_closeLoading st = st\<lparr>sv_loading := False\<rparr>"

section \<open>The dialogs\<close>

text \<open>
  Each dialog adds \<open>metadataText\<close>, the printed metadata, to the object it edits when there are any.
\<close>

definition with_metadata_text :: "jv obj \<Rightarrow> js_error + jv obj" where
  "with_metadata_text item =
     (let metadata = default_to (Obj []) (field (Obj item) ''metadata'')
      in if metadata = Null then Inl TypeError
         else if own_props metadata = [] then Inr item
         else case pretty metadata 0 of Text t \<Rightarrow> Inr (obj_put ''metadataText'' (Str t) item) | _ \<Rightarrow> Inl OutsideModel)"

record es_state =
  es_isCreate :: bool
  es_service :: "jv obj"
  es_visible :: bool
  es_errors :: "jv obj"
  es_loading :: bool

definition es_init :: es_state where
  "es_init = \<lparr>es_isCreate = False, es_service = [], es_visible = False,
     es_errors = [(''name'', Obj []), (''protectThreshold'', Obj [])], es_loading = False\<rparr>"

definition es_show :: "jv obj \<Rightarrow> es_state \<Rightarrow> js_error + es_state" where
  "es_show editService st =
     and_then (with_metadata_text editService) (\<lambda>s.
       Inr (st\<lparr>es_service := s, es_visible := True, es_isCreate := \<not> truthy (field (Obj editService) ''name'')\<rparr>))"

definition es_hide :: "es_state \<Rightarrow> es_state" where
  "es_hide st = st\<lparr>es_visible := False\<rparr>"

definition es_fail :: "string \<Rightarrow> jv \<Rightarrow> es_state \<Rightarrow> es_state" where
  "es_fail key help st = st\<lparr>es_errors := AList.update key (Obj [(''validateState'', Str ''error''), (''help'', help)]) (es_errors st)\<rparr>"

definition es_validator :: "jv \<Rightarrow> jv \<Rightarrow> jv \<Rightarrow> es_state \<Rightarrow> bool \<times> es_state" where
  "es_validator loc name protectThreshold st =
     (let protectThreshold = (if protectThreshold = num 0 then Str ''0'' else protectThreshold)
      in if \<not> truthy name then (False, es_fail ''name'' (tr loc ''serviceNameRequired'') st)
         else if \<not> truthy protectThreshold then (False, es_fail ''protectThreshold'' (tr loc ''protectThresholdRequired'') st)
         else (True, st))"

definition es_onConfirm :: "jv \<Rightarrow> es_state \<Rightarrow> js_error + es_state \<times> effect list" where
  "es_onConfirm loc st =
     (let s = Obj (es_service st);
          (ok, st') = es_validator loc (field s ''name'') (field s ''protectThreshold'') st
      in if \<not> ok then Inr (st', [])
         else and_then (stringified (field s ''selector'')) (\<lambda>selector.
           Inr (es_hide st', [Send ((req ''v1/ns/service'')
             \<lparr>c_method := Some (if es_isCreate st then ''POST'' else ''PUT''), c_dataType := Some ''text'',
              c_data := Obj [(''serviceName'', field s ''name''), (''groupName'', js_or (field s ''groupName'') (Str ''DEFAULT_GROUP'')),
                (''protectThreshold'', field s ''protectThreshold''), (''metadata'', default_to (Str []) (field s ''metadataText'')),
                (''selector'', selector)],
              c_error := UserFn 1, c_complete := UserFn 2, c_beforeSend := UserFn 3\<rparr>)])))"

definition es_setLoading :: "bool \<Rightarrow> es_state \<Rightarrow> es_state" where
  "es_setLoading v st = st\<lparr>es_loading := v\<rparr>"

definition es_replied :: "bool \<Rightarrow> jv \<Rightarrow> effect list" where
  "es_replied isCreate res =
     (if res \<noteq> Str ''ok'' then [Toast ''error'' res]
      else [Callback (if isCreate then ''queryServiceList'' else ''getServiceDetail'') []])"

definition es_failed :: "jv \<Rightarrow> effect list" where
  "es_failed res = [failure_text res (field res ''statusText'')]"

definition es_clear :: "string \<Rightarrow> jv \<Rightarrow> jv obj \<Rightarrow> jv obj" where
  "es_clear key changeVal errors = (if truthy (field changeVal key) then AList.update key (Obj []) errors else errors)"

definition es_onChangeCluster :: "jv obj \<Rightarrow> es_state \<Rightarrow> es_state" where
  "es_onChangeCluster changeVal st =
     st\<lparr>es_errors := es_clear ''protectThreshold'' (Obj changeVal) (es_clear ''name'' (Obj changeVal) (es_errors st)),
        es_service := obj_assign (obj_assign [] (es_service st)) changeVal\<rparr>"

text \<open>The dialogs of a cluster and of an instance.\<close>

record ed_dialog =
  ed_item :: "jv obj"
  ed_visible :: bool

definition ed_show :: "jv obj \<Rightarrow> ed_dialog \<Rightarrow> js_error + ed_dialog" where
  "ed_show item d = and_then (with_metadata_text item) (\<lambda>i. Inr \<lparr>ed_item = i, ed_visible = True\<rparr>)"

definition ed_hide :: "ed_dialog \<Rightarrow> ed_dialog" where
  "ed_hide d = d\<lparr>ed_visible := False\<rparr>"

definition ed_onChangeCluster :: "jv obj \<Rightarrow> ed_dialog \<Rightarrow> ed_dialog" where
  "ed_onChangeCluster changeVal d = d\<lparr>ed_item := obj_assign (obj_assign [] (ed_item d)) changeVal\<rparr>"

definition healthCheckerChange :: "jv obj \<Rightarrow> ed_dialog \<Rightarrow> ed_dialog" where
  "healthCheckerChange changeVal d =
     ed_onChangeCluster [(''healthChecker'',
       Obj (obj_assign (own_props (default_to (Obj []) (field (Obj (ed_item d)) ''healthChecker''))) changeVal))] d"

definition cluster_onConfirm :: "ed_dialog \<Rightarrow> js_error + effect list" where
  "cluster_onConfirm d =
     (let c = Obj (ed_item d) in and_then (stringified (field c ''healthChecker'')) (\<lambda>healthChecker.
        Inr [Send ((req ''v1/ns/cluster'')\<lparr>c_method := Some ''PUT'', c_dataType := Some ''text'',
          c_data := Obj [(''serviceName'', field c ''serviceName''), (''clusterName'', field c ''name''), (''metadata'', field c ''metadataText''),
            (''checkPort'', field c ''defaultCheckPort''), (''useInstancePort4Check'', field c ''useIPPort4Check''), (''healthChecker'', healthChecker)],
          c_complete := UserFn 2, c_beforeSend := UserFn 3\<rparr>)]))"

definition ed_replied :: "string \<Rightarrow> jv \<Rightarrow> ed_dialog \<Rightarrow> ed_dialog \<times> effect list" where
  "ed_replied refresh res d = (if res \<noteq> Str ''ok'' then (d, [Toast ''error'' res]) else (ed_hide d, [Callback refresh []]))"

section \<open>The instances\<close>

record it_props =
  ip_clusterName :: string
  ip_serviceName :: string
  ip_groupName :: string

definition instance_onConfirm :: "it_props \<Rightarrow> ed_dialog \<Rightarrow> effect list" where
  "instance_onConfirm p d =
     (let i = Obj (ed_item d)
      in [Send ((req ''v1/ns/instance'')\<lparr>c_method := Some ''PUT'', c_dataType := Some ''text'',
        c_data := Obj [(''serviceName'', Str (ip_serviceName p)), (''clusterName'', Str (ip_clusterName p)), (''groupName'', Str (ip_groupName p)),
          (''ip'', field i ''ip''), (''port'', field i ''port''), (''ephemeral'', field i ''ephemeral''), (''weight'', field i ''weight''),
          (''enabled'', field i ''enabled''), (''metadata'', field i ''metadataText'')],
        c_error := UserFn 1, c_complete := UserFn 2, c_beforeSend := UserFn 3\<rparr>)])"

text \<open>\<open>it_list\<close> is the address of the row list of \<open>instance\<close>; \<open>it_next\<close> is the next free address.\<close>

record it_state =
  it_loading :: bool
  it_count :: jv
  it_list :: nat
  it_pageNum :: jv
  it_pageSize :: jv
  it_heap :: "nat \<Rightarrow> jv list"
  it_next :: nat

definition it_init :: it_state where
  "it_init = \<lparr>it_loading = False, it_count = num 0, it_list = 0, it_pageNum = num 1, it_pageSize = num 10, it_heap = (\<lambda>_. []), it_next = 1\<rparr>"

definition it_openLoading :: "it_state \<Rightarrow> it_state" where
  "it_openLoading st = st\<lparr>it_loading := True\<rparr>"

definition it_closeLoading :: "it_state \<Rightarrow> it_state" where
  "it_closeLoading st = st\<lparr>it_loading := False\<rparr>"

definition getInstanceList :: "it_props \<Rightarrow> it_state \<Rightarrow> effect list" where
  "getInstanceList p st =
     (if ip_clusterName p = [] then []
      else [Send ((req ''v1/ns/catalog/instances'')\<lparr>c_data := Obj [(''serviceName'', Str (ip_serviceName p)),
        (''clusterName'', Str (ip_clusterName p)), (''groupName'', Str (ip_groupName p)), (''pageSize'', it_pageSize st), (''pageNo'', it_pageNum st)],
        c_complete := UserFn 2, c_beforeSend := UserFn 3\<rparr>)])"

definition it_loaded :: "jv \<Rightarrow> it_state \<Rightarrow> js_error + it_state" where
  "it_loaded res st =
     (case field res ''list'' of
        Arr rows \<Rightarrow> Inr (st\<lparr>it_count := field res ''count'', it_list := it_next st, it_heap := (it_heap st)(it_next st := rows), it_next := Suc (it_next st)\<rparr>)
      | _ \<Rightarrow> Inl OutsideModel)"

definition it_rows :: "it_state \<Rightarrow> jv list" where
  "it_rows st = it_heap st (it_list st)"

definition switchState :: "it_props \<Rightarrow> jv \<Rightarrow> js_error + effect list" where
  "switchState p rec0 =
     and_then (stringified (field rec0 ''metadata'')) (\<lambda>metadata.
       Inr [Send ((req ''v1/ns/instance'')\<lparr>c_method := Some ''PUT'', c_dataType := Some ''text'',
         c_data := Obj [(''serviceName'', Str (ip_serviceName p)), (''clusterName'', Str (ip_clusterName p)), (''groupName'', Str (ip_groupName p)),
           (''ip'', field rec0 ''ip''), (''port'', field rec0 ''port''), (''ephemeral'', field rec0 ''ephemeral''), (''weight'', field rec0 ''weight''),
           (''enabled'', Bool (\<not> truthy (field rec0 ''enabled''))), (''metadata'', metadata)],
         c_error := UserFn 1, c_complete := UserFn 2, c_beforeSend := UserFn 3\<rparr>)])"

text \<open>
  The reply: \<open>captured\<close> is the count and the row list of \<open>instance\<close> when the button was clicked,
  \<open>enabled\<close> the state of the row then. The copy of \<open>instance\<close> shares its row list.
\<close>

definition it_captured :: "it_state \<Rightarrow> jv \<times> nat" where
  "it_captured st = (it_count st, it_list st)"

definition switch_replied :: "jv \<times> nat \<Rightarrow> nat \<Rightarrow> jv \<Rightarrow> it_state \<Rightarrow> js_error + it_state" where
  "switch_replied captured index enabled st =
     (let rows = it_heap st (snd captured)
      in if index < length rows then
           (case rows ! index of
              Obj kvs \<Rightarrow> Inr (st\<lparr>it_heap := (it_heap st)(snd captured := rows[index := Obj (obj_put ''enabled'' (Bool (\<not> truthy enabled)) kvs)]),
                               it_count := fst captured, it_list := snd captured\<rparr>)
            | Arr _ \<Rightarrow> Inl OutsideModel
            | _ \<Rightarrow> Inl TypeError)
         else Inl TypeError)"

definition onChangePage :: "it_props \<Rightarrow> jv \<Rightarrow> it_state \<Rightarrow> it_state \<times> effect list" where
  "onChangePage p n st = (let st = st\<lparr>it_pageNum := n\<rparr> in (st, getInstanceList p st))"

definition HEALTHY_COLOR_MAPPING :: "string obj" where
  "HEALTHY_COLOR_MAPPING = [(''true'', ''green''), (''false'', ''red'')]"

definition it_rowColor :: "jv \<Rightarrow> string" where
  "it_rowColor row = ''row-bg-'' @ (case map_of HEALTHY_COLOR_MAPPING (to_str (field row ''healthy'')) of Some c \<Rightarrow> c | None \<Rightarrow> ''undefined'')"

section \<open>Subscribers\<close>

record sb_state =
  sb_loading :: bool
  sb_pageSize :: jv
  sb_pageNo :: jv
  sb_serviceName :: string
  sb_groupName :: string
  sb_nowNamespaceName :: jv
  sb_nowNamespaceId :: jv

definition sb_init :: sb_state where
  "sb_init = \<lparr>sb_loading = False, sb_pageSize = num 10, sb_pageNo = num 1, sb_serviceName = [], sb_groupName = [],
     sb_nowNamespaceName = Undefined, sb_nowNamespaceId = Undefined\<rparr>"

definition querySubscriberList :: "jv \<Rightarrow> sb_state \<Rightarrow> effect list" where
  "querySubscriberList loc st =
     (if sb_serviceName st = [] then [Toast ''error'' (tr loc ''searchServiceNamePrompt'')]
      else [Axios (thunk_call (getSubscribers (Obj [(''serviceName'', Str (sb_serviceName st)), (''groupName'', Str (sb_groupName st)),
        (''pageSize'', sb_pageSize st), (''pageNo'', sb_pageNo st), (''namespaceId'', default_to (Str []) (sb_nowNamespaceId st))])))])"

definition sb_changePage :: "jv \<Rightarrow> jv \<Rightarrow> sb_state \<Rightarrow> sb_state \<times> effect list" where
  "sb_changePage loc n st = (let st = st\<lparr>sb_pageNo := n\<rparr> in (st, querySubscriberList loc st))"

definition sb_inputService :: "string \<Rightarrow> sb_state \<Rightarrow> sb_state" where
  "sb_inputService serviceName st = st\<lparr>sb_serviceName := serviceName\<rparr>"

definition sb_inputGroup :: "string \<Rightarrow> sb_state \<Rightarrow> sb_state" where
  "sb_inputGroup groupName st = st\<lparr>sb_groupName := groupName\<rparr>"

definition sb_openLoading :: "sb_state \<Rightarrow> sb_state" where
  "sb_openLoading st = st\<lparr>sb_loading := True\<rparr>"

definition sb_closeLoading :: "sb_state \<Rightarrow> sb_state" where
  "sb_closeLoading st = st\<lparr>sb_loading := False\<rparr>"

text \<open>The switch of the namespace dispatches \<open>removeSubscribers\<close> to the store.\<close>

definition switchNamespace :: "sb_state \<times> store \<Rightarrow> sb_state \<times> store" where
  "switchNamespace ss = ((fst ss)\<lparr>sb_serviceName := [], sb_groupName := []\<rparr>, dispatch_action removeSubscribers (snd ss))"

definition sb_setNowNameSpace :: "jv \<Rightarrow> jv \<Rightarrow> sb_state \<Rightarrow> sb_state" where
  "sb_setNowNameSpace name id0 st = st\<lparr>sb_nowNamespaceName := name, sb_nowNamespaceId := id0\<rparr>"

section \<open>Nodes of the cluster\<close>

record cn_state =
  cn_loading :: bool
  cn_total :: jv
  cn_pageSize :: jv
  cn_currentPage :: jv
  cn_keyword :: string
  cn_dataSource :: jv
  cn_nowNamespaceName :: jv
  cn_nowNamespaceId :: jv

definition cn_init :: cn_state where
  "cn_init = \<lparr>cn_loading = False, cn_total = num 0, cn_pageSize = num 10, cn_currentPage = num 1, cn_keyword = [], cn_dataSource = Arr [],
     cn_nowNamespaceName = Undefined, cn_nowNamespaceId = Undefined\<rparr>"

definition cn_openLoading :: "cn_state \<Rightarrow> cn_state" where
  "cn_openLoading st = st\<lparr>cn_loading := True\<rparr>"

definition cn_closeLoading :: "cn_state \<Rightarrow> cn_state" where
  "cn_closeLoading st = st\<lparr>cn_loading := False\<rparr>"

definition queryClusterStateList :: "cn_state \<Rightarrow> effect list" where
  "queryClusterStateList st =
     [Send ((req (link ''v1/core/cluster/nodes'' [(''withInstances'', ''false''), (''pageNo'', to_str (cn_currentPage st)),
        (''pageSize'', to_str (cn_pageSize st)), (''keyword'', cn_keyword st)]))
        \<lparr>c_error := UserFn 1, c_complete := UserFn 2, c_beforeSend := UserFn 3\<rparr>)]"

definition cn_loaded :: "jv \<Rightarrow> cn_state \<Rightarrow> js_error + cn_state" where
  "cn_loaded res st =
     (if res = Null then Inl TypeError
      else Inr (st\<lparr>cn_dataSource := default_to (Arr []) (field res ''data''), cn_total := default_to (num 0) (field res ''count'')\<rparr>))"

definition cn_failed :: "cn_state \<Rightarrow> cn_state" where
  "cn_failed st = st\<lparr>cn_dataSource := Arr [], cn_total := num 0, cn_currentPage := num 0\<rparr>"

definition cn_changePage :: "jv \<Rightarrow> cn_state \<Rightarrow> cn_state \<times> effect list" where
  "cn_changePage n st = (let st = st\<lparr>cn_currentPage := n\<rparr> in (st, queryClusterStateList st))"

definition cn_setNowNameSpace :: "jv \<Rightarrow> jv \<Rightarrow> cn_state \<Rightarrow> cn_state" where
  "cn_setNowNameSpace name id0 st = st\<lparr>cn_nowNamespaceName := name, cn_nowNamespaceId := id0\<rparr>"

definition node_color :: "jv \<Rightarrow> string" where
  "node_color v = (if v = Str ''UP'' then ''green'' else if v = Str ''DOWN'' then ''red''
     else if v = Str ''SUSPICIOUS'' then ''orange'' else ''turquoise'')"

section \<open>Properties\<close>

text \<open>
  C20: from the list of services to the details. The page that the link of a service opens asks for
  the service of that name and group; a page opened without a name goes back and asks nothing.
\<close>

theorem service_link_opens_service:
  assumes "sl_goDetail rec0 = [Push (''/serviceDetail'' @ search)]" and "field rec0 ''name'' = Str n" and "field rec0 ''groupName'' = Str g"
    and "url_safe n" and "url_safe g"
  shows "sv_serviceName (sv_init search) = n \<and> sv_groupName (sv_init search) = g \<and>
    (if n = [] then sv_mount (sv_init search) = [Go_Back]
     else \<exists>c. sv_mount (sv_init search) = [Send c] \<and> c_url c = link ''v1/ns/catalog/service'' [(''serviceName'', n), (''groupName'', g)])"
proof -
  have s: "search = link [] [(''name'', n), (''groupName'', g)]"
    using assms(1-3) by (simp add: sl_goDetail_def generateUrl_link is_index_key_def is_digit_def join_str_def link_def)
  have "plain_link [] [(''name'', n), (''groupName'', g)]"
    using assms(4,5) by (simp add: plain_link_def url_safe_def)
  from getParameter_link[OF this] have "getParameter search ''name'' = n" "getParameter search ''groupName'' = g"
    unfolding s by simp_all
  then show ?thesis by (simp add: sv_init_def sv_mount_def getServiceDetail_def req_def)
qed

definition sample_service :: jv where
  "sample_service = Obj [(''name'', Str ''orders''), (''groupName'', Str ''DEFAULT_GROUP'')]"

theorem service_link_opens_service_witness:
  "\<exists>c. sl_goDetail sample_service = [Push ''/serviceDetail?name=orders&groupName=DEFAULT_GROUP''] \<and>
     sv_mount (sv_init ''?name=orders&groupName=DEFAULT_GROUP'') = [Send c] \<and>
     c_url c = ''v1/ns/catalog/service?serviceName=orders&groupName=DEFAULT_GROUP''"
proof -
  have f: "field sample_service ''name'' = Str ''orders''" "field sample_service ''groupName'' = Str ''DEFAULT_GROUP''"
    by (simp_all add: sample_service_def field_def)
  have g: "sl_goDetail sample_service = [Push (''/serviceDetail'' @ ''?name=orders&groupName=DEFAULT_GROUP'')]"
    using f by (simp add: sl_goDetail_def generateUrl_link is_index_key_def is_digit_def join_str_def link_def query_text_def kv_text_def)
  have u: "url_safe ''orders''" "url_safe ''DEFAULT_GROUP''" by (simp_all add: url_safe_def)
  from service_link_opens_service[OF g f u] g show ?thesis by (simp add: link_def query_text_def kv_text_def)
qed

text \<open>
  two instances of a page switched on or off before either request is answered end up both
  switched, in whichever order the answers arrive, and no other row changes: the handlers share the
  list of rows.
\<close>

theorem concurrent_switches_both_count:
  assumes "i < length (it_rows st)" and "j < length (it_rows st)" and "i \<noteq> j"
    and "it_rows st ! i = Obj a" and "it_rows st ! j = Obj c"
  shows "\<exists>s1 s2. switch_replied (it_captured st) i ei st = Inr s1 \<and> switch_replied (it_captured st) j ej s1 = Inr s2 \<and>
    it_count s2 = it_count st \<and>
    it_rows s2 = (it_rows st)[i := Obj (obj_put ''enabled'' (Bool (\<not> truthy ei)) a), j := Obj (obj_put ''enabled'' (Bool (\<not> truthy ej)) c)]"
  using assms by (simp add: switch_replied_def it_captured_def it_rows_def Let_def)

definition two_rows :: it_state where
  "two_rows = it_init\<lparr>it_heap := (\<lambda>_. [Obj [(''enabled'', Bool True)], Obj [(''enabled'', Bool False)]])\<rparr>"

theorem concurrent_switches_both_count_witness:
  "\<exists>s1 s2. switch_replied (it_captured two_rows) 1 (Bool False) two_rows = Inr s1 \<and>
     switch_replied (it_captured two_rows) 0 (Bool True) s1 = Inr s2 \<and> it_rows s2 = [Obj [(''enabled'', Bool False)], Obj [(''enabled'', Bool True)]]"
proof -
  have r: "it_rows two_rows = [Obj [(''enabled'', Bool True)], Obj [(''enabled'', Bool False)]]" by (simp add: it_rows_def two_rows_def)
  have "1 < length (it_rows two_rows)" "0 < length (it_rows two_rows)" "(1::nat) \<noteq> 0"
    "it_rows two_rows ! 1 = Obj [(''enabled'', Bool False)]" "it_rows two_rows ! 0 = Obj [(''enabled'', Bool True)]"
    by (simp_all add: r)
  from concurrent_switches_both_count[OF this, of "Bool False" "Bool True"] show ?thesis by (auto simp: r obj_put_def)
qed

text \<open>
  C40: the answer to a switch brings back the page the user left. When the page was turned and its
  rows arrived in between, the late answer shows the rows of the former page under the new number.
\<close>

theorem late_switch_restores_page:
  assumes "i < length (it_rows st)" and "it_rows st ! i = Obj a" and "it_list st < it_next st"
    and "it_loaded res (fst (onChangePage p n st)) = Inr st1"
  shows "\<exists>st2. switch_replied (it_captured st) i e st1 = Inr st2 \<and> it_pageNum st2 = n \<and> it_count st2 = it_count st \<and>
    it_rows st2 = (it_rows st)[i := Obj (obj_put ''enabled'' (Bool (\<not> truthy e)) a)] \<and> field res ''list'' = Arr (it_rows st1)"
  using assms by (auto simp: it_loaded_def onChangePage_def switch_replied_def it_captured_def it_rows_def Let_def split: jv.splits)

theorem late_switch_restores_page_witness:
  "\<exists>st1 st2. it_loaded (Obj [(''count'', num 12), (''list'', Arr [])]) (fst (onChangePage \<lparr>ip_clusterName = ''c'', ip_serviceName = ''s'', ip_groupName = ''g''\<rparr> (num 2) two_rows)) = Inr st1 \<and>
     switch_replied (it_captured two_rows) 0 (Bool True) st1 = Inr st2 \<and> it_pageNum st2 = num 2 \<and> length (it_rows st2) = 2"
proof -
  have r: "0 < length (it_rows two_rows)" "it_rows two_rows ! 0 = Obj [(''enabled'', Bool True)]" "it_list two_rows < it_next two_rows"
    by (simp_all add: it_rows_def two_rows_def it_init_def)
  obtain st1 where l: "it_loaded (Obj [(''count'', num 12), (''list'', Arr [])])
      (fst (onChangePage \<lparr>ip_clusterName = ''c'', ip_serviceName = ''s'', ip_groupName = ''g''\<rparr> (num 2) two_rows)) = Inr st1"
    by (simp add: it_loaded_def field_def)
  from late_switch_restores_page[OF r l, of "Bool True"] l show ?thesis
    by (auto simp: it_rows_def two_rows_def)
qed

text \<open>The edits of the form, and the value a field has after them: the last one given, or the one it had.\<close>

definition edited :: "jv obj list \<Rightarrow> es_state \<Rightarrow> es_state" where
  "edited edits st = fold es_onChangeCluster edits st"

fun entered :: "jv obj list \<Rightarrow> string \<Rightarrow> jv \<Rightarrow> jv" where
  "entered [] k v = v"
| "entered (e # es) k v = entered es k (case map_of e k of None \<Rightarrow> v | Some w \<Rightarrow> w)"

lemma metadata_text_keeps:
  assumes "with_metadata_text item = Inr s"
  shows "distinct (map fst item) \<Longrightarrow> distinct (map fst s)" "k \<noteq> ''metadataText'' \<Longrightarrow> field (Obj s) k = field (Obj item) k"
proof -
  have "s = item \<or> (\<exists>t. s = obj_put ''metadataText'' t item)"
    using assms by (auto simp: with_metadata_text_def Let_def split: if_splits js_text.splits)
  then show "distinct (map fst item) \<Longrightarrow> distinct (map fst s)" "k \<noteq> ''metadataText'' \<Longrightarrow> field (Obj s) k = field (Obj item) k"
    by (auto simp: distinct_obj_put field_def map_of_obj_put)
qed

lemma edited_keeps: "es_isCreate (edited edits st) = es_isCreate st" "es_visible (edited edits st) = es_visible st"
  unfolding edited_def by (induction edits arbitrary: st) (simp_all add: es_onChangeCluster_def)

lemma edited_field:
  assumes "k \<noteq> ''__proto__''" "distinct (map fst (es_service st))" "\<forall>e \<in> set edits. distinct (map fst e)"
  shows "field (Obj (es_service (edited edits st))) k = entered edits k (field (Obj (es_service st)) k)"
  using assms(2,3) unfolding edited_def
proof (induction edits arbitrary: st)
  case (Cons e edits)
  let ?st = "es_onChangeCluster e st"
  have "field (Obj (es_service ?st)) k = (case map_of e k of None \<Rightarrow> field (Obj (es_service st)) k | Some w \<Rightarrow> w)"
    using Cons.prems assms(1) by (auto simp: es_onChangeCluster_def field_def map_of_obj_assign split: option.splits)
  moreover have "distinct (map fst (es_service ?st))" by (simp add: es_onChangeCluster_def distinct_obj_assign)
  ultimately show ?case using Cons by simp
qed simp

text \<open>
  C19: the form of a service, from opening it to the confirmation with any edits between. It sends its
  request exactly when the name and the threshold last entered (or brought by the service) are there,
  where the number zero counts as a threshold, with these values. It creates a service exactly when the
  dialog was opened without a name, whatever is entered later; it closes only when it sends, and
  otherwise marks the missing name.
\<close>

theorem service_form_checked:
  assumes "distinct (map fst item)" and "\<forall>e \<in> set edits. distinct (map fst e)"
    and "es_show item st0 = Inr st" and "es_onConfirm loc (edited edits st) = Inr (st', es)"
    and "name = entered edits ''name'' (field (Obj item) ''name'')"
    and "threshold = entered edits ''protectThreshold'' (field (Obj item) ''protectThreshold'')"
  shows "(es \<noteq> [] \<longleftrightarrow> truthy name \<and> (truthy threshold \<or> threshold = num 0)) \<and>
    (es \<noteq> [] \<longrightarrow> (\<exists>c. es = [Send c] \<and> c_url c = ''v1/ns/service'' \<and>
       c_method c = Some (if truthy (field (Obj item) ''name'') then ''PUT'' else ''POST'') \<and>
       field (c_data c) ''serviceName'' = name \<and> field (c_data c) ''protectThreshold'' = threshold)) \<and>
    (es_visible st' \<longleftrightarrow> es = []) \<and>
    (\<not> truthy name \<longrightarrow> field (field (Obj (es_errors st')) ''name'') ''validateState'' = Str ''error'')"
proof -
  have v: "es_visible st" "es_isCreate st = (\<not> truthy (field (Obj item) ''name''))" "with_metadata_text item = Inr (es_service st)"
    using assms(3) by (auto simp: es_show_def and_then_Inr_iff)
  have d: "distinct (map fst (es_service st))" "\<And>k. k \<noteq> ''metadataText'' \<Longrightarrow> field (Obj (es_service st)) k = field (Obj item) k"
    using metadata_text_keeps[OF v(3)] assms(1) by simp_all
  let ?st = "edited edits st"
  have "field (Obj (es_service ?st)) ''name'' = name" "field (Obj (es_service ?st)) ''protectThreshold'' = threshold"
    using edited_field[OF _ d(1) assms(2)] d(2) assms(5,6) by simp_all
  then show ?thesis
    using assms(4) v edited_keeps[of edits st]
    by (auto simp: es_onConfirm_def es_validator_def es_hide_def es_fail_def Let_def and_then_Inr_iff req_def
        field_def[of "Obj [_]"] field_def[of "Obj (_ # _)"] field_def[of "Obj (AList.update _ _ _)"] update_conv split: if_splits)
qed

definition zero_service :: "jv obj" where
  "zero_service = [(''name'', Str ''s''), (''protectThreshold'', num 0)]"

text \<open>A service created in an empty form, and one edited.\<close>

theorem service_form_checked_witness:
  "\<exists>st st' c st2 st2' c2. es_show [] es_init = Inr st \<and>
     es_onConfirm (Obj []) (edited [[(''name'', Str ''n'')], [(''protectThreshold'', num 0)]] st) = Inr (st', [Send c]) \<and>
     c_method c = Some ''POST'' \<and> field (c_data c) ''serviceName'' = Str ''n'' \<and> \<not> es_visible st' \<and>
     es_show zero_service es_init = Inr st2 \<and> es_onConfirm (Obj []) (edited [] st2) = Inr (st2', [Send c2]) \<and> c_method c2 = Some ''PUT''"
proof -
  let ?e = "[[(''name'', Str ''n'')], [(''protectThreshold'', num 0)]]"
  let ?s = "es_init\<lparr>es_visible := True, es_isCreate := True\<rparr>" and ?s2 = "es_init\<lparr>es_service := zero_service, es_visible := True, es_isCreate := False\<rparr>"
  have s: "es_show [] es_init = Inr ?s" "es_show zero_service es_init = Inr ?s2"
    by (simp_all add: es_show_def with_metadata_text_def zero_service_def field_def default_to_def own_props_def es_init_def)
  obtain st' es where o: "es_onConfirm (Obj []) (edited ?e ?s) = Inr (st', es)"
    by (simp add: es_onConfirm_def es_validator_def stringified_def edited_def es_onChangeCluster_def es_init_def field_def Let_def obj_put_def)
  obtain st2' es2 where o2: "es_onConfirm (Obj []) (edited [] ?s2) = Inr (st2', es2)"
    by (simp add: es_onConfirm_def es_validator_def stringified_def zero_service_def edited_def field_def Let_def)
  have "distinct (map fst ([] :: jv obj))" "\<forall>e \<in> set ?e. distinct (map fst e)" "distinct (map fst zero_service)" "\<forall>e \<in> set ([] :: jv obj list). distinct (map fst e)"
    by (simp_all add: zero_service_def)
  note p = service_form_checked[OF this(1,2) s(1) o refl refl] service_form_checked[OF this(3,4) s(2) o2 refl refl]
  from p(1) obtain c where "es = [Send c]" "c_method c = Some ''POST''" "field (c_data c) ''serviceName'' = Str ''n''" "\<not> es_visible st'"
    by (auto simp: field_def)
  moreover from p(2) obtain c2 where "es2 = [Send c2]" "c_method c2 = Some ''PUT''"
    by (auto simp: field_def zero_service_def)
  ultimately show ?thesis using s o o2 by blast
qed

text \<open>
  the choice to hide empty services is kept. The switch stores it, asks for the first page with
  it, and a list opened later from that storage starts with the same choice.
\<close>

theorem hidden_services_remembered:
  "let (b', st', es) = sl_switch v (b, st)
   in sl_hasIpCount (sl_init b') = v \<and> sl_loading st' \<and>
      (\<exists>c. es = [Send c] \<and> c_url c = link ''v1/ns/catalog/services'' (sl_query (st\<lparr>sl_hasIpCount := v, sl_currentPage := num 1\<rparr>)))"
  by (simp add: sl_switch_def sl_init_def getItem_def setItem_def queryServiceList_def sl_openLoading_def req_def update_conv)

text \<open>
  the requests that change services carry no XSRF token. They name their verb with \<open>method\<close>,
  and the pipeline adds the token only to requests with a \<open>type\<close>; the body that goes out has no
  token whatever cookie the browser holds.
\<close>

theorem service_requests_without_xsrf:
  assumes "read_token b = Inr (b', tok)" and "lib_tenant b = Inr tenant"
    and "es_onConfirm loc st = Inr (st', [Send c])"
  shows "\<exists>call. console_request pv b c = Inr (b', Sent call) \<and> field (a_data call) ''sec_token'' = Undefined \<and>
    field (a_data call) ''serviceName'' = field (Obj (es_service st)) ''name''"
proof -
  obtain g p m s where c: "c_type c = None" "c_url c = ''v1/ns/service''"
      "c_data c = Obj [(''serviceName'', field (Obj (es_service st)) ''name''), (''groupName'', g), (''protectThreshold'', p), (''metadata'', m), (''selector'', s)]"
    using assms(3) by (auto simp: es_onConfirm_def and_then_Inr_iff Let_def req_def split: if_splits prod.splits)
  have "\<not> str_includes ''v1/ns/service'' ''namespaceId=''" by code_simp
  moreover have "add_sec_token b c = c" using c(1) by (simp add: add_sec_token_def)
  ultimately obtain call where "console_request pv b c = Inr (b', Sent call)"
      "a_data call = js_or (Obj (obj_assign (obj_assign [] (own_props (c_data c))) [(''namespaceId'', Str (str_or (getItem b ''namespace'') []))])) (Str [])"
    using console_request_unfold[OF assms(1,2), of pv c] c(2) by auto
  then show ?thesis by (simp add: c(3) own_props_def js_or_def obj_assign_def field_def map_of_obj_put)
qed

theorem service_requests_without_xsrf_witness:
  "\<exists>st' c call. es_onConfirm (Obj []) (es_init\<lparr>es_service := zero_service, es_isCreate := True\<rparr>) = Inr (st', [Send c]) \<and>
     console_request False sample_login c = Inr (sample_login, Sent call) \<and> field (a_data call) ''sec_token'' = Undefined \<and>
     aliwareGetCookieByKeyName sample_login ''XSRF-TOKEN'' = ''s3''"
proof -
  obtain st' c where o: "es_onConfirm (Obj []) (es_init\<lparr>es_service := zero_service, es_isCreate := True\<rparr>) = Inr (st', [Send c])"
    by (simp add: es_onConfirm_def es_validator_def stringified_def zero_service_def field_def Let_def)
  from service_requests_without_xsrf[OF sample_login_facts(1,2) o, of False] o sample_login_facts show ?thesis by blast
qed

end
