(* ===== verification/Authority.thy ===== *)
theory Authority
  imports Services
begin

text \<open>
  The authority pages (\<^verbatim>\<open>pages/AuthorityControl\<close>): users, roles and permissions with their dialogs.
  The three lists page in the same way; what they promise is the interface \<open>list_page\<close>, which each
  of them implements. The errors of a form are an object of messages by field.
\<close>

section \<open>Paged lists\<close>

record pg_state =
  pg_loading :: bool
  pg_pageNo :: jv
  pg_pageSize :: jv

definition pg_call :: "(jv \<Rightarrow> thunk) \<Rightarrow> jv \<times> jv \<Rightarrow> effect" where
  "pg_call load k = Axios (thunk_call (load (Obj [(''pageNo'', fst k), (''pageSize'', snd k)])))"

definition pg_key :: "'a pg_state_scheme \<Rightarrow> jv \<times> jv" where
  "pg_key st = (pg_pageNo st, pg_pageSize st)"

text \<open>The request, its answer (resolved or rejected) and a change of the page.\<close>

definition pg_ask :: "(jv \<Rightarrow> thunk) \<Rightarrow> 'a pg_state_scheme \<Rightarrow> 'a pg_state_scheme \<times> effect list" where
  "pg_ask load st = (st\<lparr>pg_loading := True\<rparr>, [pg_call load (pg_key st)])"

definition pg_settled :: "'a pg_state_scheme \<Rightarrow> 'a pg_state_scheme" where
  "pg_settled st = st\<lparr>pg_loading := False\<rparr>"

definition pg_turn :: "(jv \<Rightarrow> thunk) \<Rightarrow> jv \<Rightarrow> 'a pg_state_scheme \<Rightarrow> 'a pg_state_scheme \<times> effect list" where
  "pg_turn load n st = pg_ask load (st\<lparr>pg_pageNo := n\<rparr>)"

section \<open>Forms\<close>

fun check_fields :: "(string \<times> jv) list \<Rightarrow> jv obj \<Rightarrow> jv obj \<Rightarrow> jv list \<times> jv obj" where
  "check_fields [] vs errs = ([], errs)"
| "check_fields ((key, msg) # ks) vs errs =
     (let val = form_value vs key;
          (vals, errs) = check_fields ks vs (if truthy val then errs else AList.update key msg errs)
      in (val # vals, errs))"

definition all_filled :: "jv list \<Rightarrow> nat \<Rightarrow> bool" where
  "all_filled vals n \<longleftrightarrow> length (filter truthy vals) = n"

definition passwords_agree :: "jv \<Rightarrow> jv obj \<Rightarrow> jv list \<times> jv obj \<Rightarrow> jv list option \<times> jv obj" where
  "passwords_agree loc vs r =
     (if form_value vs ''password'' \<noteq> form_value vs ''rePassword''
      then (None, AList.update ''rePassword'' (tr loc ''rePasswordError2'') (snd r)) else (Some (fst r), snd r))"

definition nu_check :: "jv \<Rightarrow> jv obj \<Rightarrow> jv obj \<Rightarrow> jv list option \<times> jv obj" where
  "nu_check loc vs errs =
     (let r = check_fields [(''username'', tr loc ''usernameError''), (''password'', tr loc ''passwordError''),
            (''rePassword'', tr loc ''rePasswordError'')] vs errs
      in if \<not> all_filled (fst r) 3 then (None, snd r) else passwords_agree loc vs r)"

definition pr_check :: "jv \<Rightarrow> jv \<Rightarrow> jv obj \<Rightarrow> jv obj \<Rightarrow> jv list option \<times> jv obj" where
  "pr_check loc username vs errs =
     (let r = check_fields [(''password'', tr loc ''passwordError''), (''rePassword'', tr loc ''rePasswordError'')] vs errs
      in if \<not> all_filled (fst r) 2 then (None, snd r)
         else let (vals, errs) = passwords_agree loc vs r in (map_option ((#) username) vals, errs))"

definition nr_check :: "jv \<Rightarrow> jv obj \<Rightarrow> jv obj \<Rightarrow> jv list option \<times> jv obj" where
  "nr_check loc vs errs =
     (let r = check_fields [(''role'', tr loc ''roleError''), (''username'', tr loc ''usernameError'')] vs errs
      in (if all_filled (fst r) 2 then Some (fst r) else None, snd r))"

definition np_check :: "jv \<Rightarrow> jv obj \<Rightarrow> jv obj \<Rightarrow> jv list option \<times> jv obj" where
  "np_check loc vs errs =
     (let r = check_fields [(''role'', tr loc ''roleError''), (''resource'', tr loc ''resourceError''), (''action'', tr loc ''actionError'')] vs errs
      in (if all_filled (fst r) 3 then Some (fst r) else None, snd r))"

text \<open>The button of a dialog passes checked values to its page, which sends the call.\<close>

definition dialog_ok :: "(jv list \<Rightarrow> api_call) \<Rightarrow> jv list option \<Rightarrow> effect list" where
  "dialog_ok send vals = (case vals of None \<Rightarrow> [] | Some vs \<Rightarrow> [Axios (send vs)])"

definition arg :: "jv list \<Rightarrow> nat \<Rightarrow> jv" where
  "arg vs i = nth_or vs i Undefined"

text \<open>The suggestions of the two dialogs with a search: \<open>handleChange\<close> and its reply.\<close>

definition nr_handleChange :: "string \<Rightarrow> effect list" where
  "nr_handleChange v = (if length v > 0 then [Axios (searchUsers (Str v))] else [])"

definition np_handleChange :: "string \<Rightarrow> effect list" where
  "np_handleChange v = (if length v > 0 then [Axios (searchRoles (Str v))] else [])"

record sg_state =
  sg_dataSource :: jv

definition sg_init :: sg_state where
  "sg_init = \<lparr>sg_dataSource = Arr []\<rparr>"

definition nr_suggested :: "jv \<Rightarrow> sg_state \<Rightarrow> sg_state" where
  "nr_suggested val st = st\<lparr>sg_dataSource := val\<rparr>"

definition np_suggested :: "jv \<Rightarrow> sg_state \<Rightarrow> sg_state" where
  "np_suggested val st = st\<lparr>sg_dataSource := val\<rparr>"

definition np_mount :: "effect list" where
  "np_mount = [Axios (thunk_call (getNamespaces Undefined))]"

section \<open>Users\<close>

record um_state = pg_state +
  um_createUserVisible :: bool
  um_passwordResetUser :: jv

definition um_init :: um_state where
  "um_init = \<lparr>pg_loading = True, pg_pageNo = num 1, pg_pageSize = num 9, um_createUserVisible = False, um_passwordResetUser = Undefined\<rparr>"

definition um_getUsers :: "um_state \<Rightarrow> um_state \<times> effect list" where
  "um_getUsers st = pg_ask getUsers st"

definition um_settled :: "um_state \<Rightarrow> um_state" where
  "um_settled st = pg_settled st"

definition um_turn :: "jv \<Rightarrow> um_state \<Rightarrow> um_state \<times> effect list" where
  "um_turn n st = pg_turn getUsers n st"

definition um_openCreate :: "um_state \<Rightarrow> um_state" where
  "um_openCreate st = st\<lparr>um_createUserVisible := True\<rparr>"

definition colseCreateUser :: "um_state \<Rightarrow> um_state" where
  "colseCreateUser st = st\<lparr>um_createUserVisible := False\<rparr>"

definition um_resetFor :: "jv \<Rightarrow> um_state \<Rightarrow> um_state" where
  "um_resetFor username st = st\<lparr>um_passwordResetUser := username\<rparr>"

definition mask_password :: "string \<Rightarrow> string" where
  "mask_password v = map (\<lambda>c. if is_ws c then c else CHR ''*'') v"

definition um_delete :: "jv \<Rightarrow> effect list" where
  "um_delete loc = [Confirm (tr loc ''deleteUser'') (tr loc ''deleteUserTip'')]"

definition um_delete_ok :: "jv \<Rightarrow> effect list" where
  "um_delete_ok username = [Axios (deleteUser username)]"

definition um_create :: "jv \<Rightarrow> jv obj \<Rightarrow> effect list" where
  "um_create loc vs = dialog_ok (\<lambda>u. createUser (arg u 0) (arg u 1)) (fst (nu_check loc vs []))"

definition um_reset :: "jv \<Rightarrow> jv obj \<Rightarrow> um_state \<Rightarrow> effect list" where
  "um_reset loc vs st = dialog_ok (\<lambda>u. passwordReset (arg u 0) (arg u 1)) (fst (pr_check loc (um_passwordResetUser st) vs []))"

text \<open>The replies: the list is asked for again, then the dialog closes.\<close>

definition um_created :: "um_state \<Rightarrow> um_state \<times> effect list" where
  "um_created st = (let (st, es) = um_turn (num 1) st in (colseCreateUser st, es))"

definition um_deleted :: "um_state \<Rightarrow> um_state \<times> effect list" where
  "um_deleted st = um_turn (num 1) st"

definition um_was_reset :: "um_state \<Rightarrow> um_state \<times> effect list" where
  "um_was_reset st = (let (st, es) = um_getUsers st in (um_resetFor Undefined st, es))"

section \<open>Roles\<close>

record rm_state = pg_state +
  rm_createRoleVisible :: bool

definition rm_init :: rm_state where
  "rm_init = \<lparr>pg_loading = True, pg_pageNo = num 1, pg_pageSize = num 9, rm_createRoleVisible = False\<rparr>"

definition rm_getRoles :: "rm_state \<Rightarrow> rm_state \<times> effect list" where
  "rm_getRoles st = pg_ask getRoles st"

definition rm_settled :: "rm_state \<Rightarrow> rm_state" where
  "rm_settled st = pg_settled st"

definition rm_turn :: "jv \<Rightarrow> rm_state \<Rightarrow> rm_state \<times> effect list" where
  "rm_turn n st = pg_turn getRoles n st"

definition rm_openCreate :: "rm_state \<Rightarrow> rm_state" where
  "rm_openCreate st = st\<lparr>rm_createRoleVisible := True\<rparr>"

definition colseCreateRole :: "rm_state \<Rightarrow> rm_state" where
  "colseCreateRole st = st\<lparr>rm_createRoleVisible := False\<rparr>"

text \<open>A row of the administrator role has no button.\<close>

definition rm_delete :: "jv \<Rightarrow> jv \<Rightarrow> effect list" where
  "rm_delete loc rec0 = (if field rec0 ''role'' = Str ''ROLE_ADMIN'' then [] else [Confirm (tr loc ''deleteRole'') (tr loc ''deleteRoleTip'')])"

definition rm_delete_ok :: "jv \<Rightarrow> effect list" where
  "rm_delete_ok rec0 = [Axios (deleteRole rec0)]"

definition rm_deleted :: "rm_state \<Rightarrow> rm_state \<times> effect list" where
  "rm_deleted st = rm_turn (num 1) st"

definition rm_create :: "jv \<Rightarrow> jv obj \<Rightarrow> effect list" where
  "rm_create loc vs = dialog_ok (\<lambda>r. createRole (arg r 0) (arg r 1)) (fst (nr_check loc vs []))"

definition rm_created :: "rm_state \<Rightarrow> rm_state \<times> effect list" where
  "rm_created st = (let (st, es) = rm_getRoles st in (colseCreateRole st, es))"

section \<open>Permissions\<close>

record pm_state = pg_state +
  pm_createPermissionVisible :: bool

definition pm_init :: pm_state where
  "pm_init = \<lparr>pg_loading = True, pg_pageNo = num 1, pg_pageSize = num 9, pm_createPermissionVisible = False\<rparr>"

definition pm_getPermissions :: "pm_state \<Rightarrow> pm_state \<times> effect list" where
  "pm_getPermissions st = pg_ask getPermissions st"

definition pm_settled :: "pm_state \<Rightarrow> pm_state" where
  "pm_settled st = pg_settled st"

definition pm_turn :: "jv \<Rightarrow> pm_state \<Rightarrow> pm_state \<times> effect list" where
  "pm_turn n st = pg_turn getPermissions n st"

definition pm_mount :: "pm_state \<Rightarrow> pm_state \<times> effect list" where
  "pm_mount st = (let (st, es) = pm_getPermissions st in (st, es @ [Axios (thunk_call (getNamespaces Undefined))]))"

definition pm_openCreate :: "pm_state \<Rightarrow> pm_state" where
  "pm_openCreate st = st\<lparr>pm_createPermissionVisible := True\<rparr>"

definition colseCreatePermission :: "pm_state \<Rightarrow> pm_state" where
  "colseCreatePermission st = st\<lparr>pm_createPermissionVisible := False\<rparr>"

definition getActionText :: "jv \<Rightarrow> string \<Rightarrow> jv" where
  "getActionText loc action =
     (if action = ''r'' then Str (to_str (tr loc ''readOnly'') @ '' (r)'')
      else if action = ''w'' then Str (to_str (tr loc ''writeOnly'') @ '' (w)'')
      else if action = ''rw'' then Str (to_str (tr loc ''readWrite'') @ '' (rw)'') else Undefined)"

text \<open>The value of an option of the dialog, and the text of a row: the namespace its resource names.\<close>

definition resource_option :: "jv \<Rightarrow> string" where
  "resource_option ns = to_str (field ns ''namespace'') @ '':*:*''"

definition resource_text :: "jv list \<Rightarrow> string \<Rightarrow> string" where
  "resource_text namespaces v =
     (let item = (case filter (\<lambda>ns. Str (hd (split_on (CHR '':'') v)) = field ns ''namespace'') namespaces of [] \<Rightarrow> Obj [] | n # _ \<Rightarrow> n);
          namespaceShowName = default_to (Str []) (field item ''namespaceShowName'');
          namespace = default_to (Str []) (field item ''namespace'')
      in to_str namespaceShowName @ (if truthy namespace then '' ('' @ to_str namespace @ '')'' else []))"

definition pm_delete :: "jv \<Rightarrow> effect list" where
  "pm_delete loc = [Confirm (tr loc ''deletePermission'') (tr loc ''deletePermissionTip'')]"

definition pm_delete_ok :: "jv \<Rightarrow> effect list" where
  "pm_delete_ok rec0 = [Axios (deletePermission rec0)]"

definition pm_deleted :: "pm_state \<Rightarrow> pm_state \<times> effect list" where
  "pm_deleted st = pm_turn (num 1) st"

definition pm_create :: "jv \<Rightarrow> jv obj \<Rightarrow> effect list" where
  "pm_create loc vs = dialog_ok (\<lambda>p. createPermission (arg p 0) (arg p 1) (arg p 2)) (fst (np_check loc vs []))"

definition pm_created :: "pm_state \<Rightarrow> pm_state \<times> effect list" where
  "pm_created st = (let (st, es) = pm_turn (num 1) st in (colseCreatePermission st, es))"

section \<open>What the lists promise\<close>

datatype page_event = Refresh | Settle | Turn jv

fun page_run :: "('s \<Rightarrow> 's \<times> effect list) \<Rightarrow> ('s \<Rightarrow> 's) \<Rightarrow> (jv \<Rightarrow> 's \<Rightarrow> 's \<times> effect list) \<Rightarrow> page_event list \<Rightarrow> 's \<Rightarrow> 's \<times> effect list" where
  "page_run ask settle turn [] s = (s, [])"
| "page_run ask settle turn (ev # evs) s =
     (let (s1, es1) = (case ev of Refresh \<Rightarrow> ask s | Settle \<Rightarrow> (settle s, []) | Turn n \<Rightarrow> turn n s);
          (s2, es2) = page_run ask settle turn evs s1
      in (s2, es1 @ es2))"

locale list_page =
  fixes ask :: "'s \<Rightarrow> 's \<times> effect list" and settle :: "'s \<Rightarrow> 's" and turn :: "jv \<Rightarrow> 's \<Rightarrow> 's \<times> effect list"
    and key :: "'s \<Rightarrow> jv \<times> jv" and busy :: "'s \<Rightarrow> bool" and call :: "jv \<times> jv \<Rightarrow> effect"
  assumes ask: "ask s = (s', es) \<Longrightarrow> busy s' \<and> key s' = key s \<and> es = [call (key s)]"
    and settle: "\<not> busy (settle s)" "key (settle s) = key s"
    and turn: "turn n s = (s', es) \<Longrightarrow> busy s' \<and> key s' = (n, snd (key s)) \<and> es = [call (key s')]"
begin

text \<open>The last request is for the page shown, and the indicator is on unless an answer came last.\<close>

lemma last_request:
  "page_run ask settle turn evs s = (s', es) \<Longrightarrow>
     (es = [] \<longrightarrow> key s' = key s) \<and> (es \<noteq> [] \<longrightarrow> last es = call (key s')) \<and> snd (key s') = snd (key s)"
proof (induction evs arbitrary: s es)
  case Nil
  then show ?case by simp
next
  case (Cons ev evs)
  obtain s1 es1 where 1: "(case ev of Refresh \<Rightarrow> ask s | Settle \<Rightarrow> (settle s, []) | Turn n \<Rightarrow> turn n s) = (s1, es1)" by fastforce
  obtain es2 where 2: "page_run ask settle turn evs s1 = (s', es2)" "es = es1 @ es2"
    using Cons.prems 1 by (auto split: prod.splits)
  have "(es1 = [] \<longrightarrow> key s1 = key s) \<and> (es1 \<noteq> [] \<longrightarrow> es1 = [call (key s1)]) \<and> snd (key s1) = snd (key s)"
    using 1 ask settle turn by (cases ev) (auto, (fastforce dest: ask turn)+)
  with Cons.IH[OF 2(1)] 2(2) show ?case by (cases "es2 = []") auto
qed

lemma busy_after:
  "page_run ask settle turn (evs @ [ev]) s = (s', es) \<Longrightarrow> busy s' \<longleftrightarrow> ev \<noteq> Settle"
proof (induction evs arbitrary: s es)
  case Nil
  then show ?case using ask settle(1) turn by (cases ev) (auto split: prod.splits)
next
  case (Cons e evs)
  then show ?case by (auto split: prod.splits)
qed

end

lemmas pg_defs = pg_ask_def pg_settled_def pg_turn_def pg_key_def

interpretation user_list: list_page um_getUsers um_settled um_turn pg_key pg_loading "pg_call getUsers"
  by unfold_locales (auto simp: um_getUsers_def um_settled_def um_turn_def pg_defs)

interpretation role_list: list_page rm_getRoles rm_settled rm_turn pg_key pg_loading "pg_call getRoles"
  by unfold_locales (auto simp: rm_getRoles_def rm_settled_def rm_turn_def pg_defs)

interpretation permission_list: list_page pm_getPermissions pm_settled pm_turn pg_key pg_loading "pg_call getPermissions"
  by unfold_locales (auto simp: pm_getPermissions_def pm_settled_def pm_turn_def pg_defs)

section \<open>Lemmas\<close>

lemma check_fields_vals: "fst (check_fields ks vs errs) = map (\<lambda>k. form_value vs (fst k)) ks"
  by (induction ks vs errs rule: check_fields.induct) (auto simp: Let_def split: prod.splits)

lemma check_fields_keeps:
  "k \<notin> fst ` set ks \<Longrightarrow> map_of (snd (check_fields ks vs errs)) k = map_of errs k"
  by (induction ks vs errs rule: check_fields.induct) (auto simp: Let_def update_conv split: prod.splits)

lemma check_fields_errors:
  "distinct (map fst ks) \<Longrightarrow> (k, m) \<in> set ks \<Longrightarrow>
     map_of (snd (check_fields ks vs errs)) k = (if truthy (form_value vs k) then map_of errs k else Some m)"
proof (induction ks vs errs rule: check_fields.induct)
  case (1 vs errs)
  then show ?case by simp
next
  case (2 key msg ks vs errs)
  let ?errs = "if truthy (form_value vs key) then errs else AList.update key msg errs"
  have s: "snd (check_fields ((key, msg) # ks) vs errs) = snd (check_fields ks vs ?errs)"
    by (simp add: Let_def split: prod.splits)
  show ?case
  proof (cases "(k, m) = (key, msg)")
    case True
    with 2(2) check_fields_keeps[of k ks vs ?errs] s show ?thesis by (auto simp: update_conv)
  next
    case False
    with 2(2,3) have "(k, m) \<in> set ks" "k \<noteq> key" by (auto simp: image_iff)
    with "2.IH"[OF refl] 2(2) s show ?thesis by (simp add: update_conv)
  qed
qed

lemma filter_full: "length (filter P xs) = length xs \<longleftrightarrow> list_all P xs"
proof (induction xs)
  case (Cons x xs)
  have "length (filter P xs) \<noteq> Suc (length xs)" using length_filter_le[of P xs] by linarith
  with Cons show ?case by simp
qed simp

lemma all_filled_iff: "length vals = n \<Longrightarrow> all_filled vals n \<longleftrightarrow> list_all truthy vals"
  using filter_full[of truthy vals] by (simp add: all_filled_def)

lemma filter_key_single:
  assumes "x \<in> set xs" "distinct (map f xs)"
  shows "filter (\<lambda>y. f x = f y) xs = [x]"
  using assms
proof (induction xs)
  case (Cons y ys)
  show ?case
  proof (cases "x = y")
    case True
    then have "filter (\<lambda>z. f x = f z) ys = []" using Cons.prems by (auto simp: filter_empty_conv)
    with True show ?thesis by simp
  next
    case False
    then have x: "x \<in> set ys" using Cons.prems(1) by simp
    then have "f x \<in> f ` set ys" by simp
    then have "f x \<noteq> f y" using Cons.prems(2) by (metis distinct.simps(2) list.set_map list.simps(9))
    with x Cons show ?thesis by simp
  qed
qed simp

section \<open>Properties\<close>

text \<open>
  C18: the three lists show the page they asked for last. Whatever the sequence of refreshes, page
  changes and answers, the last request of the users, the roles and the permissions is for the
  current page and size, and the indicator is on unless the last event was an answer.
\<close>

theorem lists_ask_for_shown_page:
  "(page_run um_getUsers um_settled um_turn (evs @ [ev]) su = (su', eu) \<longrightarrow>
      (eu \<noteq> [] \<longrightarrow> last eu = pg_call getUsers (pg_pageNo su', pg_pageSize su')) \<and> (pg_loading su' \<longleftrightarrow> ev \<noteq> Settle)) \<and>
   (page_run rm_getRoles rm_settled rm_turn (evs @ [ev]) sr = (sr', er) \<longrightarrow>
      (er \<noteq> [] \<longrightarrow> last er = pg_call getRoles (pg_pageNo sr', pg_pageSize sr')) \<and> (pg_loading sr' \<longleftrightarrow> ev \<noteq> Settle)) \<and>
   (page_run pm_getPermissions pm_settled pm_turn (evs @ [ev]) sp = (sp', ep) \<longrightarrow>
      (ep \<noteq> [] \<longrightarrow> last ep = pg_call getPermissions (pg_pageNo sp', pg_pageSize sp')) \<and> (pg_loading sp' \<longleftrightarrow> ev \<noteq> Settle))"
  using user_list.last_request[of "evs @ [ev]" su su' eu] user_list.busy_after[of evs ev su su' eu]
    role_list.last_request[of "evs @ [ev]" sr sr' er] role_list.busy_after[of evs ev sr sr' er]
    permission_list.last_request[of "evs @ [ev]" sp sp' ep] permission_list.busy_after[of evs ev sp sp' ep]
  by (simp add: pg_key_def)

theorem lists_ask_for_shown_page_witness:
  "\<exists>s es. page_run um_getUsers um_settled um_turn ([Refresh, Turn (num 2)] @ [Settle]) um_init = (s, es) \<and>
     last es = pg_call getUsers (num 2, num 9) \<and> \<not> pg_loading s"
proof -
  obtain s es where r: "page_run um_getUsers um_settled um_turn ([Refresh, Turn (num 2)] @ [Settle]) um_init = (s, es)"
    and n: "es \<noteq> []" "pg_pageNo s = num 2" "pg_pageSize s = num 9"
    by (simp add: um_getUsers_def um_settled_def um_turn_def pg_defs um_init_def)
  from lists_ask_for_shown_page[of "[Refresh, Turn (num 2)]" Settle um_init s es] r n show ?thesis by auto
qed

text \<open>
  a user is created with what was typed. The dialog sends its call exactly when the name and both
  passwords are filled and the passwords agree, with that name and password; every empty field is
  marked with its own message.
\<close>

theorem user_form_checked:
  "(um_create loc vs = [Axios (createUser (form_value vs ''username'') (form_value vs ''password''))] \<longleftrightarrow>
      truthy (form_value vs ''username'') \<and> truthy (form_value vs ''password'') \<and> truthy (form_value vs ''rePassword'') \<and>
      form_value vs ''password'' = form_value vs ''rePassword'') \<and>
   (um_create loc vs = [] \<longleftrightarrow> um_create loc vs \<noteq> [Axios (createUser (form_value vs ''username'') (form_value vs ''password''))]) \<and>
   (\<not> truthy (form_value vs ''username'') \<longrightarrow> form_value (snd (nu_check loc vs [])) ''username'' = tr loc ''usernameError'') \<and>
   (\<not> truthy (form_value vs ''password'') \<longrightarrow> form_value (snd (nu_check loc vs [])) ''password'' = tr loc ''passwordError'')"
  by (auto simp: um_create_def nu_check_def passwords_agree_def dialog_ok_def check_fields_vals all_filled_iff arg_def nth_or_def Let_def
      form_value_def[of "snd _"] check_fields_errors)

theorem user_form_checked_witness:
  "um_create (Obj []) [(''username'', Str ''u''), (''password'', Str ''p''), (''rePassword'', Str ''q'')] = [] \<and>
   um_create (Obj []) [(''username'', Str ''u''), (''password'', Str ''p''), (''rePassword'', Str ''p'')] = [Axios (createUser (Str ''u'') (Str ''p''))]"
  using user_form_checked[of "Obj []" "[(''username'', Str ''u''), (''password'', Str ''p''), (''rePassword'', Str ''q'')]"]
    user_form_checked[of "Obj []" "[(''username'', Str ''u''), (''password'', Str ''p''), (''rePassword'', Str ''p'')]"] by simp

text \<open>
  C24: a permission is shown for the namespace it was granted on. The text of a row whose resource is
  the option of a namespace of the list is the name of that namespace with its identifier, when the
  identifiers differ and hold no colon.
\<close>

theorem permission_shows_namespace:
  assumes "ns \<in> set namespaces" and "field ns ''namespace'' = Str i" and "field ns ''namespaceShowName'' = Str name" and "CHR '':'' \<notin> set i"
    and "distinct (map (\<lambda>n. field n ''namespace'') namespaces)"
  shows "resource_text namespaces (resource_option ns) = name @ (if i = [] then [] else '' ('' @ i @ '')'')"
proof -
  have h: "hd (split_on (CHR '':'') (resource_option ns)) = i"
    using assms(2,4) by (simp add: resource_option_def split_on_append_sep)
  have "filter (\<lambda>n. Str i = field n ''namespace'') namespaces = [ns]"
    using filter_key_single[OF assms(1,5)] assms(2) by simp
  with h assms(2,3) show ?thesis by (simp add: resource_text_def default_to_def Let_def)
qed

theorem permission_shows_namespace_witness:
  "resource_text [Obj [(''namespace'', Str []), (''namespaceShowName'', Str ''public'')], Obj [(''namespace'', Str ''dev''), (''namespaceShowName'', Str ''Dev'')]]
     (resource_option (Obj [(''namespace'', Str ''dev''), (''namespaceShowName'', Str ''Dev'')])) = ''Dev (dev)''"
  using permission_shows_namespace[of "Obj [(''namespace'', Str ''dev''), (''namespaceShowName'', Str ''Dev'')]"
    "[Obj [(''namespace'', Str []), (''namespaceShowName'', Str ''public'')], Obj [(''namespace'', Str ''dev''), (''namespaceShowName'', Str ''Dev'')]]" "''dev''" "''Dev''"]
  by (simp add: field_def)

text \<open>
  After a user, a role or a permission was removed, and after a user or a permission was created, the
  first page is asked for; after a role was bound the current page is.
\<close>

lemma changes_reload:
  "snd (um_created su) = [pg_call getUsers (num 1, pg_pageSize su)]" "snd (um_deleted su) = [pg_call getUsers (num 1, pg_pageSize su)]"
  "snd (um_was_reset su) = [pg_call getUsers (pg_key su)]" "snd (rm_deleted sr) = [pg_call getRoles (num 1, pg_pageSize sr)]"
  "snd (rm_created sr) = [pg_call getRoles (pg_key sr)]" "snd (pm_created sp) = [pg_call getPermissions (num 1, pg_pageSize sp)]"
  "snd (pm_deleted sp) = [pg_call getPermissions (num 1, pg_pageSize sp)]"
  by (simp_all add: um_created_def um_deleted_def um_was_reset_def rm_deleted_def rm_created_def pm_created_def pm_deleted_def
      um_turn_def um_getUsers_def rm_turn_def rm_getRoles_def pm_turn_def pg_defs)

end
