(* ===== verification/Region_Group.thy ===== *)
theory Region_Group
  imports Namespaces
begin

text \<open>
  The bar above most pages, \<^verbatim>\<open>components/RegionGroup/RegionGroup.js\<close>: it hosts the namespace selector
  and, in the deployments with several regions, the list of regions. The instance talks to the
  frame around the console by messages; \<open>frame_win\<close> holds the two globals it shares with it.
\<close>

section \<open>State\<close>

record frame_win =
  win_regionList :: jv
  win_viewframe :: jv

record rg_props =
  p_url :: jv
  p_left :: jv
  p_right :: jv
  p_namespaceCallBack :: bool

record rg_state =
  rg_instanceData :: "jv list"
  rg_shownRegionId :: jv
  rg_url :: jv
  rg_left :: jv
  rg_right :: jv
  rg_regionWidth :: int
  rg_hideRegionList :: bool
  rg_currRegionId :: jv

text \<open>
  What the bar asks for: a message to the frame, a refresh of the namespace selector, a request, a
  task after a delay, and an address assigned to the location.
\<close>

datatype region_task = Repeat_Active | Fit_Width

datatype region_effect =
    Post_Message string jv
  | Refresh_Selector
  | Ask_Regions config
  | Later nat region_task
  | Cancel_Timer
  | Unbind_Resize
  | Hide_Bar
  | Navigate string

type_synonym rg_result = "js_error + browser \<times> frame_win \<times> rg_state \<times> region_effect list"

definition rg_init :: "rg_props \<Rightarrow> frame_win \<Rightarrow> frame_win \<times> rg_state" where
  "rg_init props w =
     (if truthy (win_viewframe w) then w else w\<lparr>win_viewframe := Obj []\<rparr>,
      \<lparr>rg_instanceData = [], rg_shownRegionId = Str [], rg_url = js_or (p_url props) (Str ''/diamond-ops/env/domain''),
       rg_left = p_left props, rg_right = p_right props, rg_regionWidth = 700, rg_hideRegionList = False,
       rg_currRegionId = Str []\<rparr>)"

text \<open>The selector exists when the page passes \<open>namespaceCallBack\<close>.\<close>

definition refresh_selector :: "rg_props \<Rightarrow> region_effect list" where
  "refresh_selector props = (if p_namespaceCallBack props then [Refresh_Selector] else [])"

definition rg_mount :: "rg_props \<Rightarrow> region_effect list" where
  "rg_mount props = refresh_selector props"

definition rg_unmount :: "region_effect list" where
  "rg_unmount = [Unbind_Resize, Post_Message ''CONSOLE_HIDE_REGION'' Undefined, Hide_Bar]"

definition rg_receive :: "rg_props \<Rightarrow> rg_state \<Rightarrow> rg_state" where
  "rg_receive next st = st\<lparr>rg_url := p_url next, rg_left := p_left next, rg_right := p_right next\<rparr>"

section \<open>Layout of the bar\<close>

text \<open>
  The widths of the three elements in pixels, none for an element that is not there: the
  difference is then not a number, and the comparison fails.
\<close>

definition setRegionWidth :: "int option \<Rightarrow> int option \<Rightarrow> int option \<Rightarrow> rg_state \<Rightarrow> rg_state" where
  "setRegionWidth mainWidth titleWidth extraWidth st =
     st\<lparr>rg_regionWidth :=
       (case (mainWidth, titleWidth, extraWidth) of
          (Some m, Some t, Some x) \<Rightarrow> (let w = m - x - t - 50 in if w > 100 then w else 100)
        | _ \<Rightarrow> 100)\<rparr>"

definition handleResize :: "region_effect list" where
  "handleResize = [Cancel_Timer, Later 100 Fit_Width]"

text \<open>\<open>location.search\<close>: the query before the number sign.\<close>

definition search_of :: "string \<Rightarrow> string" where
  "search_of url = (let q = dropWhile (\<lambda>c. c \<noteq> CHR ''?'') (base_url url) in if length q \<le> 1 then [] else q)"

definition protocol_of :: "string \<Rightarrow> string" where
  "protocol_of url = takeWhile (\<lambda>c. c \<noteq> CHR '':'') url @ '':''"

definition handleRegionListStatus :: "bool \<Rightarrow> browser \<Rightarrow> int option \<times> int option \<times> int option \<Rightarrow> rg_state \<Rightarrow> rg_state" where
  "handleRegionListStatus isPrivateClound b widths st =
     setRegionWidth (fst widths) (fst (snd widths)) (snd (snd widths))
       (st\<lparr>rg_hideRegionList := (if isPrivateClound then False else \<not> str_includes (search_of (href b)) ''hideTopbar='')\<rparr>)"

section \<open>The list of regions\<close>

definition frame_put :: "string \<Rightarrow> jv \<Rightarrow> frame_win \<Rightarrow> frame_win" where
  "frame_put k v w = w\<lparr>win_viewframe := (case win_viewframe w of Obj kvs \<Rightarrow> Obj (obj_put k v kvs) | x \<Rightarrow> x)\<rparr>"

definition setRegionBarRegionList :: "jv list \<Rightarrow> jv \<Rightarrow> frame_win \<Rightarrow> frame_win \<times> region_effect list" where
  "setRegionBarRegionList regionList regionId w =
     (if truthy (win_viewframe w) then
        (frame_put ''regionList'' (Arr regionList) w,
         [Post_Message ''TOGGLE_REGIONBAR_STATUS'' (Obj [(''regionList'', Arr regionList), (''defaultRegionId'', regionId)])])
      else (w, []))"

definition changeRegionBarRegionId :: "jv \<Rightarrow> frame_win \<Rightarrow> frame_win \<times> region_effect list" where
  "changeRegionBarRegionId regionId w =
     (if truthy (win_viewframe w) then frame_put ''defaultRegionId'' regionId w else w,
      [Post_Message ''SET_ACTIVE_REGION_ID'' (Obj [(''defaultRegionId'', regionId)])])"

text \<open>\<open>envGroups[i].envs || []\<close>, the loop over one group and the loop over the groups.\<close>

definition group_envs :: "jv \<Rightarrow> js_error + jv list" where
  "group_envs g =
     (if g = Undefined \<or> g = Null then Inl TypeError
      else case js_or (field g ''envs'') (Arr []) of Arr xs \<Rightarrow> Inr xs | _ \<Rightarrow> Inl OutsideModel)"

fun env_loop :: "jv list \<Rightarrow> jv \<Rightarrow> js_error + jv" where
  "env_loop [] envcontent = Inr envcontent"
| "env_loop (e # es) envcontent =
     (if e = Undefined \<or> e = Null then Inl TypeError
      else env_loop es (if truthy (field e ''active'') then field e ''serverId'' else envcontent))"

fun group_loop :: "jv list \<Rightarrow> jv \<times> jv list \<Rightarrow> js_error + jv \<times> jv list" where
  "group_loop [] s = Inr s"
| "group_loop (g # gs) s =
     and_then (group_envs g) (\<lambda>obj. and_then (env_loop obj (fst s)) (\<lambda>c. group_loop gs (c, obj)))"

definition env_groups :: "jv \<Rightarrow> js_error + jv list" where
  "env_groups data =
     (let data = (if data = Undefined then Obj [] else data) in
      if data = Null then Inl TypeError
      else case field data ''envGroups'' of
          Arr gs \<Rightarrow> Inr gs | Undefined \<Rightarrow> Inl TypeError | Null \<Rightarrow> Inl TypeError | _ \<Rightarrow> Inl OutsideModel)"

definition first_server :: "jv list \<Rightarrow> jv" where
  "first_server instanceData =
     (case instanceData of [] \<Rightarrow> Undefined | e # _ \<Rightarrow> if truthy e then field e ''serverId'' else e)"

definition handleRegionList :: "rg_props \<Rightarrow> jv \<Rightarrow> browser \<Rightarrow> frame_win \<Rightarrow> rg_state \<Rightarrow> rg_result" where
  "handleRegionList props data b w st =
     and_then (env_groups data) (\<lambda>gs.
     and_then (group_loop gs (Str [], [])) (\<lambda>(envcontent, instanceData).
       (let curr = js_or envcontent (first_server instanceData) in
        and_then (setParams ''serverId'' curr b) (\<lambda>b.
          (let (w, m1) = setRegionBarRegionList instanceData curr w;
               (w, m2) = changeRegionBarRegionId curr w
           in Inr (b, w, st\<lparr>rg_currRegionId := curr, rg_shownRegionId := envcontent, rg_instanceData := instanceData\<rparr>,
                   m1 @ m2 @ [Later 1000 Repeat_Active] @ refresh_selector props))))))"

text \<open>The task one second later repeats the message for the region current then.\<close>

definition repeat_active :: "frame_win \<Rightarrow> rg_state \<Rightarrow> frame_win \<times> region_effect list" where
  "repeat_active w st = changeRegionBarRegionId (rg_currRegionId st) w"

definition getRegionList :: "rg_props \<Rightarrow> browser \<Rightarrow> frame_win \<Rightarrow> rg_state \<Rightarrow> rg_result" where
  "getRegionList props b w st =
     (if truthy (win_regionList w) then handleRegionList props (win_regionList w) b w st
      else case rg_url st of
          Str u \<Rightarrow> Inr (b, w, st, refresh_selector props @ [Ask_Regions ((req u)\<lparr>c_data := Obj []\<rparr>)])
        | _ \<Rightarrow> Inl OutsideModel)"

definition regions_replied :: "rg_props \<Rightarrow> jv \<Rightarrow> browser \<Rightarrow> frame_win \<Rightarrow> rg_state \<Rightarrow> rg_result" where
  "regions_replied props res b w st =
     (if truthy res \<and> truthy (field res ''data'')
      then handleRegionList props (field res ''data'') b (w\<lparr>win_regionList := field res ''data''\<rparr>) st
      else Inr (b, w, st, []))"

section \<open>Choosing a region\<close>

definition region_url :: "jv \<Rightarrow> jv \<Rightarrow> browser \<Rightarrow> string" where
  "region_url obj serverId b =
     (let lastHash = nth_or (split_on (CHR ''?'') (hash b)) 0 [];
          url = to_str (field obj ''domain'') @ search_of (href b) @ lastHash;
          url = (if \<not> str_includes lastHash ''serverId'' then
                   (if \<not> str_includes lastHash ''?'' then url @ ''?serverId='' @ to_str serverId
                    else url @ ''&serverId='' @ to_str serverId)
                 else url)
      in protocol_of (href b) @ ''//'' @ url)"

fun region_loop :: "bool \<Rightarrow> jv \<Rightarrow> jv list \<Rightarrow> browser \<Rightarrow> js_error + browser \<times> region_effect list" where
  "region_loop inEdas serverId [] b = Inr (b, [])"
| "region_loop inEdas serverId (obj # objs) b =
     (if obj = Undefined \<or> obj = Null then Inl TypeError
      else if field obj ''serverId'' \<noteq> serverId then region_loop inEdas serverId objs b
      else if inEdas then
        and_then (setParams ''serverId'' (field obj ''serverId'') b) (\<lambda>b.
        and_then (region_loop inEdas serverId objs b) (\<lambda>(b', es). Inr (b', Navigate (href b) # es)))
      else and_then (region_loop inEdas serverId objs b) (\<lambda>(b', es). Inr (b', Navigate (region_url obj serverId b) # es)))"

definition changeTableData :: "bool \<Rightarrow> jv \<Rightarrow> browser \<Rightarrow> rg_state \<Rightarrow> js_error + browser \<times> rg_state \<times> region_effect list" where
  "changeTableData inEdas serverId b st =
     and_then (setParams ''serverId'' serverId b) (\<lambda>b.
       if rg_shownRegionId st = serverId then Inr (b, st, [])
       else and_then (region_loop inEdas serverId (rg_instanceData st) b) (\<lambda>(b, es).
         Inr (b, st\<lparr>rg_currRegionId := serverId\<rparr>, es)))"

text \<open>Messages from the frame.\<close>

definition handleAliyunNav :: "bool \<Rightarrow> int option \<times> int option \<times> int option \<Rightarrow> jv \<Rightarrow> browser \<Rightarrow> frame_win \<Rightarrow> rg_state \<Rightarrow> rg_result" where
  "handleAliyunNav inEdas widths event b w st =
     (let event = (if event = Undefined then Obj [] else event);
          data = js_or (if truthy event then field event ''data'' else event) (Obj []) in
      if field data ''type'' = Str ''TOPBAR_SIDEBAR_DID_MOUNT'' then
        (let st = handleRegionListStatus inEdas b widths st;
             (w, m) = changeRegionBarRegionId (rg_currRegionId st) w
         in Inr (b, w, st, m @ [Later 1000 Repeat_Active]))
      else if field data ''type'' = Str ''CONSOLE_REGION_CHANGE'' then
        (if field data ''payload'' = Undefined \<or> field data ''payload'' = Null then Inl TypeError
         else and_then (changeTableData inEdas (field (field data ''payload'') ''toRegionId'') b st) (\<lambda>(b, st, es).
           Inr (b, w, st, es)))
      else Inr (b, w, st, []))"

text \<open>The buttons: the regions in order, each with the mark of the region shown as current.\<close>

definition region_buttons :: "rg_state \<Rightarrow> (jv \<times> bool) list" where
  "region_buttons st = (if rg_hideRegionList st then []
     else map (\<lambda>val. (field val ''serverId'', rg_shownRegionId st = field val ''serverId'')) (rg_instanceData st))"

section \<open>Properties\<close>

subsection \<open>The list of regions\<close>

text \<open>
  The region a list of groups names: the last active one of all groups, and without one the first
  of the last group.
\<close>

definition last_active :: "jv list \<Rightarrow> jv \<Rightarrow> jv" where
  "last_active es c = (let as = filter (\<lambda>e. truthy (field e ''active'')) es in if as = [] then c else field (last as) ''serverId'')"

definition active_server :: "jv list list \<Rightarrow> jv" where
  "active_server groups = last_active (concat groups) (Str [])"

definition last_group :: "jv list list \<Rightarrow> jv list" where
  "last_group groups = (if groups = [] then [] else last groups)"

definition chosen_server :: "jv list list \<Rightarrow> jv" where
  "chosen_server groups = js_or (active_server groups) (first_server (last_group groups))"

lemma last_active_append: "last_active (xs @ ys) c = last_active ys (last_active xs c)"
  by (simp add: last_active_def Let_def)

lemma env_loop_ok: "list_all is_obj es \<Longrightarrow> env_loop es c = Inr (last_active es c)"
  by (induction es arbitrary: c) (auto simp: last_active_def Let_def)

lemma group_loop_ok:
  assumes "map group_envs gs = map Inr groups" "\<forall>es \<in> set groups. list_all is_obj es"
  shows "group_loop gs (c, d) = Inr (last_active (concat groups) c, if groups = [] then d else last groups)"
  using assms
proof (induction gs arbitrary: groups c d)
  case Nil
  then show ?case by (simp add: last_active_def)
next
  case (Cons g gs)
  from Cons.prems(1) obtain es groups' where g: "groups = es # groups'" "group_envs g = Inr es" "map group_envs gs = map Inr groups'"
    by (cases groups) auto
  with Cons.prems(2) show ?case by (simp add: env_loop_ok Cons.IH[OF g(3)] last_active_append)
qed

text \<open>
  when the list of regions arrives, the current region is the last active one of all groups or,
  if none is active, the first of the last group; the address, the frame and both messages to it
  name that region, and the buttons show the last group.
\<close>

theorem region_list_consistent:
  assumes "hash_shows path b kvs" and "env_groups data = Inr gs" and "map group_envs gs = map Inr groups"
    and "\<forall>es \<in> set groups. list_all is_obj es" and "win_viewframe w = Obj vf"
  shows "\<exists>b' w' st' es vf'. handleRegionList props data b w st = Inr (b', w', st', es) \<and>
    rg_currRegionId st' = chosen_server groups \<and> rg_instanceData st' = last_group groups \<and>
    getParams b' ''serverId'' = Inr (Some (pval (chosen_server groups))) \<and>
    win_viewframe w' = Obj vf' \<and> map_of vf' ''defaultRegionId'' = Some (chosen_server groups) \<and>
    map_of vf' ''regionList'' = Some (Arr (last_group groups)) \<and>
    take 2 es = [Post_Message ''TOGGLE_REGIONBAR_STATUS'' (Obj [(''regionList'', Arr (last_group groups)), (''defaultRegionId'', chosen_server groups)]),
      Post_Message ''SET_ACTIVE_REGION_ID'' (Obj [(''defaultRegionId'', chosen_server groups)])] \<and>
    repeat_active w' st' = (w', [Post_Message ''SET_ACTIVE_REGION_ID'' (Obj [(''defaultRegionId'', chosen_server groups)])])"
proof -
  have c: "''serverId'' \<in> set console_params" by (simp add: console_params_def)
  obtain h where h: "setParams ''serverId'' (chosen_server groups) b = Inr (b\<lparr>href := h\<rparr>)"
      "hash_shows path (b\<lparr>href := h\<rparr>) (AList.update ''serverId'' (pval (chosen_server groups)) kvs)"
    using setParams_value_href[OF assms(1) c] by blast
  have g: "group_loop gs (Str [], []) = Inr (active_server groups, last_group groups)"
    by (simp add: group_loop_ok[OF assms(3,4)] active_server_def last_group_def)
  have p: "getParams (b\<lparr>href := h\<rparr>) ''serverId'' = Inr (Some (pval (chosen_server groups)))"
    using getParams_shows[OF h(2) c] by (simp add: update_conv')
  let ?r = "chosen_server groups" and ?l = "last_group groups"
  let ?vf = "AList.update ''defaultRegionId'' ?r (AList.update ''regionList'' (Arr ?l) vf)"
  let ?w = "w\<lparr>win_viewframe := Obj ?vf\<rparr>"
  let ?st = "st\<lparr>rg_currRegionId := ?r, rg_shownRegionId := active_server groups, rg_instanceData := ?l\<rparr>"
  have eq: "handleRegionList props data b w st = Inr (b\<lparr>href := h\<rparr>, ?w, ?st,
      [Post_Message ''TOGGLE_REGIONBAR_STATUS'' (Obj [(''regionList'', Arr ?l), (''defaultRegionId'', ?r)]),
       Post_Message ''SET_ACTIVE_REGION_ID'' (Obj [(''defaultRegionId'', ?r)])] @ [Later 1000 Repeat_Active] @ refresh_selector props)"
    using h(1) assms(2,5) g
    by (simp add: handleRegionList_def chosen_server_def[symmetric] setRegionBarRegionList_def changeRegionBarRegionId_def
        frame_put_def obj_put_def Let_def del: group_loop.simps)
  have "repeat_active ?w ?st = (?w, [Post_Message ''SET_ACTIVE_REGION_ID'' (Obj [(''defaultRegionId'', ?r)])])"
    by (simp add: repeat_active_def changeRegionBarRegionId_def frame_put_def obj_put_def update_last)
  moreover have "map_of ?vf ''defaultRegionId'' = Some ?r" "map_of ?vf ''regionList'' = Some (Arr ?l)"
    by (simp_all add: update_conv')
  ultimately show ?thesis unfolding eq using p
    by (intro exI[of _ "b\<lparr>href := h\<rparr>"] exI[of _ ?w] exI[of _ ?st] exI[of _ ?vf] exI conjI) (rule refl | assumption | simp)+
qed

definition two_groups :: jv where
  "two_groups = Obj [(''envGroups'', Arr [Obj [(''envs'', Arr [Obj [(''serverId'', Str ''hz''), (''active'', Bool True)]])],
     Obj [(''envs'', Arr [Obj [(''serverId'', Str ''bj'')], Obj [(''serverId'', Str ''sh''), (''domain'', Str ''sh.example'')]])]])]"

definition plain_props :: rg_props where
  "plain_props = \<lparr>p_url = Undefined, p_left = Str ''Config'', p_right = Undefined, p_namespaceCallBack = True\<rparr>"

theorem region_list_consistent_witness:
  "\<exists>b' w' st' es. handleRegionList plain_props two_groups sample_browser
      (fst (rg_init plain_props \<lparr>win_regionList = Undefined, win_viewframe = Undefined\<rparr>))
      (snd (rg_init plain_props \<lparr>win_regionList = Undefined, win_viewframe = Undefined\<rparr>)) = Inr (b', w', st', es) \<and>
    rg_currRegionId st' = Str ''hz'' \<and> getParams b' ''serverId'' = Inr (Some ''hz'') \<and>
    rg_instanceData st' = [Obj [(''serverId'', Str ''bj'')], Obj [(''serverId'', Str ''sh''), (''domain'', Str ''sh.example'')]]"
proof -
  let ?g = "[[Obj [(''serverId'', Str ''hz''), (''active'', Bool True)]],
     [Obj [(''serverId'', Str ''bj'')], Obj [(''serverId'', Str ''sh''), (''domain'', Str ''sh.example'')]]]"
  let ?i = "rg_init plain_props \<lparr>win_regionList = Undefined, win_viewframe = Undefined\<rparr>"
  have e: "env_groups two_groups = Inr (map (\<lambda>es. Obj [(''envs'', Arr es)]) ?g)"
    by (simp add: env_groups_def two_groups_def field_def)
  have "map group_envs (map (\<lambda>es. Obj [(''envs'', Arr es)]) ?g) = map Inr ?g"
    by (simp add: group_envs_def field_def js_or_def)
  moreover have "\<forall>es \<in> set ?g. list_all is_obj es" by simp
  moreover have "win_viewframe (fst ?i) = Obj []" by (simp add: rg_init_def)
  moreover have "chosen_server ?g = Str ''hz''" "last_group ?g = ?g ! 1"
    by (simp_all add: chosen_server_def active_server_def last_active_def js_or_def field_def last_group_def)
  ultimately show ?thesis
    using region_list_consistent[OF sample_shows e, of ?g "fst ?i" "[]" plain_props "snd ?i"] by auto
qed

subsection \<open>Choosing a region\<close>

lemma region_loop_unique:
  assumes "list_all is_obj objs" "filter (\<lambda>e. field e ''serverId'' = sid) objs = [e]"
  shows "region_loop False sid objs b = Inr (b, [Navigate (region_url e sid b)])"
proof -
  have none: "region_loop False sid xs b = Inr (b, [])"
    if "list_all is_obj xs" "filter (\<lambda>e. field e ''serverId'' = sid) xs = []" for xs
    using that by (induction xs) (auto split: if_splits)
  show ?thesis using assms by (induction objs) (auto simp: none split: if_splits)
qed

lemma search_of_free: "CHR ''#'' \<notin> set (search_of u)"
  using base_url_prefix[of u] by (auto simp: search_of_def Let_def dest: set_dropWhileD)

lemma region_landing:
  assumes "hash_shows path b kvs" "link_safe sid" "CHR ''#'' \<notin> set pre" "href b2 = pre @ path @ ''?serverId='' @ sid"
  shows "hash_pieces b2 ! 0 = path \<and> getParams b2 ''serverId'' = Inr (Some sid)"
proof -
  have path: "prefix ''#'' path" "length path > 1" "CHR ''?'' \<notin> set path" using assms(1) by (simp_all add: hash_shows_def)
  have c: "''serverId'' \<in> set console_params" by (simp add: console_params_def)
  obtain p where p: "path = CHR ''#'' # p" using path(1) by (cases path) auto
  have hb: "hash b2 = path @ ''?serverId='' @ sid"
    using assms(4) hash_of_append[OF assms(3), of "path @ ''?serverId='' @ sid"] p by (simp add: hash_def)
  then have "arrived b2 (link p [(''serverId'', sid)])"
    by (simp add: p arrived_def link_def query_text_def kv_text_def)
  moreover have "good_link p [(''serverId'', sid)]" using path(3) assms(2) c p by (simp add: good_link_def)
  ultimately have "getParams b2 ''serverId'' = Inr (Some sid)" using getParams_link[OF _ _ c] by fastforce
  moreover have "hash_pieces b2 = path # split_on (CHR ''?'') (''serverId='' @ sid)"
    using hb split_on_append_sep[OF path(3), of "''serverId='' @ sid"] by (simp add: hash_pieces_def)
  ultimately show ?thesis by simp
qed

text \<open>
  C23: outside EDAS, choosing a region other than the one shown as current leads to the same page on the
  domain of that region, and the address there names the region as the server.
\<close>

theorem region_switch_opens_region:
  assumes "hash_shows path b kvs" and "CHR '':'' \<in> set (originHref b)" and "\<not> str_includes path ''serverId''"
    and "rg_shownRegionId st \<noteq> Str sid" and "list_all is_obj (rg_instanceData st)" and "link_safe sid"
    and "filter (\<lambda>e. field e ''serverId'' = Str sid) (rg_instanceData st) = [e]"
    and "field e ''domain'' = Str domain" and "CHR ''#'' \<notin> set domain"
  shows "\<exists>b' st' url. changeTableData False (Str sid) b st = Inr (b', st', [Navigate url]) \<and>
    rg_currRegionId st' = Str sid \<and> prefix (protocol_of (href b) @ ''//'' @ domain) url \<and>
    (\<forall>b2. href b2 = url \<longrightarrow> hash_pieces b2 ! 0 = path \<and> getParams b2 ''serverId'' = Inr (Some sid))"
proof -
  have c: "''serverId'' \<in> set console_params" by (simp add: console_params_def)
  obtain h where h: "setParams ''serverId'' (Str sid) b = Inr (b\<lparr>href := h\<rparr>)"
      "hash_shows path (b\<lparr>href := h\<rparr>) (AList.update ''serverId'' sid kvs)"
    using setParams_href[OF assms(1) c] by blast
  let ?b = "b\<lparr>href := h\<rparr>"
  have path: "CHR ''?'' \<notin> set path" using assms(1) by (simp add: hash_shows_def)
  have proto: "protocol_of (href b) = takeWhile (\<lambda>c. c \<noteq> CHR '':'') (originHref b) @ '':''"
      "protocol_of h = takeWhile (\<lambda>c. c \<noteq> CHR '':'') (originHref b) @ '':''"
    using assms(1,2) h(2) by (auto simp: protocol_of_def hash_shows_def takeWhile_append1)
  have lh: "nth_or (split_on (CHR ''?'') (hash ?b)) 0 [] = path"
    using shows_hash[OF h(2)] by (simp add: hash_pieces_def)
  have noq: "\<not> str_includes path ''?''" using path by (auto simp: str_includes_def sublist_def)
  let ?pre = "protocol_of (href b) @ ''//'' @ domain @ search_of h" and ?q = "path @ ''?serverId='' @ sid"
  have u: "region_url e (Str sid) ?b = ?pre @ ?q"
    using assms(3,8) noq by (simp add: region_url_def lh proto)
  have free: "CHR ''#'' \<notin> set ?pre"
    unfolding proto using assms(1,9) search_of_free[of h] by (auto simp: hash_shows_def dest: set_takeWhileD)
  have "changeTableData False (Str sid) b st = Inr (?b, st\<lparr>rg_currRegionId := Str sid\<rparr>, [Navigate (?pre @ ?q)])"
    using h(1) assms(4) region_loop_unique[OF assms(5,7)] by (simp add: changeTableData_def u)
  moreover have "prefix (protocol_of (href b) @ ''//'' @ domain) (?pre @ ?q)" by simp
  moreover have "rg_currRegionId (st\<lparr>rg_currRegionId := Str sid\<rparr>) = Str sid" by simp
  ultimately show ?thesis using region_landing[OF assms(1,6) free] by blast
qed

theorem region_switch_opens_region_witness:
  "\<exists>b' st' url. changeTableData False (Str ''sh'') sample_browser
      ((snd (rg_init plain_props \<lparr>win_regionList = Undefined, win_viewframe = Undefined\<rparr>))
        \<lparr>rg_instanceData := [Obj [(''serverId'', Str ''bj'')], Obj [(''serverId'', Str ''sh''), (''domain'', Str ''sh.example/nacos/'')]]\<rparr>)
      = Inr (b', st', [Navigate url]) \<and> prefix ''http://sh.example/nacos/'' url \<and>
    getParams (sample_browser\<lparr>href := url\<rparr>) ''serverId'' = Inr (Some ''sh'')"
proof -
  let ?e = "Obj [(''serverId'', Str ''sh''), (''domain'', Str ''sh.example/nacos/'')]"
  let ?st = "(snd (rg_init plain_props \<lparr>win_regionList = Undefined, win_viewframe = Undefined\<rparr>))
      \<lparr>rg_instanceData := [Obj [(''serverId'', Str ''bj'')], ?e]\<rparr>"
  have "CHR '':'' \<in> set (originHref sample_browser)" "\<not> str_includes ''#/configurationManagement'' ''serverId''"
      "link_safe ''sh''" "protocol_of (href sample_browser) = ''http:''"
    by code_simp+
  moreover have "rg_shownRegionId ?st \<noteq> Str ''sh''" "list_all is_obj (rg_instanceData ?st)"
      "filter (\<lambda>e. field e ''serverId'' = Str ''sh'') (rg_instanceData ?st) = [?e]"
      "field ?e ''domain'' = Str ''sh.example/nacos/''"
    by (simp_all add: rg_init_def field_def)
  moreover have "CHR ''#'' \<notin> set ''sh.example/nacos/''" by simp
  ultimately obtain b' st' url where u: "changeTableData False (Str ''sh'') sample_browser ?st = Inr (b', st', [Navigate url])"
      "prefix (''http:'' @ ''//'' @ ''sh.example/nacos/'') url"
      "\<forall>b2. href b2 = url \<longrightarrow> hash_pieces b2 ! 0 = ''#/configurationManagement'' \<and> getParams b2 ''serverId'' = Inr (Some ''sh'')"
    using region_switch_opens_region[OF sample_shows, of ?st "''sh''" ?e "''sh.example/nacos/''"] by metis
  then show ?thesis by (intro exI[of _ b'] exI[of _ st'] exI[of _ url]) simp
qed

end
