(* ===== verification/Dialogs.thy ===== *)
theory Dialogs
  imports Namespaces
begin

text \<open>
  The dialogs of the configuration list under \<^verbatim>\<open>components\<close>: the result of a deletion
  (\<^verbatim>\<open>DeleteDialog\<close>), the choice of a batch (\<^verbatim>\<open>BatchHandle\<close>), and the dialogs for clone, export and
  import of the older service (\<^verbatim>\<open>CloneDialog\<close>, \<^verbatim>\<open>ExportDialog\<close>, \<^verbatim>\<open>ImportDialog\<close>). The pages open them by
  a reference with a payload; a callback given at the opening is an effect.
\<close>

section \<open>DeleteDialog\<close>

record dl_state =
  dl_visible :: bool
  dl_title :: jv
  dl_content :: jv
  dl_isok :: jv
  dl_dataId :: jv
  dl_group :: jv
  dl_message :: jv

definition dl_init :: dl_state where
  "dl_init = \<lparr>dl_visible = False, dl_title = Str [], dl_content = Str [], dl_isok = Bool True, dl_dataId = Str [],
     dl_group = Str [], dl_message = Undefined\<rparr>"

definition dl_initData :: "jv \<Rightarrow> dl_state \<Rightarrow> dl_state" where
  "dl_initData loc st = st\<lparr>dl_title := tr loc ''confManagement''\<rparr>"

definition dl_openDialog :: "jv \<Rightarrow> dl_state" where
  "dl_openDialog payload =
     \<lparr>dl_visible = True, dl_title = field payload ''title'', dl_content = field payload ''content'',
      dl_isok = field payload ''isok'', dl_dataId = field payload ''dataId'', dl_group = field payload ''group'',
      dl_message = field payload ''message''\<rparr>"

definition dl_closeDialog :: "dl_state \<Rightarrow> dl_state" where
  "dl_closeDialog st = st\<lparr>dl_visible := False\<rparr>"

text \<open>The icon, the heading, the names and the message shown.\<close>

definition dl_view :: "jv \<Rightarrow> dl_state \<Rightarrow> string \<times> jv \<times> jv \<times> jv \<times> jv" where
  "dl_view loc st =
     (let ok = truthy (dl_isok st) in
      (if ok then ''success-filling'' else ''delete-filling'', tr loc (if ok then ''deletedSuccessfully'' else ''deleteFailed''),
       dl_dataId st, dl_group st, if ok then Str [] else dl_message st))"

section \<open>BatchHandle\<close>

record bh_state =
  bh_visible :: bool
  bh_valueList :: "jv list"
  bh_dataSourceList :: "jv list"
  bh_currentPage :: jv
  bh_total :: jv
  bh_pageSize :: jv
  bh_dataSource :: jv

definition bh_init :: "jv list \<Rightarrow> jv list \<Rightarrow> bh_state" where
  "bh_init valueList dataSource =
     \<lparr>bh_visible = False, bh_valueList = valueList, bh_dataSourceList = dataSource, bh_currentPage = num 1,
      bh_total = num 0, bh_pageSize = num 10, bh_dataSource = Obj []\<rparr>"

definition bh_getData :: "bh_state \<Rightarrow> effect" where
  "bh_getData st =
     (let d = bh_dataSource st in
      Send (req (''/diamond-ops/configList/serverId/'' @ to_str (field d ''serverId'') @ ''?dataId='' @ to_str (field d ''dataId'')
        @ ''&group='' @ to_str (field d ''group'') @ ''&appName='' @ to_str (field d ''appName'')
        @ ''&config_tags='' @ to_str (js_or (field d ''config_tags'') (Str []))
        @ ''&pageNo='' @ to_str (bh_currentPage st) @ ''&pageSize='' @ to_str (field d ''pageSize''))))"

definition bh_openDialog :: "jv \<Rightarrow> bh_state \<Rightarrow> js_error + bh_state \<times> effect list" where
  "bh_openDialog dataSource st =
     (if dataSource = Undefined \<or> dataSource = Null then Inl TypeError
      else (let st = st\<lparr>bh_visible := True, bh_dataSource := dataSource, bh_pageSize := field dataSource ''pageSize''\<rparr>
            in Inr (st, [bh_getData st])))"

definition bh_closeDialog :: "bh_state \<Rightarrow> bh_state" where
  "bh_closeDialog st = st\<lparr>bh_visible := False\<rparr>"

definition bh_loaded :: "jv \<Rightarrow> bh_state \<Rightarrow> js_error + bh_state" where
  "bh_loaded res st =
     (if field res ''code'' = num 200 then
        (case field res ''data'' of
           Arr xs \<Rightarrow>
             if Undefined \<in> set xs \<or> Null \<in> set xs then Inl TypeError
             else Inr (st\<lparr>bh_dataSourceList := map (\<lambda>obj. Obj [(''label'', field obj ''dataId''), (''value'', field obj ''dataId'')]) xs,
                       bh_total := field res ''total''\<rparr>)
         | _ \<Rightarrow> Inl TypeError)
      else Inr st)"

definition bh_changePage :: "jv \<Rightarrow> bh_state \<Rightarrow> bh_state \<times> effect list" where
  "bh_changePage currentPage st = (let st = st\<lparr>bh_currentPage := currentPage\<rparr> in (st, [bh_getData st]))"

definition bh_onChange :: "jv list \<Rightarrow> bh_state \<Rightarrow> bh_state" where
  "bh_onChange valueList st = st\<lparr>bh_valueList := valueList\<rparr>"

definition bh_onSubmit :: "bool \<Rightarrow> bh_state \<Rightarrow> effect list" where
  "bh_onSubmit hasOnSubmit st = (if hasOnSubmit then [Callback ''onSubmit'' [Arr (bh_valueList st)]] else [])"

text \<open>
  The function the dialog installs in the transfer control in place of its filter: values that are
  not on the page shown stay chosen.
\<close>

definition filterCheckedValue :: "jv list \<Rightarrow> jv list \<Rightarrow> jv list \<Rightarrow> jv list \<times> jv list" where
  "filterCheckedValue left right dataSource = (left, right)"

section \<open>What clone and export share\<close>

text \<open>
  The payload of the older dialogs. The tags are an array; the empty string the state starts with
  has the same length and prints the same.
\<close>

record dlg_payload =
  pl_serverId :: string
  pl_tenant :: jv
  pl_dataId :: string
  pl_group :: string
  pl_appName :: string
  pl_configTags :: "string list"
  pl_records :: "jv list"
  pl_total :: int

definition no_payload :: dlg_payload where
  "no_payload = \<lparr>pl_serverId = [], pl_tenant = Str [], pl_dataId = [], pl_group = [], pl_appName = [], pl_configTags = [],
     pl_records = [], pl_total = 0\<rparr>"

definition tags_text :: "dlg_payload \<Rightarrow> string" where
  "tags_text p = join '','' (pl_configTags p)"

definition dlg_query :: "string \<Rightarrow> jv \<Rightarrow> dlg_payload \<Rightarrow> jv" where
  "dlg_query appKey loc p =
     (if length (pl_records p) > 0 then tr loc ''selectedEntry''
      else if pl_dataId p = [] \<and> pl_group p = [] \<and> pl_appName p = [] \<and> pl_configTags p = [] then Str []
      else Str (butlast ('' |''
        @ (if pl_dataId p \<noteq> [] then '' DataId: '' @ pl_dataId p @ '','' else [])
        @ (if pl_group p \<noteq> [] then '' Group: '' @ pl_group p @ '','' else [])
        @ (if pl_appName p \<noteq> [] then to_str (tr loc appKey) @ pl_appName p @ '','' else [])
        @ (if pl_configTags p \<noteq> [] then to_str (tr loc ''tags'') @ tags_text p @ '','' else []))))"

definition edasprefix :: string where
  "edasprefix = ''acm''"

definition edas_link :: "bool \<Rightarrow> string \<Rightarrow> string" where
  "edas_link inEdas l = (if inEdas then ''/authgw/'' @ edasprefix @ l else l)"

definition policy_options :: "string \<Rightarrow> jv \<Rightarrow> jv list" where
  "policy_options coverKey loc =
     [Obj [(''value'', Str ''abort''), (''label'', tr loc ''terminate'')], Obj [(''value'', Str ''skip''), (''label'', tr loc ''skip'')],
      Obj [(''value'', Str ''overwrite''), (''label'', tr loc coverKey)]]"

section \<open>CloneDialog\<close>

record cl_state =
  cl_visible :: bool
  cl_payload :: dlg_payload
  cl_tenantTo :: jv
  cl_namespaces :: "jv list"
  cl_policy :: jv
  cl_policyLabel :: jv
  cl_allPolicy :: "jv list"
  cl_checkData :: "jv obj"
  cl_field :: "jv obj"

definition cl_init :: cl_state where
  "cl_init = \<lparr>cl_visible = False, cl_payload = no_payload\<lparr>pl_tenant := Obj []\<rparr>, cl_tenantTo = Str [], cl_namespaces = [],
     cl_policy = Str ''abort'', cl_policyLabel = Str [], cl_allPolicy = [], cl_checkData = [], cl_field = []\<rparr>"

definition cl_mount :: "jv \<Rightarrow> cl_state \<Rightarrow> cl_state" where
  "cl_mount loc st = st\<lparr>cl_policyLabel := tr loc ''terminate'', cl_allPolicy := policy_options ''cover'' loc\<rparr>"

definition cl_openDialog :: "jv obj \<Rightarrow> browser \<Rightarrow> cl_state \<Rightarrow> js_error + cl_state \<times> effect list" where
  "cl_openDialog checkData b st =
     and_then (param_or b ''serverId'' ''center'') (\<lambda>serverId.
       Inr (st\<lparr>cl_checkData := checkData\<rparr>,
            [Send ((req (''/diamond-ops/service/serverId/'' @ serverId @ ''/namespaceInfo''))\<lparr>c_type := Some ''get''\<rparr>)]))"

text \<open>The loop over the reply, which leaves out the namespace cloned from.\<close>

fun clone_targets :: "jv \<Rightarrow> jv list \<Rightarrow> js_error + jv list" where
  "clone_targets tenantFrom [] = Inr []"
| "clone_targets tenantFrom (v # vs) =
     (if v = Undefined \<or> v = Null \<or> tenantFrom = Undefined \<or> tenantFrom = Null then Inl TypeError
      else and_then (clone_targets tenantFrom vs) (\<lambda>r.
        Inr (if field v ''namespace'' \<noteq> field tenantFrom ''id''
             then Obj [(''value'', field v ''namespace''),
                       (''label'', Str (to_str (field v ''namespaceShowName'') @ '' | '' @ to_str (field v ''namespace'')))] # r
             else r)))"

definition cl_show :: "dlg_payload \<Rightarrow> jv list \<Rightarrow> cl_state \<Rightarrow> cl_state" where
  "cl_show payload dataSource st =
     st\<lparr>cl_visible := True, cl_payload := payload, cl_tenantTo := Str [], cl_namespaces := dataSource,
        cl_field := obj_put ''select'' (Str []) (cl_field st)\<rparr>"

definition cl_replied :: "jv \<Rightarrow> dlg_payload \<Rightarrow> jv \<Rightarrow> cl_state \<Rightarrow> js_error + cl_state \<times> effect list" where
  "cl_replied loc payload res st =
     (if field res ''code'' = num 200 then
        (case field res ''data'' of
           Arr vs \<Rightarrow> and_then (clone_targets (pl_tenant payload) vs) (\<lambda>dataSource. Inr (cl_show payload dataSource st, []))
         | _ \<Rightarrow> Inl TypeError)
      else Inr (st, [Alert (tr loc ''getNamespaceFailed'') (field res ''message'')]))"

definition cl_closeDialog :: "cl_state \<Rightarrow> cl_state" where
  "cl_closeDialog st = st\<lparr>cl_visible := False\<rparr>"

text \<open>\<open>field.setValue(value)\<close> has the value in the place of the name.\<close>

definition setTenantTo :: "jv \<Rightarrow> cl_state \<Rightarrow> cl_state" where
  "setTenantTo v st = st\<lparr>cl_field := obj_put (to_str v) Undefined (cl_field st), cl_tenantTo := v\<rparr>"

definition cl_setPolicy :: "jv \<Rightarrow> jv \<Rightarrow> cl_state \<Rightarrow> cl_state" where
  "cl_setPolicy v option st = st\<lparr>cl_policyLabel := field option ''label'', cl_policy := v\<rparr>"

definition cl_getQuery :: "jv \<Rightarrow> cl_state \<Rightarrow> jv" where
  "cl_getQuery loc st = dlg_query ''homeApplication'' loc (cl_payload st)"

definition doClone :: "bool \<Rightarrow> cl_state \<Rightarrow> cl_state \<times> effect list" where
  "doClone errors st =
     (if errors then (st, [])
      else (let checkData = obj_put ''policy'' (cl_policy st) (obj_put ''tenantTo'' (cl_tenantTo st) (cl_checkData st))
            in ((cl_closeDialog st)\<lparr>cl_checkData := checkData\<rparr>, [Callback ''clone'' [Obj checkData, cl_policyLabel st]])))"

definition cl_enabled :: "cl_state \<Rightarrow> bool" where
  "cl_enabled st = (\<not> pl_total (cl_payload st) \<le> 0)"

section \<open>ExportDialog\<close>

record ex_state =
  ex_visible :: bool
  ex_payload :: dlg_payload

definition ex_init :: ex_state where
  "ex_init = \<lparr>ex_visible = False, ex_payload = no_payload\<rparr>"

definition ex_openDialog :: "dlg_payload \<Rightarrow> ex_state" where
  "ex_openDialog payload = \<lparr>ex_visible = True, ex_payload = payload\<rparr>"

definition ex_closeDialog :: "ex_state \<Rightarrow> ex_state" where
  "ex_closeDialog st = st\<lparr>ex_visible := False\<rparr>"

definition ex_getQuery :: "jv \<Rightarrow> ex_state \<Rightarrow> jv" where
  "ex_getQuery loc st = dlg_query ''application'' loc (ex_payload st)"

definition ex_getLink :: "bool \<Rightarrow> ex_state \<Rightarrow> js_error + string" where
  "ex_getLink inEdas st =
     (let p = ex_payload st;
          data = Arr (map (\<lambda>r. Obj [(''dataId'', field r ''dataId''), (''group'', field r ''group'')]) (pl_records p))
      in case stringify data of
           Text t \<Rightarrow>
             Inr (edas_link inEdas (''/diamond-ops/batch/export/serverId/'' @ pl_serverId p @ ''/tenant/'' @ to_str (field (pl_tenant p) ''id'')
               @ ''?dataId='' @ pl_dataId p @ ''&group='' @ pl_group p @ ''&appName='' @ pl_appName p
               @ ''&tags='' @ tags_text p @ ''&data='' @ encodeURI t))
         | _ \<Rightarrow> Inl OutsideModel)"

definition doExport :: "bool \<Rightarrow> ex_state \<Rightarrow> js_error + ex_state \<times> effect list" where
  "doExport inEdas st = and_then (ex_getLink inEdas st) (\<lambda>url. Inr (ex_closeDialog st, [Open_Window url]))"

definition ex_enabled :: "ex_state \<Rightarrow> bool" where
  "ex_enabled st = (\<not> pl_total (ex_payload st) \<le> 0)"

section \<open>ImportDialog\<close>

record im_state =
  im_visible :: bool
  im_serverId :: string
  im_tenant :: jv
  im_policy :: jv
  im_policyLabel :: jv
  im_allPolicy :: "jv list"

definition im_init :: im_state where
  "im_init = \<lparr>im_visible = False, im_serverId = [], im_tenant = Str [], im_policy = Str ''abort'', im_policyLabel = Str [],
     im_allPolicy = []\<rparr>"

definition im_mount :: "jv \<Rightarrow> im_state \<Rightarrow> im_state" where
  "im_mount loc st = st\<lparr>im_policyLabel := tr loc ''terminate'', im_allPolicy := policy_options ''overwrite'' loc\<rparr>"

definition im_openDialog :: "string \<Rightarrow> jv \<Rightarrow> im_state \<Rightarrow> im_state" where
  "im_openDialog serverId tenant st = st\<lparr>im_visible := True, im_serverId := serverId, im_tenant := tenant\<rparr>"

definition im_closeDialog :: "im_state \<Rightarrow> im_state" where
  "im_closeDialog st = st\<lparr>im_visible := False\<rparr>"

definition im_setPolicy :: "jv \<Rightarrow> jv \<Rightarrow> im_state \<Rightarrow> im_state" where
  "im_setPolicy v option st = st\<lparr>im_policyLabel := field option ''label'', im_policy := v\<rparr>"

definition formatter :: "jv \<Rightarrow> jv" where
  "formatter res =
     (if field res ''code'' = num 200 then Obj [(''code'', Str ''0''), (''retData'', res)]
      else Obj [(''code'', Str ''1''), (''error'', Obj [(''message'', field res ''message'')]), (''retData'', res)])"

definition uploadLink :: "bool \<Rightarrow> im_state \<Rightarrow> string" where
  "uploadLink inEdas st =
     edas_link inEdas (''/diamond-ops/batch/import/serverId/'' @ im_serverId st @ ''/tenant/'' @ to_str (field (im_tenant st) ''id'')
       @ ''?policy='' @ to_str (im_policy st))"

text \<open>The callbacks of the upload control with the formatted reply, on its own or in \<open>response\<close>.\<close>

definition im_onSuccess :: "jv \<Rightarrow> im_state \<Rightarrow> im_state \<times> effect list" where
  "im_onSuccess arg st = (im_closeDialog st, [Callback ''import'' [field arg ''retData'', im_policyLabel st]])"

definition im_onError :: "jv \<Rightarrow> im_state \<Rightarrow> js_error + im_state \<times> effect list" where
  "im_onError arg st =
     (if field arg ''response'' = Undefined \<or> field arg ''response'' = Null then Inl TypeError
      else Inr (im_closeDialog st, [Callback ''import'' [field (field arg ''response'') ''retData'', im_policyLabel st]]))"

section \<open>The choice of the conflict policy\<close>

text \<open>
  Clone and import offer the same choice. A form keeps the policy it sends and the label it shows
  to the user apart; what the client relies on is that the two belong to one option.
\<close>

definition is_option :: "jv list \<Rightarrow> jv \<Rightarrow> jv \<Rightarrow> bool" where
  "is_option opts v l \<longleftrightarrow> (\<exists>o1 \<in> set opts. field o1 ''value'' = v \<and> field o1 ''label'' = l)"

inductive form_reach :: "(jv \<Rightarrow> jv \<Rightarrow> 's \<Rightarrow> 's) \<Rightarrow> ('s \<Rightarrow> jv list) \<Rightarrow> ('s \<Rightarrow> 's) set \<Rightarrow> 's \<Rightarrow> 's \<Rightarrow> bool"
  for sel opts others s0 where
  start: "form_reach sel opts others s0 s0"
| choose: "form_reach sel opts others s0 s \<Longrightarrow> o1 \<in> set (opts s) \<Longrightarrow> form_reach sel opts others s0 (sel (field o1 ''value'') o1 s)"
| other: "form_reach sel opts others s0 s \<Longrightarrow> f \<in> others \<Longrightarrow> form_reach sel opts others s0 (f s)"

locale policy_form =
  fixes policy :: "'s \<Rightarrow> jv" and label :: "'s \<Rightarrow> jv" and opts :: "'s \<Rightarrow> jv list"
    and sel :: "jv \<Rightarrow> jv \<Rightarrow> 's \<Rightarrow> 's" and others :: "('s \<Rightarrow> 's) set"
  assumes sel_law: "policy (sel v o1 s) = v" "label (sel v o1 s) = field o1 ''label''" "opts (sel v o1 s) = opts s"
    and others_law: "f \<in> others \<Longrightarrow> policy (f s) = policy s \<and> label (f s) = label s \<and> opts (f s) = opts s"
begin

lemma label_of_policy:
  assumes "form_reach sel opts others s0 s" "is_option (opts s0) (policy s0) (label s0)"
  shows "opts s = opts s0 \<and> is_option (opts s) (policy s) (label s)"
  using assms by (induction rule: form_reach.induct) (auto simp: sel_law others_law is_option_def)

lemma others_keep_label: "set fs \<subseteq> others \<Longrightarrow> label (fold id fs s) = label s"
  by (induction fs arbitrary: s) (simp_all add: others_law)

end

definition cl_others :: "(cl_state \<Rightarrow> cl_state) set" where
  "cl_others = {cl_closeDialog} \<union> range setTenantTo \<union> {cl_show p ns | p ns. True} \<union> {f. \<exists>e. f = (\<lambda>st. fst (doClone e st))}
     \<union> {f. \<exists>c. f = (\<lambda>st. st\<lparr>cl_checkData := c\<rparr>)}"

definition im_others :: "(im_state \<Rightarrow> im_state) set" where
  "im_others = {im_closeDialog} \<union> {im_openDialog i t | i t. True} \<union> {f. \<exists>a. f = (\<lambda>st. fst (im_onSuccess a st))}"

interpretation clone_form: policy_form cl_policy cl_policyLabel cl_allPolicy cl_setPolicy cl_others
  by unfold_locales (auto simp: cl_setPolicy_def cl_others_def cl_closeDialog_def setTenantTo_def cl_show_def doClone_def Let_def)

interpretation import_form: policy_form im_policy im_policyLabel im_allPolicy im_setPolicy im_others
  by unfold_locales (auto simp: im_setPolicy_def im_others_def im_closeDialog_def im_openDialog_def im_onSuccess_def)

lemma abort_option: "is_option (policy_options k loc) (Str ''abort'') (tr loc ''terminate'')"
  by (simp add: is_option_def policy_options_def field_def)

section \<open>Properties\<close>



lemma clone_targets_ok:
  assumes "list_all is_obj vs" "is_obj t"
  shows "clone_targets t vs = Inr (map (\<lambda>v. Obj [(''value'', field v ''namespace''),
    (''label'', Str (to_str (field v ''namespaceShowName'') @ '' | '' @ to_str (field v ''namespace'')))])
    (filter (\<lambda>v. field v ''namespace'' \<noteq> field t ''id'') vs))"
  using assms by (induction vs) auto

text \<open>
  the clone dialog offers every namespace of the reply but the one cloned from, in the order of
  the reply, and starts with no target chosen; a failed reply is shown and leaves the dialog as it was.
\<close>

theorem clone_offers_other_namespaces:
  assumes "field res ''data'' = Arr vs" and "list_all is_obj vs" and "is_obj (pl_tenant p)"
  shows "\<exists>st' es. cl_replied loc p res st = Inr (st', es) \<and>
    (if field res ''code'' = num 200 then es = [] \<and> cl_visible st' \<and> cl_tenantTo st' = Str [] \<and>
       map (\<lambda>t. field t ''value'') (cl_namespaces st') =
         filter (\<lambda>n. n \<noteq> field (pl_tenant p) ''id'') (map (\<lambda>v. field v ''namespace'') vs)
     else st' = st \<and> es = [Alert (tr loc ''getNamespaceFailed'') (field res ''message'')])"
  using assms by (simp add: cl_replied_def clone_targets_ok cl_show_def field_def[of "Obj [_, _]"] filter_map o_def)

theorem clone_offers_other_namespaces_witness:
  "\<exists>st' es. cl_replied Null (no_payload\<lparr>pl_tenant := Obj [(''id'', Str ''dev'')]\<rparr>)
      (Obj [(''code'', num 200), (''data'', Arr [Obj [(''namespace'', Str ''dev'')], Obj [(''namespace'', Str ''prod'')]])])
      cl_init = Inr (st', es) \<and> map (\<lambda>t. field t ''value'') (cl_namespaces st') = [Str ''prod'']"
  using clone_offers_other_namespaces[of "Obj [(''code'', num 200), (''data'', Arr [Obj [(''namespace'', Str ''dev'')], Obj [(''namespace'', Str ''prod'')]])]"
    "[Obj [(''namespace'', Str ''dev'')], Obj [(''namespace'', Str ''prod'')]]" "no_payload\<lparr>pl_tenant := Obj [(''id'', Str ''dev'')]\<rparr>" Null cl_init]
  by (auto simp: field_def)

subsection \<open>Export\<close>

definition export_row :: "string \<times> string \<Rightarrow> jv" where
  "export_row r = Obj [(''dataId'', Str (fst r)), (''group'', Str (snd r))]"

definition row_text :: "string \<times> string \<Rightarrow> string" where
  "row_text r = ''{'' @ quote ''dataId'' @ '':'' @ quote (fst r) @ '','' @ quote ''group'' @ '':'' @ quote (snd r) @ ''}''"

lemma stringify_row: "stringify (export_row r) = Text (row_text r)"
proof -
  have "key_order [(''dataId'', Text (quote (fst r))), (''group'', Text (quote (snd r)))] =
      [(''dataId'', Text (quote (fst r))), (''group'', Text (quote (snd r)))]"
    by (rule key_order_plain) (simp add: is_index_key_def is_digit_def)
  then show ?thesis by (simp add: export_row_def row_text_def)
qed

lemma stringify_rows: "stringify (Arr (map export_row rs)) = Text (''['' @ join '','' (map row_text rs) @ '']'')"
proof -
  have "elems_text (map (\<lambda>r. stringify (export_row r)) rs) = Some (map row_text rs)"
    by (induction rs) (simp_all add: stringify_row)
  then show ?thesis by (simp add: o_def)
qed

lemma hex_digit_plain: "n < 16 \<Longrightarrow> hex_digit n \<notin> set ''&?=''"
proof -
  have "list_all (\<lambda>n. hex_digit n \<notin> set ''&?='') [0..<16]" by code_simp
  then show "n < 16 \<Longrightarrow> hex_digit n \<notin> set ''&?=''" by (auto simp: list_all_iff)
qed

lemma quote_char_free:
  assumes "x \<in> set ''&?=''" "c \<noteq> x"
  shows "x \<notin> set (quote_char c)"
proof -
  have "x \<noteq> hex_digit (of_char c div 16)" "x \<noteq> hex_digit (of_char c mod 16)" if l: "(of_char c :: nat) < 32"
  proof -
    have "(of_char c :: nat) div 16 < 16" using l by simp
    then show "x \<noteq> hex_digit (of_char c div 16)" "x \<noteq> hex_digit (of_char c mod 16)"
      using hex_digit_plain[of "of_char c div 16"] hex_digit_plain[of "of_char c mod 16"] assms(1) by auto
  qed
  then show ?thesis using assms by (auto simp: quote_char_def)
qed

lemma quote_free:
  assumes "x \<in> set ''&?=''" "x \<notin> set s"
  shows "x \<notin> set (quote s)"
proof -
  have "x \<notin> set (quote_char c)" if "c \<in> set s" for c using quote_char_free[OF assms(1)] that assms(2) by metis
  with assms(1) show ?thesis by (auto simp: quote_def)
qed

lemma rows_text_safe:
  assumes "list_all (\<lambda>r. url_safe (fst r) \<and> url_safe (snd r)) rs"
  shows "url_safe (encodeURI (''['' @ join '','' (map row_text rs) @ '']''))"
proof -
  have "x \<notin> set (encodeURI (''['' @ join '','' (map row_text rs) @ '']''))" if x: "x \<in> set ''&?=''" for x
  proof (rule encodeURI_free)
    have "x \<notin> set (row_text r)" if "r \<in> set rs" for r
    proof -
      have "x \<notin> set (fst r)" "x \<notin> set (snd r)" using assms that x by (auto simp: list_all_iff url_safe_def)
      moreover have "x \<notin> set ''dataId''" "x \<notin> set ''group''" using x by auto
      ultimately have "x \<notin> set (quote (fst r))" "x \<notin> set (quote (snd r))" "x \<notin> set (quote ''dataId'')" "x \<notin> set (quote ''group'')"
        by (simp_all only: quote_free[OF x] not_False_eq_True)
      with x show ?thesis by (auto simp only: row_text_def set_append Un_iff) auto
    qed
    then have "x \<notin> set (join '','' (map row_text rs))" using x by (intro join_free) auto
    with x show "x \<notin> set (''['' @ join '','' (map row_text rs) @ '']'')" by auto
  qed (use x in auto)
  then show ?thesis by (simp add: url_safe_def)
qed

text \<open>
  C21: the address the export opens carries the selection: read as a query, decoded and parsed, its
  parameter \<open>data\<close> is the data identifier and the group of every selected record in order and nothing
  else of the records, and the other parameters are the search of the list. The names, the search, the
  server and the tenant hold no delimiter of a query.
\<close>

theorem export_link_carries_selection:
  assumes "map (\<lambda>r. (field r ''dataId'', field r ''group'')) (pl_records (ex_payload st)) = map (\<lambda>(d, g). (Str d, Str g)) rs"
    and "list_all (\<lambda>r. url_safe (fst r) \<and> url_safe (snd r)) rs"
    and "list_all url_safe [pl_dataId (ex_payload st), pl_group (ex_payload st), pl_appName (ex_payload st), tags_text (ex_payload st)]"
    and "CHR ''?'' \<notin> set (pl_serverId (ex_payload st))" and "CHR ''?'' \<notin> set (to_str (field (pl_tenant (ex_payload st)) ''id''))"
  shows "\<exists>url t. doExport inEdas st = Inr (st\<lparr>ex_visible := False\<rparr>, [Open_Window url]) \<and>
    decodeURIComponent (getParameter url ''data'') = Inr t \<and>
    parse_json t = Inr (Arr (map (\<lambda>(d, g). Obj [(''dataId'', Str d), (''group'', Str g)]) rs)) \<and>
    getParameter url ''dataId'' = pl_dataId (ex_payload st) \<and> getParameter url ''group'' = pl_group (ex_payload st) \<and>
    getParameter url ''appName'' = pl_appName (ex_payload st) \<and> getParameter url ''tags'' = tags_text (ex_payload st)"
proof -
  let ?p = "ex_payload st" and ?t = "''['' @ join '','' (map row_text rs) @ '']''"
  let ?kvs = "[(''dataId'', pl_dataId ?p), (''group'', pl_group ?p), (''appName'', pl_appName ?p), (''tags'', tags_text ?p), (''data'', encodeURI ?t)]"
  let ?base = "edas_link inEdas (''/diamond-ops/batch/export/serverId/'' @ pl_serverId ?p @ ''/tenant/'' @ to_str (field (pl_tenant ?p) ''id''))"
  have x: "map (\<lambda>(d, g). Obj [(''dataId'', Str d), (''group'', Str g)]) rs = map export_row rs"
    by (simp add: export_row_def case_prod_unfold)
  have "plain_json (Arr (map export_row rs))"
    by (auto simp: list_all_iff export_row_def is_index_key_def is_digit_def)
  from parse_stringify[OF this] have parse: "parse_json ?t = Inr (Arr (map export_row rs))"
    by (simp only: stringify_rows js_text.inject) auto
  have rows: "map (\<lambda>r. Obj [(''dataId'', field r ''dataId''), (''group'', field r ''group'')]) (pl_records ?p) = map export_row rs"
    using arg_cong[OF assms(1), of "map (\<lambda>(d, g). Obj [(''dataId'', d), (''group'', g)])"]
    by (simp add: export_row_def o_def case_prod_unfold)
  have "plain_link ?base ?kvs"
    using assms(3-5) rows_text_safe[OF assms(2)]
    by (simp add: plain_link_def edas_link_def edasprefix_def) (simp add: url_safe_def)
  note get = getParameter_link[OF this]
  have "ex_getLink inEdas st = Inr (link ?base ?kvs)"
    unfolding ex_getLink_def Let_def rows stringify_rows
    by (simp add: link_def query_text_def kv_text_def edas_link_def)
  then have "doExport inEdas st = Inr (st\<lparr>ex_visible := False\<rparr>, [Open_Window (link ?base ?kvs)])"
    by (simp add: doExport_def ex_closeDialog_def)
  moreover have "getParameter (link ?base ?kvs) ''data'' = encodeURI ?t"
      "getParameter (link ?base ?kvs) ''dataId'' = pl_dataId ?p" "getParameter (link ?base ?kvs) ''group'' = pl_group ?p"
      "getParameter (link ?base ?kvs) ''appName'' = pl_appName ?p" "getParameter (link ?base ?kvs) ''tags'' = tags_text ?p"
    unfolding get by simp_all
  ultimately show ?thesis
    unfolding x using parse decode_encodeURI[of ?t] by (intro exI[of _ "link ?base ?kvs"] exI[of _ ?t] conjI) (simp_all only: )
qed

text \<open>Records with more fields than the export needs.\<close>

definition export_sample :: ex_state where
  "export_sample = ex_openDialog (no_payload\<lparr>pl_serverId := ''center'', pl_tenant := Obj [(''id'', Str ''dev'')],
     pl_dataId := ''app'', pl_records := [Obj [(''id'', num 1), (''dataId'', Str ''a.yaml''), (''group'', Str ''G''), (''content'', Str ''x: 1'')],
       Obj [(''group'', Str ''H%''), (''dataId'', Str ''b \"c\"'')]], pl_total := 2\<rparr>)"

theorem export_link_carries_selection_witness:
  "\<exists>url t. doExport True export_sample = Inr (export_sample\<lparr>ex_visible := False\<rparr>, [Open_Window url]) \<and>
    decodeURIComponent (getParameter url ''data'') = Inr t \<and>
    parse_json t = Inr (Arr [Obj [(''dataId'', Str ''a.yaml''), (''group'', Str ''G'')], Obj [(''dataId'', Str ''b \"c\"''), (''group'', Str ''H%'')]]) \<and>
    getParameter url ''dataId'' = ''app''"
proof -
  let ?rs = "[(''a.yaml'', ''G''), (''b \"c\"'', ''H%'')]"
  have s: "map (\<lambda>r. (field r ''dataId'', field r ''group'')) (pl_records (ex_payload export_sample)) = map (\<lambda>(d, g). (Str d, Str g)) ?rs"
      "pl_dataId (ex_payload export_sample) = ''app''" "pl_group (ex_payload export_sample) = []"
      "pl_appName (ex_payload export_sample) = []" "tags_text (ex_payload export_sample) = []"
      "pl_serverId (ex_payload export_sample) = ''center''" "pl_tenant (ex_payload export_sample) = Obj [(''id'', Str ''dev'')]"
    by (simp_all add: export_sample_def ex_openDialog_def no_payload_def tags_text_def field_def)
  have q: "list_all (\<lambda>r. url_safe (fst r) \<and> url_safe (snd r)) ?rs" by (simp add: url_safe_def)
  from export_link_carries_selection[OF s(1) q, of True] show ?thesis
    by (simp add: s(2-7) url_safe_def field_def[of "Obj [(''id'', Str ''dev'')]"]) blast
qed

end
