(* ===== verification/Old_Editor.thy ===== *)
theory Old_Editor
  imports New_Config
begin

text \<open>
  The former editor, \<^verbatim>\<open>pages/ConfigurationManagement/ConfigEditor/ConfigEditor.js\<close>, which the index of its
  directory no longer exports. The values of the form library are \<open>oe_values\<close>; \<open>oe_editor\<close> holds the
  language and the text of the Monaco editor. The elements the page looks up by name are the
  record \<open>oe_dom\<close>: the markup of \<open>render\<close> has none of them (\<open>rendered_dom\<close>), and reading a property
  of a missing element throws.
\<close>

section \<open>State\<close>

record oe_dom =
  dom_betaips :: bool
  dom_chontenttab :: bool
  dom_commoneditor :: bool

definition rendered_dom :: oe_dom where
  "rendered_dom = \<lparr>dom_betaips = False, dom_chontenttab = False, dom_commoneditor = False\<rparr>"

record oe_state =
  oe_edasAppName :: string
  oe_edasAppId :: string
  oe_dataId :: string
  oe_group :: string
  oe_tenant :: string
  oe_serverId :: jv
  oe_searchDataId :: string
  oe_searchGroup :: string
  oe_configType :: jv
  oe_stateCode :: jv
  oe_loading :: bool
  oe_showmore :: bool
  oe_activeKey :: string
  oe_hasbeta :: bool
  oe_stateIps :: jv
  oe_checkedBeta :: bool
  oe_tagLst :: "jv list"
  oe_config_tags :: "string list"
  oe_switchEncrypt :: bool
  oe_tag :: "jv list"
  oe_envvalues :: jv
  oe_codeValue :: jv
  oe_mode :: string
  oe_ips :: jv
  oe_valueMap :: "jv obj"
  oe_values :: "jv obj"
  oe_hasips :: jv
  oe_editor :: "(jv \<times> string) option"
  oe_codeMirror :: "(string \<times> jv) option"
  oe_diffeditor :: "(jv \<times> jv) option"
  oe_timer :: "string option"

type_synonym oe_result = "js_error + oe_state \<times> effect list"

definition oe_init :: "browser \<Rightarrow> js_error + oe_state" where
  "oe_init b =
     and_then (param_or b ''edasAppName'' []) (\<lambda>edasAppName.
     and_then (param_or b ''edasAppId'' []) (\<lambda>edasAppId.
     and_then (param_or b ''dataId'' ''yanlin'') (\<lambda>dataId.
     and_then (param_or b ''group'' ''DEFAULT_GROUP'') (\<lambda>group.
     and_then (param_or b ''namespace'' []) (\<lambda>tenant.
     and_then (param_or b ''searchDataId'' []) (\<lambda>searchDataId.
     and_then (param_or b ''searchGroup'' []) (\<lambda>searchGroup.
       Inr \<lparr>oe_edasAppName = edasAppName, oe_edasAppId = edasAppId, oe_dataId = dataId, oe_group = group, oe_tenant = tenant,
            oe_serverId = Undefined, oe_searchDataId = searchDataId, oe_searchGroup = searchGroup, oe_configType = Str ''text'',
            oe_stateCode = Str [], oe_loading = False, oe_showmore = False, oe_activeKey = ''normal'', oe_hasbeta = False,
            oe_stateIps = Str [], oe_checkedBeta = False, oe_tagLst = [], oe_config_tags = [], oe_switchEncrypt = False,
            oe_tag = [], oe_envvalues = Arr [], oe_codeValue = Str [], oe_mode = ''text'', oe_ips = Str [], oe_valueMap = [],
            oe_values = [], oe_hasips = Undefined, oe_editor = None, oe_codeMirror = None, oe_diffeditor = None, oe_timer = None\<rparr>)))))))"

definition oe_setValue :: "string \<Rightarrow> jv \<Rightarrow> oe_state \<Rightarrow> oe_state" where
  "oe_setValue k v st = st\<lparr>oe_values := AList.update k v (oe_values st)\<rparr>"

definition oe_getValue :: "oe_state \<Rightarrow> string \<Rightarrow> jv" where
  "oe_getValue st k = (case map_of (oe_values st) k of None \<Rightarrow> Undefined | Some v \<Rightarrow> v)"

definition oe_initData :: "jv \<Rightarrow> oe_state \<Rightarrow> oe_state" where
  "oe_initData loc st =
     (let st = st\<lparr>oe_tag := [Obj [(''title'', tr loc ''official''), (''key'', Str ''normal'')]]\<rparr>
      in if prefix ''cipher-'' (oe_dataId st) then st\<lparr>oe_switchEncrypt := True\<rparr> else st)"

section \<open>The editors\<close>

text \<open>The language comes from the state, also when the argument names another.\<close>

definition oe_imported :: "ed_env \<Rightarrow> jv \<Rightarrow> oe_state \<Rightarrow> oe_state" where
  "oe_imported env v st = st\<lparr>oe_editor := Some (oe_configType st, env_monaco env v)\<rparr>"

definition oe_initMoacoEditor :: "ed_env \<Rightarrow> jv \<Rightarrow> oe_state \<Rightarrow> oe_state \<times> effect list" where
  "oe_initMoacoEditor env v st =
     (if env_loaded env then (oe_imported env v st, []) else (st, [Callback ''importEditor'' [v]]))"

definition createCodeMirror :: "oe_dom \<Rightarrow> string \<Rightarrow> jv \<Rightarrow> oe_state \<Rightarrow> js_error + oe_state" where
  "createCodeMirror els mode v st =
     (if dom_commoneditor els then Inr (st\<lparr>oe_codeMirror := Some (mode, v)\<rparr>) else Inl TypeError)"

text \<open>The text of the older editor changed to \<open>v\<close>; an open comparison follows.\<close>

definition codemirrorValueChanged :: "jv \<Rightarrow> oe_state \<Rightarrow> oe_state" where
  "codemirrorValueChanged v st =
     st\<lparr>oe_codeMirror := map_option (\<lambda>(mode, _). (mode, v)) (oe_codeMirror st),
        oe_diffeditor := map_option (\<lambda>(_, orig). (v, orig)) (oe_diffeditor st)\<rparr>"

definition oe_createDiffCodeMirror :: "jv \<Rightarrow> jv \<Rightarrow> oe_state \<Rightarrow> oe_state" where
  "oe_createDiffCodeMirror leftCode rightCode st =
     st\<lparr>oe_diffeditor := Some (js_or leftCode (Str []), js_or rightCode (Str []))\<rparr>"

definition toggleDiff :: "oe_dom \<Rightarrow> bool \<Rightarrow> oe_state \<Rightarrow> js_error + oe_state" where
  "toggleDiff els checked st =
     (if \<not> dom_chontenttab els then Inl TypeError
      else if \<not> checked then Inr st
      else case oe_codeMirror st of
          None \<Rightarrow> Inl TypeError
        | Some (_, nowvalue) \<Rightarrow>
            Inr (if oe_diffeditor st = None then oe_createDiffCodeMirror nowvalue (oe_codeValue st) st else st))"

definition changeConfig :: "oe_dom \<Rightarrow> int \<Rightarrow> oe_state \<Rightarrow> js_error + oe_state" where
  "changeConfig els v st =
     and_then
       (if v = 0 then and_then (createCodeMirror els ''text'' (oe_codeValue st) st) (\<lambda>st. Inr (st\<lparr>oe_mode := ''text''\<rparr>))
        else if v = 1 then and_then (createCodeMirror els ''application/json'' (oe_codeValue st) st) (\<lambda>st. Inr (st\<lparr>oe_mode := ''application/json''\<rparr>))
        else if v = 2 then and_then (createCodeMirror els ''xml'' (oe_codeValue st) st) (\<lambda>st. Inr (st\<lparr>oe_mode := ''xml''\<rparr>))
        else Inr st)
       (\<lambda>st. Inr (st\<lparr>oe_configType := num v\<rparr>))"

definition oe_setCodeValue :: "jv \<Rightarrow> oe_state \<Rightarrow> oe_state" where
  "oe_setCodeValue v st = st\<lparr>oe_stateCode := v\<rparr>"

definition oe_changeModel :: "ed_env \<Rightarrow> string \<Rightarrow> jv \<Rightarrow> oe_state \<Rightarrow> oe_state \<times> effect list" where
  "oe_changeModel env type v st =
     (case oe_editor st of
        None \<Rightarrow> oe_initMoacoEditor env v st
      | Some (_, oldValue) \<Rightarrow> (st\<lparr>oe_editor := Some (Str type, env_monaco env (Str oldValue))\<rparr>, []))"

definition oe_newChangeConfig :: "ed_env \<Rightarrow> string \<Rightarrow> oe_state \<Rightarrow> oe_state \<times> effect list" where
  "oe_newChangeConfig env v st = oe_changeModel env v Undefined (st\<lparr>oe_configType := Str v\<rparr>)"

section \<open>Loading and leaving\<close>

definition oe_toggleMore :: "oe_state \<Rightarrow> oe_state" where
  "oe_toggleMore st = st\<lparr>oe_showmore := \<not> oe_showmore st\<rparr>"

definition oe_openLoading :: "oe_state \<Rightarrow> oe_state" where
  "oe_openLoading st = st\<lparr>oe_loading := True\<rparr>"

definition oe_closeLoading :: "oe_state \<Rightarrow> oe_state" where
  "oe_closeLoading st = st\<lparr>oe_loading := False\<rparr>"

definition oe_navTo :: "string \<Rightarrow> browser \<Rightarrow> oe_state \<Rightarrow> oe_result" where
  "oe_navTo url b st =
     and_then (param_or b ''serverId'' []) (\<lambda>serverId.
     and_then (param_or b ''namespace'' []) (\<lambda>tenant.
       Inr (st\<lparr>oe_serverId := Str serverId, oe_tenant := tenant\<rparr>,
            [Push (link url [(''serverId'', serverId), (''dataId'', oe_dataId st), (''group'', oe_group st), (''namespace'', tenant)])])))"

definition oe_getDataDetail :: "browser \<Rightarrow> oe_state \<Rightarrow> oe_result" where
  "oe_getDataDetail b st =
     and_then (param_or b ''namespace'' []) (\<lambda>tenant.
     and_then (param_or b ''serverId'' ''center'') (\<lambda>serverId.
       Inr (st\<lparr>oe_tenant := tenant, oe_serverId := Str serverId\<rparr>,
            [Send ((req (''v1/cs/configs?show=all&dataId='' @ oe_dataId st @ ''&group='' @ oe_group st))
               \<lparr>c_complete := UserFn 2, c_beforeSend := UserFn 3\<rparr>)])))"

definition oe_mount :: "jv \<Rightarrow> browser \<Rightarrow> oe_state \<Rightarrow> oe_result" where
  "oe_mount loc b st = oe_getDataDetail b (oe_initData loc st)"

definition oe_appName :: "oe_state \<Rightarrow> jv \<Rightarrow> jv" where
  "oe_appName st data = (if oe_edasAppName st \<noteq> [] then Str (oe_edasAppName st) else field data ''appName'')"

definition oe_setConfigTags :: "string list \<Rightarrow> oe_state \<Rightarrow> oe_state" where
  "oe_setConfigTags v st = st\<lparr>oe_config_tags := strip_tags (limit_tags v)\<rparr>"

text \<open>
  The reply. A null result takes the branch that reads its message and throws. The last lines of
  the handler set the server to the property of an empty object.
\<close>

definition oe_loaded :: "ed_env \<Rightarrow> jv \<Rightarrow> oe_state \<Rightarrow> oe_result" where
  "oe_loaded env data st =
     (if data = Null \<or> data = Undefined then Inl TypeError
      else let st = st\<lparr>oe_valueMap := obj_put ''normal'' data (oe_valueMap st)\<rparr>;
               st = oe_setValue ''desc'' (field data ''desc'') (oe_setValue ''group'' (field data ''group'')
                      (oe_setValue ''appName'' (oe_appName st data) (oe_setValue ''dataId'' (field data ''dataId'') st)));
               st = st\<lparr>oe_codeValue := js_or (field data ''content'') (Str []), oe_configType := js_or (field data ''type'') (Str ''text'')\<rparr>;
               (st, es) = oe_initMoacoEditor env (oe_codeValue st) st
           in and_then
                (if field data ''configTags'' = Null \<or> field data ''configTags'' = Undefined then Inr st
                 else case field data ''configTags'' of
                     Str s \<Rightarrow> Inr (oe_setConfigTags (split_on (CHR '','') s) st)
                   | _ \<Rightarrow> Inl TypeError)
                (\<lambda>st. Inr (st\<lparr>oe_serverId := Undefined\<rparr>, es)))"

definition oe_goList :: "browser \<Rightarrow> oe_state \<Rightarrow> js_error + effect list" where
  "oe_goList b st =
     and_then (param b ''namespace'') (\<lambda>tenant.
       Inr [Push (link ''/configurationManagement'' [(''serverId'', to_str (oe_serverId st)), (''group'', oe_searchGroup st),
         (''dataId'', oe_searchDataId st), (''namespace'', to_str tenant)])])"

section \<open>The form\<close>

definition oe_forbidden :: "char \<Rightarrow> bool" where
  "oe_forbidden c \<longleftrightarrow> c \<in> set ''@#$%^&*''"

definition oe_validateChart :: "jv \<Rightarrow> string \<Rightarrow> jv option" where
  "oe_validateChart loc v = (if list_ex oe_forbidden v then Some (tr loc ''vdchart'') else None)"

definition oe_changeEnv :: "jv \<Rightarrow> oe_state \<Rightarrow> oe_state" where
  "oe_changeEnv v st = st\<lparr>oe_envvalues := v\<rparr>"

definition oe_changeBeta :: "oe_dom \<Rightarrow> bool \<Rightarrow> oe_state \<Rightarrow> js_error + oe_state" where
  "oe_changeBeta els selected st = (if dom_betaips els then Inr (st\<lparr>oe_checkedBeta := selected\<rparr>) else Inl TypeError)"

definition oe_getIps :: "jv \<Rightarrow> oe_state \<Rightarrow> oe_state" where
  "oe_getIps v st = st\<lparr>oe_ips := v, oe_stateIps := v\<rparr>"

definition oe_onInputUpdate :: "string \<Rightarrow> oe_state \<Rightarrow> oe_state" where
  "oe_onInputUpdate v st = st\<lparr>oe_timer := Some v\<rparr>"

definition oe_input_updated :: "jv \<Rightarrow> oe_state \<Rightarrow> oe_state" where
  "oe_input_updated time st =
     (case oe_timer st of None \<Rightarrow> st
      | Some v \<Rightarrow>
          let hastag = list_ex (\<lambda>t. field t ''value'' = Str v) (oe_tagLst st)
          in st\<lparr>oe_timer := None, oe_tagLst := (if hastag then oe_tagLst st
               else oe_tagLst st @ [Obj [(''value'', Str v), (''label'', Str v), (''time'', time)]])\<rparr>)"

definition oe_openDiff :: "bool \<Rightarrow> oe_state \<Rightarrow> oe_result" where
  "oe_openDiff hasips st =
     (let st = st\<lparr>oe_hasips := Bool hasips\<rparr> in
      case (oe_editor st, oe_codeValue st) of
        (Some (_, left), Str right) \<Rightarrow>
          Inr (st, [Open_Dialog ''diffEditorDialog'' (Arr [Str (diff_text left), Str (diff_text right)])])
      | _ \<Rightarrow> Inl TypeError)"

definition key_prefix :: "string \<Rightarrow> string" where
  "key_prefix k = nth_or (split_on (CHR ''-'') k) 0 []"

definition oe_changeTab :: "oe_dom \<Rightarrow> string \<Rightarrow> oe_state \<Rightarrow> js_error + oe_state" where
  "oe_changeTab els v st =
     (let data = field (Obj (oe_valueMap st)) (key_prefix v); st = st\<lparr>oe_activeKey := v\<rparr> in
      if data = Undefined \<or> data = Null then Inl TypeError
      else let st = oe_setValue ''group'' (field data ''group'') (oe_setValue ''appName'' (oe_appName st data)
                      (oe_setValue ''dataId'' (field data ''dataId'') st));
               st = st\<lparr>oe_codeValue := js_or (field data ''content'') (Str [])\<rparr>
           in and_then (createCodeMirror els ''text'' (oe_codeValue st) st) (\<lambda>st.
                if truthy (field data ''betaIps'') then oe_changeBeta els True (oe_getIps (field data ''betaIps'') st)
                else oe_changeBeta els False (oe_getIps (Str []) st)))"

section \<open>Publishing\<close>

definition oe_payload :: "string \<Rightarrow> string \<Rightarrow> oe_state \<Rightarrow> jv obj" where
  "oe_payload tenant content st =
     [(''dataId'', oe_getValue st ''dataId''),
      (''appName'', if oe_edasAppName st \<noteq> [] then Str (oe_edasAppId st) else oe_getValue st ''appName''),
      (''group'', oe_getValue st ''group''), (''desc'', oe_getValue st ''desc''),
      (''config_tags'', Str (join '','' (oe_config_tags st))), (''type'', oe_configType st), (''content'', Str content),
      (''tenant'', Str tenant)]"

definition oe_send :: "browser \<Rightarrow> string \<Rightarrow> oe_state \<Rightarrow> oe_result" where
  "oe_send b content st =
     and_then (param_or b ''namespace'' []) (\<lambda>tenant.
     and_then (param_or b ''serverId'' ''center'') (\<lambda>serverId.
       let st = st\<lparr>oe_codeValue := Str content, oe_tenant := tenant, oe_serverId := Str serverId\<rparr>
       in Inr (st, [Send ((req ''v1/cs/configs'')\<lparr>c_type := Some ''post'', c_contentType := Some ''application/x-www-form-urlencoded'',
            c_data := Obj (oe_payload tenant content st), c_error := UserFn 1\<rparr>)])))"

text \<open>The question before a rejected text is sent is a fixed Chinese sentence, left out here.\<close>

definition oe_publishConfig :: "ed_env \<Rightarrow> jv \<Rightarrow> bool \<Rightarrow> browser \<Rightarrow> oe_state \<Rightarrow> oe_result" where
  "oe_publishConfig env loc errors b st =
     (if errors then Inr (st, [])
      else let content = (case oe_editor st of Some (_, s) \<Rightarrow> Str s | None \<Rightarrow> oe_codeValue st)
           in if \<not> truthy content then Inr (st, [Toast ''error'' (tr loc ''submitFailed'')])
              else case content of
                Str s \<Rightarrow> and_then (validate (env_yaml env) (env_xml env) s (to_str (oe_configType st))) (\<lambda>ok.
                  if truthy ok then oe_send b s st else Inr (st, [Confirm Undefined Undefined]))
              | _ \<Rightarrow> Inl OutsideModel)"

text \<open>
  The reply to a publication; \<open>now\<close> is the time in the keys of the new tabs. Again a null result
  takes the branch that reads its message and throws.
\<close>

definition oe_published :: "oe_dom \<Rightarrow> jv \<Rightarrow> string \<Rightarrow> jv obj \<Rightarrow> jv \<Rightarrow> oe_state \<Rightarrow> oe_result" where
  "oe_published els loc now payload res st =
     (if res = Null \<or> res = Undefined then Inl TypeError
      else let activeKey = key_prefix (oe_activeKey st);
               dialog = Open_Dialog ''successDialog'' (Obj [(''maintitle'', tr loc ''toedittitle''), (''title'', tr loc ''toedit''),
                 (''content'', Str []), (''dataId'', field (Obj payload) ''dataId''), (''group'', field (Obj payload) ''group''), (''isok'', Bool True)])
           in and_then
                (if activeKey = ''normal'' \<and> oe_hasips st = Bool True then
                   (let st = st\<lparr>oe_tag := [Obj [(''title'', tr loc ''official''), (''key'', Str (''normal-'' @ now))],
                                          Obj [(''title'', Str ''BETA''), (''key'', Str (''beta-'' @ now))]],
                               oe_hasbeta := True, oe_activeKey := ''beta-'' @ now\<rparr>;
                        payload = obj_put ''betaIps'' (js_or (field (Obj payload) ''betaIps'') (field (Obj payload) ''ips'')) payload
                    in oe_changeTab els (''beta-'' @ now) (st\<lparr>oe_valueMap := obj_put ''beta'' (Obj payload) (oe_valueMap st)\<rparr>))
                 else Inr st) (\<lambda>st.
                 Inr (if activeKey = ''normal'' \<and> oe_hasips st = Bool False
                        then st\<lparr>oe_valueMap := obj_put ''normal'' (Obj payload) (oe_valueMap st)\<rparr>
                      else if activeKey = ''beta'' \<and> oe_hasips st = Bool True
                        then st\<lparr>oe_valueMap := obj_put ''beta'' (Obj payload) (oe_valueMap st)\<rparr>
                      else st, [dialog])))"

text \<open>The publish button: the argument its handler passes to \<open>openDiff\<close>, none when it is disabled.\<close>

definition oe_publish_button :: "oe_state \<Rightarrow> bool option" where
  "oe_publish_button st =
     (if key_prefix (oe_activeKey st) = ''normal'' then (if oe_hasbeta st then None else Some (oe_checkedBeta st)) else Some False)"

definition oe_release_button :: "oe_state \<Rightarrow> bool option" where
  "oe_release_button st = (if key_prefix (oe_activeKey st) = ''beta'' then Some True else None)"

section \<open>Properties\<close>

subsection \<open>No beta release\<close>

text \<open>
  What can happen to the page: the configuration arrives, the user types, chooses a format or tags,
  opens the comparison with one of the buttons, publishes, and the publication is answered. A
  handler that throws is no step.
\<close>

inductive oe_reachable :: "ed_env \<Rightarrow> jv \<Rightarrow> oe_state \<Rightarrow> bool" for env loc where
  oe_start: "oe_init b = Inr st0 \<Longrightarrow> oe_mount loc b st0 = Inr (st, es) \<Longrightarrow> oe_reachable env loc st"
| oe_load: "oe_reachable env loc st \<Longrightarrow> oe_loaded env data st = Inr (st', es) \<Longrightarrow> oe_reachable env loc st'"
| oe_import: "oe_reachable env loc st \<Longrightarrow> oe_reachable env loc (oe_imported env v st)"
| oe_type: "oe_reachable env loc st \<Longrightarrow> oe_editor st = Some (l, s) \<Longrightarrow> oe_reachable env loc (st\<lparr>oe_editor := Some (l, s')\<rparr>)"
| oe_format: "oe_reachable env loc st \<Longrightarrow> oe_reachable env loc (fst (oe_newChangeConfig env f st))"
| oe_tags: "oe_reachable env loc st \<Longrightarrow> oe_reachable env loc (oe_setConfigTags ts st)"
| oe_value: "oe_reachable env loc st \<Longrightarrow> oe_reachable env loc (oe_setValue k v st)"
| oe_more: "oe_reachable env loc st \<Longrightarrow> oe_reachable env loc (oe_toggleMore st)"
| oe_diff: "oe_reachable env loc st \<Longrightarrow> oe_publish_button st = Some h \<or> oe_release_button st = Some h \<Longrightarrow>
    oe_openDiff h st = Inr (st', es) \<Longrightarrow> oe_reachable env loc st'"
| oe_publ: "oe_reachable env loc st \<Longrightarrow> oe_publishConfig env loc errors b st = Inr (st', es) \<Longrightarrow> oe_reachable env loc st'"
| oe_answer: "oe_reachable env loc st \<Longrightarrow> oe_published rendered_dom loc now payload res st = Inr (st', es) \<Longrightarrow> oe_reachable env loc st'"

definition no_beta :: "oe_state \<Rightarrow> bool" where
  "no_beta st \<longleftrightarrow> oe_activeKey st = ''normal'' \<and> \<not> oe_hasbeta st \<and> \<not> oe_checkedBeta st \<and> oe_hasips st \<noteq> Bool True"

lemma no_beta_frame [simp]:
  "no_beta (oe_setValue k v st) = no_beta st" "no_beta (oe_setConfigTags ts st) = no_beta st"
  "no_beta (oe_toggleMore st) = no_beta st" "no_beta (oe_imported env v st) = no_beta st"
  "no_beta (fst (oe_initMoacoEditor env v st)) = no_beta st" "no_beta (st\<lparr>oe_editor := ed\<rparr>) = no_beta st"
  by (simp_all add: no_beta_def oe_setValue_def oe_setConfigTags_def oe_toggleMore_def oe_imported_def oe_initMoacoEditor_def)

lemma no_beta_mount:
  assumes "oe_init b = Inr st0" "oe_mount loc b st0 = Inr (st, es)"
  shows "no_beta st"
proof -
  have "no_beta st0" using assms(1) by (auto simp: oe_init_def and_then_Inr_iff no_beta_def)
  then have "no_beta (oe_initData loc st0)" by (simp add: oe_initData_def Let_def no_beta_def)
  with assms(2) show ?thesis by (auto simp: oe_mount_def oe_getDataDetail_def and_then_Inr_iff no_beta_def)
qed

lemma key_prefix_normal [simp]: "key_prefix ''normal'' = ''normal''"
  by (simp add: key_prefix_def)

lemma no_beta_loaded:
  assumes "no_beta st" "oe_loaded env data st = Inr (st', es)"
  shows "no_beta st'"
  using assms
  by (auto simp: oe_loaded_def Let_def and_then_Inr_iff no_beta_def oe_setValue_def oe_initMoacoEditor_def oe_imported_def
      oe_setConfigTags_def split: if_splits jv.splits)

lemma no_beta_published:
  assumes "no_beta st" "res \<noteq> Null" "res \<noteq> Undefined"
  shows "\<exists>st' es. oe_published els loc now payload res st = Inr (st', es) \<and> no_beta st' \<and>
    st' = (if oe_hasips st = Bool False then st\<lparr>oe_valueMap := obj_put ''normal'' (Obj payload) (oe_valueMap st)\<rparr> else st)"
  using assms by (auto simp: oe_published_def no_beta_def)

lemma no_beta_publish:
  assumes "no_beta st" "oe_publishConfig env loc errors b st = Inr (st', es)"
  shows "no_beta st'"
  using assms by (auto simp: oe_publishConfig_def oe_send_def Let_def and_then_Inr_iff no_beta_def split: if_splits jv.splits)

text \<open>
  the former editor never releases a beta version: in every state it can reach no beta tab is
  shown, the release button is absent and publishing stays possible, and the answer to a
  publication is taken up without a throw. The element whose style \<open>changeBeta\<close> sets does not exist,
  so a call of it would throw.
\<close>

theorem old_editor_never_beta:
  assumes "oe_reachable env loc st"
  shows "no_beta st \<and> oe_publish_button st = Some False \<and> oe_release_button st = None \<and>
    (res \<noteq> Null \<and> res \<noteq> Undefined \<longrightarrow> (\<exists>st' es. oe_published rendered_dom loc now payload res st = Inr (st', es))) \<and>
    oe_changeBeta rendered_dom selected st = Inl TypeError"
proof -
  have "no_beta st"
    using assms
  proof (induction rule: oe_reachable.induct)
    case (oe_start b st0 st es)
    then show ?case using no_beta_mount by blast
  next
    case (oe_load st data st' es)
    then show ?case using no_beta_loaded by blast
  next
    case (oe_format st f)
    then show ?case
      by (auto simp: oe_newChangeConfig_def oe_changeModel_def no_beta_def oe_initMoacoEditor_def oe_imported_def split: option.splits)
  next
    case (oe_diff st h st' es)
    then show ?case
      by (auto simp: oe_openDiff_def oe_publish_button_def oe_release_button_def no_beta_def Let_def split: option.splits jv.splits)
  next
    case (oe_publ st errors b st' es)
    then show ?case using no_beta_publish by blast
  next
    case (oe_answer st now payload res st' es)
    then have "res \<noteq> Null" "res \<noteq> Undefined" by (auto simp: oe_published_def)
    from no_beta_published[OF oe_answer.IH this, of rendered_dom loc now payload] oe_answer.hyps(2) show ?case by auto
  qed simp_all
  then show ?thesis
    using no_beta_published[of st res rendered_dom loc now payload]
    by (auto simp: oe_publish_button_def oe_release_button_def no_beta_def oe_changeBeta_def rendered_dom_def)
qed

definition plain_env :: ed_env where
  "plain_env = \<lparr>env_yaml = (\<lambda>_. None), env_xml = NoXml, env_monaco = to_str, env_loaded = True, env_qs = to_str\<rparr>"

theorem old_editor_never_beta_witness:
  "\<exists>st. oe_reachable plain_env Null st \<and> oe_dataId st = ''a&b'' \<and> oe_publish_button st = Some False"
proof -
  note p = getParams_shows[OF sample_shows]
  have c: "''edasAppName'' \<in> set console_params" "''edasAppId'' \<in> set console_params" "''searchDataId'' \<in> set console_params"
    "''searchGroup'' \<in> set console_params" by (simp_all add: console_params_def)
  obtain st0 where i: "oe_init sample_browser = Inr st0" "oe_dataId st0 = ''a&b''"
    by (simp add: oe_init_def param_or_def p c str_or_def)
  obtain st es where m: "oe_mount Null sample_browser st0 = Inr (st, es)" "oe_dataId st = oe_dataId st0"
    by (simp add: oe_mount_def oe_getDataDetail_def param_or_def p oe_initData_def Let_def)
  have "oe_reachable plain_env Null st" by (rule oe_start[OF i(1) m(1)])
  with old_editor_never_beta[OF this, of Null "[]" "[]" True] i(2) m(2) show ?thesis by auto
qed

subsection \<open>Publishing and leaving\<close>

text \<open>
  the former editor publishes a text at once exactly when it is not empty and the check of its
  format accepts it, with the text as the content; a rejected text leads to a question and nothing
  is sent, and a form with errors sends nothing either.
\<close>

theorem old_editor_checks_content:
  assumes "oe_editor st = Some (l, s)" and "validate (env_yaml env) (env_xml env) s (to_str (oe_configType st)) = Inr ok"
    and "param_or b ''namespace'' [] = Inr tenant" and "param_or b ''serverId'' ''center'' = Inr server"
  shows "\<exists>st' es. oe_publishConfig env loc errors b st = Inr (st', es) \<and>
    ((\<exists>c. Send c \<in> set es) \<longleftrightarrow> \<not> errors \<and> s \<noteq> [] \<and> truthy ok) \<and>
    (\<forall>c. Send c \<in> set es \<longrightarrow> c_type c = Some ''post'' \<and> field (c_data c) ''content'' = Str s \<and> field (c_data c) ''tenant'' = Str tenant \<and>
       field (c_data c) ''dataId'' = oe_getValue st ''dataId'' \<and> field (c_data c) ''group'' = oe_getValue st ''group'')"
  using assms by (auto simp: oe_publishConfig_def oe_send_def Let_def oe_payload_def field_def oe_getValue_def req_def)

theorem old_editor_checks_content_witness:
  "\<exists>st' es. oe_publishConfig plain_env Null False sample_browser
      ((case oe_init sample_browser of Inr st \<Rightarrow> st | Inl _ \<Rightarrow> undefined)\<lparr>oe_editor := Some (Str ''json'', ''{}''), oe_configType := Str ''json''\<rparr>)
      = Inr (st', es) \<and> (\<exists>c. Send c \<in> set es)"
proof -
  let ?st = "(case oe_init sample_browser of Inr st \<Rightarrow> st | Inl _ \<Rightarrow> undefined)\<lparr>oe_editor := Some (Str ''json'', ''{}''), oe_configType := Str ''json''\<rparr>"
  have v: "validate (env_yaml plain_env) (env_xml plain_env) ''{}'' (to_str (oe_configType ?st)) = Inr (Bool True)"
  proof -
    have "validateJson ''{}'' = Inr (Bool True)" by code_simp
    then show ?thesis by (simp add: validate_def)
  qed
  have p: "param_or sample_browser ''namespace'' [] = Inr []" "param_or sample_browser ''serverId'' ''center'' = Inr ''center''"
    using getParams_shows[OF sample_shows] by (simp_all add: param_or_def)
  have "oe_editor ?st = Some (Str ''json'', ''{}'')" by simp
  from old_editor_checks_content[OF this v p, of Null False] show ?thesis by auto
qed

text \<open>
  once the configuration is loaded the way back names the server \<open>undefined\<close>: the handler of the
  reply overwrites the server of the location.
\<close>

theorem old_editor_back_loses_server:
  assumes "oe_loaded env data st = Inr (st', es)" and "param b ''namespace'' = Inr ns"
  shows "\<exists>url. oe_goList b st' = Inr [Push (link ''/configurationManagement'' ((''serverId'', ''undefined'') # url))]"
proof -
  have "oe_serverId st' = Undefined"
    using assms(1) by (auto simp: oe_loaded_def Let_def and_then_Inr_iff split: if_splits prod.splits)
  then show ?thesis using assms(2) by (auto simp: oe_goList_def)
qed

theorem old_editor_back_loses_server_witness:
  "\<exists>st es url. oe_loaded plain_env (Obj [(''content'', Str ''x'')]) (case oe_init sample_browser of Inr st \<Rightarrow> st | Inl _ \<Rightarrow> undefined) = Inr (st, es) \<and>
    oe_goList sample_browser st = Inr [Push (link ''/configurationManagement'' ((''serverId'', ''undefined'') # url))]"
proof -
  let ?st = "case oe_init sample_browser of Inr st \<Rightarrow> st | Inl _ \<Rightarrow> undefined"
  obtain st es where l: "oe_loaded plain_env (Obj [(''content'', Str ''x'')]) ?st = Inr (st, es)"
    by (simp add: oe_loaded_def Let_def field_def oe_initMoacoEditor_def plain_env_def)
  have "param sample_browser ''namespace'' = Inr Null" using getParams_shows[OF sample_shows, of "''namespace''"] by (simp add: param_def)
  from old_editor_back_loses_server[OF l this] l show ?thesis by blast
qed

text \<open>Choosing another format keeps the text, where the library returns a text as it was set.\<close>

lemma old_format_keeps_text:
  assumes "oe_editor st = Some (l, s)" "env_monaco env (Str s) = s"
  shows "oe_editor (fst (oe_newChangeConfig env f st)) = Some (Str f, s)"
  using assms by (simp add: oe_newChangeConfig_def oe_changeModel_def)

end
