(* ===== verification/Sample_Code.thy ===== *)
theory Sample_Code
  imports Page_Core
begin

text \<open>
  The dialogs with sample code, \<^verbatim>\<open>components/ShowCodeing/ShowCodeing.js\<close> for a configuration and
  \<^verbatim>\<open>ShowServiceCodeing.js\<close> for a service. Both are one machine: opening the dialog and choosing a tab
  queue a task, a task that generates the texts fills instance fields, and a tab shows the text that
  was in its field when the dialog was last rendered.
\<close>

section \<open>The texts\<close>

definition code_lines :: "string list \<Rightarrow> string" where
  "code_lines ls = join [CHR 10] ls"

definition tabs :: "nat \<Rightarrow> string" where
  "tabs n = replicate n (CHR 9)"

definition sprigboot_code :: \<open>string\<close> where
  \<open>sprigboot_code = code_lines [
     ''// Refer to document: https://github.com/nacos-group/nacos-examples/tree/master/nacos-spring-boot-example/nacos-spring-boot-config-example'',
     ''package com.alibaba.nacos.example.spring.boot.controller;'',
     [],
     ''import org.springframework.beans.factory.annotation.Value;'',
     ''import org.springframework.stereotype.Controller;'',
     ''import org.springframework.web.bind.annotation.RequestMapping;'',
     ''import org.springframework.web.bind.annotation.ResponseBody;'',
     [],
     ''import static org.springframework.web.bind.annotation.RequestMethod.GET;'',
     [],
     ''@Controller'',
     ''@RequestMapping("config")'',
     ''public class ConfigController {'',
     [],
     ''    @Value("${useLocalCache:false}")'',
     ''    private boolean useLocalCache;'',
     [],
     ''    public void setUseLocalCache(boolean useLocalCache) {'',
     ''        this.useLocalCache = useLocalCache;'',
     ''    }'',
     [],
     ''    @RequestMapping(value = "/get", method = GET)'',
     ''    @ResponseBody'',
     ''    public boolean get() {'',
     ''        return useLocalCache;'',
     ''    }'',
     ''}'']\<close>

definition sprigcloud_code :: \<open>string\<close> where
  \<open>sprigcloud_code = code_lines [
     ''// Refer to document:  https://github.com/nacos-group/nacos-examples/tree/master/nacos-spring-cloud-example/nacos-spring-cloud-config-example'',
     ''package com.alibaba.nacos.example.spring.cloud.controller;'',
     [],
     ''import org.springframework.beans.factory.annotation.Value;'',
     ''import org.springframework.cloud.context.config.annotation.RefreshScope;'',
     ''import org.springframework.web.bind.annotation.RequestMapping;'',
     ''import org.springframework.web.bind.annotation.RestController;'',
     [],
     ''@RestController'',
     ''@RequestMapping("/config")'',
     ''@RefreshScope'',
     ''public class ConfigController {'',
     [],
     ''    @Value("${useLocalCache:false}")'',
     ''    private boolean useLocalCache;'',
     [],
     ''    @RequestMapping("/get")'',
     ''    public boolean get() {'',
     ''        return useLocalCache;'',
     ''    }'',
     ''}'']\<close>

definition config_getJavaCode :: \<open>string \<Rightarrow> string \<Rightarrow> string\<close> where
  \<open>config_getJavaCode dataId grp = code_lines [
     ''/*'',
     ''* Demo for Nacos'',
     ''* pom.xml'',
     ''    <dependency>'',
     ''        <groupId>com.alibaba.nacos</groupId>'',
     ''        <artifactId>nacos-client</artifactId>'',
     ''        <version>${version}</version>'',
     ''    </dependency>'',
     ''*/'',
     ''package com.alibaba.nacos.example;'',
     [],
     ''import java.util.Properties;'',
     ''import java.util.concurrent.Executor;'',
     ''import com.alibaba.nacos.api.NacosFactory;'',
     ''import com.alibaba.nacos.api.config.ConfigService;'',
     ''import com.alibaba.nacos.api.config.listener.Listener;'',
     ''import com.alibaba.nacos.api.exception.NacosException;'',
     [],
     ''/**'',
     '' * Config service example'',
     '' *'',
     '' * @author Nacos'',
     '' *'',
     '' */'',
     ''public class ConfigExample {'',
     [],
     tabs 1 @ ''public static void main(String[] args) throws NacosException, InterruptedException {'',
     tabs 2 @ ''String serverAddr = "localhost";'',
     tabs 2 @ ''String dataId = "'' @ dataId @ ''";'',
     tabs 2 @ ''String group = "'' @ grp @ ''";'',
     tabs 2 @ ''Properties properties = new Properties();'',
     tabs 2 @ ''properties.put(PropertyKeyConst.SERVER_ADDR, serverAddr);'',
     tabs 2 @ ''ConfigService configService = NacosFactory.createConfigService(properties);'',
     tabs 2 @ ''String content = configService.getConfig(dataId, group, 5000);'',
     tabs 2 @ ''System.out.println(content);'',
     tabs 2 @ ''configService.addListener(dataId, group, new Listener() {'',
     tabs 3 @ ''@Override'',
     tabs 3 @ ''public void receiveConfigInfo(String configInfo) {'',
     tabs 4 @ ''System.out.println("recieve:" + configInfo);'',
     tabs 3 @ ''}'',
     [],
     tabs 3 @ ''@Override'',
     tabs 3 @ ''public Executor getExecutor() {'',
     tabs 4 @ ''return null;'',
     tabs 3 @ ''}'',
     tabs 2 @ ''});'',
     [],
     tabs 2 @ ''boolean isPublishOk = configService.publishConfig(dataId, group, "content");'',
     tabs 2 @ ''System.out.println(isPublishOk);'',
     [],
     tabs 2 @ ''Thread.sleep(3000);'',
     tabs 2 @ ''content = configService.getConfig(dataId, group, 5000);'',
     tabs 2 @ ''System.out.println(content);'',
     [],
     tabs 2 @ ''boolean isRemoveOk = configService.removeConfig(dataId, group);'',
     tabs 2 @ ''System.out.println(isRemoveOk);'',
     tabs 2 @ ''Thread.sleep(3000);'',
     [],
     tabs 2 @ ''content = configService.getConfig(dataId, group, 5000);'',
     tabs 2 @ ''System.out.println(content);'',
     tabs 2 @ ''Thread.sleep(300000);'',
     [],
     tabs 1 @ ''}'',
     ''}'',
     []]\<close>

definition service_getJavaCode :: \<open>string \<Rightarrow> string\<close> where
  \<open>service_getJavaCode name = code_lines [
     ''/* Refer to document: https://github.com/alibaba/nacos/blob/master/example/src/main/java/com/alibaba/nacos/example'',
     ''*  pom.xml'',
     ''    <dependency>'',
     ''        <groupId>com.alibaba.nacos</groupId>'',
     ''        <artifactId>nacos-client</artifactId>'',
     ''        <version>${latest.version}</version>'',
     ''    </dependency>'',
     ''*/'',
     ''package com.alibaba.nacos.example;'',
     [],
     ''import java.util.Properties;'',
     [],
     ''import com.alibaba.nacos.api.exception.NacosException;'',
     ''import com.alibaba.nacos.api.naming.NamingFactory;'',
     ''import com.alibaba.nacos.api.naming.NamingService;'',
     ''import com.alibaba.nacos.api.naming.listener.Event;'',
     ''import com.alibaba.nacos.api.naming.listener.EventListener;'',
     ''import com.alibaba.nacos.api.naming.listener.NamingEvent;'',
     [],
     ''/**'',
     '' * @author nkorange'',
     '' */'',
     ''public class NamingExample {'',
     [],
     ''    public static void main(String[] args) throws NacosException {'',
     [],
     ''        Properties properties = new Properties();'',
     ''        properties.setProperty("serverAddr", System.getProperty("serverAddr"));'',
     ''        properties.setProperty("namespace", System.getProperty("namespace"));'',
     [],
     ''        NamingService naming = NamingFactory.createNamingService(properties);'',
     [],
     ''        naming.registerInstance("'' @ name @ ''", "11.11.11.11", 8888, "TEST1");'',
     [],
     ''        naming.registerInstance("'' @ name @ ''", "2.2.2.2", 9999, "DEFAULT");'',
     [],
     ''        System.out.println(naming.getAllInstances("'' @ name @ ''"));'',
     [],
     ''        naming.deregisterInstance("'' @ name @ ''", "2.2.2.2", 9999, "DEFAULT");'',
     [],
     ''        System.out.println(naming.getAllInstances("'' @ name @ ''"));'',
     [],
     ''        naming.subscribe("'' @ name @ ''", new EventListener() {'',
     ''            @Override'',
     ''            public void onEvent(Event event) {'',
     ''                System.out.println(((NamingEvent)event).getServiceName());'',
     ''                System.out.println(((NamingEvent)event).getInstances());'',
     ''            }'',
     ''        });'',
     ''    }'',
     ''}'']\<close>

definition getSpringCode :: \<open>string\<close> where
  \<open>getSpringCode = code_lines [
     ''/* Refer to document: https://github.com/nacos-group/nacos-examples/tree/master/nacos-spring-example/nacos-spring-discovery-example'',
     ''*  pom.xml'',
     ''    <dependency>'',
     ''        <groupId>com.alibaba.nacos</groupId>'',
     ''        <artifactId>nacos-spring-context</artifactId>'',
     ''        <version>${latest.version}</version>'',
     ''    </dependency>'',
     ''*/'',
     [],
     ''// Refer to document:  https://github.com/nacos-group/nacos-examples/blob/master/nacos-spring-example/nacos-spring-discovery-example/src/main/java/com/alibaba/nacos/example/spring'',
     ''package com.alibaba.nacos.example.spring;'',
     [],
     ''import com.alibaba.nacos.api.annotation.NacosProperties;'',
     ''import com.alibaba.nacos.spring.context.annotation.discovery.EnableNacosDiscovery;'',
     ''import org.springframework.context.annotation.Configuration;'',
     [],
     ''@Configuration'',
     ''@EnableNacosDiscovery(globalProperties = @NacosProperties(serverAddr = "127.0.0.1:8848"))'',
     ''public class NacosConfiguration {'',
     [],
     ''}'',
     [],
     ''// Refer to document: https://github.com/nacos-group/nacos-examples/tree/master/nacos-spring-example/nacos-spring-discovery-example/src/main/java/com/alibaba/nacos/example/spring/controller'',
     ''package com.alibaba.nacos.example.spring.controller;'',
     [],
     ''import com.alibaba.nacos.api.annotation.NacosInjected;'',
     ''import com.alibaba.nacos.api.exception.NacosException;'',
     ''import com.alibaba.nacos.api.naming.NamingService;'',
     ''import com.alibaba.nacos.api.naming.pojo.Instance;'',
     ''import org.springframework.stereotype.Controller;'',
     ''import org.springframework.web.bind.annotation.RequestMapping;'',
     ''import org.springframework.web.bind.annotation.RequestParam;'',
     ''import org.springframework.web.bind.annotation.ResponseBody;'',
     [],
     ''import java.util.List;'',
     [],
     ''import static org.springframework.web.bind.annotation.RequestMethod.GET;'',
     [],
     ''@Controller'',
     ''@RequestMapping("discovery")'',
     ''public class DiscoveryController {'',
     [],
     ''    @NacosInjected'',
     ''    private NamingService namingService;'',
     [],
     ''    @RequestMapping(value = "/get", method = GET)'',
     ''    @ResponseBody'',
     ''    public List<Instance> get(@RequestParam String serviceName) throws NacosException {'',
     ''        return namingService.getAllInstances(serviceName);'',
     ''    }'',
     ''}'']\<close>

definition getSpringBootCode :: \<open>string\<close> where
  \<open>getSpringBootCode = code_lines [
     ''/* Refer to document: https://github.com/nacos-group/nacos-examples/blob/master/nacos-spring-boot-example/nacos-spring-boot-discovery-example'',
     ''*  pom.xml'',
     ''    <dependency>'',
     ''       <groupId>com.alibaba.boot</groupId>'',
     ''       <artifactId>nacos-discovery-spring-boot-starter</artifactId>'',
     ''       <version>${latest.version}</version>'',
     ''    </dependency>'',
     ''*/'',
     ''/* Refer to document:  https://github.com/nacos-group/nacos-examples/blob/master/nacos-spring-boot-example/nacos-spring-boot-discovery-example/src/main/resources'',
     ''* application.properties'',
     ''   nacos.discovery.server-addr=127.0.0.1:8848'',
     ''*/'',
     ''// Refer to document: https://github.com/nacos-group/nacos-examples/blob/master/nacos-spring-boot-example/nacos-spring-boot-discovery-example/src/main/java/com/alibaba/nacos/example/spring/boot/controller'',
     [],
     ''package com.alibaba.nacos.example.spring.boot.controller;'',
     [],
     ''import com.alibaba.nacos.api.annotation.NacosInjected;'',
     ''import com.alibaba.nacos.api.exception.NacosException;'',
     ''import com.alibaba.nacos.api.naming.NamingService;'',
     ''import com.alibaba.nacos.api.naming.pojo.Instance;'',
     ''import org.springframework.stereotype.Controller;'',
     ''import org.springframework.web.bind.annotation.RequestMapping;'',
     ''import org.springframework.web.bind.annotation.RequestParam;'',
     ''import org.springframework.web.bind.annotation.ResponseBody;'',
     [],
     ''import java.util.List;'',
     [],
     ''import static org.springframework.web.bind.annotation.RequestMethod.GET;'',
     [],
     ''@Controller'',
     ''@RequestMapping("discovery")'',
     ''public class DiscoveryController {'',
     [],
     ''    @NacosInjected'',
     ''    private NamingService namingService;'',
     [],
     ''    @RequestMapping(value = "/get", method = GET)'',
     ''    @ResponseBody'',
     ''    public List<Instance> get(@RequestParam String serviceName) throws NacosException {'',
     ''        return namingService.getAllInstances(serviceName);'',
     ''    }'',
     ''}'']\<close>

definition getSpringCloudCode :: \<open>string \<Rightarrow> string\<close> where
  \<open>getSpringCloudCode name = code_lines [
     ''/* Refer to document: https://github.com/nacos-group/nacos-examples/blob/master/nacos-spring-cloud-example/nacos-spring-cloud-discovery-example/'',
     ''*  pom.xml'',
     ''    <dependency>'',
     ''       <groupId>org.springframework.cloud</groupId>'',
     ''       <artifactId>spring-cloud-starter-alibaba-nacos-discovery</artifactId>'',
     ''       <version>${latest.version}</version>'',
     ''    </dependency>'',
     ''*/'',
     [],
     ''// nacos-spring-cloud-provider-example'',
     [],
     ''/* Refer to document:  https://github.com/nacos-group/nacos-examples/tree/master/nacos-spring-cloud-example/nacos-spring-cloud-discovery-example/nacos-spring-cloud-provider-example/src/main/resources'',
     ''* application.properties'',
     ''server.port=18080'',
     ''spring.application.name='' @ name,
     ''spring.cloud.nacos.discovery.server-addr=127.0.0.1:8848'',
     ''*/'',
     [],
     ''// Refer to document: https://github.com/nacos-group/nacos-examples/tree/master/nacos-spring-cloud-example/nacos-spring-cloud-discovery-example/nacos-spring-cloud-provider-example/src/main/java/com/alibaba/nacos/example/spring/cloud'',
     ''package com.alibaba.nacos.example.spring.cloud;'',
     [],
     ''import org.springframework.boot.SpringApplication;'',
     ''import org.springframework.boot.autoconfigure.SpringBootApplication;'',
     ''import org.springframework.cloud.client.discovery.EnableDiscoveryClient;'',
     ''import org.springframework.web.bind.annotation.PathVariable;'',
     ''import org.springframework.web.bind.annotation.RequestMapping;'',
     ''import org.springframework.web.bind.annotation.RequestMethod;'',
     ''import org.springframework.web.bind.annotation.RestController;'',
     [],
     ''/**'',
     '' * @author xiaojing'',
     '' */'',
     ''@SpringBootApplication'',
     ''@EnableDiscoveryClient'',
     ''public class NacosProviderApplication {'',
     [],
     ''  public static void main(String[] args) {'',
     ''    SpringApplication.run(NacosProviderApplication.class, args);'',
     ''}'',
     [],
     ''  @RestController'',
     ''  class EchoController {'',
     ''    @RequestMapping(value = "/echo/{string}", method = RequestMethod.GET)'',
     ''    public String echo(@PathVariable String string) {'',
     ''      return "Hello Nacos Discovery " + string;'',
     ''    }'',
     ''  }'',
     ''}'',
     [],
     ''// nacos-spring-cloud-consumer-example'',
     [],
     ''/* Refer to document: https://github.com/nacos-group/nacos-examples/tree/master/nacos-spring-cloud-example/nacos-spring-cloud-discovery-example/nacos-spring-cloud-consumer-example/src/main/resources'',
     ''* application.properties'',
     ''spring.application.name=micro-service-oauth2'',
     ''spring.cloud.nacos.discovery.server-addr=127.0.0.1:8848'',
     ''*/'',
     [],
     ''// Refer to document: https://github.com/nacos-group/nacos-examples/tree/master/nacos-spring-cloud-example/nacos-spring-cloud-discovery-example/nacos-spring-cloud-consumer-example/src/main/java/com/alibaba/nacos/example/spring/cloud'',
     ''package com.alibaba.nacos.example.spring.cloud;'',
     [],
     ''import org.springframework.beans.factory.annotation.Autowired;'',
     ''import org.springframework.boot.SpringApplication;'',
     ''import org.springframework.boot.autoconfigure.SpringBootApplication;'',
     ''import org.springframework.cloud.client.discovery.EnableDiscoveryClient;'',
     ''import org.springframework.cloud.client.loadbalancer.LoadBalanced;'',
     ''import org.springframework.context.annotation.Bean;'',
     ''import org.springframework.web.bind.annotation.PathVariable;'',
     ''import org.springframework.web.bind.annotation.RequestMapping;'',
     ''import org.springframework.web.bind.annotation.RequestMethod;'',
     ''import org.springframework.web.bind.annotation.RestController;'',
     ''import org.springframework.web.client.RestTemplate;'',
     [],
     ''/**'',
     '' * @author xiaojing'',
     '' */'',
     ''@SpringBootApplication'',
     ''@EnableDiscoveryClient'',
     ''public class NacosConsumerApplication {'',
     [],
     ''    @LoadBalanced'',
     ''    @Bean'',
     ''    public RestTemplate restTemplate() {'',
     ''        return new RestTemplate();'',
     ''    }'',
     [],
     ''    public static void main(String[] args) {'',
     ''        SpringApplication.run(NacosConsumerApplication.class, args);'',
     ''    }'',
     [],
     ''    @RestController'',
     ''    public class TestController {'',
     [],
     ''        private final RestTemplate restTemplate;'',
     [],
     ''        @Autowired'',
     ''        public TestController(RestTemplate restTemplate) {this.restTemplate = restTemplate;}'',
     [],
     ''        @RequestMapping(value = "/echo/{str}", method = RequestMethod.GET)'',
     ''        public String echo(@PathVariable String str) {'',
     ''            return restTemplate.getForObject("http://service-provider/echo/" + str, String.class);'',
     ''        }'',
     ''    }'',
     ''}'']\<close>

section \<open>The dialog\<close>

text \<open>\<open>sc_rendered\<close> are the texts bound into the tabs at the last rendering, \<open>sc_pending\<close> the tasks in the order of their timers.\<close>

datatype sc_task = Load_Code | Show_Code string string

record sc_state =
  sc_visible :: bool
  sc_loading :: bool
  sc_record :: jv
  sc_codes :: "string obj"
  sc_rendered :: "string obj"
  sc_preview :: "(string \<times> string) option"
  sc_shown :: "string list"
  sc_pending :: "sc_task list"

definition todo_codes :: "string obj" where
  "todo_codes = [(''nodejsCode'', ''TODO''), (''cppCode'', ''TODO''), (''shellCode'', ''TODO''), (''pythonCode'', ''TODO'')]"

definition sc_start :: "string obj \<Rightarrow> sc_state" where
  "sc_start codes = \<lparr>sc_visible = False, sc_loading = False, sc_record = Obj [], sc_codes = codes, sc_rendered = codes,
     sc_preview = None, sc_shown = [], sc_pending = []\<rparr>"

definition config_sample_init :: sc_state where
  "config_sample_init = sc_start ([(''defaultCode'', [])] @ todo_codes
     @ [(''sprigboot_code'', sprigboot_code), (''sprigcloud_code'', sprigcloud_code)])"

definition service_sample_init :: sc_state where
  "service_sample_init = sc_start ([(''defaultCode'', [])] @ todo_codes
     @ [(''springCode'', ''TODO''), (''sprigbootCode'', ''TODO''), (''sprigcloudCode'', ''TODO'')])"

definition sc_render :: "sc_state \<Rightarrow> sc_state" where
  "sc_render st = st\<lparr>sc_rendered := sc_codes st\<rparr>"

definition sc_openLoading :: "sc_state \<Rightarrow> sc_state" where
  "sc_openLoading st = sc_render (st\<lparr>sc_loading := True\<rparr>)"

definition sc_closeLoading :: "sc_state \<Rightarrow> sc_state" where
  "sc_closeLoading st = sc_render (st\<lparr>sc_loading := False\<rparr>)"

definition sc_openDialog :: "jv \<Rightarrow> sc_state \<Rightarrow> sc_state" where
  "sc_openDialog rec st =
     (sc_render (st\<lparr>sc_visible := True\<rparr>))\<lparr>sc_record := rec, sc_pending := sc_pending st @ [Load_Code]\<rparr>"

definition sc_closeDialog :: "sc_state \<Rightarrow> sc_state" where
  "sc_closeDialog st = sc_render (st\<lparr>sc_visible := False\<rparr>)"

text \<open>\<open>target\<close> says whether the element of the preview is there.\<close>

definition sc_createCodeMirror :: "bool \<Rightarrow> string \<Rightarrow> string \<Rightarrow> sc_state \<Rightarrow> sc_state" where
  "sc_createCodeMirror target mode code st = (if target then st\<lparr>sc_preview := Some (mode, code)\<rparr> else st)"

definition sc_changeTab :: "string \<Rightarrow> string \<Rightarrow> sc_state \<Rightarrow> sc_state" where
  "sc_changeTab key name st =
     st\<lparr>sc_pending := sc_pending st @ [Show_Code key (case map_of (sc_rendered st) name of None \<Rightarrow> [] | Some c \<Rightarrow> c)]\<rparr>"

definition sample_field :: "jv \<Rightarrow> string \<Rightarrow> string" where
  "sample_field rec k = to_str (js_or (field rec k) (Str []))"

text \<open>The fields \<open>getData\<close> assigns, in the order of the source.\<close>

definition config_codes :: "jv \<Rightarrow> string obj" where
  "config_codes rec = (''defaultCode'', config_getJavaCode (sample_field rec ''dataId'') (sample_field rec ''group'')) # todo_codes"

definition service_codes :: "jv \<Rightarrow> string obj" where
  "service_codes rec =
     [(''defaultCode'', service_getJavaCode (to_str (field rec ''name''))), (''springCode'', getSpringCode),
      (''sprigbootCode'', getSpringBootCode), (''sprigcloudCode'', getSpringCloudCode (to_str (field rec ''name'')))] @ todo_codes"

definition sc_getData :: "(jv \<Rightarrow> string obj) \<Rightarrow> bool \<Rightarrow> browser \<Rightarrow> sc_state \<Rightarrow> js_error + sc_state" where
  "sc_getData gen target b st =
     and_then (param b ''namespace'') (\<lambda>_.
       if sc_record st = Undefined \<or> sc_record st = Null then Inl TypeError
       else (let codes = gen (sc_record st);
                 st = sc_createCodeMirror target ''text/x-java'' (case map_of codes ''defaultCode'' of None \<Rightarrow> [] | Some c \<Rightarrow> c) st
             in Inr (sc_render (st\<lparr>sc_codes := obj_assign (sc_codes st) codes\<rparr>))))"

definition config_getData :: "bool \<Rightarrow> browser \<Rightarrow> sc_state \<Rightarrow> js_error + sc_state" where
  "config_getData = sc_getData config_codes"

definition service_getData :: "bool \<Rightarrow> browser \<Rightarrow> sc_state \<Rightarrow> js_error + sc_state" where
  "service_getData = sc_getData service_codes"

text \<open>One task, and all pending tasks in order; no task queues another.\<close>

fun run_task :: "(bool \<Rightarrow> browser \<Rightarrow> sc_state \<Rightarrow> js_error + sc_state) \<Rightarrow> bool \<Rightarrow> browser \<Rightarrow> sc_task \<Rightarrow> sc_state \<Rightarrow> js_error + sc_state" where
  "run_task load target b Load_Code st = load target b st"
| "run_task load target b (Show_Code key code) st =
     Inr (sc_createCodeMirror target ''text/javascript'' code (st\<lparr>sc_shown := sc_shown st @ [key]\<rparr>))"

fun sc_tasks :: "(bool \<Rightarrow> browser \<Rightarrow> sc_state \<Rightarrow> js_error + sc_state) \<Rightarrow> bool \<Rightarrow> browser \<Rightarrow> sc_task list \<Rightarrow> sc_state \<Rightarrow> js_error + sc_state" where
  "sc_tasks load target b [] st = Inr st"
| "sc_tasks load target b (t # ts) st = and_then (run_task load target b t st) (sc_tasks load target b ts)"

definition sc_settle :: "(bool \<Rightarrow> browser \<Rightarrow> sc_state \<Rightarrow> js_error + sc_state) \<Rightarrow> bool \<Rightarrow> browser \<Rightarrow> sc_state \<Rightarrow> js_error + sc_state" where
  "sc_settle load target b st = sc_tasks load target b (sc_pending st) (st\<lparr>sc_pending := []\<rparr>)"

section \<open>Properties\<close>

lemma code_line_sublist: "l \<in> set ls \<Longrightarrow> sublist l (code_lines ls)"
proof (induction ls)
  case (Cons x ls)
  show ?case
  proof (cases "l = x")
    case True
    then have "\<exists>ss. code_lines (x # ls) = [] @ l @ ss" by (simp add: code_lines_def join_Cons)
    then show ?thesis unfolding sublist_def by blast
  next
    case False
    with Cons.prems have "l \<in> set ls" "ls \<noteq> []" by auto
    moreover obtain ps ss where "code_lines ls = ps @ l @ ss" using Cons.IH[OF calculation(1)] unfolding sublist_def by blast
    ultimately have "code_lines (x # ls) = (x @ [CHR 10] @ ps) @ l @ ss" by (simp add: code_lines_def join_Cons)
    then show ?thesis unfolding sublist_def by blast
  qed
qed simp

lemma sublist_suffix_part: "sublist (a @ l) ys \<Longrightarrow> sublist l ys"
  by (metis append.assoc sublist_def)

lemma config_code_names:
  "sublist (''String dataId = '' @ [CHR 34] @ d @ [CHR 34] @ '';'') (config_getJavaCode d g)"
  "sublist (''String group = '' @ [CHR 34] @ g @ [CHR 34] @ '';'') (config_getJavaCode d g)"
  unfolding config_getJavaCode_def
  by (rule sublist_suffix_part[of "tabs 2"], rule code_line_sublist, simp)+

lemma sc_tasks_append:
  "sc_tasks load target b (ts @ us) st = and_then (sc_tasks load target b ts st) (sc_tasks load target b us)"
proof (induction ts arbitrary: st)
  case (Cons t ts)
  then show ?case by (cases "run_task load target b t st") simp_all
qed simp

lemma sc_tasks_ok:
  assumes "param b ''namespace'' = Inr ns" "is_obj (sc_record st)"
  shows "\<exists>st'. sc_tasks (sc_getData gen) target b ts st = Inr st' \<and> sc_record st' = sc_record st \<and> sc_pending st' = sc_pending st"
  using assms(2)
proof (induction ts arbitrary: st)
  case (Cons t ts)
  have "\<exists>st'. run_task (sc_getData gen) target b t st = Inr st' \<and> sc_record st' = sc_record st \<and> sc_pending st' = sc_pending st"
    using assms(1) Cons.prems by (cases t) (auto simp: sc_getData_def Let_def sc_render_def sc_createCodeMirror_def)
  then obtain st1 where st1: "run_task (sc_getData gen) target b t st = Inr st1" "sc_record st1 = sc_record st" "sc_pending st1 = sc_pending st"
    by blast
  from Cons.IH[of st1] Cons.prems st1 show ?case by simp
qed simp

lemma opened_dialog_settles:
  assumes "param b ''namespace'' = Inr ns" "is_obj rec" "map_of (gen rec) ''defaultCode'' = Some c"
    "distinct (map fst (gen rec))" "''__proto__'' \<notin> fst ` set (gen rec)" "map_of (gen rec) name = Some d"
  shows "\<exists>st1 st2. sc_settle (sc_getData gen) True b (sc_openDialog rec st) = Inr st1 \<and> sc_preview st1 = Some (''text/x-java'', c) \<and>
    sc_settle (sc_getData gen) True b (sc_changeTab key name st1) = Inr st2 \<and> sc_preview st2 = Some (''text/javascript'', d)"
proof -
  let ?s = "(sc_openDialog rec st)\<lparr>sc_pending := []\<rparr>"
  have r: "sc_record ?s = rec" "sc_pending ?s = []" by (simp_all add: sc_openDialog_def)
  obtain s1 where s1: "sc_tasks (sc_getData gen) True b (sc_pending st) ?s = Inr s1" "sc_record s1 = rec" "sc_pending s1 = []"
    using sc_tasks_ok[OF assms(1), of ?s gen True "sc_pending st"] r assms(2) by auto
  let ?s2 = "(s1\<lparr>sc_preview := Some (''text/x-java'', c)\<rparr>)\<lparr>sc_codes := obj_assign (sc_codes s1) (gen rec)\<rparr>"
  have g: "sc_getData gen True b s1 = Inr (sc_render ?s2)"
    using assms(1-3) s1(2) by (auto simp: sc_getData_def sc_createCodeMirror_def Let_def)
  have p: "sc_pending (sc_openDialog rec st) = sc_pending st @ [Load_Code]" by (simp add: sc_openDialog_def)
  have o: "sc_settle (sc_getData gen) True b (sc_openDialog rec st) = Inr (sc_render ?s2)"
    unfolding sc_settle_def p sc_tasks_append s1(1) by (simp add: g)
  have "map_of (obj_assign (sc_codes s1) (gen rec)) name = Some d"
  proof -
    have "name \<noteq> ''__proto__''" using assms(5,6) map_of_SomeD[OF assms(6)] by force
    then show ?thesis using map_of_obj_assign[OF assms(4), of "sc_codes s1" name] assms(6) by simp
  qed
  then show ?thesis using o s1(3) by (simp add: sc_settle_def sc_changeTab_def sc_render_def sc_createCodeMirror_def)
qed

text \<open>
  once its tasks have run, an opened dialog shows the Java sample of the configuration it was opened
  for, whatever tasks earlier openings and tabs had left, and a tab chosen then shows the text of
  that configuration; the sample quotes the data identifier and the group.
\<close>

theorem sample_follows_record:
  assumes "param b ''namespace'' = Inr ns" and "is_obj rec" and "map_of (config_codes rec) name = Some d"
  shows "\<exists>st1 st2 c. sc_settle config_getData True b (sc_openDialog rec st) = Inr st1 \<and> sc_preview st1 = Some (''text/x-java'', c) \<and>
    sublist (''String dataId = '' @ [CHR 34] @ sample_field rec ''dataId'' @ [CHR 34] @ '';'') c \<and>
    sublist (''String group = '' @ [CHR 34] @ sample_field rec ''group'' @ [CHR 34] @ '';'') c \<and>
    sc_settle config_getData True b (sc_changeTab key name st1) = Inr st2 \<and> sc_preview st2 = Some (''text/javascript'', d)"
proof -
  have "map_of (config_codes rec) ''defaultCode'' = Some (config_getJavaCode (sample_field rec ''dataId'') (sample_field rec ''group''))"
    "distinct (map fst (config_codes rec))" "''__proto__'' \<notin> fst ` set (config_codes rec)"
    by (simp_all add: config_codes_def todo_codes_def)
  from opened_dialog_settles[of b ns rec config_codes, OF assms(1,2) this assms(3), of st key] config_code_names
  show ?thesis unfolding config_getData_def by blast
qed

theorem sample_follows_record_witness:
  "\<exists>st1 st2. sc_settle config_getData True sample_browser (sc_openDialog (Obj [(''dataId'', Str ''a''), (''group'', Str ''G'')]) config_sample_init) = Inr st1 \<and>
    sc_settle config_getData True sample_browser (sc_changeTab ''commoneditor4'' ''cppCode'' st1) = Inr st2 \<and>
    sc_preview st2 = Some (''text/javascript'', ''TODO'')"
proof -
  have p: "param sample_browser ''namespace'' = Inr Null"
    using getParams_shows[OF sample_shows, of "''namespace''"] by (simp add: param_def)
  have "map_of (config_codes (Obj [(''dataId'', Str ''a''), (''group'', Str ''G'')])) ''cppCode'' = Some ''TODO''"
    by (simp add: config_codes_def todo_codes_def)
  from sample_follows_record[OF p _ this, of config_sample_init "''commoneditor4''"] show ?thesis by auto
qed

text \<open>
  a tab chosen before the texts of a new service are there shows the text of the service the dialog
  was opened for before: the text is bound when the tab is drawn and shown after the loading task.
\<close>

theorem early_tab_shows_former_record:
  assumes "param b ''namespace'' = Inr ns" and "is_obj rec1" and "is_obj rec2" and "sc_pending st = []"
  shows "\<exists>st1 st2. sc_settle service_getData True b (sc_openDialog rec1 st) = Inr st1 \<and>
    sc_settle service_getData True b (sc_changeTab key ''sprigcloudCode'' (sc_openDialog rec2 st1)) = Inr st2 \<and>
    sc_preview st2 = Some (''text/javascript'', getSpringCloudCode (to_str (field rec1 ''name'')))"
proof -
  have n: "rec1 \<noteq> Undefined" "rec1 \<noteq> Null" "rec2 \<noteq> Undefined" "rec2 \<noteq> Null" using assms(2,3) by auto
  have "map_of (obj_assign cs (service_codes rec1)) ''sprigcloudCode'' = Some (getSpringCloudCode (to_str (field rec1 ''name'')))" for cs
    by (subst map_of_obj_assign) (simp_all add: service_codes_def todo_codes_def)
  then show ?thesis
    using assms(1,4) n
    by (simp add: service_getData_def sc_settle_def sc_openDialog_def sc_changeTab_def sc_getData_def sc_render_def sc_createCodeMirror_def Let_def)
qed

theorem early_tab_shows_former_record_witness:
  "\<exists>st1 st2. sc_settle service_getData True sample_browser (sc_openDialog (Obj [(''name'', Str ''a'')]) service_sample_init) = Inr st1 \<and>
    sc_settle service_getData True sample_browser (sc_changeTab ''k'' ''sprigcloudCode'' (sc_openDialog (Obj [(''name'', Str ''b'')]) st1)) = Inr st2 \<and>
    sc_preview st2 = Some (''text/javascript'', getSpringCloudCode ''a'')"
proof -
  have p: "param sample_browser ''namespace'' = Inr Null"
    using getParams_shows[OF sample_shows, of "''namespace''"] by (simp add: param_def)
  have f: "field (Obj [(''name'', Str ''a'')]) ''name'' = Str ''a''" by (simp add: field_def)
  have "sc_pending service_sample_init = []" by (simp add: service_sample_init_def sc_start_def)
  from early_tab_shows_former_record[OF p _ _ this, of "Obj [(''name'', Str ''a'')]" "Obj [(''name'', Str ''b'')]" "''k''"]
  show ?thesis unfolding f by simp
qed

end
