(* ===== verification/Views.thy ===== *)
theory Views
  imports Authority Sample_Code
begin

text \<open>
  What the pages draw, as far as it depends on their state: the menu of \<^verbatim>\<open>layouts/MainLayout.js\<close>, the
  header, which pages of a list can be reached from its pager, and the rows, columns and buttons of the
  tables. A click on an element of a view is the effect or the function the element carries.
\<close>

section \<open>The menu and the header\<close>

text \<open>An entry of the menu: its key, its text, its class and the effect of a click.\<close>

type_synonym menu_item = "string \<times> jv \<times> string option \<times> effect"

datatype nav_line =
    Single menu_item
  | Sub string jv "menu_item list"

datatype layout_view =
    Back_Arrow effect
  | Nav_Menu jv jv "string option" "nav_line list"

definition main_mount :: "effect list" where
  "main_mount = [Axios (thunk_call getState)]"

definition main_goBack :: effect where
  "main_goBack = Go_Back"

text \<open>\<open>['first-menu', this.isCurrentPath(url)].filter(c => c).join(' ')\<close>\<close>

definition first_class :: "string \<Rightarrow> string \<Rightarrow> string" where
  "first_class pathname url =
     join '' '' (filter (\<lambda>c. c \<noteq> []) [''first-menu'', case isCurrentPath pathname url of None \<Rightarrow> [] | Some c \<Rightarrow> c])"

definition sub_item :: "jv \<Rightarrow> string \<Rightarrow> string \<Rightarrow> nat \<Rightarrow> nat \<Rightarrow> string \<times> string \<Rightarrow> menu_item" where
  "sub_item loc pathname search idx i item =
     (nat_str idx @ ''-'' @ nat_str i, field loc (fst item), isCurrentPath pathname (snd item), navTo search (snd item))"

fun menu_line :: "jv \<Rightarrow> string \<Rightarrow> string \<Rightarrow> nat \<times> menu_entry \<Rightarrow> nav_line" where
  "menu_line loc pathname search (idx, Group k cs) =
     Sub (nat_str idx) (field loc k) (map (\<lambda>(i, c). sub_item loc pathname search idx i c) (enumerate 0 cs))"
| "menu_line loc pathname search (idx, Item k url) =
     Single (nat_str idx, field loc k, Some (first_class pathname url), navTo search url)"

definition main_render :: "jv \<Rightarrow> jv \<Rightarrow> jv \<Rightarrow> browser \<Rightarrow> string \<Rightarrow> string \<Rightarrow> layout_view" where
  "main_render loc version functionMode b pathname search =
     (if isShowGoBack functionMode b pathname then Back_Arrow main_goBack
      else Nav_Menu (tr loc ''nacosName'') version (defaultOpenKeys functionMode b pathname)
             (map (menu_line loc pathname search) (enumerate 0 (getMenuData functionMode b))))"

text \<open>The entries of a view with the effect of a click, and whether they are marked as the current page.\<close>

fun line_items :: "nav_line \<Rightarrow> menu_item list" where
  "line_items (Single it) = [it]"
| "line_items (Sub k label its) = its"

fun view_items :: "layout_view \<Rightarrow> menu_item list" where
  "view_items (Back_Arrow e) = []"
| "view_items (Nav_Menu title version opened lines) = concat (map line_items lines)"

definition marked :: "menu_item \<Rightarrow> bool" where
  "marked it = (case it of (_, _, c, _) \<Rightarrow> c = Some ''current-path'' \<or> c = Some ''first-menu current-path'')"

definition item_effect :: "menu_item \<Rightarrow> effect" where
  "item_effect it = snd (snd (snd it))"

text \<open>
  The header draws the name of the user, and with it reads the token, on every page but the login.
\<close>

definition header_account :: "string \<Rightarrow> browser \<Rightarrow> js_error + jv option \<times> browser \<times> effect list" where
  "header_account pathname b =
     (if pathname \<noteq> ''/login'' then and_then (getUsername b) (\<lambda>(name, b, es). Inr (Some name, b, es)) else Inr (None, b, []))"

definition header_resetCancel :: "jv \<Rightarrow> jv" where
  "header_resetCancel passwordResetUser = Undefined"

lemma enumerate_snd: "map (\<lambda>x. f (snd (snd x))) (enumerate n cs) = map (\<lambda>c. f (snd c)) cs"
  by (induction cs arbitrary: n) simp_all

lemma item_effect_line: "map item_effect (line_items (menu_line loc p s (i, m))) = map (navTo s) (if m = Item (entry_key m) [] then [[]] else entry_urls m)"
  by (cases m) (auto simp: item_effect_def sub_item_def enumerate_snd o_def case_prod_unfold)

lemma marked_line: "map marked (line_items (menu_line loc p s (i, m))) = map (\<lambda>u. u = p) (if m = Item (entry_key m) [] then [[]] else entry_urls m)"
  by (cases m) (auto simp: marked_def sub_item_def first_class_def isCurrentPath_def enumerate_snd[where f = "\<lambda>u. u = p"] o_def case_prod_unfold)

definition menu_urls :: "jv \<Rightarrow> browser \<Rightarrow> string list" where
  "menu_urls mode b = concat (map entry_urls (getMenuData mode b))"

lemma menu_not_empty: "Item k [] \<notin> set (getMenuData mode b)"
  by (cases rule: menu_cases[of mode b]) (simp_all add: menu_defs)

lemma menu_urls_distinct: "distinct (menu_urls mode b)"
  by (cases rule: menu_cases[of mode b]) (simp_all add: menu_urls_def menu_defs)

lemma concat_lines:
  assumes "\<forall>m \<in> set ms. \<forall>i. map f (line_items (menu_line loc p s (i, m))) = map g (entry_urls m)"
  shows "map f (concat (map line_items (map (menu_line loc p s) (enumerate n ms)))) = map g (concat (map entry_urls ms))"
  using assms by (induction ms arbitrary: n) simp_all

lemma menu_items:
  assumes "\<not> isShowGoBack mode b p"
  shows "map item_effect (view_items (main_render loc v mode b p s)) = map (navTo s) (menu_urls mode b)"
    "map marked (view_items (main_render loc v mode b p s)) = map (\<lambda>u. u = p) (menu_urls mode b)"
proof -
  have "\<forall>m \<in> set (getMenuData mode b). m \<noteq> Item (entry_key m) []" using menu_not_empty by metis
  then show "map item_effect (view_items (main_render loc v mode b p s)) = map (navTo s) (menu_urls mode b)"
    "map marked (view_items (main_render loc v mode b p s)) = map (\<lambda>u. u = p) (menu_urls mode b)"
    using assms unfolding main_render_def menu_urls_def
    by (simp_all add: concat_lines item_effect_line marked_line del: map_map)
qed


section \<open>Pagers\<close>

text \<open>
  \<open>a > b\<close> on numbers; undefined compares false. The other combinations do not occur with the totals of
  the server.
\<close>

fun js_gt :: "jv \<Rightarrow> jv \<Rightarrow> js_error + bool" where
  "js_gt (Num m k) (Num n l) = Inr (m * 10 ^ l > n * 10 ^ k)"
| "js_gt Undefined (Num n l) = Inr False"
| "js_gt a b = Inl OutsideModel"

record pager =
  pv_current :: jv
  pv_total :: jv
  pv_pageSize :: jv

text \<open>\<open>total > limit && <Pagination current total pageSize />\<close>\<close>

definition pager_over :: "jv \<Rightarrow> jv \<Rightarrow> jv \<Rightarrow> jv \<Rightarrow> js_error + pager option" where
  "pager_over limit current total0 pageSize =
     and_then (js_gt total0 limit) (\<lambda>more.
       Inr (if more then Some \<lparr>pv_current = current, pv_total = total0, pv_pageSize = pageSize\<rparr> else None))"

definition um_pager :: "jv \<Rightarrow> um_state \<Rightarrow> js_error + pager option" where
  "um_pager users st = pager_over (pg_pageSize st) (pg_pageNo st) (field users ''totalCount'') (pg_pageSize st)"

definition rm_pager :: "jv \<Rightarrow> rm_state \<Rightarrow> js_error + pager option" where
  "rm_pager roles st = pager_over (pg_pageSize st) (pg_pageNo st) (field roles ''totalCount'') (pg_pageSize st)"

definition pm_pager :: "jv \<Rightarrow> pm_state \<Rightarrow> js_error + pager option" where
  "pm_pager permissions st = pager_over (pg_pageSize st) (pg_pageNo st) (field permissions ''totalCount'') (pg_pageSize st)"

definition sb_pager :: "jv \<Rightarrow> sb_state \<Rightarrow> js_error + pager option" where
  "sb_pager subscriberData st =
     pager_over (sb_pageSize st) (sb_pageNo st) (default_to (num 0) (field subscriberData ''count'')) (sb_pageSize st)"

definition cn_pager :: "cn_state \<Rightarrow> js_error + pager option" where
  "cn_pager st = pager_over (cn_pageSize st) (cn_currentPage st) (cn_total st) (cn_pageSize st)"

text \<open>
  The pager of the configuration list shows the page of the answer, and the operations on a selection
  are drawn with it.
\<close>

definition cm_pager :: "jv \<Rightarrow> cm_state \<Rightarrow> js_error + pager option" where
  "cm_pager configurations st =
     pager_over (num 0) (field configurations ''pageNumber'') (field configurations ''totalCount'') (st_pageSize st)"

definition cm_actions :: "jv \<Rightarrow> jv \<Rightarrow> cm_state \<Rightarrow> js_error + jv list" where
  "cm_actions loc configurations st =
     and_then (cm_pager configurations st) (\<lambda>pg.
       Inr (if pg = None then [] else [tr loc ''deleteAction'', tr loc ''exportSelected'', tr loc ''clone'']))"

definition cm_table :: "jv \<Rightarrow> jv" where
  "cm_table configurations = field configurations ''pageItems''"

locale paged_view = list_page +
  fixes pager :: "jv \<Rightarrow> 'a \<Rightarrow> js_error + pager option"
  assumes pager: "pager page s = pager_over (snd (key s)) (fst (key s)) (field page ''totalCount'') (snd (key s))"
begin

text \<open>A pager shows the page of the last request, with the page size of that request.\<close>

lemma shows_last_request:
  assumes "page_run ask settle turn evs s = (s', es)" "es \<noteq> []" "pager page s' = Inr (Some pv)"
  shows "last es = call (pv_current pv, pv_pageSize pv)"
proof -
  have "last es = call (key s')" using last_request[OF assms(1)] assms(2) by blast
  then show ?thesis using assms(3) by (auto simp: pager pager_over_def and_then_Inr_iff split: if_splits)
qed

text \<open>When all fits on one page no pager is drawn, whatever page is shown, and a refresh asks for that page again.\<close>

lemma hidden_pager_keeps_page:
  assumes "js_gt (field page ''totalCount'') (snd (key s)) = Inr False"
  shows "\<exists>s'. page_run ask settle turn [Refresh, Settle] s = (s', [call (key s)]) \<and> key s' = key s \<and> pager page s' = Inr None"
proof -
  obtain s1 es where a: "ask s = (s1, es)" by fastforce
  then have "key s1 = key s" "es = [call (key s)]" using ask by auto
  then show ?thesis using a assms settle(2) by (simp add: pager pager_over_def)
qed

end

interpretation user_view: paged_view um_getUsers um_settled um_turn pg_key pg_loading "pg_call getUsers" um_pager
  by unfold_locales (simp add: um_pager_def pg_key_def)

interpretation role_view: paged_view rm_getRoles rm_settled rm_turn pg_key pg_loading "pg_call getRoles" rm_pager
  by unfold_locales (simp add: rm_pager_def pg_key_def)

interpretation permission_view: paged_view pm_getPermissions pm_settled pm_turn pg_key pg_loading "pg_call getPermissions" pm_pager
  by unfold_locales (simp add: pm_pager_def pg_key_def)

text \<open>
  a pager never shows a page that was not asked for: after any events of the user, role and
  permission lists, a pager that is drawn names the page and the size of the last request.
\<close>

theorem pagers_show_asked_page:
  assumes "page_run um_getUsers um_settled um_turn evs u = (u', es)" "es \<noteq> []" "um_pager page u' = Inr (Some pu)"
    and "page_run rm_getRoles rm_settled rm_turn evs r = (r', fs)" "fs \<noteq> []" "rm_pager page r' = Inr (Some pr)"
    and "page_run pm_getPermissions pm_settled pm_turn evs m = (m', gs)" "gs \<noteq> []" "pm_pager page m' = Inr (Some pp)"
  shows "last es = pg_call getUsers (pv_current pu, pv_pageSize pu) \<and> last fs = pg_call getRoles (pv_current pr, pv_pageSize pr) \<and>
    last gs = pg_call getPermissions (pv_current pp, pv_pageSize pp)"
  using user_view.shows_last_request[OF assms(1-3)] role_view.shows_last_request[OF assms(4-6)]
    permission_view.shows_last_request[OF assms(7-9)] by simp

theorem pagers_show_asked_page_witness:
  "\<exists>pu pr pp. um_pager (Obj [(''totalCount'', num 30)]) (fst (um_turn (num 2) um_init)) = Inr (Some pu) \<and>
    rm_pager (Obj [(''totalCount'', num 30)]) (fst (rm_turn (num 2) rm_init)) = Inr (Some pr) \<and>
    pm_pager (Obj [(''totalCount'', num 30)]) (fst (pm_turn (num 2) pm_init)) = Inr (Some pp) \<and>
    last (snd (um_turn (num 2) um_init)) = pg_call getUsers (pv_current pu, pv_pageSize pu)"
proof -
  let ?pg = "Obj [(''totalCount'', num 30)]" and ?pv = "\<lparr>pv_current = num 2, pv_total = num 30, pv_pageSize = num 9\<rparr>"
  have p: "um_pager ?pg (fst (um_turn (num 2) um_init)) = Inr (Some ?pv)" "rm_pager ?pg (fst (rm_turn (num 2) rm_init)) = Inr (Some ?pv)"
      "pm_pager ?pg (fst (pm_turn (num 2) pm_init)) = Inr (Some ?pv)" by code_simp+
  have "snd (um_turn (num 2) um_init) \<noteq> []" "snd (rm_turn (num 2) rm_init) \<noteq> []" "snd (pm_turn (num 2) pm_init) \<noteq> []"
    by (simp_all add: um_turn_def rm_turn_def pm_turn_def pg_defs)
  then show ?thesis
    using pagers_show_asked_page[of "[Turn (num 2)]" um_init "fst (um_turn (num 2) um_init)" "snd (um_turn (num 2) um_init)" ?pg ?pv
        rm_init "fst (rm_turn (num 2) rm_init)" "snd (rm_turn (num 2) rm_init)" ?pv
        pm_init "fst (pm_turn (num 2) pm_init)" "snd (pm_turn (num 2) pm_init)" ?pv] p
    by (simp add: case_prod_unfold)
qed

text \<open>
  a list that shrinks to one page while the second is shown stays there: no pager is drawn, and
  refreshing asks for the second page again.
\<close>

theorem shrunken_list_stuck:
  assumes "pg_key st = (num 2, num 9)" and "field page ''totalCount'' = num t" and "t \<le> 9"
  shows "\<exists>st'. page_run um_getUsers um_settled um_turn [Refresh, Settle] st = (st', [pg_call getUsers (num 2, num 9)]) \<and>
    pg_pageNo st' = num 2 \<and> um_pager page st' = Inr None"
  using user_view.hidden_pager_keeps_page[of page st] assms by (auto simp: pg_key_def)

theorem shrunken_list_stuck_witness:
  "\<exists>st'. page_run um_getUsers um_settled um_turn [Refresh, Settle] (fst (um_turn (num 2) um_init)) = (st', [pg_call getUsers (num 2, num 9)]) \<and>
    um_pager (Obj [(''totalCount'', num 9)]) st' = Inr None"
proof -
  have "pg_key (fst (um_turn (num 2) um_init)) = (num 2, num 9)" by (simp add: um_turn_def um_init_def pg_defs)
  from shrunken_list_stuck[OF this, of "Obj [(''totalCount'', num 9)]" 9] show ?thesis by (auto simp: field_def)
qed

text \<open>
  a list whose query failed offers nothing to act on: no rows, no pager and none of the
  operations on a selection are drawn.
\<close>

theorem failed_list_offers_nothing:
  assumes "getData_rejected loc res configurations st = Inr (page, st', es)"
  shows "cm_table (Obj page) = Arr [] \<and> cm_pager (Obj page) st' = Inr None \<and> cm_actions loc (Obj page) st' = Inr []"
proof -
  have "field (Obj page) ''pageItems'' = Arr []" "field (Obj page) ''totalCount'' = num 0"
    using assms by (auto simp: getData_rejected_def Let_def field_def map_of_obj_put split: if_splits jv.splits)
  then show ?thesis by (simp add: cm_table_def cm_pager_def pager_over_def cm_actions_def)
qed

theorem failed_list_offers_nothing_witness:
  "\<exists>page st' es. getData_rejected Null Null [] sample_cm = Inr (page, st', es) \<and> cm_actions Null (Obj page) st' = Inr []"
proof -
  obtain page st' es where "getData_rejected Null Null [] sample_cm = Inr (page, st', es)"
    by (simp add: getData_rejected_def Let_def)
  with failed_list_offers_nothing[OF this] show ?thesis by blast
qed

section \<open>Tables\<close>

subsection \<open>Listeners\<close>

definition lq_pageSize :: jv where
  "lq_pageSize = num 10"

definition lq_columns :: "lq_state \<Rightarrow> string list" where
  "lq_columns st = (if form_value (lq_values st) ''type'' = num 1 then [''dataId'', ''group'', ''md5''] else [''ip'', ''md5''])"

definition lq_table :: "lq_state \<Rightarrow> jv list" where
  "lq_table st = lq_dataSource st"

definition lq_pager :: "lq_state \<Rightarrow> pager" where
  "lq_pager st = \<lparr>pv_current = lq_currentPage st, pv_total = num (int (lq_total st)), pv_pageSize = lq_pageSize\<rparr>"

text \<open>The fields of the form that are shown.\<close>

definition lq_fields :: "lq_state \<Rightarrow> string list" where
  "lq_fields st = (if form_value (lq_values st) ''type'' = num 0 then [''dataId'', ''group''] else [''ip''])"

text \<open>\<open>field.reset()\<close> empties the form.\<close>

definition lq_resetSearch :: "lq_state \<Rightarrow> lq_state" where
  "lq_resetSearch st = st\<lparr>lq_values := []\<rparr>"

text \<open>
  the rows of an answer have the columns of the table while the kind of the query is not changed, and
  the pager counts them; but it turns no page: every page shows all rows.
\<close>

theorem listener_table:
  assumes "lq_loaded type data st = Inr st'" and "field data ''collectStatus'' = num 200" and "form_value (lq_values st) ''type'' = type"
  shows "(\<forall>r \<in> set (lq_table st'). \<exists>kvs. r = Obj kvs \<and> map fst kvs = lq_columns st') \<and>
    pv_total (lq_pager st') = num (int (length (lq_table st'))) \<and> lq_table (lq_changePage n st') = lq_table st' \<and>
    pv_current (lq_pager (lq_changePage n st')) = n"
proof -
  have st': "st' = st\<lparr>lq_dataSource := map (listener_row type) (key_order (own_props (field data ''lisentersGroupkeyStatus''))),
      lq_total := length (map (listener_row type) (key_order (own_props (field data ''lisentersGroupkeyStatus''))))\<rparr>"
    using assms(1,2) by (auto simp: lq_loaded_def Let_def split: if_splits)
  have "\<exists>kvs. listener_row type kv = Obj kvs \<and> map fst kvs = lq_columns st'" for kv
    using assms(3) by (simp add: st' listener_row_def lq_columns_def Let_def)
  then show ?thesis by (auto simp: lq_table_def lq_pager_def lq_changePage_def st')
qed

theorem listener_table_witness:
  "\<exists>st st'. lq_loaded (num 0) (Obj [(''collectStatus'', num 200), (''lisentersGroupkeyStatus'', Obj [(''10.0.0.1'', Str ''m'')])]) st = Inr st' \<and>
    (\<forall>r \<in> set (lq_table st'). \<exists>kvs. r = Obj kvs \<and> map fst kvs = lq_columns st') \<and> lq_table st' \<noteq> []"
proof -
  let ?d = "Obj [(''collectStatus'', num 200), (''lisentersGroupkeyStatus'', Obj [(''10.0.0.1'', Str ''m'')])]"
  let ?st = "lq_mount \<lparr>lq_loading = False, lq_total = 0, lq_currentPage = num 1, lq_dataSource = [], lq_values = [], lq_group = [],
    lq_dataId = [], lq_serverId = [], lq_tenant = []\<rparr>"
  have l: "lq_loaded (num 0) ?d ?st = Inr (?st\<lparr>lq_dataSource := [Obj [(''ip'', Str ''10.0.0.1''), (''md5'', Str ''m'')]], lq_total := 1\<rparr>)"
    by code_simp
  have t: "field ?d ''collectStatus'' = num 200" "form_value (lq_values ?st) ''type'' = num 0" by code_simp+
  from listener_table[OF l t] l show ?thesis by (intro exI) (auto simp: lq_table_def)
qed

subsection \<open>Instances\<close>

text \<open>A row of the table of instances: its class and the text of the button that switches it.\<close>

definition it_button :: "jv \<Rightarrow> jv \<Rightarrow> jv" where
  "it_button loc row = field loc (if truthy (field row ''enabled'') then ''offline'' else ''online'')"

definition it_metadata :: "jv \<Rightarrow> js_error + string list" where
  "it_metadata row =
     (case default_to (Obj []) (field row ''metadata'') of
        Obj kvs \<Rightarrow> Inr (map (\<lambda>(k, v). k @ ''='' @ to_str v) (key_order kvs))
      | v \<Rightarrow> if truthy v then Inl OutsideModel else Inr [])"

text \<open>The pager of the instances keeps its current page itself; the table gives it none.\<close>

definition it_pager :: "it_state \<Rightarrow> js_error + pager option" where
  "it_pager st = pager_over (it_pageSize st) Undefined (it_count st) (it_pageSize st)"

definition it_render :: "jv \<Rightarrow> it_state \<Rightarrow> (string \<times> jv) list option" where
  "it_render loc st = (if truthy (it_count st) then Some (map (\<lambda>row. (it_rowColor row, it_button loc row)) (it_rows st)) else None)"

text \<open>
  a switch turns the button it was clicked on: once it is answered, the button of that row offers
  the opposite, the row keeps its colour, and the other rows are drawn as before.
\<close>

theorem switch_turns_button:
  assumes "it_render loc st = Some rows" and "i < length (it_rows st)" and "it_rows st ! i = Obj kvs"
  shows "\<exists>st'. switch_replied (it_captured st) i (field (Obj kvs) ''enabled'') st = Inr st' \<and>
    it_render loc st' = Some (rows[i := (fst (rows ! i), field loc (if truthy (field (Obj kvs) ''enabled'') then ''online'' else ''offline''))])"
proof -
  let ?row = "Obj (obj_put ''enabled'' (Bool (\<not> truthy (field (Obj kvs) ''enabled''))) kvs)"
  have r: "truthy (it_count st)" "rows = map (\<lambda>row. (it_rowColor row, it_button loc row)) (it_rows st)"
    using assms(1) by (auto simp: it_render_def split: if_splits)
  have "it_rowColor ?row = it_rowColor (Obj kvs)" by (simp add: it_rowColor_def field_def map_of_obj_put)
  moreover have "it_button loc ?row = field loc (if truthy (field (Obj kvs) ''enabled'') then ''online'' else ''offline'')"
    by (simp add: it_button_def field_def map_of_obj_put)
  ultimately show ?thesis
    using r assms(2,3) by (simp add: switch_replied_def it_captured_def it_rows_def it_render_def map_update)
qed

theorem switch_turns_button_witness:
  "\<exists>st'. switch_replied (it_captured (two_rows\<lparr>it_count := num 2\<rparr>)) 1 (Bool False) (two_rows\<lparr>it_count := num 2\<rparr>) = Inr st' \<and>
    it_render (Obj [(''online'', Str ''on''), (''offline'', Str ''off'')]) st' =
      Some [(''row-bg-undefined'', Str ''off''), (''row-bg-undefined'', Str ''off'')]"
proof -
  let ?loc = "Obj [(''online'', Str ''on''), (''offline'', Str ''off'')]" and ?st = "two_rows\<lparr>it_count := num 2\<rparr>"
  have v: "it_render ?loc ?st = Some [(''row-bg-undefined'', Str ''off''), (''row-bg-undefined'', Str ''on'')]" by code_simp
  have r: "1 < length (it_rows ?st)" "it_rows ?st ! 1 = Obj [(''enabled'', Bool False)]" by (simp_all add: two_rows_def it_rows_def)
  from switch_turns_button[OF v r] show ?thesis by (auto simp: field_def)
qed

subsection \<open>The details of a service\<close>

text \<open>The text of the metadata and the two lines of the selector; the second only for services of type label.\<close>

definition sv_metadataText :: "sv_state \<Rightarrow> js_error + string" where
  "sv_metadataText st =
     (let metadata = default_to (Obj []) (field (sv_service st) ''metadata'')
      in if metadata = Null then Inl TypeError
         else if own_props metadata = [] then Inr []
         else case pretty metadata 0 of Text t \<Rightarrow> Inr t | _ \<Rightarrow> Inl OutsideModel)"

definition sv_selector :: "sv_state \<Rightarrow> js_error + jv \<times> jv option" where
  "sv_selector st =
     (let selector = default_to (Obj []) (field (sv_service st) ''selector'')
      in if selector = Null then Inl TypeError
         else Inr (field selector ''type'', if field (sv_service st) ''type'' = Str ''label'' then Some (field selector ''selector'') else None))"

definition sv_openEdit :: "sv_state \<Rightarrow> effect" where
  "sv_openEdit st = Open_Dialog ''editServiceDialog'' (sv_service st)"

definition sv_openCluster :: "jv \<Rightarrow> effect" where
  "sv_openCluster cluster = Open_Dialog ''editClusterDialog'' cluster"

definition it_openInstance :: "jv \<Rightarrow> effect" where
  "it_openInstance row = Open_Dialog ''editInstanceDialog'' row"

text \<open>
  the page and the dialog it opens show the same metadata: for a service with metadata the form
  starts with the text the page draws, and without metadata both show none.
\<close>

theorem dialog_shows_page_metadata:
  assumes "sv_service st = Obj svc" and "sv_metadataText st = Inr t" and "map_of svc ''metadataText'' = None"
  shows "\<exists>d. es_show svc es = Inr d \<and> js_or (field (Obj (es_service d)) ''metadataText'') (Str []) = Str t"
proof (cases "own_props (default_to (Obj []) (field (Obj svc) ''metadata'')) = []")
  case True
  then show ?thesis
    using assms by (auto simp: sv_metadataText_def es_show_def with_metadata_text_def Let_def field_def js_or_def split: if_splits)
next
  case False
  then show ?thesis
    using assms by (auto simp: sv_metadataText_def es_show_def with_metadata_text_def Let_def field_def[of "Obj (obj_put _ _ _)"] map_of_obj_put js_or_def
        split: if_splits js_text.splits)
qed

section \<open>Cards and results of the configuration list\<close>

text \<open>A card of the overview: a notice with its lines, or a titled list of links with their marks.\<close>

datatype card_view =
    Notice "(jv \<times> jv) list"
  | Card jv "(jv \<times> jv \<times> string list) list"

fun rows_of :: "jv \<Rightarrow> js_error + jv list" where
  "rows_of (Arr xs) = Inr xs"
| "rows_of Undefined = Inl TypeError"
| "rows_of Null = Inl TypeError"
| "rows_of v = Inl OutsideModel"

definition card_items :: "jv \<Rightarrow> js_error + jv list" where
  "card_items v = and_then (rows_of v) (\<lambda>items. if Null \<in> set items \<or> Undefined \<in> set items then Inl TypeError else Inr items)"

definition card_tags :: "jv \<Rightarrow> string list" where
  "card_tags item = (if field item ''tag'' = Str ''new'' then [''new''] else []) @ (if field item ''tag'' = Str ''hot'' then [''hot''] else [])"

definition dashboard_card :: "jv \<Rightarrow> js_error + card_view" where
  "dashboard_card data0 =
     (let data1 = default_to (Obj []) data0
      in if data1 = Null then Inl TypeError
         else if field data1 ''modeType'' = Str ''notice'' then
           and_then (card_items (field data1 ''modeList'')) (\<lambda>items.
             Inr (Notice (map (\<lambda>i. (field i ''title'', field i ''url'')) items)))
         else if truthy (field data1 ''modeList'') then
           and_then (card_items (field data1 ''modeList'')) (\<lambda>items.
             Inr (Card (field data1 ''modeName'') (map (\<lambda>i. (field i ''title'', field i ''url'', card_tags i)) items)))
         else Inr (Card (field data1 ''modeName'') []))"

fun all_cards :: "jv list \<Rightarrow> js_error + card_view list" where
  "all_cards [] = Inr []"
| "all_cards (v # vs) = and_then (dashboard_card v) (\<lambda>c. and_then (all_cards vs) (\<lambda>cs. Inr (c # cs)))"

definition cm_cards :: "cm_state \<Rightarrow> js_error + card_view list" where
  "cm_cards st = (if st_hasdash st then all_cards (st_contentList st) else Inr [])"

text \<open>The content of a failed batch operation: the message and a panel for every list that is not empty.\<close>

definition batch_panel :: "jv \<Rightarrow> jv obj \<Rightarrow> string \<times> string \<Rightarrow> js_error + (string \<times> jv list) list" where
  "batch_panel loc data0 p =
     (case map_of data0 (fst p) of
        None \<Rightarrow> Inr []
      | Some v \<Rightarrow> and_then (rows_of v) (\<lambda>items.
          Inr (if items = [] then [] else [(to_str (tr loc (snd p)) @ nat_str (length items), items)])))"

definition getBatchFailedContent :: "jv \<Rightarrow> jv obj \<Rightarrow> js_error + jv \<times> (string \<times> jv list) list" where
  "getBatchFailedContent loc res =
     (case field (Obj res) ''data'' of
        Obj data0 \<Rightarrow>
          and_then (batch_panel loc data0 (''failedItems'', ''failedEntry'')) (\<lambda>a.
          and_then (batch_panel loc data0 (''succeededItems'', ''successfulEntry'')) (\<lambda>b.
          and_then (batch_panel loc data0 (''unprocessedItems'', ''unprocessedEntry'')) (\<lambda>c.
            Inr (field (Obj res) ''message'', a @ b @ c))))
      | Undefined \<Rightarrow> Inr (field (Obj res) ''message'', [])
      | Null \<Rightarrow> Inr (field (Obj res) ''message'', [])
      | Arr _ \<Rightarrow> Inl OutsideModel
      | _ \<Rightarrow> Inl TypeError)"

definition cm_showCode :: "jv \<Rightarrow> effect" where
  "cm_showCode row = Open_Dialog ''showcode'' row"

definition sl_showSampleCode :: "jv \<Rightarrow> effect" where
  "sl_showSampleCode row = Open_Dialog ''showcode'' row"

text \<open>The list of services keeps no service, so its dialog opens without one.\<close>

definition sl_openEditServiceDialog :: effect where
  "sl_openEditServiceDialog = Open_Dialog ''editServiceDialog'' Undefined"

text \<open>
  a batch result loses no item: the panels hold the failed, the succeeded and the unprocessed items in
  this order, each panel is titled with the number of its items, and no empty panel is drawn.
\<close>

theorem batch_result_complete:
  assumes "field (Obj res) ''data'' = Obj d" and "map_of d ''failedItems'' = Some (Arr fs)" and "map_of d ''succeededItems'' = Some (Arr ss)"
    and "map_of d ''unprocessedItems'' = Some (Arr us)"
  shows "\<exists>panels. getBatchFailedContent loc res = Inr (field (Obj res) ''message'', panels) \<and> concat (map snd panels) = fs @ ss @ us \<and>
    (\<forall>p \<in> set panels. snd p \<noteq> [] \<and> suffix (nat_str (length (snd p))) (fst p))"
  using assms by (simp add: getBatchFailedContent_def batch_panel_def suffix_def)

theorem batch_result_complete_witness:
  "\<exists>panels. getBatchFailedContent Null [(''data'', Obj [(''failedItems'', Arr [num 1]), (''succeededItems'', Arr []), (''unprocessedItems'', Arr [num 2])])] =
    Inr (Undefined, panels) \<and> concat (map snd panels) = [num 1, num 2]"
  using batch_result_complete[of "[(''data'', Obj [(''failedItems'', Arr [num 1]), (''succeededItems'', Arr []), (''unprocessedItems'', Arr [num 2])])]"
    "[(''failedItems'', Arr [num 1]), (''succeededItems'', Arr []), (''unprocessedItems'', Arr [num 2])]" "[num 1]" "[]" "[num 2]" Null]
  by (auto simp: field_def)

text \<open>
  a card never hides the others: with a list in every card the overview draws one card for each, and a
  notice without a list makes the whole page throw.
\<close>

theorem cards_drawn:
  assumes "st_hasdash st"
  shows "(\<forall>v \<in> set (st_contentList st). \<exists>xs. field v ''modeList'' = Arr xs \<and> list_all is_obj xs) \<longrightarrow> (\<exists>cs. cm_cards st = Inr cs \<and> length cs = length (st_contentList st))"
    and "st_contentList st = Obj [(''modeType'', Str ''notice'')] # vs \<Longrightarrow> cm_cards st = Inl TypeError"
proof -
  have "\<exists>c. dashboard_card v = Inr c" if "field v ''modeList'' = Arr xs" "list_all is_obj xs" for v xs
    using that by (cases v) (auto simp: dashboard_card_def card_items_def default_to_def Let_def field_def list_all_iff)
  then have "(\<forall>v \<in> set vs. \<exists>xs. field v ''modeList'' = Arr xs \<and> list_all is_obj xs) \<Longrightarrow> \<exists>cs. all_cards vs = Inr cs \<and> length cs = length vs" for vs
    by (induction vs) fastforce+
  then show "(\<forall>v \<in> set (st_contentList st). \<exists>xs. field v ''modeList'' = Arr xs \<and> list_all is_obj xs) \<longrightarrow> (\<exists>cs. cm_cards st = Inr cs \<and> length cs = length (st_contentList st))"
    using assms by (simp add: cm_cards_def)
  show "st_contentList st = Obj [(''modeType'', Str ''notice'')] # vs \<Longrightarrow> cm_cards st = Inl TypeError"
    using assms by (simp add: cm_cards_def dashboard_card_def card_items_def default_to_def field_def)
qed

end
