(* ===== verification/Locales.thy ===== *)
theory Locales
  imports Views
begin

text \<open>
  The texts of the console, \<^verbatim>\<open>locales/en-US.js\<close> and \<^verbatim>\<open>locales/zh-CN.js\<close>: a section for every component,
  by its display name. A text of single-byte characters is a \<open>Plain\<close> string, any other one is the list
  of its UTF-16 code units. \<open>texts_read\<close> collects the texts the components read, by file and name.
\<close>

datatype label = Plain string | Units "nat list"

type_synonym texts = "(string \<times> label) list"

section \<open>English\<close>

definition en_Header :: texts where
  "en_Header =
    [(''home'', Plain ''HOME''), (''docs'', Plain ''DOCS''), (''blog'', Plain ''BLOG''), (''community'', Plain ''COMMUNITY''),
     (''languageSwitchButton'', Units [20013]), (''logout'', Plain ''logout''), (''changePassword'', Plain ''modify password''),
     (''passwordRequired'', Plain ''password should not be empty''), (''usernameRequired'', Plain ''username should not be empty'')]"

definition en_Login :: texts where
  "en_Login =
    [(''login'', Plain ''Login''), (''submit'', Plain ''Submit''), (''pleaseInputUsername'', Plain ''Please input username''),
     (''pleaseInputPassword'', Plain ''Please input password''), (''invalidUsernameOrPassword'', Plain ''invalid username or password'')]"

definition en_MainLayout :: texts where
  "en_MainLayout =
    [(''nacosName'', Plain ''NACOS''), (''doesNotExist'', Plain ''The page you visit does not exist''),
     (''configurationManagementVirtual'', Plain ''ConfigManagement''), (''configurationManagement'', Plain ''Configurations''),
     (''configdetail'', Plain ''Configuration Details''), (''configsync'', Plain ''Synchronize Configuration''),
     (''configeditor'', Plain ''Edit Configuration''), (''newconfig'', Plain ''Create Configuration''),
     (''historyRollback'', Plain ''Historical Versions''), (''configRollback'', Plain ''Configuration Rollback''),
     (''historyDetail'', Plain ''History Details''), (''listeningToQuery'', Plain ''Listening Query''),
     (''serviceManagementVirtual'', Plain ''ServiceManagement''), (''serviceManagement'', Plain ''Service List''),
     (''subscriberList'', Plain ''Subscribers''), (''serviceDetail'', Plain ''Service Details''), (''namespace'', Plain ''Namespace''),
     (''clusterManagementVirtual'', Plain ''ClusterManagement''), (''clusterManagement'', Plain ''Cluster Node List''),
     (''authorityControl'', Plain ''Authority Control''), (''userList'', Plain ''User List''),
     (''roleManagement'', Plain ''Role Management''), (''privilegeManagement'', Plain ''Privilege Management'')]"

definition en_Password :: texts where
  "en_Password =
    [(''passwordNotConsistent'', Plain ''The passwords are not consistent''),
     (''passwordRequired'', Plain ''password should not be empty''),
     (''pleaseInputOldPassword'', Plain ''Please input original password''),
     (''pleaseInputNewPassword'', Plain ''Please input new password''),
     (''pleaseInputNewPasswordAgain'', Plain ''Please input new password again''), (''oldPassword'', Plain ''Original password''),
     (''newPassword'', Plain ''New password''), (''checkPassword'', Plain ''Check password''),
     (''changePassword'', Plain ''modify password''), (''invalidPassword'', Plain ''Invalid original password''),
     (''modifyPasswordFailed'', Plain ''Modify password failed'')]"

definition en_NameSpace :: texts where
  "en_NameSpace =
    [(''namespace'', Plain ''Namespaces''), (''prompt'', Plain ''Notice''), (''namespaceDetails'', Plain ''Namespace details''),
     (''namespaceName'', Plain ''Name''), (''namespaceID'', Plain ''ID:''), (''configuration'', Plain ''Number of Configurations''),
     (''description'', Plain ''Description''), (''removeNamespace'', Plain ''Remove the namespace''),
     (''confirmDelete'', Plain ''Sure you want to delete the following namespaces?''),
     (''configurationManagement'', Plain ''Configurations''), (''removeSuccess'', Plain ''Remove the namespace success''),
     (''deletedSuccessfully'', Plain ''Deleted successfully''), (''deletedFailure'', Plain ''Delete failed''),
     (''namespaceDelete'', Plain ''Delete''), (''details'', Plain ''Details''), (''edit'', Plain ''Edit''),
     (''namespacePublic'', Plain ''public(to retain control)''), (''pubNoData'', Plain ''No results found.''),
     (''namespaceAdd'', Plain ''Create Namespace''), (''namespaceNames'', Plain ''Namespaces''),
     (''namespaceNumber'', Plain ''Namespace ID''), (''namespaceOperation'', Plain ''Actions''), (''refresh'', Plain ''Refresh'')]"

definition en_ServiceList :: texts where
  "en_ServiceList =
    [(''serviceList'', Plain ''Service List''), (''serviceName'', Plain ''Service Name''),
     (''serviceNamePlaceholder'', Plain ''Enter Service Name''), (''hiddenEmptyService'', Plain ''Hidden Empty Service''),
     (''query'', Plain ''Search''), (''pubNoData'', Plain ''No results found.''), (''columnServiceName'', Plain ''Service Name''),
     (''groupName'', Plain ''Group Name''), (''groupNamePlaceholder'', Plain ''Enter Group Name''),
     (''columnClusterCount'', Plain ''Cluster Count''), (''columnIpCount'', Plain ''Instance Count''),
     (''columnHealthyInstanceCount'', Plain ''Healthy Instance Count''), (''columnTriggerFlag'', Plain ''Trigger Protection Threshold''),
     (''operation'', Plain ''Operation''), (''detail'', Plain ''Details''), (''sampleCode'', Plain ''Code Example''),
     (''deleteAction'', Plain ''Delete''), (''prompt'', Plain ''Confirm''),
     (''promptDelete'', Plain ''Do you want to delete the service?''), (''create'', Plain ''Create Service'')]"

definition en_SubscriberList :: texts where
  "en_SubscriberList =
    [(''subscriberList'', Plain ''Subscriber List''), (''serviceName'', Plain ''Service Name''),
     (''serviceNamePlaceholder'', Plain ''Enter Service Name''), (''groupName'', Plain ''Group Name''),
     (''groupNamePlaceholder'', Plain ''Enter Group Name''), (''query'', Plain ''Search''), (''pubNoData'', Plain ''No results found.''),
     (''address'', Plain ''Address''), (''clientVersion'', Plain ''Client Version''), (''appName'', Plain ''Application Name''),
     (''searchServiceNamePrompt'', Plain ''Service name required!'')]"

definition en_ClusterNodeList :: texts where
  "en_ClusterNodeList =
    [(''clusterNodeList'', Plain ''Node List''), (''nodeIp'', Plain ''NodeIp''), (''nodeIpPlaceholder'', Plain ''Please enter node Ip''),
     (''query'', Plain ''Search''), (''pubNoData'', Plain ''No results found.''), (''nodeState'', Plain ''NodeState''),
     (''extendInfo'', Plain ''NodeMetaData'')]"

definition en_EditClusterDialog :: texts where
  "en_EditClusterDialog =
    [(''updateCluster'', Plain ''Update Cluster''), (''checkType'', Plain ''Check Type''), (''checkPort'', Plain ''Check Port''),
     (''useIpPortCheck'', Plain ''Use port of IP''), (''checkPath'', Plain ''Check Path''), (''checkHeaders'', Plain ''Check Headers''),
     (''metadata'', Plain ''Metadata'')]"

definition en_ServiceDetail :: texts where
  "en_ServiceDetail =
    [(''serviceDetails'', Plain ''Service Details''), (''back'', Plain ''Back''), (''editCluster'', Plain ''Edit Cluster''),
     (''cluster'', Plain ''Cluster''), (''metadata'', Plain ''Metadata''), (''selector'', Plain ''Selector''), (''type'', Plain ''Type''),
     (''groupName'', Plain ''Group Name''), (''protectThreshold'', Plain ''Protect Threshold''),
     (''serviceName'', Plain ''Service Name''), (''editService'', Plain ''Edit Service'')]"

definition en_EditServiceDialog :: texts where
  "en_EditServiceDialog =
    [(''createService'', Plain ''Create Service''), (''updateService'', Plain ''Edit Service''),
     (''serviceName'', Plain ''Service Name''), (''metadata'', Plain ''Metadata''), (''groupName'', Plain ''Group Name''),
     (''type'', Plain ''Type''), (''typeLabel'', Plain ''Label''), (''typeNone'', Plain ''None''), (''selector'', Plain ''Selector''),
     (''protectThreshold'', Plain ''Protect Threshold''), (''serviceNameRequired'', Plain ''Please enter a service name''),
     (''protectThresholdRequired'', Plain ''Please enter a protect threshold'')]"

definition en_InstanceTable :: texts where
  "en_InstanceTable =
    [(''operation'', Plain ''Operation''), (''port'', Plain ''Port''), (''weight'', Plain ''Weight''), (''healthy'', Plain ''Healthy''),
     (''metadata'', Plain ''Metadata''), (''editor'', Plain ''Edit''), (''offline'', Plain ''Offline''), (''online'', Plain ''Online''),
     (''ephemeral'', Plain ''Ephemeral'')]"

definition en_EditInstanceDialog :: texts where
  "en_EditInstanceDialog =
    [(''port'', Plain ''Port''), (''weight'', Plain ''Weight''), (''metadata'', Plain ''Metadata''),
     (''updateInstance'', Plain ''Update Instance''), (''whetherOnline'', Plain ''Whether Online'')]"

definition en_ListeningToQuery :: texts where
  "en_ListeningToQuery =
    [(''success'', Plain ''Success''), (''failure'', Plain ''Failure''), (''configuration'', Plain ''Configuration''),
     (''pubNoData'', Plain ''No results found.''), (''listenerQuery'', Plain ''Listening Query''),
     (''queryDimension'', Plain ''Dimension''), (''pleaseEnterTheDataId'', Plain ''Enter Data ID''),
     (''dataIdCanNotBeEmpty'', Plain ''Data ID cannot be empty''), (''pleaseInputGroup'', Plain ''Enter Group''),
     (''groupCanNotBeEmpty'', Plain ''Group cannot be empty''), (''pleaseInputIp'', Plain ''Enter IP''), (''query'', Plain ''Search''),
     (''queryResultsQuery'', Plain ''Search Results: Found''), (''articleMeetRequirementsConfiguration'', Plain ''configuration items.'')]"

definition en_HistoryRollback :: texts where
  "en_HistoryRollback =
    [(''details'', Plain ''Details''), (''rollback'', Plain ''Roll Back''), (''pubNoData'', Plain ''No results found.''),
     (''toConfigure'', Plain ''Historical Versions (Configuration record is retained for 30 days.)''),
     (''dataId'', Plain ''Enter Data ID''), (''dataIdCanNotBeEmpty'', Plain ''Data ID cannot be empty''),
     (''group'', Plain ''Enter Group''), (''groupCanNotBeEmpty'', Plain ''Group cannot be empty''), (''query'', Plain ''Search''),
     (''queryResult'', Plain ''Search Results: Found''), (''articleMeet'', Plain ''configuration items.''),
     (''lastUpdateTime'', Plain ''Last Modified At''), (''operator'', Plain ''Operator''), (''operation'', Plain ''Operation'')]"

definition en_HistoryDetail :: texts where
  "en_HistoryDetail =
    [(''historyDetails'', Plain ''History Details''), (''update'', Plain ''Update''), (''insert'', Plain ''Insert''),
     (''deleteAction'', Plain ''Delete''), (''recipientFrom'', Plain ''Collapse''), (''moreAdvancedOptions'', Plain ''Advanced Options''),
     (''home'', Plain ''Application:''), (''actionType'', Plain ''Action Type:''), (''operator'', Plain ''Operator:''),
     (''configureContent'', Plain ''Configuration Content:''), (''back'', Plain ''Back'')]"

definition en_DashboardCard :: texts where
  "en_DashboardCard =
    [(''importantReminder0'', Plain ''Important reminder''), (''viewDetails1'', Plain ''view details'')]"

definition en_ConfigurationManagement :: texts where
  "en_ConfigurationManagement =
    [(''questionnaire2'', Plain ''questionnaire''),
     (''ad'', Plain ''a ACM front-end monitoring questionnaire, the time limit to receive Ali cloud voucher details shoved stamp: the''),
     (''noLongerDisplay4'', Plain ''no longer display:''), (''removeConfiguration'', Plain ''Delete Configuration''),
     (''sureDelete'', Plain ''Are you sure you want to delete the following configuration?''), (''environment'', Plain ''Region:''),
     (''configurationManagement'', Plain ''Configurations''), (''details'', Plain ''Details''), (''sampleCode'', Plain ''Code Example''),
     (''edit'', Plain ''Edit''), (''deleteAction'', Plain ''Delete''), (''more'', Plain ''More''),
     (''version'', Plain ''Historical Versions''), (''listenerQuery'', Plain ''Configuration Listening Query''),
     (''failedEntry'', Plain ''Failed Entry:''), (''successfulEntry'', Plain ''Successful Entry:''),
     (''unprocessedEntry'', Plain ''Unprocessed Entry:''), (''pubNoData'', Plain ''No results found.''),
     (''configurationManagement8'', Plain ''configuration management''), (''queryResults'', Plain ''Search Results: Found''),
     (''articleMeetRequirements'', Plain ''configuration items''), (''fuzzyd'', Plain ''Enter Data ID''),
     (''fuzzyg'', Plain ''Enter Group''), (''query'', Plain ''Search''), (''advancedQuery9'', Plain ''Advanced Query''),
     (''application0'', Plain ''Application:''), (''app1'', Plain (''Enter App Name'' @ [CHR 10])), (''tags'', Plain ''Tags:''),
     (''pleaseEnterTag'', Plain ''Enter Tag''), (''application'', Plain ''Application''), (''operation'', Plain ''Operation''),
     (''export'', Plain ''Export query results''), (''import'', Plain ''Import''), (''uploadBtn'', Plain ''Upload File''),
     (''importSucc'', Plain ''The import was successful''), (''importAbort'', Plain ''Import abort''),
     (''importSuccBegin'', Plain ''The import was successful,with ''), (''importSuccEnd'', Plain ''configuration items imported''),
     (''importFail'', Plain ''Import failed''), (''importFail403'', Plain ''Unauthorized!''),
     (''importDataValidationError'', Plain ''No legitimate data was read, please check the imported data file.''),
     (''metadataIllegal'', Plain ''The imported metadata file is illegal''), (''namespaceNotExist'', Plain ''namespace does not exist''),
     (''abortImport'', Plain ''Abort import''), (''skipImport'', Plain ''Skip''), (''overwriteImport'', Plain ''Overwrite''),
     (''importRemind'', Plain ''File upload will be imported directly into the configuration, please be careful!''),
     (''samePreparation'', Plain ''Same preparation''), (''targetNamespace'', Plain ''Target namespace''),
     (''conflictConfig'', Plain ''Conflict-detected configuration items''), (''failureEntries'', Plain ''Failure entries''),
     (''unprocessedEntries'', Plain ''Unprocessed entries''), (''skippedEntries'', Plain ''skipped entries''),
     (''exportSelected'', Plain ''Export selected configs''), (''clone'', Plain ''Clone''),
     (''exportSelectedAlertTitle'', Plain ''Export config''),
     (''exportSelectedAlertContent'', Plain ''please select the configuration to export''),
     (''cloneSucc'', Plain ''The clone was successful''), (''cloneAbort'', Plain ''Clone abort''),
     (''cloneSuccBegin'', Plain ''The clone was successful,with ''), (''cloneSuccEnd'', Plain ''configuration items cloned''),
     (''cloneFail'', Plain ''Clone failed''), (''getNamespaceFailed'', Plain ''get the namespace failed''),
     (''getNamespace403'', Plain ''Without permission to access ${namespaceName} namespace!''), (''startCloning'', Plain ''Start Clone''),
     (''cloningConfiguration'', Plain ''Clone config''), (''source'', Plain ''Source :''), (''configurationNumber'', Plain ''Items:''),
     (''target'', Plain ''Target:''), (''selectNamespace'', Plain ''Select Namespace''), (''selectedEntry'', Plain ''| Selected Entry''),
     (''cloneSelectedAlertTitle'', Plain ''Clone config''),
     (''cloneSelectedAlertContent'', Plain ''please select the configuration to clone''),
     (''delSelectedAlertTitle'', Plain ''Delete config''),
     (''delSelectedAlertContent'', Plain ''please select the configuration to delete''), (''delSuccessMsg'', Plain ''delete successful''),
     (''cloneEditableTitle'', Plain ''Modify Data Id and Group (optional)''), (''authFail'', Plain ''Auth failed'')]"

definition en_NewConfig :: texts where
  "en_NewConfig =
    [(''newListingMain'', Plain ''Create Configuration''), (''newListing'', Plain ''Create Configuration''),
     (''publishFailed'', Plain ''Publish failed. Make sure parameters are entered correctly.''),
     (''doNotEnter'', Plain ''Illegal characters not allowed''), (''newConfig'', Plain ''Data ID cannot be empty.''),
     (''dataIdIsNotEmpty'', Plain ''Data ID cannot exceed 255 characters in length''),
     (''groupPlaceholder'', Plain ''Enter your group name''), (''moreAdvanced'', Plain ''Group cannot be empty''),
     (''groupNotEmpty'', Plain ''Group ID cannot exceed 127 characters in length''),
     (''annotation'', Plain ''Notice: You are going to add configuration to a new group, please make sure that the version of Pandora which clients are using is higher than 3.4.0, otherwise this configuration may be unreadable to clients.''),
     (''dataIdLength'', Plain ''Collapse''), (''collapse'', Plain ''Advanced Options''), (''tags'', Plain ''Tags:''),
     (''pleaseEnterTag'', Plain ''Enter Tag''), (''groupIdCannotBeLonger'', Plain ''Application:''),
     (''description'', Plain ''Description:''), (''targetEnvironment'', Plain ''Format:''),
     (''configurationFormat'', Plain ''Configuration Content''), (''configureContentsOf'', Plain ''Press F1 to view in full screen''),
     (''fullScreen'', Plain ''Press Esc to exit''), (''escExit'', Plain ''Publish''), (''release'', Plain ''Back''),
     (''confirmSyanx'', Plain ''The configuration information may has a syntax error. Are you sure to submit?''),
     (''dataIdExists'', Plain ''Configuration already exists. Enter a new Data ID and Group name.''),
     (''dataRequired'', Plain ''Data cannot be empty, submission failed'')]"

definition en_CloneDialog :: texts where
  "en_CloneDialog =
    [(''terminate'', Plain ''Terminate''), (''skip'', Plain ''Skip''), (''cover'', Plain ''Cover''),
     (''getNamespaceFailed'', Plain ''get the namespace failed''), (''selectedEntry'', Plain ''| Selected Entry''),
     (''homeApplication'', Plain ''Home Application:''), (''tags'', Plain ''tags:''), (''startCloning'', Plain ''Start Clone''),
     (''source'', Plain ''Source :''), (''configurationNumber'', Plain ''Items:''), (''target'', Plain ''Target:''),
     (''conflict'', Plain ''Conflict:''), (''selectNamespace'', Plain ''Select Namespace''),
     (''configurationCloning'', Units [67, 108, 111, 110, 101, 65288])]"

definition en_DeleteDialog :: texts where
  "en_DeleteDialog =
    [(''confManagement'', Plain ''Configuration Management''), (''determine'', Plain ''OK''),
     (''deletetitle'', Plain ''Delete Configuration''), (''deletedSuccessfully'', Plain ''Configuration deleted''),
     (''deleteFailed'', Plain ''Deleting configuration failed'')]"

definition en_DiffEditorDialog :: texts where
  "en_DiffEditorDialog =
    [(''publish'', Plain ''Publish''), (''contents'', Plain ''Content Comparison''), (''currentArea'', Plain ''Current Value''),
     (''originalValue'', Plain ''Original Value'')]"

definition en_ConfigEditor :: texts where
  "en_ConfigEditor =
    [(''official'', Plain ''Official''), (''production'', Plain ''Production''), (''beta'', Plain ''BETA''), (''wrong'', Plain ''Error''),
     (''submitFailed'', Plain ''Cannot be empty, submit failed''), (''toedittitle'', Plain ''Edit Configuration''),
     (''newConfigEditor'', Plain ''New Config Editor''), (''toedit'', Plain ''Edit Configuration''),
     (''vdchart'', Plain ''Illegal characters not allowed''), (''recipientFrom'', Plain ''Data ID cannot be empty''),
     (''homeApplication'', Plain ''Group name cannot be empty''), (''collapse'', Plain ''Collapse''),
     (''groupNotEmpty'', Plain ''Advanced Options''), (''tags'', Plain ''Tags:''), (''pleaseEnterTag'', Plain ''Enter Tag''),
     (''targetEnvironment'', Plain ''Application:''), (''description'', Plain ''Description:''), (''format'', Plain ''Format:''),
     (''configcontent'', Plain ''Configuration Content''), (''escExit'', Plain ''Press F1 to view in full screen''),
     (''releaseBeta'', Plain ''Press Esc to exit ''), (''release'', Plain ''Beta Publish''), (''stopPublishBeta'', Plain ''Stop Beta''),
     (''betaPublish'', Plain ''Beta Publish:''), (''betaSwitchPrompt'', Plain ''Not checked by default.''),
     (''publish'', Plain ''Publish''), (''back'', Plain ''Back''),
     (''codeValErrorPrompt'', Plain ''Configuration information may have syntax errors. Are you sure to submit?'')]"

definition en_EditorNameSpace :: texts where
  "en_EditorNameSpace =
    [(''notice'', Plain ''Notice''), (''pleaseDo'', Plain ''Illegal characters not allowed''), (''publicSpace'', Plain ''OK''),
     (''confirmModify'', Plain ''Edit Namespace''), (''editNamespace'', Plain ''Loading...''), (''load'', Plain ''Namespace:''),
     (''namespace'', Plain ''Namespace cannot be empty''), (''namespaceDesc'', Plain ''Namespace description cannot be empty''),
     (''description'', Plain ''Description:'')]"

definition en_ExportDialog :: texts where
  "en_ExportDialog =
    [(''selectedEntry'', Plain ''| Selected Entry''), (''application'', Plain ''Application:''), (''tags'', Plain ''Tags:''),
     (''exportBtn'', Plain ''Export''), (''exportConfiguration'', Plain ''Export ( ''), (''source'', Plain ''Source''),
     (''items'', Plain ''Items:'')]"

definition en_ImportDialog :: texts where
  "en_ImportDialog =
    [(''terminate'', Plain ''Terminate''), (''skip'', Plain ''Skip''), (''overwrite'', Plain ''Overwrite''),
     (''zipFileFormat'', Plain ''Only upload. zip file format''), (''uploadFile'', Plain ''Upload File''),
     (''importLabel'', Plain ''Import ( ''), (''target'', Plain ''Target:''), (''conflict'', Plain ''Conflict:''),
     (''beSureExerciseCaution'', Plain ''Caution: data will be imported directly after uploading.'')]"

definition en_ShowCodeing :: texts where
  "en_ShowCodeing =
    [(''sampleCode'', Plain ''Sample Code''), (''loading'', Plain ''Loading...'')]"

definition en_SuccessDialog :: texts where
  "en_SuccessDialog =
    [(''title'', Plain ''Configuration Management''), (''determine'', Plain ''OK''), (''failure'', Plain ''Failed'')]"

definition en_ConfigSync :: texts where
  "en_ConfigSync =
    [(''error'', Plain ''Error''), (''syncConfigurationMain'', Plain ''Synchronize Configuration''),
     (''syncConfiguration'', Plain ''Synchronize Configuration Successfully''), (''advancedOptions'', Plain ''Advanced Options''),
     (''collapse'', Plain ''Collapse''), (''home'', Units [65, 112, 112, 108, 105, 99, 97, 116, 105, 111, 110, 65306]),
     (''region'', Units [82, 101, 103, 105, 111, 110, 65306]),
     (''configuration'', Units [67, 111, 110, 102, 105, 103, 117, 114, 97, 116, 105, 111, 110, 32, 67, 111, 110, 116, 101, 110, 116, 65306]),
     (''target'', Units [84, 97, 114, 103, 101, 116, 32, 82, 101, 103, 105, 111, 110, 65306]), (''sync'', Plain ''Synchronize''),
     (''back'', Plain ''Back'')]"

definition en_NewNameSpace :: texts where
  "en_NewNameSpace =
    [(''norepeat'', Plain ''Duplicate namespace. Please enter a different name.''), (''notice'', Plain ''Notice''),
     (''input'', Plain ''Illegal characters not allowed''), (''ok'', Plain ''OK''), (''cancel'', Plain ''Cancel''),
     (''newnamespce'', Plain ''Create Namespace''), (''loading'', Plain ''Loading...''), (''name'', Plain ''Namespace:''),
     (''namespaceId'', Plain ''Namespace ID(automatically generated if not filled):''),
     (''namespaceIdTooLong'', Plain ''The namespace ID length cannot exceed 128''),
     (''namespacenotnull'', Plain ''Namespace cannot be empty''),
     (''namespacedescnotnull'', Plain ''Namespace description cannot be empty''), (''description'', Plain ''Description:''),
     (''namespaceIdAlreadyExist'', Plain ''namespaceId already exist''),
     (''newnamespceFailedMessage'', Plain ''namespaceId format is incorrect/namespaceId length greater than 128/namespaceId already exist'')]"

definition en_NameSpaceList :: texts where
  "en_NameSpaceList =
    [(''notice'', Plain ''Notice'')]"

definition en_ConfigDetail :: texts where
  "en_ConfigDetail =
    [(''official'', Plain ''Official''), (''error'', Plain ''Error''), (''configurationDetails'', Plain ''Configuration Details''),
     (''collapse'', Plain ''Collapse''), (''more'', Plain ''Advanced Options''), (''home'', Plain ''Application:''),
     (''tags'', Plain ''Tags:''), (''description'', Plain ''Description:''), (''betaRelease'', Plain ''Beta Publish:''),
     (''configuration'', Plain ''Configuration Content:''), (''back'', Plain ''Back'')]"

definition en_ConfigRollback :: texts where
  "en_ConfigRollback =
    [(''rollBack'', Plain ''Roll Back''), (''determine'', Plain ''Are you sure you want to roll back''),
     (''followingConfiguration'', Plain ''the following configuration?''), (''configurationRollback'', Plain ''Configuration Rollback''),
     (''collapse'', Plain ''Collapse''), (''more'', Plain ''Advanced Options''), (''home'', Plain ''Application:''),
     (''actionType'', Plain ''Action Type:''), (''configuration'', Plain ''Configuration Content:''), (''back'', Plain ''Back''),
     (''rollbackSuccessful'', Plain ''Rollback Successful''), (''rollbackDelete'', Plain ''Delete''), (''update'', Plain ''Update''),
     (''insert'', Plain ''Insert'')]"

definition en_UserManagement :: texts where
  "en_UserManagement =
    [(''userManagement'', Plain ''User Management''), (''createUser'', Plain ''Create user''), (''resetPassword'', Plain ''Edit''),
     (''deleteUser'', Plain ''Delete''), (''deleteUserTip'', Plain ''Do you want to delete this user?''),
     (''username'', Plain ''Username''), (''password'', Plain ''Password''), (''operation'', Plain ''Operation''),
     (''refresh'', Plain ''Refresh'')]"

definition en_NewUser :: texts where
  "en_NewUser =
    [(''createUser'', Plain ''Create user''), (''username'', Plain ''Username''), (''password'', Plain ''Password''),
     (''rePassword'', Plain ''Repeat''), (''usernamePlaceholder'', Plain ''Please Enter Username''),
     (''passwordPlaceholder'', Plain ''Please Enter Password''), (''rePasswordPlaceholder'', Plain ''Please Enter Repeat Password''),
     (''usernameError'', Plain ''User name cannot be empty!''), (''passwordError'', Plain ''Password cannot be empty!''),
     (''rePasswordError'', Plain ''Repeat Password cannot be empty!''), (''rePasswordError2'', Plain ''Passwords are inconsistent!'')]"

definition en_PasswordReset :: texts where
  "en_PasswordReset =
    [(''resetPassword'', Plain ''Password Reset''), (''username'', Plain ''Username''), (''password'', Plain ''Password''),
     (''rePassword'', Plain ''Repeat''), (''passwordPlaceholder'', Plain ''Please Enter Password''),
     (''rePasswordPlaceholder'', Plain ''Please Enter Repeat Password''), (''passwordError'', Plain ''Password cannot be empty!''),
     (''rePasswordError'', Plain ''Repeat Password cannot be empty!''), (''rePasswordError2'', Plain ''Passwords are inconsistent!'')]"

definition en_RolesManagement :: texts where
  "en_RolesManagement =
    [(''roleManagement'', Plain ''Role management''), (''bindingRoles'', Plain ''Binding roles''), (''role'', Plain ''Role''),
     (''username'', Plain ''Username''), (''operation'', Plain ''Operation''), (''deleteRole'', Plain ''Delete''),
     (''deleteRoleTip'', Plain ''Do you want to delete this role?''), (''refresh'', Plain ''Refresh'')]"

definition en_NewRole :: texts where
  "en_NewRole =
    [(''bindingRoles'', Plain ''Binding roles''), (''username'', Plain ''Username''), (''role'', Plain ''Role''),
     (''usernamePlaceholder'', Plain ''Please Enter Username''), (''rolePlaceholder'', Plain ''Please Enter Role''),
     (''usernameError'', Plain ''User name cannot be empty!''), (''roleError'', Plain ''Role cannot be empty!'')]"

definition en_PermissionsManagement :: texts where
  "en_PermissionsManagement =
    [(''privilegeManagement'', Plain ''Permissions Management''), (''addPermission'', Plain ''Add Permission''),
     (''role'', Plain ''Role''), (''resource'', Plain ''Resource''), (''action'', Plain ''Action''), (''operation'', Plain ''Operation''),
     (''deletePermission'', Plain ''Delete''), (''deletePermissionTip'', Plain ''Do you want to delete this permission?''),
     (''readOnly'', Plain ''read only''), (''writeOnly'', Plain ''write only''), (''readWrite'', Plain ''Read and write''),
     (''refresh'', Plain ''Refresh'')]"

definition en_NewPermissions :: texts where
  "en_NewPermissions =
    [(''addPermission'', Plain ''Add Permission''), (''role'', Plain ''Role''), (''resource'', Plain ''Resource''),
     (''action'', Plain ''Action''), (''resourcePlaceholder'', Plain ''Please select resources''),
     (''rolePlaceholder'', Plain ''Please enter Role''), (''actionPlaceholder'', Plain ''Please select Action''),
     (''resourceError'', Plain ''Resource cannot be empty!''), (''roleError'', Plain ''Role cannot be empty!''),
     (''actionError'', Plain ''Action cannot be empty!''), (''readOnly'', Plain ''read only''), (''writeOnly'', Plain ''write only''),
     (''readWrite'', Plain ''Read and write'')]"

definition enUS_table :: "(string \<times> texts) list" where
  "enUS_table =
    [(''Header'', en_Header), (''Login'', en_Login), (''MainLayout'', en_MainLayout), (''Password'', en_Password),
     (''NameSpace'', en_NameSpace), (''ServiceList'', en_ServiceList), (''SubscriberList'', en_SubscriberList),
     (''ClusterNodeList'', en_ClusterNodeList), (''EditClusterDialog'', en_EditClusterDialog),
     (''ServiceDetail'', en_ServiceDetail), (''EditServiceDialog'', en_EditServiceDialog), (''InstanceTable'', en_InstanceTable),
     (''EditInstanceDialog'', en_EditInstanceDialog), (''ListeningToQuery'', en_ListeningToQuery),
     (''HistoryRollback'', en_HistoryRollback), (''HistoryDetail'', en_HistoryDetail), (''DashboardCard'', en_DashboardCard),
     (''ConfigurationManagement'', en_ConfigurationManagement), (''NewConfig'', en_NewConfig), (''CloneDialog'', en_CloneDialog),
     (''DeleteDialog'', en_DeleteDialog), (''DiffEditorDialog'', en_DiffEditorDialog), (''ConfigEditor'', en_ConfigEditor),
     (''EditorNameSpace'', en_EditorNameSpace), (''ExportDialog'', en_ExportDialog), (''ImportDialog'', en_ImportDialog),
     (''ShowCodeing'', en_ShowCodeing), (''SuccessDialog'', en_SuccessDialog), (''ConfigSync'', en_ConfigSync),
     (''NewNameSpace'', en_NewNameSpace), (''NameSpaceList'', en_NameSpaceList), (''ConfigDetail'', en_ConfigDetail),
     (''ConfigRollback'', en_ConfigRollback), (''UserManagement'', en_UserManagement), (''NewUser'', en_NewUser),
     (''PasswordReset'', en_PasswordReset), (''RolesManagement'', en_RolesManagement), (''NewRole'', en_NewRole),
     (''PermissionsManagement'', en_PermissionsManagement), (''NewPermissions'', en_NewPermissions)]"

section \<open>Chinese\<close>

definition zh_Header :: texts where
  "zh_Header =
    [(''home'', Units [39318, 39029]), (''docs'', Units [25991, 26723]), (''blog'', Units [21338, 23458]),
     (''community'', Units [31038, 21306]), (''languageSwitchButton'', Plain ''En''), (''logout'', Units [30331, 20986]),
     (''changePassword'', Units [20462, 25913, 23494, 30721])]"

definition zh_Login :: texts where
  "zh_Login =
    [(''login'', Units [30331, 24405]), (''submit'', Units [25552, 20132]),
     (''pleaseInputUsername'', Units [35831, 36755, 20837, 29992, 25143, 21517]),
     (''pleaseInputPassword'', Units [35831, 36755, 20837, 23494, 30721]),
     (''invalidUsernameOrPassword'', Units [29992, 25143, 21517, 25110, 23494, 30721, 38169, 35823]),
     (''passwordRequired'', Units [23494, 30721, 19981, 33021, 20026, 31354]),
     (''usernameRequired'', Units [29992, 25143, 21517, 19981, 33021, 20026, 31354])]"

definition zh_MainLayout :: texts where
  "zh_MainLayout =
    [(''nacosName'', Plain ''NACOS''), (''doesNotExist'', Units [24744, 35775, 38382, 30340, 39029, 38754, 19981, 23384, 22312]),
     (''configurationManagementVirtual'', Units [37197, 32622, 31649, 29702]),
     (''configurationManagement'', Units [37197, 32622, 21015, 34920]), (''configdetail'', Units [37197, 32622, 35814, 24773]),
     (''configsync'', Units [21516, 27493, 37197, 32622]), (''configeditor'', Units [37197, 32622, 32534, 36753]),
     (''newconfig'', Units [26032, 24314, 37197, 32622]), (''historyRollback'', Units [21382, 21490, 29256, 26412]),
     (''configRollback'', Units [37197, 32622, 22238, 28378]), (''historyDetail'', Units [21382, 21490, 35814, 24773]),
     (''listeningToQuery'', Units [30417, 21548, 26597, 35810]), (''serviceManagementVirtual'', Units [26381, 21153, 31649, 29702]),
     (''serviceManagement'', Units [26381, 21153, 21015, 34920]), (''subscriberList'', Units [35746, 38405, 32773, 21015, 34920]),
     (''serviceDetail'', Units [26381, 21153, 35814, 24773]), (''namespace'', Units [21629, 21517, 31354, 38388]),
     (''clusterManagementVirtual'', Units [38598, 32676, 31649, 29702]), (''clusterManagement'', Units [33410, 28857, 21015, 34920]),
     (''authorityControl'', Units [26435, 38480, 25511, 21046]), (''userList'', Units [29992, 25143, 21015, 34920]),
     (''roleManagement'', Units [35282, 33394, 31649, 29702]), (''privilegeManagement'', Units [26435, 38480, 31649, 29702])]"

definition zh_Password :: texts where
  "zh_Password =
    [(''passwordNotConsistent'', Units [20004, 27425, 36755, 20837, 23494, 30721, 19981, 19968, 33268]),
     (''passwordRequired'', Units [23494, 30721, 19981, 33021, 20026, 31354]),
     (''pleaseInputOldPassword'', Units [35831, 36755, 20837, 21407, 22987, 23494, 30721]),
     (''pleaseInputNewPassword'', Units [35831, 36755, 20837, 26032, 23494, 30721]),
     (''pleaseInputNewPasswordAgain'', Units [35831, 20877, 27425, 36755, 20837, 26032, 23494, 30721]),
     (''oldPassword'', Units [21407, 22987, 23494, 30721]), (''newPassword'', Units [26032, 23494, 30721]),
     (''checkPassword'', Units [20877, 27425, 36755, 20837]), (''changePassword'', Units [20462, 25913, 23494, 30721]),
     (''invalidPassword'', Units [21407, 22987, 23494, 30721, 38169, 35823]),
     (''modifyPasswordFailed'', Units [20462, 25913, 23494, 30721, 22833, 36133])]"

definition zh_NameSpace :: texts where
  "zh_NameSpace =
    [(''namespace'', Units [21629, 21517, 31354, 38388]), (''prompt'', Units [25552, 31034]),
     (''namespaceDetails'', Units [21629, 21517, 31354, 38388, 35814, 24773]),
     (''namespaceName'', Units [21629, 21517, 31354, 38388, 21517, 31216]), (''namespaceID'', Units [21629, 21517, 31354, 38388, 73, 68]),
     (''configuration'', Units [37197, 32622, 25968]), (''description'', Units [25551, 36848]),
     (''removeNamespace'', Units [21024, 38500, 21629, 21517, 31354, 38388]),
     (''confirmDelete'', Units [30830, 23450, 35201, 21024, 38500, 20197, 19979, 21629, 21517, 31354, 38388, 21527, 65311]),
     (''configurationManagement'', Units [37197, 32622, 21015, 34920]),
     (''removeSuccess'', Units [21024, 38500, 21629, 21517, 31354, 38388, 25104, 21151]),
     (''deletedSuccessfully'', Units [21024, 38500, 25104, 21151]), (''deletedFailure'', Units [21024, 38500, 22833, 36133]),
     (''namespaceDelete'', Units [21024, 38500]), (''details'', Units [35814, 24773]), (''edit'', Units [32534, 36753]),
     (''namespacePublic'', Units [112, 117, 98, 108, 105, 99, 40, 20445, 30041, 31354, 38388, 41]),
     (''pubNoData'', Units [27809, 26377, 25968, 25454]), (''namespaceAdd'', Units [26032, 24314, 21629, 21517, 31354, 38388]),
     (''namespaceNames'', Units [21629, 21517, 31354, 38388, 21517, 31216]),
     (''namespaceNumber'', Units [21629, 21517, 31354, 38388, 73, 68]), (''namespaceOperation'', Units [25805, 20316]),
     (''refresh'', Units [21047, 26032])]"

definition zh_ServiceList :: texts where
  "zh_ServiceList =
    [(''serviceList'', Units [26381, 21153, 21015, 34920]), (''serviceName'', Units [26381, 21153, 21517, 31216]),
     (''serviceNamePlaceholder'', Units [35831, 36755, 20837, 26381, 21153, 21517, 31216]),
     (''hiddenEmptyService'', Units [38544, 34255, 31354, 26381, 21153]), (''query'', Units [26597, 35810]),
     (''pubNoData'', Units [27809, 26377, 25968, 25454]), (''columnServiceName'', Units [26381, 21153, 21517]),
     (''groupName'', Units [20998, 32452, 21517, 31216]),
     (''groupNamePlaceholder'', Units [35831, 36755, 20837, 20998, 32452, 21517, 31216]),
     (''columnClusterCount'', Units [38598, 32676, 25968, 30446]), (''columnIpCount'', Units [23454, 20363, 25968]),
     (''columnHealthyInstanceCount'', Units [20581, 24247, 23454, 20363, 25968]),
     (''columnTriggerFlag'', Units [35302, 21457, 20445, 25252, 38408, 20540]), (''operation'', Units [25805, 20316]),
     (''detail'', Units [35814, 24773]), (''sampleCode'', Units [31034, 20363, 20195, 30721]), (''deleteAction'', Units [21024, 38500]),
     (''prompt'', Units [25552, 31034]),
     (''promptDelete'', Units [30830, 23450, 35201, 21024, 38500, 24403, 21069, 26381, 21153, 21527, 65311]),
     (''create'', Units [21019, 24314, 26381, 21153])]"

definition zh_SubscriberList :: texts where
  "zh_SubscriberList =
    [(''subscriberList'', Units [35746, 38405, 32773, 21015, 34920]), (''serviceName'', Units [26381, 21153, 21517, 31216]),
     (''serviceNamePlaceholder'', Units [35831, 36755, 20837, 26381, 21153, 21517, 31216]),
     (''groupName'', Units [20998, 32452, 21517, 31216]),
     (''groupNamePlaceholder'', Units [35831, 36755, 20837, 20998, 32452, 21517, 31216]), (''query'', Units [26597, 35810]),
     (''pubNoData'', Units [27809, 26377, 25968, 25454]), (''address'', Units [22320, 22336]),
     (''clientVersion'', Units [23458, 25143, 31471, 29256, 26412]), (''appName'', Units [24212, 29992, 21517]),
     (''searchServiceNamePrompt'', Units [35831, 36755, 20837, 26381, 21153, 21517, 31216, 65281])]"

definition zh_ClusterNodeList :: texts where
  "zh_ClusterNodeList =
    [(''clusterNodeList'', Units [33410, 28857, 21015, 34920]), (''nodeIp'', Units [33410, 28857, 73, 112]),
     (''nodeIpPlaceholder'', Units [35831, 36755, 20837, 33410, 28857, 73, 112]), (''query'', Units [26597, 35810]),
     (''pubNoData'', Units [27809, 26377, 25968, 25454]), (''nodeState'', Units [33410, 28857, 29366, 24577]),
     (''extendInfo'', Units [33410, 28857, 20803, 25968, 25454])]"

definition zh_EditClusterDialog :: texts where
  "zh_EditClusterDialog =
    [(''updateCluster'', Units [26356, 26032, 38598, 32676]), (''checkType'', Units [26816, 26597, 31867, 22411]),
     (''checkPort'', Units [26816, 26597, 31471, 21475]), (''useIpPortCheck'', Units [20351, 29992, 73, 80, 31471, 21475, 26816, 26597]),
     (''checkPath'', Units [26816, 26597, 36335, 24452]), (''checkHeaders'', Units [26816, 26597, 22836]),
     (''metadata'', Units [20803, 25968, 25454])]"

definition zh_ServiceDetail :: texts where
  "zh_ServiceDetail =
    [(''serviceDetails'', Units [26381, 21153, 35814, 24773]), (''back'', Units [36820, 22238]),
     (''editCluster'', Units [38598, 32676, 37197, 32622]), (''cluster'', Units [38598, 32676]),
     (''metadata'', Units [20803, 25968, 25454]), (''selector'', Units [34920, 36798, 24335]),
     (''type'', Units [26381, 21153, 36335, 30001, 31867, 22411]), (''groupName'', Units [20998, 32452]),
     (''protectThreshold'', Units [20445, 25252, 38408, 20540]), (''serviceName'', Units [26381, 21153, 21517]),
     (''editService'', Units [32534, 36753, 26381, 21153])]"

definition zh_EditServiceDialog :: texts where
  "zh_EditServiceDialog =
    [(''createService'', Units [21019, 24314, 26381, 21153]), (''updateService'', Units [26356, 26032, 26381, 21153]),
     (''serviceName'', Units [26381, 21153, 21517]), (''metadata'', Units [20803, 25968, 25454]), (''groupName'', Units [20998, 32452]),
     (''type'', Units [26381, 21153, 36335, 30001, 31867, 22411]), (''typeLabel'', Units [26631, 31614]),
     (''typeNone'', Units [40664, 35748]), (''selector'', Units [34920, 36798, 24335]),
     (''protectThreshold'', Units [20445, 25252, 38408, 20540]),
     (''serviceNameRequired'', Units [35831, 36755, 20837, 26381, 21153, 21517]),
     (''protectThresholdRequired'', Units [35831, 36755, 20837, 20445, 25252, 38408, 20540])]"

definition zh_InstanceTable :: texts where
  "zh_InstanceTable =
    [(''operation'', Units [25805, 20316]), (''port'', Units [31471, 21475]), (''weight'', Units [26435, 37325]),
     (''healthy'', Units [20581, 24247, 29366, 24577]), (''metadata'', Units [20803, 25968, 25454]), (''editor'', Units [32534, 36753]),
     (''offline'', Units [19979, 32447]), (''online'', Units [19978, 32447]), (''ephemeral'', Units [20020, 26102, 23454, 20363])]"

definition zh_EditInstanceDialog :: texts where
  "zh_EditInstanceDialog =
    [(''port'', Units [31471, 21475]), (''weight'', Units [26435, 37325]), (''metadata'', Units [20803, 25968, 25454]),
     (''updateInstance'', Units [32534, 36753, 23454, 20363]), (''whetherOnline'', Units [26159, 21542, 19978, 32447])]"

definition zh_ListeningToQuery :: texts where
  "zh_ListeningToQuery =
    [(''success'', Units [25104, 21151]), (''failure'', Units [22833, 36133]), (''configuration'', Units [37197, 32622]),
     (''pubNoData'', Units [27809, 26377, 25968, 25454]), (''listenerQuery'', Units [30417, 21548, 26597, 35810]),
     (''queryDimension'', Units [26597, 35810, 32500, 24230]),
     (''pleaseEnterTheDataId'', Units [35831, 36755, 20837, 68, 97, 116, 97, 32, 73, 68]),
     (''dataIdCanNotBeEmpty'', Units [68, 97, 116, 97, 32, 73, 68, 19981, 33021, 20026, 31354]),
     (''pleaseInputGroup'', Units [35831, 36755, 20837, 71, 114, 111, 117, 112]),
     (''groupCanNotBeEmpty'', Units [71, 114, 111, 117, 112, 19981, 33021, 20026, 31354]),
     (''pleaseInputIp'', Units [35831, 36755, 20837, 73, 80]), (''query'', Units [26597, 35810]),
     (''queryResultsQuery'', Units [26597, 35810, 32467, 26524, 65306, 20849, 26597, 35810, 21040]),
     (''articleMeetRequirementsConfiguration'', Units [26465, 28385, 36275, 35201, 27714, 30340, 37197, 32622, 12290])]"

definition zh_HistoryRollback :: texts where
  "zh_HistoryRollback =
    [(''details'', Units [35814, 24773]), (''rollback'', Units [22238, 28378]), (''pubNoData'', Units [27809, 26377, 25968, 25454]),
     (''toConfigure'', Units [21382, 21490, 29256, 26412, 40, 20445, 30041, 51, 48, 22825, 41]),
     (''dataId'', Units [35831, 36755, 20837, 68, 97, 116, 97, 32, 73, 68]),
     (''dataIdCanNotBeEmpty'', Units [68, 97, 116, 97, 32, 73, 68, 19981, 33021, 20026, 31354]),
     (''group'', Units [35831, 36755, 20837, 71, 114, 111, 117, 112]),
     (''groupCanNotBeEmpty'', Units [71, 114, 111, 117, 112, 19981, 33021, 20026, 31354]), (''query'', Units [26597, 35810]),
     (''queryResult'', Units [26597, 35810, 32467, 26524, 65306, 20849, 26597, 35810, 21040]),
     (''articleMeet'', Units [26465, 28385, 36275, 35201, 27714, 30340, 37197, 32622, 12290]),
     (''lastUpdateTime'', Units [26368, 21518, 26356, 26032, 26102, 38388]), (''operator'', Units [25805, 20316, 20154]),
     (''operation'', Units [25805, 20316])]"

definition zh_HistoryDetail :: texts where
  "zh_HistoryDetail =
    [(''historyDetails'', Units [21382, 21490, 35814, 24773]), (''update'', Units [26356, 26032]), (''insert'', Units [25554, 20837]),
     (''deleteAction'', Units [21024, 38500]), (''recipientFrom'', Units [25910, 36215]),
     (''moreAdvancedOptions'', Units [26356, 22810, 39640, 32423, 36873, 39033]), (''home'', Units [24402, 23646, 24212, 29992, 58]),
     (''actionType'', Units [25805, 20316, 31867, 22411, 58]), (''configureContent'', Units [37197, 32622, 20869, 23481, 58]),
     (''operator'', Units [25805, 20316, 20154, 58]), (''back'', Units [36820, 22238])]"

definition zh_DashboardCard :: texts where
  "zh_DashboardCard =
    [(''importantReminder0'', Units [37325, 35201, 25552, 37266]), (''viewDetails1'', Units [26597, 30475, 35814, 24773])]"

definition zh_ConfigurationManagement :: texts where
  "zh_ConfigurationManagement =
    [(''questionnaire2'', Units [38382, 21367, 35843, 26597]),
     (''ad'', Units [31572, 32, 65, 67, 77, 32, 21069, 31471, 30417, 25511, 35843, 26597, 38382, 21367, 65292, 38480, 26102, 39046, 21462, 38463, 37324, 20113, 20195, 37329, 21048, 9, 32, 32, 32, 32, 32, 32, 32, 32, 32, 32, 32, 32, 35814, 24773, 29467, 25139, 65306]),
     (''noLongerDisplay4'', Units [19981, 20877, 26174, 31034, 65306]), (''removeConfiguration'', Units [21024, 38500, 37197, 32622]),
     (''sureDelete'', Units [30830, 23450, 35201, 21024, 38500, 20197, 19979, 37197, 32622, 21527, 65311]),
     (''environment'', Units [22320, 22495, 65306]), (''configurationManagement'', Units [37197, 32622, 21015, 34920]),
     (''details'', Units [35814, 24773]), (''sampleCode'', Units [31034, 20363, 20195, 30721]), (''edit'', Units [32534, 36753]),
     (''deleteAction'', Units [21024, 38500]), (''more'', Units [26356, 22810]), (''version'', Units [21382, 21490, 29256, 26412]),
     (''listenerQuery'', Units [30417, 21548, 26597, 35810]), (''failedEntry'', Units [22833, 36133, 30340, 26465, 30446, 58]),
     (''successfulEntry'', Units [25104, 21151, 30340, 26465, 30446, 58]),
     (''unprocessedEntry'', Units [26410, 22788, 29702, 30340, 26465, 30446, 58]), (''pubNoData'', Units [27809, 26377, 25968, 25454]),
     (''configurationManagement8'', Units [37197, 32622, 31649, 29702]),
     (''queryResults'', Units [26597, 35810, 32467, 26524, 65306, 20849, 26597, 35810, 21040]),
     (''articleMeetRequirements'', Units [26465, 28385, 36275, 35201, 27714, 30340, 37197, 32622, 12290]),
     (''fuzzyd'', Units [27169, 31946, 26597, 35810, 35831, 36755, 20837, 68, 97, 116, 97, 32, 73, 68]),
     (''fuzzyg'', Units [27169, 31946, 26597, 35810, 35831, 36755, 20837, 71, 114, 111, 117, 112]), (''query'', Units [26597, 35810]),
     (''advancedQuery9'', Units [39640, 32423, 26597, 35810]), (''application0'', Units [24402, 23646, 24212, 29992, 58]),
     (''app1'', Units [35831, 36755, 20837, 24212, 29992, 21517]), (''tags'', Units [26631, 31614, 58]),
     (''pleaseEnterTag'', Units [35831, 36755, 20837, 26631, 31614]), (''application'', Units [24402, 23646, 24212, 29992, 58]),
     (''operation'', Units [25805, 20316]), (''export'', Units [23548, 20986, 26597, 35810, 32467, 26524]),
     (''import'', Units [23548, 20837, 37197, 32622]), (''uploadBtn'', Units [19978, 20256, 25991, 20214]),
     (''importSucc'', Units [23548, 20837, 25104, 21151]), (''importAbort'', Units [23548, 20837, 32456, 27490]),
     (''importSuccBegin'', Units [23548, 20837, 25104, 21151, 44, 23548, 20837, 20102]), (''importSuccEnd'', Units [39033, 37197, 32622]),
     (''importFail'', Units [23548, 20837, 22833, 36133]), (''importFail403'', Units [27809, 26377, 26435, 38480, 33]),
     (''importDataValidationError'', Units [26410, 35835, 21462, 21040, 21512, 27861, 25968, 25454, 65292, 35831, 26816, 26597, 23548, 20837, 30340, 25968, 25454, 25991, 20214, 12290]),
     (''metadataIllegal'', Units [23548, 20837, 30340, 20803, 25968, 25454, 25991, 20214, 38750, 27861]),
     (''namespaceNotExist'', Units [110, 97, 109, 101, 115, 112, 97, 99, 101, 32, 19981, 23384, 22312]),
     (''abortImport'', Units [32456, 27490, 23548, 20837]), (''skipImport'', Units [36339, 36807]),
     (''overwriteImport'', Units [35206, 30422]),
     (''importRemind'', Units [25991, 20214, 19978, 20256, 21518, 23558, 30452, 25509, 23548, 20837, 37197, 32622, 65292, 35831, 21153, 24517, 35880, 24910, 25805, 20316, 65281]),
     (''samePreparation'', Units [30456, 21516, 37197, 32622]), (''targetNamespace'', Units [30446, 26631, 31354, 38388]),
     (''conflictConfig'', Units [26816, 27979, 21040, 20914, 31361, 30340, 37197, 32622, 39033]),
     (''failureEntries'', Units [22833, 36133, 30340, 26465, 30446]),
     (''unprocessedEntries'', Units [26410, 22788, 29702, 30340, 26465, 30446]),
     (''skippedEntries'', Units [36339, 36807, 30340, 26465, 30446]),
     (''exportSelected'', Units [23548, 20986, 36873, 20013, 30340, 37197, 32622]), (''clone'', Units [20811, 38534]),
     (''exportSelectedAlertTitle'', Units [37197, 32622, 23548, 20986]),
     (''exportSelectedAlertContent'', Units [35831, 36873, 25321, 35201, 23548, 20986, 30340, 37197, 32622]),
     (''cloneSucc'', Units [20811, 38534, 25104, 21151]), (''cloneAbort'', Units [20811, 38534, 32456, 27490]),
     (''cloneSuccBegin'', Units [20811, 38534, 25104, 21151, 44, 20811, 38534, 20102]), (''cloneSuccEnd'', Units [39033, 37197, 32622]),
     (''cloneFail'', Units [20811, 38534, 22833, 36133]),
     (''getNamespaceFailed'', Units [33719, 21462, 21629, 21517, 31354, 38388, 22833, 36133]),
     (''getNamespace403'', Units [27809, 26377, 32, 36, 123, 110, 97, 109, 101, 115, 112, 97, 99, 101, 78, 97, 109, 101, 125, 32, 21629, 21517, 31354, 38388, 30340, 35775, 38382, 26435, 38480, 65281]),
     (''startCloning'', Units [24320, 22987, 20811, 38534]), (''cloningConfiguration'', Units [20811, 38534, 37197, 32622]),
     (''source'', Units [28304, 31354, 38388, 65306]), (''configurationNumber'', Units [37197, 32622, 25968, 37327, 65306]),
     (''target'', Units [30446, 26631, 31354, 38388, 65306]),
     (''selectNamespace'', Units [35831, 36873, 25321, 21629, 21517, 31354, 38388]),
     (''selectedEntry'', Units [124, 32, 36873, 20013, 30340, 26465, 30446]),
     (''cloneSelectedAlertTitle'', Units [37197, 32622, 20811, 38534]),
     (''cloneSelectedAlertContent'', Units [35831, 36873, 25321, 35201, 20811, 38534, 30340, 37197, 32622]),
     (''delSelectedAlertTitle'', Units [37197, 32622, 21024, 38500]),
     (''delSelectedAlertContent'', Units [35831, 36873, 25321, 35201, 21024, 38500, 30340, 37197, 32622]),
     (''delSuccessMsg'', Units [21024, 38500, 25104, 21151]),
     (''cloneEditableTitle'', Units [20462, 25913, 32, 68, 97, 116, 97, 32, 73, 100, 32, 21644, 32, 71, 114, 111, 117, 112, 32, 40, 21487, 36873, 25805, 20316, 41]),
     (''authFail'', Units [26435, 38480, 35748, 35777, 22833, 36133])]"

definition zh_NewConfig :: texts where
  "zh_NewConfig =
    [(''newListingMain'', Units [26032, 24314, 37197, 32622]), (''newListing'', Units [26032, 24314, 37197, 32622]),
     (''publishFailed'', Units [21457, 24067, 22833, 36133, 12290, 35831, 26816, 26597, 21442, 25968, 26159, 21542, 27491, 30830, 12290]),
     (''doNotEnter'', Units [19981, 20801, 35768, 38750, 27861, 23383, 31526]),
     (''newConfig'', Units [68, 97, 116, 97, 32, 73, 68, 32, 19981, 33021, 20026, 31354]),
     (''dataIdIsNotEmpty'', Units [68, 97, 116, 97, 32, 73, 68, 32, 38271, 24230, 19981, 33021, 36229, 36807, 50, 53, 53, 23383, 31526]),
     (''groupPlaceholder'', Units [35831, 36755, 20837, 71, 114, 111, 117, 112, 21517, 31216]),
     (''moreAdvanced'', Units [71, 114, 111, 117, 112, 19981, 33021, 20026, 31354]),
     (''groupNotEmpty'', Units [71, 114, 111, 117, 112, 32, 73, 68, 38271, 24230, 19981, 33021, 36229, 36807, 49, 50, 55, 23383, 31526]),
     (''annotation'', Units [27880, 65306, 24744, 27491, 22312, 24448, 19968, 20010, 33258, 23450, 20041, 20998, 32452, 26032, 22686, 37197, 32622, 65292, 35831, 30830, 20445, 23458, 25143, 31471, 20351, 29992, 30340, 80, 97, 110, 100, 111, 114, 97, 29256, 26412, 39640, 20110, 51, 46, 52, 46, 48, 65292, 21542, 21017, 21487, 33021, 35835, 21462, 19981, 21040, 35813, 37197, 32622, 12290]),
     (''dataIdLength'', Units [25910, 36215]), (''collapse'', Units [26356, 22810, 39640, 32423, 36873, 39033]),
     (''tags'', Units [26631, 31614, 58]), (''pleaseEnterTag'', Units [35831, 36755, 20837, 26631, 31614]),
     (''groupIdCannotBeLonger'', Units [24402, 23646, 24212, 29992, 58]), (''description'', Units [25551, 36848, 58]),
     (''targetEnvironment'', Units [37197, 32622, 26684, 24335, 58]), (''configurationFormat'', Units [37197, 32622, 20869, 23481, 58]),
     (''configureContentsOf'', Units [25353, 70, 49, 26174, 31034, 20840, 23631]),
     (''fullScreen'', Units [25353, 69, 115, 99, 36864, 20986, 20840, 23631]), (''escExit'', Units [21457, 24067]),
     (''release'', Units [36820, 22238]),
     (''confirmSyanx'', Units [37197, 32622, 20449, 24687, 21487, 33021, 26377, 35821, 27861, 38169, 35823, 44, 32, 30830, 23450, 25552, 20132, 21527, 63]),
     (''dataIdExists'', Units [37197, 32622, 24050, 23384, 22312, 44, 32, 35797, 35797, 21035, 30340, 100, 97, 116, 97, 105, 100, 21644, 103, 114, 111, 117, 112, 30340, 32452, 21512, 21543]),
     (''dataRequired'', Units [25968, 25454, 19981, 33021, 20026, 31354, 44, 32, 25552, 20132, 22833, 36133])]"

definition zh_CloneDialog :: texts where
  "zh_CloneDialog =
    [(''terminate'', Units [32456, 27490, 20811, 38534]), (''skip'', Units [36339, 36807]), (''cover'', Units [35206, 30422]),
     (''getNamespaceFailed'', Units [33719, 21462, 21629, 21517, 31354, 38388, 22833, 36133]),
     (''selectedEntry'', Units [124, 32, 36873, 20013, 30340, 26465, 30446]),
     (''homeApplication'', Units [24402, 23646, 24212, 29992, 58]), (''tags'', Units [26631, 31614, 58]),
     (''startCloning'', Units [24320, 22987, 20811, 38534]), (''source'', Units [28304, 31354, 38388, 65306]),
     (''configurationNumber'', Units [37197, 32622, 25968, 37327, 65306]), (''target'', Units [30446, 26631, 31354, 38388, 65306]),
     (''conflict'', Units [30456, 21516, 37197, 32622, 58]),
     (''selectNamespace'', Units [35831, 36873, 25321, 21629, 21517, 31354, 38388]),
     (''configurationCloning'', Units [37197, 32622, 20811, 38534, 65288])]"

definition zh_DeleteDialog :: texts where
  "zh_DeleteDialog =
    [(''confManagement'', Units [37197, 32622, 31649, 29702]), (''determine'', Units [30830, 23450]),
     (''deletetitle'', Units [21024, 38500, 37197, 32622]), (''deletedSuccessfully'', Units [21024, 38500, 37197, 32622, 25104, 21151]),
     (''deleteFailed'', Units [21024, 38500, 37197, 32622, 22833, 36133])]"

definition zh_DiffEditorDialog :: texts where
  "zh_DiffEditorDialog =
    [(''publish'', Units [30830, 35748, 21457, 24067]), (''contents'', Units [20869, 23481, 27604, 36739]),
     (''currentArea'', Units [24403, 21069, 20540]), (''originalValue'', Units [21407, 22987, 20540])]"

definition zh_ConfigEditor :: texts where
  "zh_ConfigEditor =
    [(''official'', Units [27491, 24335]), (''production'', Units [27491, 24335]), (''beta'', Plain ''BETA''),
     (''wrong'', Units [38169, 35823]), (''submitFailed'', Units [19981, 33021, 20026, 31354, 44, 32, 25552, 20132, 22833, 36133]),
     (''toedittitle'', Units [32534, 36753, 37197, 32622]), (''toedit'', Units [32534, 36753, 37197, 32622]),
     (''newConfigEditor'', Units [26032, 24314, 37197, 32622]),
     (''vdchart'', Units [35831, 21247, 36755, 20837, 38750, 27861, 23383, 31526]),
     (''recipientFrom'', Units [68, 97, 116, 97, 32, 73, 68, 19981, 33021, 20026, 31354]),
     (''homeApplication'', Units [71, 114, 111, 117, 112, 19981, 33021, 20026, 31354]), (''collapse'', Units [25910, 36215]),
     (''groupNotEmpty'', Units [26356, 22810, 39640, 32423, 36873, 39033]), (''tags'', Units [26631, 31614, 58]),
     (''pleaseEnterTag'', Units [35831, 36755, 20837, 26631, 31614]), (''targetEnvironment'', Units [24402, 23646, 24212, 29992, 58]),
     (''description'', Units [25551, 36848, 58]), (''format'', Units [37197, 32622, 26684, 24335, 58]),
     (''configcontent'', Units [37197, 32622, 20869, 23481]), (''escExit'', Units [25353, 70, 49, 26174, 31034, 20840, 23631]),
     (''releaseBeta'', Units [25353, 69, 115, 99, 36864, 20986, 20840, 23631]), (''release'', Units [21457, 24067, 66, 101, 116, 97]),
     (''stopPublishBeta'', Units [20572, 27490, 66, 101, 116, 97]), (''betaPublish'', Units [66, 101, 116, 97, 21457, 24067, 58]),
     (''betaSwitchPrompt'', Units [40664, 35748, 19981, 35201, 21246, 36873, 12290]), (''publish'', Units [21457, 24067]),
     (''back'', Units [36820, 22238]),
     (''codeValErrorPrompt'', Units [37197, 32622, 20449, 24687, 21487, 33021, 26377, 35821, 27861, 38169, 35823, 44, 32, 30830, 23450, 25552, 20132, 21527, 63])]"

definition zh_EditorNameSpace :: texts where
  "zh_EditorNameSpace =
    [(''notice'', Units [25552, 31034]), (''pleaseDo'', Units [35831, 21247, 36755, 20837, 38750, 27861, 23383, 31526]),
     (''publicSpace'', Units [30830, 35748, 20462, 25913]), (''confirmModify'', Units [32534, 36753, 21629, 21517, 31354, 38388]),
     (''editNamespace'', Units [21152, 36733, 20013, 46, 46, 46]), (''load'', Units [21629, 21517, 31354, 38388, 21517, 65306]),
     (''namespace'', Units [21629, 21517, 31354, 38388, 19981, 33021, 20026, 31354]),
     (''namespaceDesc'', Units [21629, 21517, 31354, 38388, 25551, 36848, 19981, 33021, 20026, 31354]),
     (''description'', Units [25551, 36848, 65306])]"

definition zh_ExportDialog :: texts where
  "zh_ExportDialog =
    [(''selectedEntry'', Units [124, 32, 36873, 20013, 30340, 26465, 30446]), (''application'', Units [24402, 23646, 24212, 29992, 58]),
     (''tags'', Units [26631, 31614, 58]), (''exportBtn'', Units [23548, 20986]),
     (''exportConfiguration'', Units [23548, 20986, 37197, 32622, 65288]), (''source'', Units [28304, 31354, 38388, 65306]),
     (''items'', Units [37197, 32622, 25968, 37327, 65306])]"

definition zh_ImportDialog :: texts where
  "zh_ImportDialog =
    [(''terminate'', Units [32456, 27490, 23548, 20837]), (''skip'', Units [36339, 36807]), (''overwrite'', Units [35206, 30422]),
     (''zipFileFormat'', Units [21482, 33021, 19978, 20256, 46, 122, 105, 112, 26684, 24335, 30340, 25991, 20214]),
     (''uploadFile'', Units [19978, 20256, 25991, 20214]), (''importLabel'', Units [23548, 20837, 37197, 32622, 32, 40, 32]),
     (''target'', Units [30446, 26631, 31354, 38388, 65306]), (''conflict'', Units [30456, 21516, 37197, 32622, 65306]),
     (''beSureExerciseCaution'', Units [25991, 20214, 19978, 20256, 21518, 23558, 30452, 25509, 23548, 20837, 37197, 32622, 65292, 35831, 21153, 24517, 35880, 24910, 25805, 20316])]"

definition zh_ShowCodeing :: texts where
  "zh_ShowCodeing =
    [(''sampleCode'', Units [31034, 20363, 20195, 30721]), (''loading'', Units [21152, 36733, 20013, 46, 46, 46])]"

definition zh_SuccessDialog :: texts where
  "zh_SuccessDialog =
    [(''title'', Units [37197, 32622, 31649, 29702]), (''determine'', Units [30830, 23450]), (''failure'', Units [22833, 36133])]"

definition zh_ConfigSync :: texts where
  "zh_ConfigSync =
    [(''error'', Units [38169, 35823]), (''syncConfigurationMain'', Units [21516, 27493, 37197, 32622]),
     (''syncConfiguration'', Units [21516, 27493, 37197, 32622, 25104, 21151]),
     (''advancedOptions'', Units [26356, 22810, 39640, 32423, 36873, 39033]), (''collapse'', Units [25910, 36215]),
     (''home'', Units [24402, 23646, 24212, 29992, 65306]), (''region'', Units [25152, 23646, 22320, 22495, 65306]),
     (''configuration'', Units [37197, 32622, 20869, 23481, 65306]), (''target'', Units [30446, 26631, 22320, 22495, 65306]),
     (''sync'', Units [21516, 27493]), (''back'', Units [36820, 22238])]"

definition zh_NewNameSpace :: texts where
  "zh_NewNameSpace =
    [(''norepeat'', Units [21629, 21517, 31354, 38388, 21517, 31216, 19981, 33021, 37325, 22797]), (''notice'', Units [25552, 31034]),
     (''input'', Units [35831, 21247, 36755, 20837, 38750, 27861, 23383, 31526]), (''ok'', Units [30830, 23450]),
     (''cancel'', Units [21462, 28040]), (''newnamespce'', Units [26032, 24314, 21629, 21517, 31354, 38388]),
     (''loading'', Units [21152, 36733, 20013, 46, 46, 46]), (''name'', Units [21629, 21517, 31354, 38388, 21517, 65306]),
     (''namespaceId'', Units [21629, 21517, 31354, 38388, 73, 68, 40, 19981, 22635, 21017, 33258, 21160, 29983, 25104, 41, 65306]),
     (''namespaceIdTooLong'', Units [21629, 21517, 31354, 38388, 73, 68, 38271, 24230, 19981, 33021, 36229, 36807, 49, 50, 56]),
     (''namespacenotnull'', Units [21629, 21517, 31354, 38388, 19981, 33021, 20026, 31354]),
     (''namespacedescnotnull'', Units [21629, 21517, 31354, 38388, 25551, 36848, 19981, 33021, 20026, 31354]),
     (''description'', Units [25551, 36848, 65306]),
     (''namespaceIdAlreadyExist'', Units [110, 97, 109, 101, 115, 112, 97, 99, 101, 73, 100, 24050, 23384, 22312]),
     (''newnamespceFailedMessage'', Units [110, 97, 109, 101, 115, 112, 97, 99, 101, 73, 100, 26684, 24335, 19981, 27491, 30830, 47, 110, 97, 109, 101, 115, 112, 97, 99, 101, 73, 100, 38271, 24230, 22823, 20110, 49, 50, 56, 47, 110, 97, 109, 101, 115, 112, 97, 99, 101, 73, 100, 24050, 23384, 22312])]"

definition zh_NameSpaceList :: texts where
  "zh_NameSpaceList =
    [(''notice'', Units [25552, 31034])]"

definition zh_ConfigDetail :: texts where
  "zh_ConfigDetail =
    [(''official'', Units [27491, 24335]), (''error'', Units [38169, 35823]),
     (''configurationDetails'', Units [37197, 32622, 35814, 24773]), (''collapse'', Units [25910, 36215]),
     (''more'', Units [26356, 22810, 39640, 32423, 36873, 39033]), (''home'', Units [24402, 23646, 24212, 29992, 65306]),
     (''tags'', Units [26631, 31614, 58]), (''description'', Units [25551, 36848, 65306]),
     (''betaRelease'', Units [66, 101, 116, 97, 21457, 24067, 65306]), (''configuration'', Units [37197, 32622, 20869, 23481, 65306]),
     (''back'', Units [36820, 22238])]"

definition zh_ConfigRollback :: texts where
  "zh_ConfigRollback =
    [(''rollBack'', Units [22238, 28378, 37197, 32622]), (''determine'', Units [30830, 23450, 35201]),
     (''followingConfiguration'', Units [20197, 19979, 37197, 32622, 21527, 65311]),
     (''configurationRollback'', Units [37197, 32622, 22238, 28378]), (''collapse'', Units [25910, 36215]),
     (''more'', Units [26356, 22810, 39640, 32423, 36873, 39033]), (''home'', Units [24402, 23646, 24212, 29992, 65306]),
     (''actionType'', Units [25805, 20316, 31867, 22411, 65306]), (''configuration'', Units [37197, 32622, 20869, 23481, 65306]),
     (''back'', Units [36820, 22238]), (''rollbackSuccessful'', Units [22238, 28378, 25104, 21151]),
     (''rollbackDelete'', Units [21024, 38500]), (''update'', Units [26356, 26032]), (''insert'', Units [25554, 20837])]"

definition zh_UserManagement :: texts where
  "zh_UserManagement =
    [(''userManagement'', Units [29992, 25143, 31649, 29702]), (''createUser'', Units [21019, 24314, 29992, 25143]),
     (''resetPassword'', Units [20462, 25913]), (''deleteUser'', Units [21024, 38500]),
     (''deleteUserTip'', Units [26159, 21542, 35201, 21024, 38500, 35813, 29992, 25143, 65311]),
     (''username'', Units [29992, 25143, 21517]), (''password'', Units [23494, 30721]), (''operation'', Units [25805, 20316]),
     (''refresh'', Units [21047, 26032])]"

definition zh_NewUser :: texts where
  "zh_NewUser =
    [(''createUser'', Units [21019, 24314, 29992, 25143]), (''username'', Units [29992, 25143, 21517]),
     (''password'', Units [23494, 30721]), (''rePassword'', Units [30830, 35748, 23494, 30721]),
     (''usernamePlaceholder'', Units [35831, 36755, 20837, 29992, 25143, 21517]),
     (''passwordPlaceholder'', Units [35831, 36755, 20837, 23494, 30721]),
     (''rePasswordPlaceholder'', Units [35831, 36755, 20837, 30830, 35748, 23494, 30721]),
     (''usernameError'', Units [29992, 25143, 21517, 19981, 33021, 20026, 31354, 65281]),
     (''passwordError'', Units [23494, 30721, 19981, 33021, 20026, 31354, 33]),
     (''rePasswordError'', Units [30830, 35748, 23494, 30721, 19981, 33021, 20026, 31354, 33]),
     (''rePasswordError2'', Units [20004, 27425, 36755, 20837, 23494, 30721, 19981, 19968, 33268, 33])]"

definition zh_PasswordReset :: texts where
  "zh_PasswordReset =
    [(''resetPassword'', Units [23494, 30721, 37325, 32622]), (''username'', Units [29992, 25143, 21517]),
     (''password'', Units [23494, 30721]), (''rePassword'', Units [30830, 35748, 23494, 30721]),
     (''passwordError'', Units [23494, 30721, 19981, 33021, 20026, 31354, 65281]),
     (''passwordPlaceholder'', Units [35831, 36755, 20837, 23494, 30721]),
     (''rePasswordPlaceholder'', Units [35831, 36755, 20837, 30830, 35748, 23494, 30721]),
     (''rePasswordError'', Units [30830, 35748, 23494, 30721, 19981, 33021, 20026, 31354, 33]),
     (''rePasswordError2'', Units [20004, 27425, 36755, 20837, 23494, 30721, 19981, 19968, 33268, 33])]"

definition zh_RolesManagement :: texts where
  "zh_RolesManagement =
    [(''roleManagement'', Units [35282, 33394, 31649, 29702]), (''bindingRoles'', Units [32465, 23450, 35282, 33394]),
     (''role'', Units [35282, 33394, 21517]), (''username'', Units [29992, 25143, 21517]), (''operation'', Units [25805, 20316]),
     (''deleteRole'', Units [21024, 38500]), (''deleteRoleTip'', Units [26159, 21542, 35201, 21024, 38500, 35813, 35282, 33394, 65311]),
     (''refresh'', Units [21047, 26032])]"

definition zh_NewRole :: texts where
  "zh_NewRole =
    [(''bindingRoles'', Units [32465, 23450, 35282, 33394]), (''username'', Units [29992, 25143, 21517]),
     (''role'', Units [35282, 33394, 21517]), (''usernamePlaceholder'', Units [35831, 36755, 20837, 29992, 25143, 21517]),
     (''rolePlaceholder'', Units [35831, 36755, 20837, 35282, 33394, 21517]),
     (''usernameError'', Units [29992, 25143, 21517, 19981, 33021, 20026, 31354, 65281]),
     (''roleError'', Units [35282, 33394, 21517, 19981, 33021, 20026, 31354, 33])]"

definition zh_PermissionsManagement :: texts where
  "zh_PermissionsManagement =
    [(''privilegeManagement'', Units [26435, 38480, 31649, 29702]), (''addPermission'', Units [28155, 21152, 26435, 38480]),
     (''role'', Units [35282, 33394, 21517]), (''resource'', Units [36164, 28304]), (''action'', Units [21160, 20316]),
     (''operation'', Units [25805, 20316]), (''deletePermission'', Units [21024, 38500]),
     (''deletePermissionTip'', Units [26159, 21542, 35201, 21024, 38500, 35813, 26435, 38480, 65311]),
     (''readOnly'', Units [21482, 35835]), (''writeOnly'', Units [21482, 20889]), (''readWrite'', Units [35835, 20889]),
     (''refresh'', Units [21047, 26032])]"

definition zh_NewPermissions :: texts where
  "zh_NewPermissions =
    [(''addPermission'', Units [28155, 21152, 26435, 38480]), (''role'', Units [35282, 33394, 21517]),
     (''resource'', Units [36164, 28304]), (''action'', Units [21160, 20316]),
     (''resourcePlaceholder'', Units [35831, 36873, 25321, 36164, 28304]),
     (''rolePlaceholder'', Units [35831, 36755, 20837, 35282, 33394, 21517]),
     (''actionPlaceholder'', Units [35831, 36873, 25321, 21160, 20316]),
     (''resourceError'', Units [36164, 28304, 19981, 33021, 20026, 31354, 65281]),
     (''roleError'', Units [35282, 33394, 21517, 19981, 33021, 20026, 31354, 33]),
     (''actionError'', Units [21160, 20316, 19981, 33021, 20026, 31354, 33]), (''readOnly'', Units [21482, 35835]),
     (''writeOnly'', Units [21482, 20889]), (''readWrite'', Units [35835, 20889])]"

definition zhCN_table :: "(string \<times> texts) list" where
  "zhCN_table =
    [(''Header'', zh_Header), (''Login'', zh_Login), (''MainLayout'', zh_MainLayout), (''Password'', zh_Password),
     (''NameSpace'', zh_NameSpace), (''ServiceList'', zh_ServiceList), (''SubscriberList'', zh_SubscriberList),
     (''ClusterNodeList'', zh_ClusterNodeList), (''EditClusterDialog'', zh_EditClusterDialog),
     (''ServiceDetail'', zh_ServiceDetail), (''EditServiceDialog'', zh_EditServiceDialog), (''InstanceTable'', zh_InstanceTable),
     (''EditInstanceDialog'', zh_EditInstanceDialog), (''ListeningToQuery'', zh_ListeningToQuery),
     (''HistoryRollback'', zh_HistoryRollback), (''HistoryDetail'', zh_HistoryDetail), (''DashboardCard'', zh_DashboardCard),
     (''ConfigurationManagement'', zh_ConfigurationManagement), (''NewConfig'', zh_NewConfig), (''CloneDialog'', zh_CloneDialog),
     (''DeleteDialog'', zh_DeleteDialog), (''DiffEditorDialog'', zh_DiffEditorDialog), (''ConfigEditor'', zh_ConfigEditor),
     (''EditorNameSpace'', zh_EditorNameSpace), (''ExportDialog'', zh_ExportDialog), (''ImportDialog'', zh_ImportDialog),
     (''ShowCodeing'', zh_ShowCodeing), (''SuccessDialog'', zh_SuccessDialog), (''ConfigSync'', zh_ConfigSync),
     (''NewNameSpace'', zh_NewNameSpace), (''NameSpaceList'', zh_NameSpaceList), (''ConfigDetail'', zh_ConfigDetail),
     (''ConfigRollback'', zh_ConfigRollback), (''UserManagement'', zh_UserManagement), (''NewUser'', zh_NewUser),
     (''PasswordReset'', zh_PasswordReset), (''RolesManagement'', zh_RolesManagement), (''NewRole'', zh_NewRole),
     (''PermissionsManagement'', zh_PermissionsManagement), (''NewPermissions'', zh_NewPermissions)]"

section \<open>The texts that are read\<close>

definition reads_Header :: "string list" where
  "reads_Header = [''home'', ''docs'', ''blog'', ''community'', ''languageSwitchButton'', ''logout'', ''changePassword'']"

definition reads_Login :: "string list" where
  "reads_Login = [''login'', ''submit'', ''pleaseInputUsername'', ''pleaseInputPassword'', ''invalidUsernameOrPassword'',
     ''passwordRequired'', ''usernameRequired'']"

definition reads_MainLayout :: "string list" where
  "reads_MainLayout = [''nacosName'', ''configurationManagementVirtual'', ''configurationManagement'', ''historyRollback'',
     ''listeningToQuery'', ''serviceManagementVirtual'', ''serviceManagement'', ''subscriberList'', ''namespace'',
     ''clusterManagementVirtual'', ''clusterManagement'', ''authorityControl'', ''userList'', ''roleManagement'',
     ''privilegeManagement'']"

definition reads_NameSpace :: "string list" where
  "reads_NameSpace = [''namespace'', ''prompt'', ''namespaceDetails'', ''namespaceName'', ''namespaceID'', ''configuration'',
     ''description'', ''removeNamespace'', ''confirmDelete'', ''configurationManagement'', ''removeSuccess'', ''deletedSuccessfully'',
     ''deletedFailure'', ''namespaceDelete'', ''details'', ''edit'', ''namespacePublic'', ''pubNoData'', ''namespaceAdd'',
     ''namespaceNames'', ''namespaceNumber'', ''namespaceOperation'', ''refresh'']"

definition reads_ServiceList :: "string list" where
  "reads_ServiceList = [''serviceList'', ''serviceName'', ''serviceNamePlaceholder'', ''hiddenEmptyService'', ''query'', ''pubNoData'',
     ''columnServiceName'', ''groupName'', ''groupNamePlaceholder'', ''columnClusterCount'', ''columnIpCount'',
     ''columnHealthyInstanceCount'', ''columnTriggerFlag'', ''operation'', ''detail'', ''sampleCode'', ''deleteAction'', ''prompt'',
     ''promptDelete'', ''create'']"

definition reads_SubscriberList :: "string list" where
  "reads_SubscriberList = [''subscriberList'', ''serviceName'', ''serviceNamePlaceholder'', ''groupName'', ''groupNamePlaceholder'',
     ''query'', ''pubNoData'', ''address'', ''clientVersion'', ''appName'', ''searchServiceNamePrompt'']"

definition reads_ClusterNodeList :: "string list" where
  "reads_ClusterNodeList = [''clusterNodeList'', ''nodeIp'', ''nodeIpPlaceholder'', ''query'', ''pubNoData'', ''nodeState'',
     ''extendInfo'']"

definition reads_EditClusterDialog :: "string list" where
  "reads_EditClusterDialog = [''updateCluster'', ''checkType'', ''checkPort'', ''useIpPortCheck'', ''checkPath'', ''checkHeaders'',
     ''metadata'']"

definition reads_ServiceDetail :: "string list" where
  "reads_ServiceDetail = [''serviceDetails'', ''back'', ''editCluster'', ''cluster'', ''metadata'', ''selector'', ''type'',
     ''groupName'', ''protectThreshold'', ''serviceName'', ''editService'']"

definition reads_EditServiceDialog :: "string list" where
  "reads_EditServiceDialog = [''createService'', ''updateService'', ''serviceName'', ''metadata'', ''groupName'', ''type'',
     ''typeLabel'', ''typeNone'', ''selector'', ''protectThreshold'', ''serviceNameRequired'', ''protectThresholdRequired'']"

definition reads_InstanceTable :: "string list" where
  "reads_InstanceTable = [''operation'', ''port'', ''weight'', ''healthy'', ''metadata'', ''editor'', ''offline'', ''online'',
     ''ephemeral'']"

definition reads_EditInstanceDialog :: "string list" where
  "reads_EditInstanceDialog = [''port'', ''weight'', ''metadata'', ''updateInstance'', ''whetherOnline'']"

definition reads_ListeningToQuery :: "string list" where
  "reads_ListeningToQuery = [''success'', ''failure'', ''configuration'', ''pubNoData'', ''listenerQuery'', ''queryDimension'',
     ''pleaseEnterTheDataId'', ''dataIdCanNotBeEmpty'', ''pleaseInputGroup'', ''groupCanNotBeEmpty'', ''pleaseInputIp'', ''query'',
     ''queryResultsQuery'', ''articleMeetRequirementsConfiguration'']"

definition reads_HistoryRollback :: "string list" where
  "reads_HistoryRollback = [''details'', ''rollback'', ''pubNoData'', ''toConfigure'', ''dataId'', ''dataIdCanNotBeEmpty'', ''group'',
     ''groupCanNotBeEmpty'', ''query'', ''queryResult'', ''articleMeet'', ''lastUpdateTime'', ''operator'', ''operation'',
     ''momentLocale'']"

definition reads_HistoryDetail :: "string list" where
  "reads_HistoryDetail = [''historyDetails'', ''update'', ''insert'', ''deleteAction'', ''recipientFrom'', ''moreAdvancedOptions'',
     ''home'', ''actionType'', ''operator'', ''configureContent'', ''back'']"

definition reads_DashboardCard :: "string list" where
  "reads_DashboardCard = [''importantReminder0'', ''viewDetails1'']"

definition reads_ConfigurationManagement :: "string list" where
  "reads_ConfigurationManagement = [''questionnaire2'', ''ad'', ''noLongerDisplay4'', ''removeConfiguration'', ''sureDelete'',
     ''environment'', ''configurationManagement'', ''details'', ''sampleCode'', ''edit'', ''deleteAction'', ''more'', ''version'',
     ''listenerQuery'', ''failedEntry'', ''successfulEntry'', ''unprocessedEntry'', ''pubNoData'', ''configurationManagement8'',
     ''queryResults'', ''articleMeetRequirements'', ''fuzzyd'', ''fuzzyg'', ''query'', ''advancedQuery9'', ''application0'', ''app1'',
     ''tags'', ''pleaseEnterTag'', ''application'', ''operation'', ''export'', ''import'', ''uploadBtn'', ''importSucc'',
     ''importAbort'', ''importSuccBegin'', ''importSuccEnd'', ''importFail'', ''importFail403'', ''importDataValidationError'',
     ''metadataIllegal'', ''namespaceNotExist'', ''abortImport'', ''skipImport'', ''overwriteImport'', ''importRemind'',
     ''samePreparation'', ''targetNamespace'', ''conflictConfig'', ''failureEntries'', ''unprocessedEntries'', ''skippedEntries'',
     ''exportSelected'', ''clone'', ''exportSelectedAlertTitle'', ''exportSelectedAlertContent'', ''cloneSucc'', ''cloneAbort'',
     ''cloneSuccBegin'', ''cloneSuccEnd'', ''cloneFail'', ''getNamespaceFailed'', ''getNamespace403'', ''startCloning'',
     ''cloningConfiguration'', ''source'', ''configurationNumber'', ''target'', ''selectNamespace'', ''selectedEntry'',
     ''cloneSelectedAlertTitle'', ''cloneSelectedAlertContent'', ''delSelectedAlertTitle'', ''delSelectedAlertContent'',
     ''delSuccessMsg'', ''cloneEditableTitle'', ''authFail'', ''cloneFailMsg'', ''importFailMsg'']"

definition reads_NewConfig :: "string list" where
  "reads_NewConfig = [''newListingMain'', ''newListing'', ''publishFailed'', ''doNotEnter'', ''newConfig'', ''groupPlaceholder'',
     ''moreAdvanced'', ''groupNotEmpty'', ''annotation'', ''dataIdLength'', ''collapse'', ''tags'', ''pleaseEnterTag'',
     ''groupIdCannotBeLonger'', ''description'', ''targetEnvironment'', ''configurationFormat'', ''configureContentsOf'', ''fullScreen'',
     ''escExit'', ''release'', ''confirmSyanx'', ''dataIdExists'', ''dataRequired'']"

definition reads_CloneDialog :: "string list" where
  "reads_CloneDialog = [''terminate'', ''skip'', ''cover'', ''getNamespaceFailed'', ''selectedEntry'', ''homeApplication'', ''tags'',
     ''startCloning'', ''source'', ''configurationNumber'', ''target'', ''conflict'', ''selectNamespace'', ''configurationCloning'']"

definition reads_DeleteDialog :: "string list" where
  "reads_DeleteDialog = [''confManagement'', ''determine'', ''deletetitle'', ''deletedSuccessfully'', ''deleteFailed'']"

definition reads_DiffEditorDialog :: "string list" where
  "reads_DiffEditorDialog = [''publish'', ''contents'', ''currentArea'', ''originalValue'']"

definition reads_ConfigEditor :: "string list" where
  "reads_ConfigEditor = [''official'', ''production'', ''beta'', ''wrong'', ''submitFailed'', ''toedittitle'', ''newConfigEditor'',
     ''toedit'', ''vdchart'', ''recipientFrom'', ''homeApplication'', ''collapse'', ''groupNotEmpty'', ''tags'', ''pleaseEnterTag'',
     ''targetEnvironment'', ''description'', ''format'', ''configcontent'', ''escExit'', ''releaseBeta'', ''release'',
     ''stopPublishBeta'', ''betaPublish'', ''betaSwitchPrompt'', ''publish'', ''back'', ''codeValErrorPrompt'']"

definition reads_EditorNameSpace :: "string list" where
  "reads_EditorNameSpace = [''notice'', ''pleaseDo'', ''publicSpace'', ''confirmModify'', ''editNamespace'', ''load'', ''namespace'',
     ''namespaceDesc'', ''description'']"

definition reads_ExportDialog :: "string list" where
  "reads_ExportDialog = [''selectedEntry'', ''application'', ''tags'', ''exportBtn'', ''exportConfiguration'', ''source'', ''items'']"

definition reads_ImportDialog :: "string list" where
  "reads_ImportDialog = [''terminate'', ''skip'', ''overwrite'', ''zipFileFormat'', ''uploadFile'', ''importLabel'', ''target'',
     ''conflict'', ''beSureExerciseCaution'']"

definition reads_ShowCodeing :: "string list" where
  "reads_ShowCodeing = [''sampleCode'', ''loading'']"

definition reads_SuccessDialog :: "string list" where
  "reads_SuccessDialog = [''title'', ''determine'', ''failure'']"

definition reads_ConfigSync :: "string list" where
  "reads_ConfigSync = [''error'', ''syncConfigurationMain'', ''syncConfiguration'', ''advancedOptions'', ''collapse'', ''home'',
     ''region'', ''configuration'', ''target'', ''sync'', ''back'']"

definition reads_NewNameSpace :: "string list" where
  "reads_NewNameSpace = [''norepeat'', ''notice'', ''input'', ''ok'', ''cancel'', ''newnamespce'', ''loading'', ''name'',
     ''namespaceId'', ''namespaceIdTooLong'', ''namespacenotnull'', ''namespacedescnotnull'', ''description'',
     ''namespaceIdAlreadyExist'', ''newnamespceFailedMessage'']"

definition reads_NameSpaceList :: "string list" where
  "reads_NameSpaceList = [''notice'']"

definition reads_ConfigDetail :: "string list" where
  "reads_ConfigDetail = [''official'', ''error'', ''configurationDetails'', ''collapse'', ''more'', ''home'', ''tags'', ''description'',
     ''betaRelease'', ''configuration'', ''back'']"

definition reads_ConfigRollback :: "string list" where
  "reads_ConfigRollback = [''rollBack'', ''determine'', ''followingConfiguration'', ''configurationRollback'', ''collapse'', ''more'',
     ''home'', ''actionType'', ''configuration'', ''back'', ''rollbackSuccessful'', ''rollbackDelete'', ''update'', ''insert'']"

definition reads_UserManagement :: "string list" where
  "reads_UserManagement = [''userManagement'', ''createUser'', ''resetPassword'', ''deleteUser'', ''deleteUserTip'', ''username'',
     ''password'', ''operation'', ''refresh'']"

definition reads_NewUser :: "string list" where
  "reads_NewUser = [''createUser'', ''username'', ''password'', ''rePassword'', ''usernamePlaceholder'', ''passwordPlaceholder'',
     ''rePasswordPlaceholder'', ''usernameError'', ''passwordError'', ''rePasswordError'', ''rePasswordError2'']"

definition reads_PasswordReset :: "string list" where
  "reads_PasswordReset = [''resetPassword'', ''username'', ''password'', ''rePassword'', ''passwordPlaceholder'',
     ''rePasswordPlaceholder'', ''passwordError'', ''rePasswordError'', ''rePasswordError2'']"

definition reads_RolesManagement :: "string list" where
  "reads_RolesManagement = [''roleManagement'', ''bindingRoles'', ''role'', ''username'', ''operation'', ''deleteRole'',
     ''deleteRoleTip'', ''refresh'']"

definition reads_NewRole :: "string list" where
  "reads_NewRole = [''bindingRoles'', ''username'', ''role'', ''usernamePlaceholder'', ''rolePlaceholder'', ''usernameError'',
     ''roleError'']"

definition reads_PermissionsManagement :: "string list" where
  "reads_PermissionsManagement = [''privilegeManagement'', ''addPermission'', ''role'', ''resource'', ''action'', ''operation'',
     ''deletePermission'', ''deletePermissionTip'', ''readOnly'', ''writeOnly'', ''readWrite'', ''refresh'']"

definition reads_NewPermissions :: "string list" where
  "reads_NewPermissions = [''addPermission'', ''role'', ''resource'', ''action'', ''resourcePlaceholder'', ''rolePlaceholder'',
     ''actionPlaceholder'', ''resourceError'', ''roleError'', ''actionError'', ''readOnly'', ''writeOnly'', ''readWrite'']"

definition reads_ShowServiceCodeing :: "string list" where
  "reads_ShowServiceCodeing = [''loading'', ''sampleCode'']"

definition texts_read :: "(string \<times> string list) list" where
  "texts_read = [(''Header'', reads_Header), (''Login'', reads_Login), (''MainLayout'', reads_MainLayout),
     (''NameSpace'', reads_NameSpace), (''ServiceList'', reads_ServiceList), (''SubscriberList'', reads_SubscriberList),
     (''ClusterNodeList'', reads_ClusterNodeList), (''EditClusterDialog'', reads_EditClusterDialog),
     (''ServiceDetail'', reads_ServiceDetail), (''EditServiceDialog'', reads_EditServiceDialog),
     (''InstanceTable'', reads_InstanceTable), (''EditInstanceDialog'', reads_EditInstanceDialog),
     (''ListeningToQuery'', reads_ListeningToQuery), (''HistoryRollback'', reads_HistoryRollback),
     (''HistoryDetail'', reads_HistoryDetail), (''DashboardCard'', reads_DashboardCard),
     (''ConfigurationManagement'', reads_ConfigurationManagement), (''NewConfig'', reads_NewConfig),
     (''CloneDialog'', reads_CloneDialog), (''DeleteDialog'', reads_DeleteDialog), (''DiffEditorDialog'', reads_DiffEditorDialog),
     (''ConfigEditor'', reads_ConfigEditor), (''EditorNameSpace'', reads_EditorNameSpace), (''ExportDialog'', reads_ExportDialog),
     (''ImportDialog'', reads_ImportDialog), (''ShowCodeing'', reads_ShowCodeing), (''SuccessDialog'', reads_SuccessDialog),
     (''ConfigSync'', reads_ConfigSync), (''NewNameSpace'', reads_NewNameSpace), (''NameSpaceList'', reads_NameSpaceList),
     (''ConfigDetail'', reads_ConfigDetail), (''ConfigRollback'', reads_ConfigRollback), (''UserManagement'', reads_UserManagement),
     (''NewUser'', reads_NewUser), (''PasswordReset'', reads_PasswordReset), (''RolesManagement'', reads_RolesManagement),
     (''NewRole'', reads_NewRole), (''PermissionsManagement'', reads_PermissionsManagement), (''NewPermissions'', reads_NewPermissions),
     (''ShowServiceCodeing'', reads_ShowServiceCodeing)]"

section \<open>Comparing tables\<close>

named_theorems text_checks \<open>which texts a component misses in its section\<close>

definition section_of :: "(string \<times> texts) list \<Rightarrow> string \<Rightarrow> texts" where
  "section_of table c = (case map_of table c of None \<Rightarrow> [] | Some s \<Rightarrow> s)"

definition lacks :: "string list \<Rightarrow> string list \<Rightarrow> string list" where
  "lacks names ks = filter (\<lambda>k. k \<notin> set names) ks"

definition missing_texts :: "(string \<times> texts) list \<Rightarrow> (string \<times> string) list" where
  "missing_texts table = concat (map (\<lambda>(c, ks). map (Pair c) (lacks (map fst (section_of table c)) ks)) texts_read)"

text \<open>Names in the order of their section are looked up in one pass; what is left over is missing.\<close>

fun lacks_in_order :: "string list \<Rightarrow> string list \<Rightarrow> string list" where
  "lacks_in_order [] ks = ks"
| "lacks_in_order (h # hs) [] = []"
| "lacks_in_order (h # hs) (k # ks) = (if h = k then lacks_in_order hs ks else lacks_in_order hs (k # ks))"

lemma lacks_Cons: "lacks (h # hs) ks = filter (\<lambda>k. k \<noteq> h) (lacks hs ks)"
  by (auto simp: lacks_def intro: filter_cong)

lemma lacks_by_order:
  assumes "lacks_in_order names ks = r" "list_all (\<lambda>k. k \<notin> set names) r"
  shows "lacks names ks = r"
  using assms
proof (induction names ks rule: lacks_in_order.induct)
  case (3 h hs k ks)
  have r: "filter (\<lambda>k. k \<noteq> h) r = r" "list_all (\<lambda>k. k \<notin> set hs) r" using 3(4) by (auto simp: list_all_iff filter_id_conv)
  show ?case
  proof (cases "h = k")
    case True
    with 3(1)[OF True _ r(2)] 3(3) r(1) have "lacks (h # hs) ks = r" by (simp add: lacks_Cons)
    then show ?thesis using True by (simp add: lacks_def)
  next
    case False
    with 3(2)[OF False _ r(2)] 3(3) r(1) show ?thesis by (simp add: lacks_Cons)
  qed
qed (simp_all add: lacks_def)

lemma lacks_en_Header [text_checks]: "lacks (map fst en_Header) reads_Header = []"
  by (rule lacks_by_order) (simp_all add: en_Header_def reads_Header_def)

lemma lacks_en_Login [text_checks]: "lacks (map fst en_Login) reads_Login = [''passwordRequired'', ''usernameRequired'']"
  by (rule lacks_by_order) (simp_all add: en_Login_def reads_Login_def)

lemma lacks_en_MainLayout [text_checks]: "lacks (map fst en_MainLayout) reads_MainLayout = []"
  by (rule lacks_by_order) (simp_all add: en_MainLayout_def reads_MainLayout_def)

lemma lacks_en_NameSpace [text_checks]: "lacks (map fst en_NameSpace) reads_NameSpace = []"
  by (rule lacks_by_order) (simp_all add: en_NameSpace_def reads_NameSpace_def)

lemma lacks_en_ServiceList [text_checks]: "lacks (map fst en_ServiceList) reads_ServiceList = []"
  by (rule lacks_by_order) (simp_all add: en_ServiceList_def reads_ServiceList_def)

lemma lacks_en_SubscriberList [text_checks]: "lacks (map fst en_SubscriberList) reads_SubscriberList = []"
  by (rule lacks_by_order) (simp_all add: en_SubscriberList_def reads_SubscriberList_def)

lemma lacks_en_ClusterNodeList [text_checks]: "lacks (map fst en_ClusterNodeList) reads_ClusterNodeList = []"
  by (rule lacks_by_order) (simp_all add: en_ClusterNodeList_def reads_ClusterNodeList_def)

lemma lacks_en_EditClusterDialog [text_checks]: "lacks (map fst en_EditClusterDialog) reads_EditClusterDialog = []"
  by (rule lacks_by_order) (simp_all add: en_EditClusterDialog_def reads_EditClusterDialog_def)

lemma lacks_en_ServiceDetail [text_checks]: "lacks (map fst en_ServiceDetail) reads_ServiceDetail = []"
  by (rule lacks_by_order) (simp_all add: en_ServiceDetail_def reads_ServiceDetail_def)

lemma lacks_en_EditServiceDialog [text_checks]: "lacks (map fst en_EditServiceDialog) reads_EditServiceDialog = []"
  by (rule lacks_by_order) (simp_all add: en_EditServiceDialog_def reads_EditServiceDialog_def)

lemma lacks_en_InstanceTable [text_checks]: "lacks (map fst en_InstanceTable) reads_InstanceTable = []"
  by (rule lacks_by_order) (simp_all add: en_InstanceTable_def reads_InstanceTable_def)

lemma lacks_en_EditInstanceDialog [text_checks]: "lacks (map fst en_EditInstanceDialog) reads_EditInstanceDialog = []"
  by (rule lacks_by_order) (simp_all add: en_EditInstanceDialog_def reads_EditInstanceDialog_def)

lemma lacks_en_ListeningToQuery [text_checks]: "lacks (map fst en_ListeningToQuery) reads_ListeningToQuery = []"
  by (rule lacks_by_order) (simp_all add: en_ListeningToQuery_def reads_ListeningToQuery_def)

lemma lacks_en_HistoryRollback [text_checks]: "lacks (map fst en_HistoryRollback) reads_HistoryRollback = [''momentLocale'']"
  by (rule lacks_by_order) (simp_all add: en_HistoryRollback_def reads_HistoryRollback_def)

lemma lacks_en_HistoryDetail [text_checks]: "lacks (map fst en_HistoryDetail) reads_HistoryDetail = []"
  by (rule lacks_by_order) (simp_all add: en_HistoryDetail_def reads_HistoryDetail_def)

lemma lacks_en_DashboardCard [text_checks]: "lacks (map fst en_DashboardCard) reads_DashboardCard = []"
  by (rule lacks_by_order) (simp_all add: en_DashboardCard_def reads_DashboardCard_def)

lemma lacks_en_ConfigurationManagement [text_checks]: "lacks (map fst en_ConfigurationManagement) reads_ConfigurationManagement = [''cloneFailMsg'', ''importFailMsg'']"
  by (rule lacks_by_order) (simp_all add: en_ConfigurationManagement_def reads_ConfigurationManagement_def)

lemma lacks_en_NewConfig [text_checks]: "lacks (map fst en_NewConfig) reads_NewConfig = []"
  by (rule lacks_by_order) (simp_all add: en_NewConfig_def reads_NewConfig_def)

lemma lacks_en_CloneDialog [text_checks]: "lacks (map fst en_CloneDialog) reads_CloneDialog = []"
  by (rule lacks_by_order) (simp_all add: en_CloneDialog_def reads_CloneDialog_def)

lemma lacks_en_DeleteDialog [text_checks]: "lacks (map fst en_DeleteDialog) reads_DeleteDialog = []"
  by (rule lacks_by_order) (simp_all add: en_DeleteDialog_def reads_DeleteDialog_def)

lemma lacks_en_DiffEditorDialog [text_checks]: "lacks (map fst en_DiffEditorDialog) reads_DiffEditorDialog = []"
  by (rule lacks_by_order) (simp_all add: en_DiffEditorDialog_def reads_DiffEditorDialog_def)

lemma lacks_en_ConfigEditor [text_checks]: "lacks (map fst en_ConfigEditor) reads_ConfigEditor = []"
  by (rule lacks_by_order) (simp_all add: en_ConfigEditor_def reads_ConfigEditor_def)

lemma lacks_en_EditorNameSpace [text_checks]: "lacks (map fst en_EditorNameSpace) reads_EditorNameSpace = []"
  by (rule lacks_by_order) (simp_all add: en_EditorNameSpace_def reads_EditorNameSpace_def)

lemma lacks_en_ExportDialog [text_checks]: "lacks (map fst en_ExportDialog) reads_ExportDialog = []"
  by (rule lacks_by_order) (simp_all add: en_ExportDialog_def reads_ExportDialog_def)

lemma lacks_en_ImportDialog [text_checks]: "lacks (map fst en_ImportDialog) reads_ImportDialog = []"
  by (rule lacks_by_order) (simp_all add: en_ImportDialog_def reads_ImportDialog_def)

lemma lacks_en_ShowCodeing [text_checks]: "lacks (map fst en_ShowCodeing) reads_ShowCodeing = []"
  by (rule lacks_by_order) (simp_all add: en_ShowCodeing_def reads_ShowCodeing_def)

lemma lacks_en_SuccessDialog [text_checks]: "lacks (map fst en_SuccessDialog) reads_SuccessDialog = []"
  by (rule lacks_by_order) (simp_all add: en_SuccessDialog_def reads_SuccessDialog_def)

lemma lacks_en_ConfigSync [text_checks]: "lacks (map fst en_ConfigSync) reads_ConfigSync = []"
  by (rule lacks_by_order) (simp_all add: en_ConfigSync_def reads_ConfigSync_def)

lemma lacks_en_NewNameSpace [text_checks]: "lacks (map fst en_NewNameSpace) reads_NewNameSpace = []"
  by (rule lacks_by_order) (simp_all add: en_NewNameSpace_def reads_NewNameSpace_def)

lemma lacks_en_NameSpaceList [text_checks]: "lacks (map fst en_NameSpaceList) reads_NameSpaceList = []"
  by (rule lacks_by_order) (simp_all add: en_NameSpaceList_def reads_NameSpaceList_def)

lemma lacks_en_ConfigDetail [text_checks]: "lacks (map fst en_ConfigDetail) reads_ConfigDetail = []"
  by (rule lacks_by_order) (simp_all add: en_ConfigDetail_def reads_ConfigDetail_def)

lemma lacks_en_ConfigRollback [text_checks]: "lacks (map fst en_ConfigRollback) reads_ConfigRollback = []"
  by (rule lacks_by_order) (simp_all add: en_ConfigRollback_def reads_ConfigRollback_def)

lemma lacks_en_UserManagement [text_checks]: "lacks (map fst en_UserManagement) reads_UserManagement = []"
  by (rule lacks_by_order) (simp_all add: en_UserManagement_def reads_UserManagement_def)

lemma lacks_en_NewUser [text_checks]: "lacks (map fst en_NewUser) reads_NewUser = []"
  by (rule lacks_by_order) (simp_all add: en_NewUser_def reads_NewUser_def)

lemma lacks_en_PasswordReset [text_checks]: "lacks (map fst en_PasswordReset) reads_PasswordReset = []"
  by (rule lacks_by_order) (simp_all add: en_PasswordReset_def reads_PasswordReset_def)

lemma lacks_en_RolesManagement [text_checks]: "lacks (map fst en_RolesManagement) reads_RolesManagement = []"
  by (rule lacks_by_order) (simp_all add: en_RolesManagement_def reads_RolesManagement_def)

lemma lacks_en_NewRole [text_checks]: "lacks (map fst en_NewRole) reads_NewRole = []"
  by (rule lacks_by_order) (simp_all add: en_NewRole_def reads_NewRole_def)

lemma lacks_en_PermissionsManagement [text_checks]: "lacks (map fst en_PermissionsManagement) reads_PermissionsManagement = []"
  by (rule lacks_by_order) (simp_all add: en_PermissionsManagement_def reads_PermissionsManagement_def)

lemma lacks_en_NewPermissions [text_checks]: "lacks (map fst en_NewPermissions) reads_NewPermissions = []"
  by (rule lacks_by_order) (simp_all add: en_NewPermissions_def reads_NewPermissions_def)

lemma lacks_zh_Header [text_checks]: "lacks (map fst zh_Header) reads_Header = []"
  by (rule lacks_by_order) (simp_all add: zh_Header_def reads_Header_def)

lemma lacks_zh_Login [text_checks]: "lacks (map fst zh_Login) reads_Login = []"
  by (rule lacks_by_order) (simp_all add: zh_Login_def reads_Login_def)

lemma lacks_zh_MainLayout [text_checks]: "lacks (map fst zh_MainLayout) reads_MainLayout = []"
  by (rule lacks_by_order) (simp_all add: zh_MainLayout_def reads_MainLayout_def)

lemma lacks_zh_NameSpace [text_checks]: "lacks (map fst zh_NameSpace) reads_NameSpace = []"
  by (rule lacks_by_order) (simp_all add: zh_NameSpace_def reads_NameSpace_def)

lemma lacks_zh_ServiceList [text_checks]: "lacks (map fst zh_ServiceList) reads_ServiceList = []"
  by (rule lacks_by_order) (simp_all add: zh_ServiceList_def reads_ServiceList_def)

lemma lacks_zh_SubscriberList [text_checks]: "lacks (map fst zh_SubscriberList) reads_SubscriberList = []"
  by (rule lacks_by_order) (simp_all add: zh_SubscriberList_def reads_SubscriberList_def)

lemma lacks_zh_ClusterNodeList [text_checks]: "lacks (map fst zh_ClusterNodeList) reads_ClusterNodeList = []"
  by (rule lacks_by_order) (simp_all add: zh_ClusterNodeList_def reads_ClusterNodeList_def)

lemma lacks_zh_EditClusterDialog [text_checks]: "lacks (map fst zh_EditClusterDialog) reads_EditClusterDialog = []"
  by (rule lacks_by_order) (simp_all add: zh_EditClusterDialog_def reads_EditClusterDialog_def)

lemma lacks_zh_ServiceDetail [text_checks]: "lacks (map fst zh_ServiceDetail) reads_ServiceDetail = []"
  by (rule lacks_by_order) (simp_all add: zh_ServiceDetail_def reads_ServiceDetail_def)

lemma lacks_zh_EditServiceDialog [text_checks]: "lacks (map fst zh_EditServiceDialog) reads_EditServiceDialog = []"
  by (rule lacks_by_order) (simp_all add: zh_EditServiceDialog_def reads_EditServiceDialog_def)

lemma lacks_zh_InstanceTable [text_checks]: "lacks (map fst zh_InstanceTable) reads_InstanceTable = []"
  by (rule lacks_by_order) (simp_all add: zh_InstanceTable_def reads_InstanceTable_def)

lemma lacks_zh_EditInstanceDialog [text_checks]: "lacks (map fst zh_EditInstanceDialog) reads_EditInstanceDialog = []"
  by (rule lacks_by_order) (simp_all add: zh_EditInstanceDialog_def reads_EditInstanceDialog_def)

lemma lacks_zh_ListeningToQuery [text_checks]: "lacks (map fst zh_ListeningToQuery) reads_ListeningToQuery = []"
  by (rule lacks_by_order) (simp_all add: zh_ListeningToQuery_def reads_ListeningToQuery_def)

lemma lacks_zh_HistoryRollback [text_checks]: "lacks (map fst zh_HistoryRollback) reads_HistoryRollback = [''momentLocale'']"
  by (rule lacks_by_order) (simp_all add: zh_HistoryRollback_def reads_HistoryRollback_def)

lemma lacks_zh_HistoryDetail [text_checks]: "lacks (map fst zh_HistoryDetail) reads_HistoryDetail = []"
  by (simp add: lacks_def zh_HistoryDetail_def reads_HistoryDetail_def)

lemma lacks_zh_DashboardCard [text_checks]: "lacks (map fst zh_DashboardCard) reads_DashboardCard = []"
  by (rule lacks_by_order) (simp_all add: zh_DashboardCard_def reads_DashboardCard_def)

lemma lacks_zh_ConfigurationManagement [text_checks]: "lacks (map fst zh_ConfigurationManagement) reads_ConfigurationManagement = [''cloneFailMsg'', ''importFailMsg'']"
  by (rule lacks_by_order) (simp_all add: zh_ConfigurationManagement_def reads_ConfigurationManagement_def)

lemma lacks_zh_NewConfig [text_checks]: "lacks (map fst zh_NewConfig) reads_NewConfig = []"
  by (rule lacks_by_order) (simp_all add: zh_NewConfig_def reads_NewConfig_def)

lemma lacks_zh_CloneDialog [text_checks]: "lacks (map fst zh_CloneDialog) reads_CloneDialog = []"
  by (rule lacks_by_order) (simp_all add: zh_CloneDialog_def reads_CloneDialog_def)

lemma lacks_zh_DeleteDialog [text_checks]: "lacks (map fst zh_DeleteDialog) reads_DeleteDialog = []"
  by (rule lacks_by_order) (simp_all add: zh_DeleteDialog_def reads_DeleteDialog_def)

lemma lacks_zh_DiffEditorDialog [text_checks]: "lacks (map fst zh_DiffEditorDialog) reads_DiffEditorDialog = []"
  by (rule lacks_by_order) (simp_all add: zh_DiffEditorDialog_def reads_DiffEditorDialog_def)

lemma lacks_zh_ConfigEditor [text_checks]: "lacks (map fst zh_ConfigEditor) reads_ConfigEditor = []"
  by (simp add: lacks_def zh_ConfigEditor_def reads_ConfigEditor_def)

lemma lacks_zh_EditorNameSpace [text_checks]: "lacks (map fst zh_EditorNameSpace) reads_EditorNameSpace = []"
  by (rule lacks_by_order) (simp_all add: zh_EditorNameSpace_def reads_EditorNameSpace_def)

lemma lacks_zh_ExportDialog [text_checks]: "lacks (map fst zh_ExportDialog) reads_ExportDialog = []"
  by (rule lacks_by_order) (simp_all add: zh_ExportDialog_def reads_ExportDialog_def)

lemma lacks_zh_ImportDialog [text_checks]: "lacks (map fst zh_ImportDialog) reads_ImportDialog = []"
  by (rule lacks_by_order) (simp_all add: zh_ImportDialog_def reads_ImportDialog_def)

lemma lacks_zh_ShowCodeing [text_checks]: "lacks (map fst zh_ShowCodeing) reads_ShowCodeing = []"
  by (rule lacks_by_order) (simp_all add: zh_ShowCodeing_def reads_ShowCodeing_def)

lemma lacks_zh_SuccessDialog [text_checks]: "lacks (map fst zh_SuccessDialog) reads_SuccessDialog = []"
  by (rule lacks_by_order) (simp_all add: zh_SuccessDialog_def reads_SuccessDialog_def)

lemma lacks_zh_ConfigSync [text_checks]: "lacks (map fst zh_ConfigSync) reads_ConfigSync = []"
  by (rule lacks_by_order) (simp_all add: zh_ConfigSync_def reads_ConfigSync_def)

lemma lacks_zh_NewNameSpace [text_checks]: "lacks (map fst zh_NewNameSpace) reads_NewNameSpace = []"
  by (rule lacks_by_order) (simp_all add: zh_NewNameSpace_def reads_NewNameSpace_def)

lemma lacks_zh_NameSpaceList [text_checks]: "lacks (map fst zh_NameSpaceList) reads_NameSpaceList = []"
  by (rule lacks_by_order) (simp_all add: zh_NameSpaceList_def reads_NameSpaceList_def)

lemma lacks_zh_ConfigDetail [text_checks]: "lacks (map fst zh_ConfigDetail) reads_ConfigDetail = []"
  by (rule lacks_by_order) (simp_all add: zh_ConfigDetail_def reads_ConfigDetail_def)

lemma lacks_zh_ConfigRollback [text_checks]: "lacks (map fst zh_ConfigRollback) reads_ConfigRollback = []"
  by (rule lacks_by_order) (simp_all add: zh_ConfigRollback_def reads_ConfigRollback_def)

lemma lacks_zh_UserManagement [text_checks]: "lacks (map fst zh_UserManagement) reads_UserManagement = []"
  by (rule lacks_by_order) (simp_all add: zh_UserManagement_def reads_UserManagement_def)

lemma lacks_zh_NewUser [text_checks]: "lacks (map fst zh_NewUser) reads_NewUser = []"
  by (rule lacks_by_order) (simp_all add: zh_NewUser_def reads_NewUser_def)

lemma lacks_zh_PasswordReset [text_checks]: "lacks (map fst zh_PasswordReset) reads_PasswordReset = []"
  by (simp add: lacks_def zh_PasswordReset_def reads_PasswordReset_def)

lemma lacks_zh_RolesManagement [text_checks]: "lacks (map fst zh_RolesManagement) reads_RolesManagement = []"
  by (rule lacks_by_order) (simp_all add: zh_RolesManagement_def reads_RolesManagement_def)

lemma lacks_zh_NewRole [text_checks]: "lacks (map fst zh_NewRole) reads_NewRole = []"
  by (rule lacks_by_order) (simp_all add: zh_NewRole_def reads_NewRole_def)

lemma lacks_zh_PermissionsManagement [text_checks]: "lacks (map fst zh_PermissionsManagement) reads_PermissionsManagement = []"
  by (rule lacks_by_order) (simp_all add: zh_PermissionsManagement_def reads_PermissionsManagement_def)

lemma lacks_zh_NewPermissions [text_checks]: "lacks (map fst zh_NewPermissions) reads_NewPermissions = []"
  by (rule lacks_by_order) (simp_all add: zh_NewPermissions_def reads_NewPermissions_def)

named_theorems text_keys \<open>sections with the same names in both languages\<close>

lemma same_keys: "map fst a = map fst b \<Longrightarrow> fst ` set a = fst ` set b"
  by (metis list.set_map)

lemma keys_MainLayout [text_keys]: "fst ` set zh_MainLayout = fst ` set en_MainLayout"
  by (rule same_keys) (simp add: en_MainLayout_def zh_MainLayout_def)

lemma keys_Password [text_keys]: "fst ` set zh_Password = fst ` set en_Password"
  by (rule same_keys) (simp add: en_Password_def zh_Password_def)

lemma keys_NameSpace [text_keys]: "fst ` set zh_NameSpace = fst ` set en_NameSpace"
  by (rule same_keys) (simp add: en_NameSpace_def zh_NameSpace_def)

lemma keys_ServiceList [text_keys]: "fst ` set zh_ServiceList = fst ` set en_ServiceList"
  by (rule same_keys) (simp add: en_ServiceList_def zh_ServiceList_def)

lemma keys_SubscriberList [text_keys]: "fst ` set zh_SubscriberList = fst ` set en_SubscriberList"
  by (rule same_keys) (simp add: en_SubscriberList_def zh_SubscriberList_def)

lemma keys_ClusterNodeList [text_keys]: "fst ` set zh_ClusterNodeList = fst ` set en_ClusterNodeList"
  by (rule same_keys) (simp add: en_ClusterNodeList_def zh_ClusterNodeList_def)

lemma keys_EditClusterDialog [text_keys]: "fst ` set zh_EditClusterDialog = fst ` set en_EditClusterDialog"
  by (rule same_keys) (simp add: en_EditClusterDialog_def zh_EditClusterDialog_def)

lemma keys_ServiceDetail [text_keys]: "fst ` set zh_ServiceDetail = fst ` set en_ServiceDetail"
  by (rule same_keys) (simp add: en_ServiceDetail_def zh_ServiceDetail_def)

lemma keys_EditServiceDialog [text_keys]: "fst ` set zh_EditServiceDialog = fst ` set en_EditServiceDialog"
  by (rule same_keys) (simp add: en_EditServiceDialog_def zh_EditServiceDialog_def)

lemma keys_InstanceTable [text_keys]: "fst ` set zh_InstanceTable = fst ` set en_InstanceTable"
  by (rule same_keys) (simp add: en_InstanceTable_def zh_InstanceTable_def)

lemma keys_EditInstanceDialog [text_keys]: "fst ` set zh_EditInstanceDialog = fst ` set en_EditInstanceDialog"
  by (rule same_keys) (simp add: en_EditInstanceDialog_def zh_EditInstanceDialog_def)

lemma keys_ListeningToQuery [text_keys]: "fst ` set zh_ListeningToQuery = fst ` set en_ListeningToQuery"
  by (rule same_keys) (simp add: en_ListeningToQuery_def zh_ListeningToQuery_def)

lemma keys_HistoryRollback [text_keys]: "fst ` set zh_HistoryRollback = fst ` set en_HistoryRollback"
  by (rule same_keys) (simp add: en_HistoryRollback_def zh_HistoryRollback_def)

lemma keys_HistoryDetail [text_keys]: "fst ` set zh_HistoryDetail = fst ` set en_HistoryDetail"
  by (simp add: en_HistoryDetail_def zh_HistoryDetail_def) auto

lemma keys_DashboardCard [text_keys]: "fst ` set zh_DashboardCard = fst ` set en_DashboardCard"
  by (rule same_keys) (simp add: en_DashboardCard_def zh_DashboardCard_def)

lemma keys_ConfigurationManagement [text_keys]: "fst ` set zh_ConfigurationManagement = fst ` set en_ConfigurationManagement"
  by (rule same_keys) (simp add: en_ConfigurationManagement_def zh_ConfigurationManagement_def)

lemma keys_NewConfig [text_keys]: "fst ` set zh_NewConfig = fst ` set en_NewConfig"
  by (rule same_keys) (simp add: en_NewConfig_def zh_NewConfig_def)

lemma keys_CloneDialog [text_keys]: "fst ` set zh_CloneDialog = fst ` set en_CloneDialog"
  by (rule same_keys) (simp add: en_CloneDialog_def zh_CloneDialog_def)

lemma keys_DeleteDialog [text_keys]: "fst ` set zh_DeleteDialog = fst ` set en_DeleteDialog"
  by (rule same_keys) (simp add: en_DeleteDialog_def zh_DeleteDialog_def)

lemma keys_DiffEditorDialog [text_keys]: "fst ` set zh_DiffEditorDialog = fst ` set en_DiffEditorDialog"
  by (rule same_keys) (simp add: en_DiffEditorDialog_def zh_DiffEditorDialog_def)

lemma keys_ConfigEditor [text_keys]: "fst ` set zh_ConfigEditor = fst ` set en_ConfigEditor"
  by (simp add: en_ConfigEditor_def zh_ConfigEditor_def) auto

lemma keys_EditorNameSpace [text_keys]: "fst ` set zh_EditorNameSpace = fst ` set en_EditorNameSpace"
  by (rule same_keys) (simp add: en_EditorNameSpace_def zh_EditorNameSpace_def)

lemma keys_ExportDialog [text_keys]: "fst ` set zh_ExportDialog = fst ` set en_ExportDialog"
  by (rule same_keys) (simp add: en_ExportDialog_def zh_ExportDialog_def)

lemma keys_ImportDialog [text_keys]: "fst ` set zh_ImportDialog = fst ` set en_ImportDialog"
  by (rule same_keys) (simp add: en_ImportDialog_def zh_ImportDialog_def)

lemma keys_ShowCodeing [text_keys]: "fst ` set zh_ShowCodeing = fst ` set en_ShowCodeing"
  by (rule same_keys) (simp add: en_ShowCodeing_def zh_ShowCodeing_def)

lemma keys_SuccessDialog [text_keys]: "fst ` set zh_SuccessDialog = fst ` set en_SuccessDialog"
  by (rule same_keys) (simp add: en_SuccessDialog_def zh_SuccessDialog_def)

lemma keys_ConfigSync [text_keys]: "fst ` set zh_ConfigSync = fst ` set en_ConfigSync"
  by (rule same_keys) (simp add: en_ConfigSync_def zh_ConfigSync_def)

lemma keys_NewNameSpace [text_keys]: "fst ` set zh_NewNameSpace = fst ` set en_NewNameSpace"
  by (rule same_keys) (simp add: en_NewNameSpace_def zh_NewNameSpace_def)

lemma keys_NameSpaceList [text_keys]: "fst ` set zh_NameSpaceList = fst ` set en_NameSpaceList"
  by (rule same_keys) (simp add: en_NameSpaceList_def zh_NameSpaceList_def)

lemma keys_ConfigDetail [text_keys]: "fst ` set zh_ConfigDetail = fst ` set en_ConfigDetail"
  by (rule same_keys) (simp add: en_ConfigDetail_def zh_ConfigDetail_def)

lemma keys_ConfigRollback [text_keys]: "fst ` set zh_ConfigRollback = fst ` set en_ConfigRollback"
  by (rule same_keys) (simp add: en_ConfigRollback_def zh_ConfigRollback_def)

lemma keys_UserManagement [text_keys]: "fst ` set zh_UserManagement = fst ` set en_UserManagement"
  by (rule same_keys) (simp add: en_UserManagement_def zh_UserManagement_def)

lemma keys_NewUser [text_keys]: "fst ` set zh_NewUser = fst ` set en_NewUser"
  by (rule same_keys) (simp add: en_NewUser_def zh_NewUser_def)

lemma keys_PasswordReset [text_keys]: "fst ` set zh_PasswordReset = fst ` set en_PasswordReset"
  by (simp add: en_PasswordReset_def zh_PasswordReset_def) auto

lemma keys_RolesManagement [text_keys]: "fst ` set zh_RolesManagement = fst ` set en_RolesManagement"
  by (rule same_keys) (simp add: en_RolesManagement_def zh_RolesManagement_def)

lemma keys_NewRole [text_keys]: "fst ` set zh_NewRole = fst ` set en_NewRole"
  by (rule same_keys) (simp add: en_NewRole_def zh_NewRole_def)

lemma keys_PermissionsManagement [text_keys]: "fst ` set zh_PermissionsManagement = fst ` set en_PermissionsManagement"
  by (rule same_keys) (simp add: en_PermissionsManagement_def zh_PermissionsManagement_def)

lemma keys_NewPermissions [text_keys]: "fst ` set zh_NewPermissions = fst ` set en_NewPermissions"
  by (rule same_keys) (simp add: en_NewPermissions_def zh_NewPermissions_def)

section \<open>Texts as values\<close>

text \<open>
  A section as the object a component receives. \<open>wide\<close> stands for the strings of code units beyond the
  character model; all that is used of it is that a string is not undefined.
\<close>

fun label_jv :: "(nat list \<Rightarrow> jv) \<Rightarrow> label \<Rightarrow> jv" where
  "label_jv wide (Plain s) = Str s"
| "label_jv wide (Units us) = wide us"

definition section_jv :: "(nat list \<Rightarrow> jv) \<Rightarrow> texts \<Rightarrow> jv" where
  "section_jv wide s = Obj (map (map_prod id (label_jv wide)) s)"

definition table_jv :: "(nat list \<Rightarrow> jv) \<Rightarrow> (string \<times> texts) list \<Rightarrow> jv obj" where
  "table_jv wide table = map (map_prod id (section_jv wide)) table"

text \<open>The tables of the console with those of the component library, which are arguments.\<close>

definition console_tables :: "(nat list \<Rightarrow> jv) \<Rightarrow> jv obj \<Rightarrow> jv obj \<Rightarrow> tables" where
  "console_tables wide fusionEn fusionZh = \<lparr>fusionEnUS = fusionEn, fusionZhCN = fusionZh,
     i18nEnUS = table_jv wide enUS_table, i18nZhCN = table_jv wide zhCN_table\<rparr>"

text \<open>The texts a component receives: the section of its display name in the table of the store.\<close>

definition component_locale :: "store \<Rightarrow> string \<Rightarrow> jv" where
  "component_locale s c = field (field (Obj (locale_slice s)) ''locale'') c"

lemma map_of_map_prod: "map_of (map (map_prod id f) kvs) k = map_option f (map_of kvs k)"
  by (induction kvs) auto

lemma section_text:
  assumes "\<And>us. wide us \<noteq> Undefined"
  shows "field (section_jv wide s) k \<noteq> Undefined \<longleftrightarrow> k \<in> set (map fst s)"
proof -
  have l: "label_jv wide l \<noteq> Undefined" for l using assms by (cases l) simp_all
  have "k \<in> set (map fst s) \<longleftrightarrow> map_of s k \<noteq> None" by (simp add: map_of_eq_None_iff)
  then show ?thesis using l by (cases "map_of s k") (simp_all add: section_jv_def field_def map_of_map_prod)
qed

lemma lacks_iff: "k \<in> set ks \<Longrightarrow> k \<in> set names \<longleftrightarrow> k \<notin> set (lacks names ks)"
  by (simp add: lacks_def)

lemma missing_iff:
  assumes "(c, ks) \<in> set texts_read" "k \<in> set ks" "distinct (map fst texts_read)"
  shows "(c, k) \<in> set (missing_texts table) \<longleftrightarrow> k \<notin> set (map fst (section_of table c))"
  using assms by (auto simp: missing_texts_def lacks_def dest: eq_key_imp_eq_value)

lemma table_facts:
  "map fst enUS_table = map fst zhCN_table" "distinct (map fst enUS_table)" "''__proto__'' \<notin> fst ` set enUS_table"
  "distinct (map fst texts_read)"
  by (simp_all add: enUS_table_def zhCN_table_def texts_read_def)

lemma missing_en: "missing_texts enUS_table =
   [(''Login'', ''passwordRequired''), (''Login'', ''usernameRequired''), (''HistoryRollback'', ''momentLocale''),
    (''ConfigurationManagement'', ''cloneFailMsg''), (''ConfigurationManagement'', ''importFailMsg''),
    (''ShowServiceCodeing'', ''loading''), (''ShowServiceCodeing'', ''sampleCode'')]"
  by (simp add: missing_texts_def texts_read_def section_of_def enUS_table_def text_checks) (simp add: lacks_def reads_ShowServiceCodeing_def)

lemma missing_zh: "missing_texts zhCN_table =
   [(''HistoryRollback'', ''momentLocale''), (''ConfigurationManagement'', ''cloneFailMsg''), (''ConfigurationManagement'', ''importFailMsg''),
    (''ShowServiceCodeing'', ''loading''), (''ShowServiceCodeing'', ''sampleCode'')]"
  by (simp add: missing_texts_def texts_read_def section_of_def zhCN_table_def text_checks) (simp add: lacks_def reads_ShowServiceCodeing_def)

lemma section_of_table:
  assumes "distinct (map fst table)" "c \<in> fst ` set table" "''__proto__'' \<notin> fst ` set table"
  shows "field (Obj (obj_assign a (table_jv wide table))) c = section_jv wide (section_of table c)"
proof -
  obtain s where "map_of table c = Some s" using assms(1,2) by (metis map_of_eq_None_iff not_None_eq)
  moreover have "c \<noteq> ''__proto__''" using assms(2,3) by metis
  moreover have "distinct (map fst (table_jv wide table))" using assms(1) by (simp add: table_jv_def comp_def)
  ultimately show ?thesis by (simp add: field_def map_of_obj_assign table_jv_def map_of_map_prod section_of_def)
qed

lemma locale_after_change:
  "field (Obj (locale_slice (snd (changeLanguage T lang bs)))) ''locale'' = (if lang = Some ''zh-CN'' then zhCN T else enUS T)"
  by (cases bs) (simp add: changeLanguage_def Let_def dispatch_action_def locale_reducer_def act_def act_type_def field_def obj_assign_def
      map_of_obj_put norm_language_def)

lemma same_sections:
  assumes "list_all2 (\<lambda>(c, s) (d, t). c = d \<and> (c \<in> A \<or> fst ` set s = fst ` set t)) xs ys" "c \<notin> A"
  shows "fst ` set (section_of xs c) = fst ` set (section_of ys c)"
  using assms
proof (induction rule: list_all2_induct)
  case (Cons x xs y ys)
  obtain d s e t where xy: "x = (d, s)" "y = (e, t)" by (cases x, cases y)
  have h: "d = e \<and> (d \<in> A \<or> fst ` set s = fst ` set t)" using Cons.hyps(1) unfolding xy prod.case .
  show ?case
  proof (cases "c = d")
    case True
    with h Cons.prems have "fst ` set s = fst ` set t" "c = e" by blast+
    with True show ?thesis by (simp add: section_of_def xy)
  next
    case False
    with h Cons.IH[OF Cons.prems] show ?thesis by (simp add: section_of_def xy)
  qed
qed (simp add: section_of_def)

section \<open>Properties\<close>

text \<open>
  the two languages have the same texts: the tables have the same sections in the same order, and a
  section has the same names in both, except that the two texts for empty fields of the login form are
  under the header in English.
\<close>

theorem tables_agree:
  "map fst enUS_table = map fst zhCN_table \<and>
   {c. fst ` set (section_of enUS_table c) \<noteq> fst ` set (section_of zhCN_table c)} = {''Header'', ''Login''}"
proof -
  have l: "list_all2 (\<lambda>(c, s) (d, t). c = d \<and> (c \<in> {''Header'', ''Login''} \<or> fst ` set s = fst ` set t)) enUS_table zhCN_table"
    by (simp add: enUS_table_def zhCN_table_def text_keys)
  have "''usernameRequired'' \<in> fst ` set (section_of enUS_table ''Header'')" "''usernameRequired'' \<notin> fst ` set (section_of zhCN_table ''Header'')"
    by (simp_all add: section_of_def enUS_table_def zhCN_table_def) (simp_all add: en_Header_def zh_Header_def)
  then have h: "fst ` set (section_of enUS_table ''Header'') \<noteq> fst ` set (section_of zhCN_table ''Header'')" by metis
  have "''usernameRequired'' \<notin> fst ` set (section_of enUS_table ''Login'')" "''usernameRequired'' \<in> fst ` set (section_of zhCN_table ''Login'')"
    by (simp_all add: section_of_def enUS_table_def zhCN_table_def) (simp_all add: en_Login_def zh_Login_def)
  then have "fst ` set (section_of enUS_table ''Login'') \<noteq> fst ` set (section_of zhCN_table ''Login'')" by metis
  with h have "c \<in> {''Header'', ''Login''} \<longleftrightarrow> fst ` set (section_of enUS_table c) \<noteq> fst ` set (section_of zhCN_table c)" for c
    using same_sections[OF l, of c] by (cases "c = ''Header''"; cases "c = ''Login''") simp_all
  then show ?thesis using table_facts(1) by (simp add: set_eq_iff)
qed

text \<open>
  C31: after any change of the language every component finds every text it reads, in its own section of
  that language: the exceptions are the two texts of the login form in English, the messages for an
  import or clone that failed with an unlisted code, the format of a time in the history, and the
  dialog with sample code for services, which has no section.
\<close>

theorem texts_after_change:
  assumes "\<And>us. wide us \<noteq> Undefined" and "(c, ks) \<in> set texts_read" and "k \<in> set ks" and "c \<in> fst ` set enUS_table"
  shows "field (component_locale (snd (changeLanguage (console_tables wide fe fz) lang bs)) c) k \<noteq> Undefined \<longleftrightarrow>
    (c, k) \<notin> {(''HistoryRollback'', ''momentLocale''), (''ConfigurationManagement'', ''cloneFailMsg''), (''ConfigurationManagement'', ''importFailMsg'')} \<and>
    (lang \<noteq> Some ''zh-CN'' \<longrightarrow> (c, k) \<notin> {(''Login'', ''passwordRequired''), (''Login'', ''usernameRequired'')})"
proof -
  have z: "distinct (map fst zhCN_table)" "c \<in> fst ` set zhCN_table" "''__proto__'' \<notin> fst ` set zhCN_table"
    using table_facts(1-3) assms(4) by (metis list.set_map)+
  let ?t = "if lang = Some ''zh-CN'' then zhCN_table else enUS_table"
  have "component_locale (snd (changeLanguage (console_tables wide fe fz) lang bs)) c = section_jv wide (section_of ?t c)"
    using section_of_table[OF table_facts(2) assms(4) table_facts(3)] section_of_table[OF z]
    by (simp add: component_locale_def locale_after_change console_tables_def enUS_def zhCN_def)
  then have "field (component_locale (snd (changeLanguage (console_tables wide fe fz) lang bs)) c) k \<noteq> Undefined \<longleftrightarrow>
      (c, k) \<notin> set (missing_texts ?t)"
    using section_text[of wide, OF assms(1)] missing_iff[OF assms(2,3) table_facts(4)] by simp
  moreover have "c \<noteq> ''ShowServiceCodeing''" using assms(4) by (auto simp: enUS_table_def)
  ultimately show ?thesis by (cases "lang = Some ''zh-CN''") (simp_all add: missing_en missing_zh conj_ac)
qed

theorem texts_after_change_witness:
  "field (component_locale (snd (changeLanguage (console_tables (\<lambda>_. Str []) [] []) (Some ''zh-CN'') (sample_browser, init_store sample_tables))) ''Login'') ''usernameRequired'' \<noteq> Undefined \<and>
   field (component_locale (snd (changeLanguage (console_tables (\<lambda>_. Str []) [] []) None (sample_browser, init_store sample_tables))) ''Login'') ''usernameRequired'' = Undefined"
proof -
  have r: "(''Login'', reads_Login) \<in> set texts_read" by (simp add: texts_read_def)
  have k: "''usernameRequired'' \<in> set reads_Login" "''Login'' \<in> fst ` set enUS_table" by (simp_all add: reads_Login_def enUS_table_def)
  have w: "\<And>us::nat list. Str [] \<noteq> Undefined" by simp
  show ?thesis
    using texts_after_change[OF w r k, of "[]" "[]" "Some ''zh-CN''" "(sample_browser, init_store sample_tables)"]
      texts_after_change[OF w r k, of "[]" "[]" None "(sample_browser, init_store sample_tables)"] by simp
qed

text \<open>
  an import or clone that fails with a code the page does not know is reported without a reason,
  in both languages: neither table has the text.
\<close>

theorem unknown_failure_unexplained:
  assumes "code \<notin> {num 100001, num 100002, num 100003, num 100004, num 100005}" and "table \<in> {enUS_table, zhCN_table}"
    and "\<And>us. wide us \<noteq> Undefined"
  shows "fail_content (section_jv wide (section_of table ''ConfigurationManagement'')) code isImport = Undefined"
proof -
  let ?c = "''ConfigurationManagement''"
  have r: "(?c, reads_ConfigurationManagement) \<in> set texts_read" by (simp add: texts_read_def)
  have "(?c, ''importFailMsg'') \<in> set (missing_texts table)" "(?c, ''cloneFailMsg'') \<in> set (missing_texts table)"
    using assms(2) by (elim insertE emptyE; simp add: missing_en missing_zh)+
  moreover have "''importFailMsg'' \<in> set reads_ConfigurationManagement" "''cloneFailMsg'' \<in> set reads_ConfigurationManagement"
    by (simp_all add: reads_ConfigurationManagement_def)
  ultimately have "''importFailMsg'' \<notin> set (map fst (section_of table ?c))" "''cloneFailMsg'' \<notin> set (map fst (section_of table ?c))"
    using missing_iff[OF r _ table_facts(4)] by blast+
  moreover have "field (section_jv wide (section_of table ?c)) k = Undefined" if "k \<notin> set (map fst (section_of table ?c))" for k
    using section_text[of wide, OF assms(3)] that by blast
  ultimately have f: "field (section_jv wide (section_of table ?c)) ''importFailMsg'' = Undefined" "field (section_jv wide (section_of table ?c)) ''cloneFailMsg'' = Undefined"
    by simp_all
  show ?thesis unfolding fail_content_def tr_def using assms(1) f by simp
qed

text \<open>The texts a menu draws: its title, and the label of every group and entry.\<close>

fun line_labels :: "nav_line \<Rightarrow> jv list" where
  "line_labels (Single it) = [fst (snd it)]"
| "line_labels (Sub k l its) = l # map (\<lambda>it. fst (snd it)) its"

fun view_labels :: "layout_view \<Rightarrow> jv list" where
  "view_labels (Back_Arrow e) = []"
| "view_labels (Nav_Menu title version opened lines) = title # concat (map line_labels lines)"

fun entry_keys :: "menu_entry \<Rightarrow> string list" where
  "entry_keys (Item k url) = [k]"
| "entry_keys (Group k cs) = k # map fst cs"

lemma menu_line_labels: "line_labels (menu_line loc p s (i, m)) = map (field loc) (entry_keys m)"
proof (cases m)
  case (Group k cs)
  have "map (\<lambda>x. fst (snd (case x of (j, c) \<Rightarrow> sub_item loc p s i j c))) (enumerate n cs) = map (\<lambda>c. field loc (fst c)) cs" for n
    by (induction cs arbitrary: n) (simp_all add: sub_item_def)
  then show ?thesis by (simp add: Group o_def)
qed simp

lemma menu_keys_read: "set (concat (map entry_keys (getMenuData mode b))) \<subseteq> set reads_MainLayout"
  by (cases rule: menu_cases[of mode b]) (simp_all add: menu_defs reads_MainLayout_def)

text \<open>
  the menu has no blank entry: in both languages, for every function mode and user, the title and
  all labels the menu draws are texts.
\<close>

theorem menu_labelled:
  assumes "\<And>us. wide us \<noteq> Undefined" and "table \<in> {enUS_table, zhCN_table}"
  shows "Undefined \<notin> set (view_labels (main_render (section_jv wide (section_of table ''MainLayout'')) v mode b p s))"
proof -
  let ?loc = "section_jv wide (section_of table ''MainLayout'')"
  have "section_of table ''MainLayout'' \<in> {en_MainLayout, zh_MainLayout}"
    using assms(2) by (elim insertE emptyE) (simp_all add: section_of_def enUS_table_def zhCN_table_def)
  then have "lacks (map fst (section_of table ''MainLayout'')) reads_MainLayout = []" (is "lacks ?names _ = _")
    using lacks_en_MainLayout lacks_zh_MainLayout by (elim insertE emptyE) simp_all
  then have "k \<in> set ?names" if "k \<in> set reads_MainLayout" for k using lacks_iff[OF that, of ?names] by (simp del: set_map)
  then have t: "field ?loc k \<noteq> Undefined" if "k \<in> set reads_MainLayout" for k using that section_text[of wide, OF assms(1)] by blast
  have l: "concat (map line_labels (map (menu_line ?loc p s) (enumerate n ms))) = map (field ?loc) (concat (map entry_keys ms))" for n ms
    by (induction ms arbitrary: n) (simp_all add: menu_line_labels)
  have n: "field ?loc ''nacosName'' \<noteq> Undefined" by (rule t) (simp add: reads_MainLayout_def)
  let ?keys = "concat (map entry_keys (getMenuData mode b))"
  have "Undefined \<notin> field ?loc ` set ?keys"
  proof
    assume "Undefined \<in> field ?loc ` set ?keys"
    then obtain x where x: "Undefined = field ?loc x" "x \<in> set ?keys" by (rule imageE)
    from t[OF subsetD[OF menu_keys_read x(2)]] x(1)[symmetric] show False by (rule notE)
  qed
  then have "Undefined \<notin> insert (field ?loc ''nacosName'') (set (map (field ?loc) ?keys))" using n unfolding list.set_map by (metis insertE)
  then have "Undefined \<notin> set (view_labels (Nav_Menu (field ?loc ''nacosName'') v opened
      (map (menu_line ?loc p s) (enumerate 0 (getMenuData mode b)))))" for opened
    unfolding view_labels.simps l list.set(2) .
  then show ?thesis unfolding main_render_def tr_def by (cases "isShowGoBack mode b p") simp_all
qed

end
