(* ===== verification/Site_Config.thy ===== *)
theory Site_Config
  imports Console_Prelude
begin

text \<open>
  The constants of \<^verbatim>\<open>config.js\<close>, as the object the module exports. \<open>wide\<close> stands for the strings of
  code units beyond the single-byte characters, \<open>isDev\<close> for the mode of the build.
\<close>

definition site_en :: jv where
  "site_en = Obj [(''pageMenu'', Arr [Obj [(''key'', Str ''home''),
          (''text'', Str ''HOME''),
          (''link'', Str ''https://nacos.io/en-us/index.html'')],
        Obj [(''key'', Str ''docs''),
          (''text'', Str ''DOCS''),
          (''link'', Str ''https://nacos.io/en-us/docs/quick-start.html'')],
        Obj [(''key'', Str ''blog''),
          (''text'', Str ''BLOG''),
          (''link'', Str ''https://nacos.io/en-us/blog'')],
        Obj [(''key'', Str ''community''),
          (''text'', Str ''COMMUNITY''),
          (''link'', Str ''https://nacos.io/en-us/community'')]]),
      (''disclaimer'', Obj [(''title'', Str ''Vision''),
        (''content'', Str ''By providing an easy-to-use service infrastructure such as dynamic service discovery, service configuration, service sharing and management and etc., Nacos help users better construct, deliver and manage their own service platform, reuse and composite business service faster and deliver value of business innovation more quickly so as to win market for users in the era of cloud native and in all cloud environments, such as private, mixed, or public clouds.'')]),
      (''documentation'', Obj [(''title'', Str ''Documentation''),
        (''list'', Arr [Obj [(''text'', Str ''Overview''),
            (''link'', Str ''/en-us/docs/what-is-nacos.html'')],
          Obj [(''text'', Str ''Quick start''),
            (''link'', Str ''/en-us/docs/quick-start.html'')],
          Obj [(''text'', Str ''Developer guide''),
            (''link'', Str ''/en-us/docs/contributing.html'')]])]),
      (''resources'', Obj [(''title'', Str ''Resources''),
        (''list'', Arr [Obj [(''text'', Str ''Community''),
            (''link'', Str ''/en-us/community/index.html'')]])]),
      (''copyright'', Str ''@ 2018 The Nacos Authors | An Alibaba Middleware (Aliware) Project'')]"

definition site_zh :: "(nat list \<Rightarrow> jv) \<Rightarrow> jv" where
  "site_zh wide = Obj [(''pageMenu'', Arr [Obj [(''key'', Str ''home''),
          (''text'', wide [39318, 39029]),
          (''link'', Str ''https://nacos.io/zh-cn/'')],
        Obj [(''key'', Str ''docs''),
          (''text'', wide [25991, 26723]),
          (''link'', Str ''https://nacos.io/zh-cn/docs/what-is-nacos.html'')],
        Obj [(''key'', Str ''blog''),
          (''text'', wide [21338, 23458]),
          (''link'', Str ''https://nacos.io/zh-cn/blog/index.html'')],
        Obj [(''key'', Str ''community''),
          (''text'', wide [31038, 21306]),
          (''link'', Str ''https://nacos.io/zh-cn/community/index.html'')]]),
      (''disclaimer'', Obj [(''title'', wide [24895, 26223]),
        (''content'', wide [78, 97, 99, 111, 115, 32, 36890, 36807, 25552, 20379, 31616, 21333, 26131, 29992, 30340, 21160, 24577, 26381, 21153, 21457, 29616, 12289, 26381, 21153, 37197, 32622, 12289, 26381, 21153, 20849, 20139, 19982, 31649, 29702, 31561, 26381, 21153, 22522, 30784, 35774, 26045, 65292, 24110, 21161, 29992, 25143, 22312, 20113, 21407, 29983, 26102, 20195, 65292, 22312, 31169, 26377, 20113, 12289, 28151, 21512, 20113, 25110, 32773, 20844, 26377, 20113, 31561, 25152, 26377, 20113, 29615, 22659, 20013, 65292, 26356, 22909, 30340, 26500, 24314, 12289, 20132, 20184, 12289, 31649, 29702, 33258, 24049, 30340, 24494, 26381, 21153, 24179, 21488, 65292, 26356, 24555, 30340, 22797, 29992, 21644, 32452, 21512, 19994, 21153, 26381, 21153, 65292, 26356, 24555, 30340, 20132, 20184, 21830, 19994, 21019, 26032, 30340, 20215, 20540, 65292, 20174, 32780, 20026, 29992, 25143, 36194, 24471, 24066, 22330, 12290])]),
      (''documentation'', Obj [(''title'', wide [25991, 26723]),
        (''list'', Arr [Obj [(''text'', wide [27010, 35272]),
            (''link'', Str ''/zh-cn/docs/what-is-nacos.html'')],
          Obj [(''text'', wide [24555, 36895, 24320, 22987]),
            (''link'', Str ''/zh-cn/docs/quick-start.html'')],
          Obj [(''text'', wide [24320, 21457, 32773, 25351, 21335]),
            (''link'', Str ''/zh-cn/docs/contributing.html'')]])]),
      (''resources'', Obj [(''title'', wide [36164, 28304]),
        (''list'', Arr [Obj [(''text'', wide [31038, 21306]),
            (''link'', Str ''/zh-cn/community/index.html'')]])]),
      (''copyright'', Str ''@ 2018 The Nacos Authors | An Alibaba Middleware (Aliware) Project'')]"

definition site_config :: "(nat list \<Rightarrow> jv) \<Rightarrow> bool \<Rightarrow> jv" where
  "site_config wide isDev = Obj [(''server'', Str []),
    (''PAGESIZE'', num 15),
    (''TIMERDEFAULT'', Str ''5s''),
    (''TIMEDURINT'', num 2000),
    (''is_preview'', Bool isDev),
    (''projectName'', Str ''nacos''),
    (''defaultLanguage'', Str ''zh-cn''),
    (''en-us'', site_en), (''zh-cn'', site_zh wide)]"

section \<open>Properties\<close>

text \<open>The entries of the site menu in a language.\<close>

definition site_menu :: "jv \<Rightarrow> string \<Rightarrow> jv list" where
  "site_menu conf lang = (case field (field conf lang) ''pageMenu'' of Arr xs \<Rightarrow> xs | _ \<Rightarrow> [])"

text \<open>
  the site menu is the same in both languages: the same entries in the same order, each with a text
  and an address.
\<close>

theorem site_languages_agree:
  assumes "\<And>us. wide us \<noteq> Undefined"
  shows "map (\<lambda>e. field e ''key'') (site_menu (site_config wide isDev) ''en-us'') = map (\<lambda>e. field e ''key'') (site_menu (site_config wide isDev) ''zh-cn'')"
    and "\<forall>lang \<in> {''en-us'', ''zh-cn''}. \<forall>e \<in> set (site_menu (site_config wide isDev) lang). field e ''text'' \<noteq> Undefined \<and> field e ''link'' \<noteq> Undefined"
  using assms by (simp_all add: site_menu_def site_config_def site_en_def site_zh_def field_def)

text \<open>
  the logo has no description: the header reads a name that the configuration does not have, in
  every mode of the build.
\<close>

theorem logo_unnamed: "field (site_config wide isDev) ''name'' = Undefined"
  by (simp add: site_config_def field_def)

end
