(* ===== verification/List_Session.thy ===== *)
theory List_Session
  imports Namespaces Config_List
begin

text \<open>
  The configuration page as a whole: the namespace selector and the list below it share the
  location and run interleaved with the answers to the queries of the list. Beside the states of the two
  components the page keeps the queries under way and, for the statements, the query whose rows
  are shown.
\<close>

section \<open>Events\<close>

datatype list_event =
    Namespaces_Loaded jv
  | Switched string string
  | Turned jv jv
  | Resized jv
  | Searched
  | Cleared
  | Data_Id string
  | Group_Name "string option"
  | App_Name string
  | Deleted jv
  | Answered nat
  | Refused nat jv jv "jv obj"

type_synonym list_world = "browser \<times> ns_list \<times> cm_state \<times> api_call list \<times> api_call option"

text \<open>The properties the page hands to the selector: \<open>cleanAndGetData\<close> and \<open>setNowNameSpace\<close>.\<close>

definition page_callback :: "string \<Rightarrow> jv list \<Rightarrow> browser \<Rightarrow> cm_state \<Rightarrow> cm_result" where
  "page_callback f args b st =
     (case args of
        [Bool needclean] \<Rightarrow> if f = ''namespaceCallBack'' then cleanAndGetData needclean b st else Inr (b, st, [])
      | [Str name, Str id0] \<Rightarrow> Inr (b, if f = ''setNowNameSpace'' then setNowNameSpace name id0 st else st, [])
      | _ \<Rightarrow> Inr (b, st, []))"

fun run_callbacks :: "effect list \<Rightarrow> browser \<Rightarrow> cm_state \<Rightarrow> cm_result" where
  "run_callbacks (Callback f args # calls) b st =
     and_then (page_callback f args b st) (\<lambda>(b, st, es).
     and_then (run_callbacks calls b st) (\<lambda>(b, st, es'). Inr (b, st, es @ es')))"
| "run_callbacks (_ # calls) b st = run_callbacks calls b st"
| "run_callbacks [] b st = Inr (b, st, [])"

fun sent :: "effect list \<Rightarrow> api_call list" where
  "sent (Axios c # es) = c # sent es"
| "sent (_ # es) = sent es"
| "sent [] = []"

definition selector_result :: "js_error + browser \<times> ns_list \<times> effect list \<Rightarrow> cm_state \<Rightarrow> api_call list \<Rightarrow> api_call option
    \<Rightarrow> js_error + list_world" where
  "selector_result r st pending rows =
     and_then r (\<lambda>(b, sel, calls).
     and_then (run_callbacks calls b st) (\<lambda>(b, st, es). Inr (b, sel, st, pending @ sent es, rows)))"

definition list_result :: "cm_result \<Rightarrow> ns_list \<Rightarrow> api_call list \<Rightarrow> api_call option \<Rightarrow> js_error + list_world" where
  "list_result r sel pending rows = and_then r (\<lambda>(b, st, es). Inr (b, sel, st, pending @ sent es, rows))"

definition take_nth :: "nat \<Rightarrow> 'a list \<Rightarrow> 'a list" where
  "take_nth n xs = take n xs @ drop (Suc n) xs"

fun list_step :: "ns_props \<Rightarrow> list_event \<Rightarrow> list_world \<Rightarrow> js_error + list_world" where
  "list_step props (Namespaces_Loaded data) (b, sel, st, pending, rows) =
     selector_result (handleNameSpaces props data (b, sel)) st pending rows"
| "list_step props (Switched ns nsName) (b, sel, st, pending, rows) =
     selector_result (changeNameSpace props ns nsName (b, sel)) st pending rows"
| "list_step props (Turned v e) (b, sel, st, pending, rows) = list_result (changePage v e b st) sel pending rows"
| "list_step props (Resized v) (b, sel, st, pending, rows) = list_result (handlePageSizeChange v b st) sel pending rows"
| "list_step props Searched (b, sel, st, pending, rows) = list_result (selectAll b st) sel pending rows"
| "list_step props Cleared (b, sel, st, pending, rows) = list_result (resetAll b st) sel pending rows"
| "list_step props (Data_Id v) (b, sel, st, pending, rows) = Inr (b, sel, set_dataId v st, pending, rows)"
| "list_step props (Group_Name v) (b, sel, st, pending, rows) = Inr (b, sel, setGroup v st, pending, rows)"
| "list_step props (App_Name v) (b, sel, st, pending, rows) = Inr (b, sel, setAppName v st, pending, rows)"
| "list_step props (Deleted loc) (b, sel, st, pending, rows) = list_result (deletion_replied loc b st) sel pending rows"
| "list_step props (Answered n) (b, sel, st, pending, rows) =
     (if n < length pending then Inr (b, sel, getData_resolved st, take_nth n pending, Some (pending ! n)) else Inr (b, sel, st, pending, rows))"
| "list_step props (Refused n loc res page) (b, sel, st, pending, rows) =
     (if n < length pending
      then and_then (getData_rejected loc res page st) (\<lambda>(page, st, es). Inr (b, sel, st, take_nth n pending, None))
      else Inr (b, sel, st, pending, rows))"

fun list_run :: "ns_props \<Rightarrow> list_event list \<Rightarrow> list_world \<Rightarrow> js_error + list_world" where
  "list_run props [] w = Inr w"
| "list_run props (e # es) w = and_then (list_step props e w) (list_run props es)"

section \<open>The invariant\<close>

definition tenant_of :: "api_call \<Rightarrow> jv" where
  "tenant_of c = field (api_query c) ''tenant''"

text \<open>
  At most one query is under way, exactly while the list is loading; it is for the tenant the list
  last took from the location, and the rows shown are of the tenant the list names.
\<close>

definition tracked :: "cm_state \<Rightarrow> api_call list \<Rightarrow> api_call option \<Rightarrow> bool" where
  "tracked st pending rows \<longleftrightarrow> length pending = (if st_loading st then 1 else 0) \<and> (\<forall>c \<in> set pending. tenant_of c = Str (cm_tenant st)) \<and>
     (\<forall>c. rows = Some c \<longrightarrow> tenant_of c = st_tenant st)"

definition page_ok :: "string \<Rightarrow> ns_list \<Rightarrow> string \<Rightarrow> api_call list \<Rightarrow> api_call option \<Rightarrow> browser \<Rightarrow> cm_state \<Rightarrow> bool" where
  "page_ok path sel ns pending rows b st \<longleftrightarrow> (\<exists>kvs. hash_shows path b kvs) \<and> ns_agree b sel ns \<and> tracked st pending rows"

text \<open>A handler that does not throw and whose queries keep the invariant.\<close>

definition keeps :: "string \<Rightarrow> ns_list \<Rightarrow> string \<Rightarrow> api_call list \<Rightarrow> api_call option \<Rightarrow> cm_result \<Rightarrow> bool" where
  "keeps path sel ns pending rows r \<longleftrightarrow>
     (\<exists>b st es. r = Inr (b, st, es) \<and> page_ok path sel ns (pending @ sent es) rows b st)"

lemma ns_agree_moved:
  assumes "hash_shows path b kvs" "hash_shows path (b\<lparr>href := h\<rparr>) kvs'" "map_of kvs' ''namespace'' = map_of kvs ''namespace''" "ns_agree b sel ns"
  shows "ns_agree (b\<lparr>href := h\<rparr>) sel ns"
  using assms(3,4) getParams_shows[OF assms(1), of "''namespace''"] getParams_shows[OF assms(2), of "''namespace''"]
  by (simp add: ns_agree_def)

lemma put_all_other: "k \<notin> fst ` set ps \<Longrightarrow> map_of (put_all ps kvs) k = map_of kvs k"
  by (induction ps arbitrary: kvs) (auto simp: update_conv')

lemma page_ok_params:
  assumes "page_ok path sel ns pending rows b st" "fst ` set ps \<subseteq> set console_params - {''namespace''}"
  shows "\<exists>h. setParamsObj ps b = Inr (b\<lparr>href := h\<rparr>) \<and> page_ok path sel ns pending rows (b\<lparr>href := h\<rparr>) st"
proof -
  obtain kvs where k: "hash_shows path b kvs" using assms(1) by (auto simp: page_ok_def)
  obtain h where h: "setParamsObj ps b = Inr (b\<lparr>href := h\<rparr>)" "hash_shows path (b\<lparr>href := h\<rparr>) (put_all (ptexts ps) kvs)"
    using setParamsObj_href[OF k, of ps] assms(2) by auto
  have "map_of (put_all (ptexts ps) kvs) ''namespace'' = map_of kvs ''namespace''"
    by (rule put_all_other) (use assms(2) in \<open>auto simp: image_image\<close>)
  then show ?thesis using h ns_agree_moved[OF k h(2)] assms(1) by (auto simp: page_ok_def)
qed

lemma getData_keeps:
  assumes "page_ok path sel ns pending rows b st"
  shows "keeps path sel ns pending rows (getData p b st)"
proof (cases "st_loading st")
  case True
  then show ?thesis using assms by (simp add: getData_busy keeps_def)
next
  case False
  obtain kvs where k: "hash_shows path b kvs" using assms by (auto simp: page_ok_def)
  obtain h where h: "getData p b st = Inr (b\<lparr>href := h\<rparr>, asked kvs p st, [Axios (thunk_call (getConfigs (Obj (query_params_of (asked kvs p st)))))])"
      "hash_shows path (b\<lparr>href := h\<rparr>) (page_taken kvs)" using getData_asks[OF k False] by blast
  have "map_of (page_taken kvs) ''namespace'' = map_of kvs ''namespace''" by (simp add: page_taken_def update_conv')
  then have "ns_agree (b\<lparr>href := h\<rparr>) sel ns" using ns_agree_moved[OF k h(2)] assms by (simp add: page_ok_def)
  moreover have "tracked (asked kvs p st) (pending @ [thunk_call (getConfigs (Obj (query_params_of (asked kvs p st))))]) rows"
    using assms False by (auto simp: page_ok_def tracked_def asked_def tenant_of_def getConfigs_def get_with_def query_params_of_def field_def)
  ultimately show ?thesis using h by (auto simp: keeps_def page_ok_def)
qed

lemma page_ok_param:
  assumes "page_ok path sel ns pending rows b st" "n \<in> set console_params - {''namespace''}"
  shows "\<exists>h. setParams n v b = Inr (b\<lparr>href := h\<rparr>) \<and> page_ok path sel ns pending rows (b\<lparr>href := h\<rparr>) st"
  using page_ok_params[OF assms(1), of "[(n, v)]"] assms(2) console_params_good[of n] by (auto simp: setParams_def good_name_def)

lemma page_ok_state:
  assumes "page_ok path sel ns pending rows b st" "st_loading st' = st_loading st" "cm_tenant st' = cm_tenant st" "st_tenant st' = st_tenant st"
  shows "page_ok path sel ns pending rows b st'"
  using assms by (simp add: page_ok_def tracked_def)

lemma keeps_then:
  assumes "keeps path sel ns pending rows r"
    and "\<And>b st es. page_ok path sel ns (pending @ sent es) rows b st \<Longrightarrow> keeps path sel ns pending rows (f (b, st, es))"
  shows "keeps path sel ns pending rows (and_then r f)"
  using assms by (auto simp: keeps_def[of _ _ _ _ _ r])

lemma cleanAndGetData_keeps:
  assumes "page_ok path sel ns pending rows b st"
  shows "keeps path sel ns pending rows (cleanAndGetData c b st)"
proof -
  obtain b1 st1 where 1: "(if c then and_then (setParamsObj [(''group'', Str []), (''dataId'', Str [])] b) (\<lambda>b.
        Inr (b, st\<lparr>cm_dataId := [], cm_group := [], st_group := [], st_dataId := []\<rparr>)) else Inr (b, st)) = Inr (b1, st1)"
      "page_ok path sel ns pending rows b1 st1"
  proof (cases c)
    case True
    obtain h where h: "setParamsObj [(''group'', Str []), (''dataId'', Str [])] b = Inr (b\<lparr>href := h\<rparr>)" "page_ok path sel ns pending rows (b\<lparr>href := h\<rparr>) st"
      using page_ok_params[OF assms, of "[(''group'', Str []), (''dataId'', Str [])]"] by (auto simp: console_params_def)
    show ?thesis using that[of "b\<lparr>href := h\<rparr>" "st\<lparr>cm_dataId := [], cm_group := [], st_group := [], st_dataId := []\<rparr>"] h(1) True
        page_ok_state[OF h(2), of "st\<lparr>cm_dataId := [], cm_group := [], st_group := [], st_dataId := []\<rparr>"] by simp
  qed (use assms that in simp)
  have "keeps path sel ns pending rows (and_then (getData (num 1) b1 st1) (\<lambda>(b, st, es).
      Inr (b, st\<lparr>configsTableSelected := [], selectedRowKeys := []\<rparr>, es)))"
    by (rule keeps_then[OF getData_keeps[OF 1(2)]]) (auto simp: keeps_def intro: page_ok_state)
  then show ?thesis using 1(1) by (simp add: cleanAndGetData_def)
qed

lemma selectAll_keeps:
  assumes "page_ok path sel ns pending rows b st"
  shows "keeps path sel ns pending rows (selectAll b st)"
proof -
  have n: "{''dataId'', ''group'', ''appName''} \<subseteq> set console_params - {''namespace''}" by (simp add: console_params_def)
  obtain h1 where h1: "setParams ''dataId'' (Str (cm_dataId st)) b = Inr (b\<lparr>href := h1\<rparr>)" "page_ok path sel ns pending rows (b\<lparr>href := h1\<rparr>) st"
    using page_ok_param[OF assms, of "''dataId''"] n by blast
  obtain h2 where h2: "setParams ''group'' (Str (cm_group st)) (b\<lparr>href := h1\<rparr>) = Inr (b\<lparr>href := h2\<rparr>)" "page_ok path sel ns pending rows (b\<lparr>href := h2\<rparr>) st"
    using page_ok_param[OF h1(2), of "''group''" "Str (cm_group st)"] n by auto
  obtain h3 where h3: "setParams ''appName'' (Str (cm_appName st)) (b\<lparr>href := h2\<rparr>) = Inr (b\<lparr>href := h3\<rparr>)" "page_ok path sel ns pending rows (b\<lparr>href := h3\<rparr>) st"
    using page_ok_param[OF h2(2), of "''appName''" "Str (cm_appName st)"] n by auto
  show ?thesis using getData_keeps[OF h3(2)] by (simp add: selectAll_def h1(1) h2(1) h3(1))
qed

lemma sent_append [simp]: "sent (es @ es') = sent es @ sent es'"
  by (induction es rule: sent.induct) simp_all

lemma run_callbacks_keeps:
  "page_ok path sel ns pending rows b st \<Longrightarrow> keeps path sel ns pending rows (run_callbacks calls b st)"
proof (induction calls b st arbitrary: pending rule: run_callbacks.induct)
  case (1 f args calls b st)
  have "keeps path sel ns pending rows (page_callback f args b st)"
    using 1(2) by (auto simp: page_callback_def setNowNameSpace_def keeps_def intro: cleanAndGetData_keeps[unfolded keeps_def] page_ok_state
      split: list.splits jv.splits)
  then obtain b1 st1 es where p: "page_callback f args b st = Inr (b1, st1, es)" "page_ok path sel ns (pending @ sent es) rows b1 st1"
    by (auto simp: keeps_def)
  from 1(1)[OF p(2)] show ?case by (auto simp: keeps_def p(1))
qed (simp_all add: keeps_def)

lemma selector_result_ok:
  assumes "r = Inr (b, sel, calls)" "page_ok path sel ns pending rows b st"
  shows "\<exists>b' st' pending'. selector_result r st pending rows = Inr (b', sel, st', pending', rows) \<and> page_ok path sel ns pending' rows b' st'"
  using run_callbacks_keeps[OF assms(2), of calls] assms(1) by (auto simp: selector_result_def keeps_def)

lemma list_result_ok:
  "keeps path sel ns pending rows r \<Longrightarrow>
    \<exists>b' st' pending'. list_result r sel pending rows = Inr (b', sel, st', pending', rows) \<and> page_ok path sel ns pending' rows b' st'"
  by (auto simp: list_result_def keeps_def)

fun world_ok :: "string \<Rightarrow> list_world \<Rightarrow> bool" where
  "world_ok path (b, sel, st, pending, rows) \<longleftrightarrow> (\<exists>ns. page_ok path sel ns pending rows b st)"

text \<open>The events that do not depend on what the server sent.\<close>

fun user_event :: "list_event \<Rightarrow> bool" where
  "user_event (Namespaces_Loaded data) = False"
| "user_event (Refused n loc res page) = False"
| "user_event _ = True"

lemma page_ok_switched:
  assumes "page_ok path sel ns pending rows b st"
  shows "\<exists>b' sel'. changeNameSpace props ns' nm (b, sel) = Inr (b', sel', calleeParent props True @ tell_namespace props nm ns') \<and>
    page_ok path sel' ns' pending rows b' st"
proof -
  obtain kvs where "hash_shows path b kvs" using assms by (auto simp: page_ok_def)
  from changeNameSpace_ok[OF this, of props ns' nm sel] show ?thesis using assms by (auto simp: page_ok_def)
qed

lemma page_ok_settled:
  assumes "page_ok path sel ns pending rows b st" "n < length pending"
  shows "page_ok path sel ns (take_nth n pending) (Some (pending ! n)) b (getData_resolved st)"
    and "page_ok path sel ns (take_nth n pending) None b (cm_closeLoading st)"
proof -
  have l: "length pending = (if st_loading st then 1 else 0)" "\<forall>c \<in> set pending. tenant_of c = Str (cm_tenant st)"
    using assms(1) by (simp_all add: page_ok_def tracked_def)
  then have t: "n = 0" "take_nth n pending = []" using assms(2) by (auto simp: take_nth_def split: if_splits)
  have "tenant_of (pending ! n) = Str (cm_tenant st)" using l(2) assms(2) by simp
  then show "page_ok path sel ns (take_nth n pending) (Some (pending ! n)) b (getData_resolved st)"
    "page_ok path sel ns (take_nth n pending) None b (cm_closeLoading st)"
    using assms(1) by (simp_all add: page_ok_def tracked_def t(2) getData_resolved_def cm_closeLoading_def)
qed

lemma user_event_ok:
  assumes "world_ok path w" "user_event ev"
  shows "\<exists>w'. list_step props ev w = Inr w' \<and> world_ok path w'"
proof -
  obtain b sel st pending rows where w: "w = (b, sel, st, pending, rows)" by (cases w)
  obtain ns where ok: "page_ok path sel ns pending rows b st" using assms(1) by (auto simp: w)
  have st: "page_ok path sel ns pending rows b st'"
    if "st_loading st' = st_loading st" "cm_tenant st' = cm_tenant st" "st_tenant st' = st_tenant st" for st'
    using page_ok_state[OF ok that] .
  have turn: "keeps path sel ns pending rows (changePage v e b st')"
    if "st_loading st' = st_loading st" "cm_tenant st' = cm_tenant st" "st_tenant st' = st_tenant st" for v e st'
    unfolding changePage_def using that by (intro getData_keeps st) simp_all
  show ?thesis
  proof (cases ev)
    case (Switched ns' nm)
    then show ?thesis using page_ok_switched[OF ok, of props ns' nm] selector_result_ok by (fastforce simp: w)
  next
    case (Turned v e)
    then show ?thesis using list_result_ok[OF turn[of st v e]] by (auto simp: w)
  next
    case (Resized v)
    have "keeps path sel ns pending rows (handlePageSizeChange v b st)" unfolding handlePageSizeChange_def by (rule turn) simp_all
    from list_result_ok[OF this] show ?thesis by (auto simp: w Resized)
  next
    case Searched
    then show ?thesis using list_result_ok[OF selectAll_keeps[OF ok]] by (auto simp: w)
  next
    case Cleared
    have "keeps path sel ns pending rows (resetAll b st)" unfolding resetAll_def by (rule selectAll_keeps, rule st) simp_all
    from list_result_ok[OF this] show ?thesis by (auto simp: w Cleared)
  next
    case (Deleted loc)
    have "keeps path sel ns pending rows (deletion_replied loc b st)" unfolding deletion_replied_def
      by (rule keeps_then[OF getData_keeps[OF ok]]) (simp add: keeps_def)
    from list_result_ok[OF this] show ?thesis by (auto simp: w Deleted)
  next
    case (Answered n)
    then show ?thesis using page_ok_settled(1)[OF ok, of n] ok by (auto simp: w)
  qed (use assms(2) in \<open>auto simp: w set_dataId_def setGroup_def setAppName_def intro!: exI[of _ ns] st\<close>)
qed

lemma list_step_ok:
  assumes "world_ok path w" "list_step props ev w = Inr w'"
  shows "world_ok path w'"
proof (cases "user_event ev")
  case True
  then show ?thesis using user_event_ok[OF assms(1) True, of props] assms(2) by (metis sum.inject(2))
next
  case False
  obtain b sel st pending rows where w: "w = (b, sel, st, pending, rows)" by (cases w)
  obtain ns where ok: "page_ok path sel ns pending rows b st" using assms(1) by (auto simp: w)
  show ?thesis
  proof (cases ev)
    case (Namespaces_Loaded data)
    then obtain b1 sel1 calls where h: "handleNameSpaces props data (b, sel) = Inr (b1, sel1, calls)"
      using assms(2) by (cases "handleNameSpaces props data (b, sel)") (auto simp: w selector_result_def)
    obtain kvs where k: "hash_shows path b kvs" using ok by (auto simp: page_ok_def)
    have "page_ok path sel1 (str_or (map_of kvs ''namespace'') []) pending rows b1 st"
      using handleNameSpaces_ok[OF k h] ok by (simp add: page_ok_def)
    from selector_result_ok[OF h this] assms(2) show ?thesis by (auto simp: w Namespaces_Loaded)
  next
    case (Refused n loc res page)
    then show ?thesis using assms(2) ok page_ok_settled(2)[OF ok, of n]
      by (auto simp: w getData_rejected_def Let_def split: if_splits jv.splits)
  qed (use False in simp_all)
qed

lemma list_run_ok: "world_ok path w \<Longrightarrow> list_run props evs w = Inr w' \<Longrightarrow> world_ok path w'"
proof (induction evs arbitrary: w)
  case (Cons ev evs)
  then obtain w1 where w1: "list_step props ev w = Inr w1" "list_run props evs w1 = Inr w'"
    by (cases "list_step props ev w") auto
  then show ?case using Cons.IH[OF list_step_ok[OF Cons.prems(1) w1(1)]] by blast
qed simp

text \<open>The page as it opens, before the selector has its namespaces.\<close>

lemma opened:
  assumes "hash_shows path b0 kvs" "cm_init selected b0 = Inr (b, st)"
  shows "\<exists>kvs. hash_shows path b kvs" "tracked st [] None"
proof -
  obtain st' where f: "cm_fields selected b0 = Inr st'" using assms(2) by (cases "cm_fields selected b0") (auto simp: cm_init_def)
  then have l: "\<not> st_loading st'" by (auto simp: cm_fields_def and_then_Inr_iff)
  have "set [''dataId'', ''group'', ''appName''] \<subseteq> set console_params" by (simp add: console_params_def)
  then show "\<exists>kvs. hash_shows path b kvs" "tracked st [] None"
    using setParamsObj_href[OF assms(1), of "[(''dataId'', Str (cm_dataId st')), (''group'', Str (cm_group st')), (''appName'', Str (cm_appName st'))]"]
      assms(2) l by (auto simp: cm_init_def f tracked_def)
qed

lemma first_load:
  assumes "hash_shows path b kvs" "tracked st [] None" "list_step props (Namespaces_Loaded data) (b, sel, st, [], None) = Inr w"
  shows "world_ok path w"
proof -
  obtain b1 sel1 calls where h: "handleNameSpaces props data (b, sel) = Inr (b1, sel1, calls)"
    using assms(3) by (cases "handleNameSpaces props data (b, sel)") (auto simp: selector_result_def)
  have "page_ok path sel1 (str_or (map_of kvs ''namespace'') []) [] None b1 st"
    using handleNameSpaces_ok[OF assms(1) h] assms(2) by (simp add: page_ok_def)
  from selector_result_ok[OF h this] assms(3) show ?thesis by auto
qed

lemma idle_asks:
  assumes "page_ok path sel ns pending rows b st" "\<not> st_loading st"
  shows "\<exists>b' st' c. list_step props (Turned v e) (b, sel, st, pending, rows) = Inr (b', sel, st', [c], rows) \<and> tenant_of c = Str ns"
proof -
  obtain kvs where k: "hash_shows path b kvs" using assms(1) by (auto simp: page_ok_def)
  have n: "map_of kvs ''namespace'' = Some ns" "pending = []"
    using assms getParams_shows[OF k, of "''namespace''"] by (simp_all add: page_ok_def ns_agree_def tracked_def)
  let ?st = "st\<lparr>st_isPageEnter := (truthy e \<and> field e ''keyCode'' = num 13), st_currentPage := v\<rparr>"
  obtain h where "getData v b ?st = Inr (b\<lparr>href := h\<rparr>, asked kvs v ?st,
      [Axios (thunk_call (getConfigs (Obj (query_params_of (asked kvs v ?st)))))])"
    using getData_asks[OF k, of ?st v] assms(2) by auto
  then show ?thesis
    using n by (simp add: changePage_def list_result_def tenant_of_def getConfigs_def get_with_def query_params_of_def asked_def str_or_def field_def)
qed

section \<open>Properties\<close>

text \<open>
  C5: the selector and the list agree however their events interleave. Once the namespaces have
  arrived, after any sequence of loads, switches, searches, page changes, deletions and answers: location,
  storage, global variable and selector name one namespace; at most one query is under way, exactly
  while the list is loading; the rows shown are those of the tenant the list names; a list that is not
  loading asks for the namespace of the selector; and no event of the user makes a handler throw.
\<close>

theorem list_page_consistent:
  assumes "hash_shows path b0 kvs" and "cm_init selected b0 = Inr (b, st)"
    and "list_run props (Namespaces_Loaded data # evs) (b, sel, st, [], None) = Inr (b', sel', st', pending, rows)"
  shows "\<exists>ns. ns_agree b' sel' ns \<and> length pending \<le> 1 \<and> (st_loading st' \<longleftrightarrow> pending \<noteq> []) \<and>
    (\<forall>c. rows = Some c \<longrightarrow> tenant_of c = st_tenant st') \<and>
    (\<not> st_loading st' \<longrightarrow>
      (\<exists>b2 st2 c. list_step props (Turned v e) (b', sel', st', pending, rows) = Inr (b2, sel', st2, [c], rows) \<and> tenant_of c = Str ns)) \<and>
    (\<forall>ev. user_event ev \<longrightarrow> (\<exists>w. list_step props ev (b', sel', st', pending, rows) = Inr w))"
proof -
  let ?w = "(b', sel', st', pending, rows)"
  obtain w where w: "list_step props (Namespaces_Loaded data) (b, sel, st, [], None) = Inr w" "list_run props evs w = Inr ?w"
    using assms(3) by (cases "list_step props (Namespaces_Loaded data) (b, sel, st, [], None)") auto
  obtain kvs1 where "hash_shows path b kvs1" using opened(1)[OF assms(1,2)] by blast
  from list_run_ok[OF first_load[OF this opened(2)[OF assms(1,2)] w(1)] w(2)] have ok: "world_ok path ?w" .
  then obtain ns where p: "page_ok path sel' ns pending rows b' st'" by auto
  then have "ns_agree b' sel' ns" "length pending \<le> 1 \<and> (st_loading st' \<longleftrightarrow> pending \<noteq> [])" "\<forall>c. rows = Some c \<longrightarrow> tenant_of c = st_tenant st'"
    by (auto simp: page_ok_def tracked_def split: if_splits)
  moreover have "\<exists>w. list_step props ev ?w = Inr w" if "user_event ev" for ev using user_event_ok[OF ok that, of props] by (elim exE conjE) (rule exI)
  ultimately show ?thesis using idle_asks[OF p, of props v e] by (intro exI[of _ ns]) simp
qed

lemma user_run_ok:
  "world_ok path w \<Longrightarrow> list_all user_event evs \<Longrightarrow> \<exists>w'. list_run props evs w = Inr w'"
proof (induction evs arbitrary: w)
  case (Cons ev evs)
  then obtain w1 where "list_step props ev w = Inr w1" "world_ok path w1" using user_event_ok[of path w ev props] by (metis list.pred_inject(2))
  then show ?case using Cons.IH[of w1] Cons.prems(2) by (simp del: world_ok.simps split_paired_Ex)
qed auto

lemma sample_opened: "\<exists>b. cm_init [] sample_list_browser = Inr (b, sample_cm) \<and> (\<exists>kvs. hash_shows ''#/configurationManagement'' b kvs)"
proof -
  have "set [''dataId'', ''group'', ''appName''] \<subseteq> set console_params" by (simp add: console_params_def)
  then obtain h where "setParamsObj [(''dataId'', Str (cm_dataId sample_cm)), (''group'', Str (cm_group sample_cm)),
      (''appName'', Str (cm_appName sample_cm))] sample_list_browser = Inr (sample_list_browser\<lparr>href := h\<rparr>)"
    using setParamsObj_href[OF sample_list_shows, of "[(''dataId'', Str (cm_dataId sample_cm)), (''group'', Str (cm_group sample_cm)),
      (''appName'', Str (cm_appName sample_cm))]"] by auto
  then have "cm_init [] sample_list_browser = Inr (sample_list_browser\<lparr>href := h\<rparr>, sample_cm)"
    by (simp add: cm_init_def sample_cm_fields)
  then show ?thesis using opened(1)[OF sample_list_shows] by blast
qed

lemma namespaces_load:
  assumes "hash_shows path b kvs" "ns = str_or (map_of kvs ''namespace'') []" "find_show_name ns xs = Inr nm"
  shows "\<exists>h. let b' = setItem ''namespace'' ns (b\<lparr>namespaceList := Arr xs, nownamespace := ns, namespaceShowName := nm, href := h\<rparr>)
    in handleNameSpaces props (Arr xs) (b, sel) =
         Inr (b', sel\<lparr>nl_nownamespace := ns, nl_namespaceList := Arr xs\<rparr>, tell_namespace props nm ns @ calleeParent props False) \<and>
       hash_shows path b' (AList.update ''namespace'' ns kvs)"
proof -
  let ?b = "b\<lparr>namespaceList := Arr xs, nownamespace := ns, namespaceShowName := nm\<rparr>"
  have "hash_shows path ?b kvs" using assms(1) by simp
  from setParams_href[OF this, of "''namespace''" ns] obtain h where
    "setParams ''namespace'' (Str ns) ?b = Inr (?b\<lparr>href := h\<rparr>)" "hash_shows path (?b\<lparr>href := h\<rparr>) (AList.update ''namespace'' ns kvs)" by auto
  then show ?thesis
    using param_or_shows[OF assms(1), of "''namespace''" "[]"] assms(2,3)
    by (intro exI[of _ h]) (simp add: handleNameSpaces_def Let_def)
qed

lemma empty_list_loads:
  assumes "hash_shows path b kvs" "tracked st [] None"
  shows "\<exists>w. list_step props (Namespaces_Loaded (Arr [])) (b, sel, st, [], None) = Inr w"
proof -
  let ?now = "str_or (map_of kvs ''namespace'') []"
  obtain b1 sel1 calls where h: "handleNameSpaces props (Arr []) (b, sel) = Inr (b1, sel1, calls)"
    using namespaces_load[OF assms(1) refl, of "[]" "[]" props sel] by (auto simp: Let_def)
  have "page_ok path sel1 ?now [] None b1 st" using handleNameSpaces_ok[OF assms(1) h] assms(2) by (simp add: page_ok_def)
  from selector_result_ok[OF h this] show ?thesis by auto
qed

theorem list_page_consistent_witness:
  "\<exists>b b' sel' st' pending rows ns. cm_init [] sample_list_browser = Inr (b, sample_cm) \<and>
    list_run sample_props [Namespaces_Loaded (Arr []), Answered 0, Switched ''prod'' ''Production'', Turned (num 2) Null, Answered 0]
      (b, sample_ns_list, sample_cm, [], None) = Inr (b', sel', st', pending, rows) \<and>
    ns_agree b' sel' ns \<and> length pending \<le> 1 \<and> (\<forall>c. rows = Some c \<longrightarrow> tenant_of c = st_tenant st')"
proof -
  let ?path = "''#/configurationManagement''" and ?evs = "[Answered 0, Switched ''prod'' ''Production'', Turned (num 2) Null, Answered 0]"
  obtain b kvs where b: "cm_init [] sample_list_browser = Inr (b, sample_cm)" "hash_shows ?path b kvs" using sample_opened by blast
  have t: "tracked sample_cm [] None" using opened(2)[OF sample_list_shows b(1)] .
  obtain w where w: "list_step sample_props (Namespaces_Loaded (Arr [])) (b, sample_ns_list, sample_cm, [], None) = Inr w"
    using empty_list_loads[OF b(2) t] by blast
  have "list_all user_event ?evs" by simp
  from user_run_ok[OF first_load[OF b(2) t w] this] obtain w' where "list_run sample_props ?evs w = Inr w'" by blast
  with w have "list_run sample_props (Namespaces_Loaded (Arr []) # ?evs) (b, sample_ns_list, sample_cm, [], None) = Inr w'" by simp
  moreover obtain b' sel' st' pending rows where "w' = (b', sel', st', pending, rows)" by (cases w')
  ultimately have r: "list_run sample_props (Namespaces_Loaded (Arr []) # ?evs) (b, sample_ns_list, sample_cm, [], None) =
      Inr (b', sel', st', pending, rows)" by simp
  from list_page_consistent[OF sample_list_shows b(1) r, of Null Null] b(1) r show ?thesis by blast
qed

subsection \<open>The page opened without parameters\<close>

lemma getParams_bare:
  assumes "hash b \<noteq> []" "CHR ''?'' \<notin> set (hash b)" "CHR ''?'' \<notin> set (parentHash b)" "n \<in> set console_params"
  shows "getParams b n = Inr None"
  using assms(1-3) console_params_good[OF assms(4)] by (simp add: getParams_def split_on_free good_name_def)

lemma opened_bare:
  assumes "canReplace b" "CHR ''#'' \<notin> set (originHref b)" "href b = originHref b @ path" "prefix ''#'' path" "length path > 1"
    and "CHR ''?'' \<notin> set path" "CHR ''?'' \<notin> set (parentHash b)"
  shows "\<exists>h st. cm_init [] b = Inr (b\<lparr>href := h\<rparr>, st) \<and> hash_shows path (b\<lparr>href := h\<rparr>) [(''dataId'', []), (''group'', []), (''appName'', [])] \<and>
    \<not> st_loading st"
proof -
  have h: "hash b = path" using hash_of_append[OF assms(2,4,5)] assms(3) by (simp add: hash_def)
  have g: "getParams b n = Inr None" if "n \<in> set console_params" for n
    using getParams_bare[OF _ _ assms(7) that] assms(5,6) h by (cases path) auto
  obtain st where f: "cm_fields [] b = Inr st" "cm_dataId st = []" "cm_group st = []" "cm_appName st = []" "\<not> st_loading st"
    by (simp add: cm_fields_def param_or_def param_def g)
  let ?ps = "[(''dataId'', Str []), (''group'', Str []), (''appName'', Str [])]"
  let ?h = "originHref b @ path @ ''?'' @ join ''&'' (map ptext [(''dataId'', []), (''group'', []), (''appName'', [])])"
  have p: "hash_pieces b = [path]" using h assms(5,6) by (auto simp: hash_pieces_def split_on_free)
  have k: "key_order ?ps = ?ps" by (rule key_order_plain) (simp add: is_index_key_def is_digit_def)
  have "setParamsObj ?ps b = Inr (b\<lparr>href := ?h\<rparr>)"
    using assms(1) k by (simp add: setParamsObj_def p param_pieces_def nth_or_def obj_put_def set_piece1_def write_hash_def param_text_Str Let_def)
  moreover have "hash_shows path (b\<lparr>href := ?h\<rparr>) [(''dataId'', []), (''group'', []), (''appName'', [])]"
    using assms by (simp add: hash_shows_def)
  ultimately show ?thesis using f by (auto simp: cm_init_def)
qed

lemma first_query:
  assumes "hash_shows path b kvs" "\<not> st_loading st" "has_callback props"
  shows "\<exists>h st' q. run_callbacks (tell_namespace props nm ns @ calleeParent props False) b st =
      Inr (b\<lparr>href := h\<rparr>, st', [Axios (thunk_call (getConfigs (Obj q)))]) \<and>
    map_of q ''tenant'' = Some (Str (str_or (map_of kvs ''namespace'') [])) \<and> hash_shows path (b\<lparr>href := h\<rparr>) (page_taken kvs)"
proof -
  define st1 where "st1 = (if has_setNow props then setNowNameSpace nm ns st else st)"
  have l: "\<not> st_loading st1" using assms(2) by (simp add: st1_def setNowNameSpace_def)
  let ?q = "query_params_of (asked kvs (num 1) st1)"
  obtain h where g: "getData (num 1) b st1 = Inr (b\<lparr>href := h\<rparr>, asked kvs (num 1) st1, [Axios (thunk_call (getConfigs (Obj ?q)))])"
      "hash_shows path (b\<lparr>href := h\<rparr>) (page_taken kvs)"
    using getData_asks[OF assms(1) l] by blast
  have "map_of ?q ''tenant'' = Some (Str (str_or (map_of kvs ''namespace'') []))" by (simp add: query_params_of_def asked_def)
  moreover have "\<exists>st'. run_callbacks (tell_namespace props nm ns @ calleeParent props False) b st =
      Inr (b\<lparr>href := h\<rparr>, st', [Axios (thunk_call (getConfigs (Obj ?q)))])"
    using g(1) assms(3)
    by (cases "has_setNow props") (simp_all add: st1_def tell_namespace_def calleeParent_def page_callback_def cleanAndGetData_def)
  ultimately show ?thesis using g(2) by blast
qed

lemma bare_page_asks:
  assumes "canReplace b" "CHR ''#'' \<notin> set (originHref b)" "href b = originHref b @ path" "prefix ''#'' path" "length path > 1"
    and "CHR ''?'' \<notin> set path" "CHR ''?'' \<notin> set (parentHash b)" and "has_callback props" "find_show_name [] xs = Inr nm"
  shows "\<exists>b4 st4 b5 sel5 st5 q. cm_init [] b = Inr (b4, st4) \<and>
    list_step props (Namespaces_Loaded (Arr xs)) (b4, sel, st4, [], None) = Inr (b5, sel5, st5, [thunk_call (getConfigs (Obj q))], None) \<and>
    ns_agree b5 sel5 [] \<and> map_of q ''tenant'' = Some (Str []) \<and> (\<forall>k. k \<noteq> ''namespace'' \<longrightarrow> getItem b5 k = getItem b k)"
proof -
  obtain h st where i: "cm_init [] b = Inr (b\<lparr>href := h\<rparr>, st)" "\<not> st_loading st"
      and s: "hash_shows path (b\<lparr>href := h\<rparr>) [(''dataId'', []), (''group'', []), (''appName'', [])]"
    using opened_bare[OF assms(1-7)] by blast
  let ?kvs = "AList.update ''namespace'' [] [(''dataId'', []), (''group'', []), (''appName'', [])]"
  obtain b1 h1 where b1: "b1 = setItem ''namespace'' [] (b\<lparr>namespaceList := Arr xs, nownamespace := [], namespaceShowName := nm, href := h1\<rparr>)"
      "handleNameSpaces props (Arr xs) (b\<lparr>href := h\<rparr>, sel) =
         Inr (b1, sel\<lparr>nl_nownamespace := [], nl_namespaceList := Arr xs\<rparr>, tell_namespace props nm [] @ calleeParent props False)"
      "hash_shows path b1 ?kvs"
    using namespaces_load[OF s, of "[]" xs nm props sel] assms(9) by (auto simp: Let_def)
  obtain h2 st' q where r: "run_callbacks (tell_namespace props nm [] @ calleeParent props False) b1 st =
        Inr (b1\<lparr>href := h2\<rparr>, st', [Axios (thunk_call (getConfigs (Obj q)))])"
      "map_of q ''tenant'' = Some (Str [])" "hash_shows path (b1\<lparr>href := h2\<rparr>) (page_taken ?kvs)"
    using first_query[OF b1(3) i(2) assms(8), of nm "[]"] by (auto simp: update_conv')
  have "getParams (b1\<lparr>href := h2\<rparr>) ''namespace'' = Inr (Some [])"
    using getParams_shows[OF r(3), of "''namespace''"] by (simp add: page_taken_def update_conv')
  then have "ns_agree (b1\<lparr>href := h2\<rparr>) (sel\<lparr>nl_nownamespace := [], nl_namespaceList := Arr xs\<rparr>) []"
    by (simp add: ns_agree_def b1(1))
  moreover have "list_step props (Namespaces_Loaded (Arr xs)) (b\<lparr>href := h\<rparr>, sel, st, [], None) =
      Inr (b1\<lparr>href := h2\<rparr>, sel\<lparr>nl_nownamespace := [], nl_namespaceList := Arr xs\<rparr>, st', [thunk_call (getConfigs (Obj q))], None)"
    by (simp add: selector_result_def b1(2) r(1))
  moreover have "\<forall>k. k \<noteq> ''namespace'' \<longrightarrow> getItem (b1\<lparr>href := h2\<rparr>) k = getItem b k" by (simp add: b1(1) setItem_def getItem_def update_conv')
  ultimately show ?thesis using i(1) r(2) by blast
qed

end
