(* ===== verification/Build_Copy.thy ===== *)
theory Build_Copy
  imports Console_Prelude
begin

text \<open>
  The scripts that put a build in place, \<^verbatim>\<open>build/copy-dist.js\<close> and \<^verbatim>\<open>build/copyFile.js\<close>. A directory is
  the list of its entries in the order \<open>readdirSync\<close> gives them; an entry is a file with its content, a
  directory, or something that is neither. The build and the place it goes to are separate trees. The
  copies of files are streams; the functions give the state when all streams have ended.
\<close>

datatype node = File string | Dir "(string \<times> node) list" | Other

type_synonym entries = "(string \<times> node) list"

datatype fs_error = EISDIR | ENOTDIR | EEXIST

section \<open>copy-dist.js\<close>

text \<open>
  \<open>delDir\<close> gives what is left in a directory; a directory that is empty then is removed, which
  \<open>del_node\<close> reports as \<open>None\<close>.
\<close>

fun del_node :: "node \<Rightarrow> node option" and delDir :: "entries \<Rightarrow> entries" where
  "del_node (File c) = None"
| "del_node Other = Some Other"
| "del_node (Dir es) = (case delDir es of [] \<Rightarrow> None | e # left \<Rightarrow> Some (Dir (e # left)))"
| "delDir [] = []"
| "delDir ((p, x) # es) = (case del_node x of None \<Rightarrow> delDir es | Some y \<Rightarrow> (p, y) # delDir es)"

text \<open>A new entry comes last; \<open>unlinkSync\<close> and \<open>rmdirSync\<close> take an entry away.\<close>

definition create :: "string \<Rightarrow> node \<Rightarrow> entries \<Rightarrow> entries" where
  "create p x es = es @ [(p, x)]"

definition unlink :: "string \<Rightarrow> entries \<Rightarrow> entries" where
  "unlink p es = filter (\<lambda>e. fst e \<noteq> p) es"

text \<open>
  \<open>copyDir(source, dest)\<close> throws when a file should replace a directory (\<open>unlinkSync\<close>), when a
  directory should replace a file (\<open>readdirSync\<close>), and when a directory could not be emptied (\<open>mkdirSync\<close>).
\<close>

definition remove_file :: "string \<Rightarrow> entries \<Rightarrow> fs_error + entries" where
  "remove_file p dest = (case map_of dest p of Some (Dir ds) \<Rightarrow> Inl EISDIR | _ \<Rightarrow> Inr (unlink p dest))"

definition remove_dir :: "string \<Rightarrow> entries \<Rightarrow> fs_error + entries" where
  "remove_dir p dest =
     (case map_of dest p of
        None \<Rightarrow> Inr dest
      | Some (Dir ds) \<Rightarrow> if delDir ds = [] then Inr (unlink p dest) else Inl EEXIST
      | Some _ \<Rightarrow> Inl ENOTDIR)"

fun copyDir :: "entries \<Rightarrow> entries \<Rightarrow> fs_error + entries" where
  "copyDir [] dest = Inr dest"
| "copyDir ((p, File c) # ps) dest =
     (case remove_file p dest of Inl e \<Rightarrow> Inl e | Inr dest' \<Rightarrow> copyDir ps (create p (File c) dest'))"
| "copyDir ((p, Dir es) # ps) dest =
     (case remove_dir p dest of
        Inl e \<Rightarrow> Inl e
      | Inr dest' \<Rightarrow> (case copyDir es [] of Inl e \<Rightarrow> Inl e | Inr es' \<Rightarrow> copyDir ps (create p (Dir es') dest')))"
| "copyDir ((p, Other) # ps) dest = copyDir ps dest"

section \<open>copyFile.js\<close>

definition copyList :: "(string \<times> string) list" where
  "copyList = [(''js'', ''main.js''), (''css'', ''main.css'')]"

text \<open>The content of a file one directory down; \<open>existsSync\<close> of it is true of a directory too.\<close>

definition entry_at :: "string \<Rightarrow> string \<Rightarrow> entries \<Rightarrow> node option" where
  "entry_at d f es = (case map_of es d of Some (Dir ds) \<Rightarrow> map_of ds f | _ \<Rightarrow> None)"

definition mkdir :: "string \<Rightarrow> entries \<Rightarrow> entries" where
  "mkdir d es = (if map_of es d = None then create d (Dir []) es else es)"

text \<open>Opening a file for writing keeps its place and replaces its content.\<close>

definition write_file :: "string \<Rightarrow> string \<Rightarrow> entries \<Rightarrow> entries" where
  "write_file f c es = (if map_of es f = None then create f (File c) es else AList.update f (File c) es)"

definition copy_file :: "entries \<Rightarrow> string \<times> string \<Rightarrow> entries \<Rightarrow> fs_error + entries" where
  "copy_file src df dest =
     (case entry_at (fst df) (snd df) src of
        None \<Rightarrow> Inr dest
      | Some (File c) \<Rightarrow>
          (let dest = mkdir (fst df) dest
           in case map_of dest (fst df) of
                Some (Dir ds) \<Rightarrow>
                  (case map_of ds (snd df) of
                     Some (Dir _) \<Rightarrow> Inl EISDIR
                   | _ \<Rightarrow> Inr (AList.update (fst df) (Dir (write_file (snd df) c ds)) dest))
              | _ \<Rightarrow> Inl ENOTDIR)
      | Some _ \<Rightarrow> Inl EISDIR)"

fun copy_files :: "entries \<Rightarrow> (string \<times> string) list \<Rightarrow> entries \<Rightarrow> fs_error + entries" where
  "copy_files src [] dest = Inr dest"
| "copy_files src (df # dfs) dest = (case copy_file src df dest of Inl e \<Rightarrow> Inl e | Inr dest \<Rightarrow> copy_files src dfs dest)"

section \<open>Lemmas\<close>

text \<open>A tree of files and directories only, with different names in every directory.\<close>

fun plain_node :: "node \<Rightarrow> bool" and plain_dir :: "entries \<Rightarrow> bool" where
  "plain_node (File c) = True"
| "plain_node Other = False"
| "plain_node (Dir es) = plain_dir es"
| "plain_dir [] = True"
| "plain_dir ((p, x) # es) = (plain_node x \<and> p \<notin> fst ` set es \<and> plain_dir es)"

lemma delDir_empties: "plain_node x \<Longrightarrow> del_node x = None" "plain_dir es \<Longrightarrow> delDir es = []"
  by (induction x and es rule: plain_node_plain_dir.induct) auto

lemma map_of_unlink: "map_of (unlink p es) q = (if q = p then None else map_of es q)"
  by (induction es) (auto simp: unlink_def)

lemma unlink_absent [simp]: "map_of es p = None \<Longrightarrow> unlink p es = es"
  by (force simp: unlink_def filter_id_conv map_of_eq_None_iff)

lemma map_of_create: "map_of es p = None \<Longrightarrow> map_of (create p x es) q = (if q = p then Some x else map_of es q)"
  by (auto simp: create_def map_add_def split: option.splits)

text \<open>What a copy may replace: a file by a file, a directory that can be emptied by a directory.\<close>

definition replaceable :: "node \<Rightarrow> node option \<Rightarrow> bool" where
  "replaceable x old =
     (case old of
        None \<Rightarrow> True
      | Some (Dir ds) \<Rightarrow> (\<exists>es. x = Dir es) \<and> plain_dir ds
      | Some _ \<Rightarrow> (\<exists>c. x = File c))"

lemma removed:
  assumes "replaceable x (map_of dest p)"
  shows "x = File c \<Longrightarrow> remove_file p dest = Inr (unlink p dest)" "x = Dir es \<Longrightarrow> remove_dir p dest = Inr (unlink p dest)"
  using assms by (auto simp: replaceable_def remove_file_def remove_dir_def delDir_empties split: option.splits node.splits)

lemma copyDir_fresh:
  "plain_dir es \<Longrightarrow> fst ` set es \<inter> fst ` set dest = {} \<Longrightarrow> copyDir es dest = Inr (dest @ es)"
proof (induction es dest rule: copyDir.induct)
  case (2 p c ps dest)
  then have n: "map_of dest p = None" by (auto simp: map_of_eq_None_iff)
  then have "remove_file p dest = Inr dest" by (simp add: remove_file_def)
  moreover have "fst ` set ps \<inter> fst ` set (create p (File c) dest) = {}" using 2(2,3) by (auto simp: create_def)
  ultimately show ?case using 2 by (simp add: create_def)
next
  case (3 p es ps dest)
  then have "map_of dest p = None" by (auto simp: map_of_eq_None_iff)
  then have r: "remove_dir p dest = Inr dest" by (simp add: remove_dir_def)
  have e: "copyDir es [] = Inr es" using 3(1)[OF r] 3(3) by simp
  have "fst ` set ps \<inter> fst ` set (create p (Dir es) dest) = {}" using 3(3,4) by (auto simp: create_def)
  then show ?case using 3(2)[OF r e] 3(3) r e by (simp add: create_def)
qed simp_all

section \<open>Properties\<close>

text \<open>
  C33: the copy of a build is exact: every entry of the build is in the destination afterwards as it is in
  the build, whole directories included, and the entries of other names are untouched; old files in a
  directory that the build has too are gone.
\<close>

theorem copyDir_exact:
  assumes "plain_dir src" and "\<forall>(p, x) \<in> set src. replaceable x (map_of dest p)"
  shows "\<exists>dest'. copyDir src dest = Inr dest' \<and> (\<forall>p. map_of dest' p = (case map_of src p of None \<Rightarrow> map_of dest p | Some x \<Rightarrow> Some x))"
  using assms
proof (induction src arbitrary: dest)
  case (Cons e src)
  obtain p x where e: "e = (p, x)" by fastforce
  let ?d = "create p x (unlink p dest)"
  have m: "map_of ?d q = (if q = p then Some x else map_of dest q)" for q
    by (simp add: map_of_create map_of_unlink)
  have p: "plain_node x" "p \<notin> fst ` set src" "plain_dir src" "replaceable x (map_of dest p)" using Cons.prems by (auto simp: e)
  have step: "copyDir (e # src) dest = copyDir src ?d"
  proof (cases x)
    case (File c)
    then show ?thesis using removed(1)[OF p(4) File] by (simp add: e)
  next
    case (Dir es)
    then have "copyDir es [] = Inr es" using p(1) copyDir_fresh[of es "[]"] by simp
    then show ?thesis using removed(2)[OF p(4) Dir] by (simp add: e Dir)
  qed (use p(1) in simp)
  have "replaceable y (map_of ?d q)" if "(q, y) \<in> set src" for q y
    using that Cons.prems(2) p(2) by (auto simp: m rev_image_eqI)
  then obtain dest' where d: "copyDir src ?d = Inr dest'" "map_of dest' q = (case map_of src q of None \<Rightarrow> map_of ?d q | Some x \<Rightarrow> Some x)" for q
    using Cons.IH[OF p(3), of ?d] by blast
  have "map_of src p = None" using p(2) by (simp add: map_of_eq_None_iff)
  then show ?case using step d by (auto simp: e m split: option.splits)
qed simp

theorem copyDir_exact_witness:
  "\<exists>dest'. copyDir [(''js'', Dir [(''main.js'', File ''new'')])] [(''js'', Dir [(''old.js'', File ''x'')]), (''login.html'', File ''l'')] = Inr dest' \<and>
    map_of dest' ''js'' = Some (Dir [(''main.js'', File ''new'')]) \<and> map_of dest' ''login.html'' = Some (File ''l'')"
proof -
  have "plain_dir [(''js'', Dir [(''main.js'', File ''new'')])]" by simp
  moreover have "\<forall>(p, x) \<in> set [(''js'', Dir [(''main.js'', File ''new'')])].
      replaceable x (map_of [(''js'', Dir [(''old.js'', File ''x'')]), (''login.html'', File ''l'')] p)"
    by (simp add: replaceable_def)
  ultimately show ?thesis
    using copyDir_exact[of "[(''js'', Dir [(''main.js'', File ''new'')])]" "[(''js'', Dir [(''old.js'', File ''x'')]), (''login.html'', File ''l'')]"]
    by fastforce
qed

text \<open>
  a build that has a directory where the destination has a file, or the other way round, is not
  copied: the script throws.
\<close>

theorem copyDir_clash:
  "map_of dest p = Some (File c) \<Longrightarrow> copyDir ((p, Dir es) # ps) dest = Inl ENOTDIR"
  "map_of dest p = Some (Dir ds) \<Longrightarrow> copyDir ((p, File c) # ps) dest = Inl EISDIR"
  by (simp_all add: remove_dir_def remove_file_def)

text \<open>The destination of a file can take it: its directory is absent, or has no directory of that name.\<close>

definition writable :: "string \<Rightarrow> string \<Rightarrow> entries \<Rightarrow> bool" where
  "writable d f dest =
     (case map_of dest d of None \<Rightarrow> True | Some (Dir ds) \<Rightarrow> (\<forall>es. map_of ds f \<noteq> Some (Dir es)) | Some _ \<Rightarrow> False)"

lemma map_of_write_file: "map_of (write_file f c es) g = (if g = f then Some (File c) else map_of es g)"
  by (simp add: write_file_def map_of_create update_conv')

lemma copy_file_ok:
  assumes "entry_at d f src = Some (File c)" "writable d f dest"
  shows "\<exists>dest'. copy_file src (d, f) dest = Inr dest' \<and> entry_at d f dest' = Some (File c) \<and>
    (\<forall>q. q \<noteq> d \<longrightarrow> map_of dest' q = map_of dest q) \<and> (\<forall>g. g \<noteq> f \<longrightarrow> entry_at d g dest' = entry_at d g dest)"
proof -
  obtain ds where ds: "map_of (mkdir d dest) d = Some (Dir ds)" "\<forall>es. map_of ds f \<noteq> Some (Dir es)"
      "\<forall>g. map_of ds g = entry_at d g dest" "\<forall>q. q \<noteq> d \<longrightarrow> map_of (mkdir d dest) q = map_of dest q"
  proof (cases "map_of dest d")
    case None
    then show ?thesis by (intro that[of "[]"]) (simp_all add: mkdir_def map_of_create entry_at_def)
  next
    case (Some x)
    moreover obtain ds where "x = Dir ds" using Some assms(2) by (cases x) (simp_all add: writable_def)
    ultimately show ?thesis using assms(2) by (intro that[of ds]) (simp_all add: mkdir_def writable_def entry_at_def)
  qed
  then have "copy_file src (d, f) dest = Inr (AList.update d (Dir (write_file f c ds)) (mkdir d dest))"
    using assms(1) by (auto simp: copy_file_def Let_def split: option.splits node.splits)
  then show ?thesis using ds by (simp add: entry_at_def update_conv' map_of_write_file)
qed

text \<open>
  the last step of a build puts the bundle and the style sheet in place and touches nothing else; what
  the build did not produce is left as it was.
\<close>

theorem copyFile_places_build:
  assumes "\<forall>(d, f) \<in> set copyList. entry_at d f src = None \<or> (\<exists>c. entry_at d f src = Some (File c))"
    and "\<forall>(d, f) \<in> set copyList. writable d f dest"
  shows "\<exists>dest'. copy_files src copyList dest = Inr dest' \<and>
    (\<forall>(d, f) \<in> set copyList. entry_at d f dest' = (case entry_at d f src of None \<Rightarrow> entry_at d f dest | Some x \<Rightarrow> Some x)) \<and>
    (\<forall>q. q \<notin> {''js'', ''css''} \<longrightarrow> map_of dest' q = map_of dest q)"
proof -
  have step: "\<exists>dest'. copy_file src (d, f) t = Inr dest' \<and> entry_at d f dest' = (case entry_at d f src of None \<Rightarrow> entry_at d f t | Some x \<Rightarrow> Some x) \<and>
      (\<forall>q. q \<noteq> d \<longrightarrow> map_of dest' q = map_of t q)"
    if a: "entry_at d f src = None \<or> (\<exists>c. entry_at d f src = Some (File c))" and w: "writable d f t" for d f t
  proof (cases "entry_at d f src")
    case None
    then show ?thesis by (simp add: copy_file_def)
  next
    case (Some x)
    then obtain c where "entry_at d f src = Some (File c)" using a by auto
    from copy_file_ok[OF this w] this show ?thesis by auto
  qed
  obtain t where t: "copy_file src (''js'', ''main.js'') dest = Inr t"
      "entry_at ''js'' ''main.js'' t = (case entry_at ''js'' ''main.js'' src of None \<Rightarrow> entry_at ''js'' ''main.js'' dest | Some x \<Rightarrow> Some x)"
      "\<forall>q. q \<noteq> ''js'' \<longrightarrow> map_of t q = map_of dest q"
    using step[of "''js''" "''main.js''" dest] assms by (auto simp: copyList_def)
  have "writable ''css'' ''main.css'' t" using assms(2) t(3) by (simp add: copyList_def writable_def)
  then obtain u where u: "copy_file src (''css'', ''main.css'') t = Inr u"
      "entry_at ''css'' ''main.css'' u = (case entry_at ''css'' ''main.css'' src of None \<Rightarrow> entry_at ''css'' ''main.css'' t | Some x \<Rightarrow> Some x)"
      "\<forall>q. q \<noteq> ''css'' \<longrightarrow> map_of u q = map_of t q"
    using step[of "''css''" "''main.css''" t] assms(1) by (auto simp: copyList_def)
  have "entry_at ''js'' ''main.js'' u = entry_at ''js'' ''main.js'' t" "entry_at ''css'' ''main.css'' t = entry_at ''css'' ''main.css'' dest"
    using t(3) u(3) by (simp_all add: entry_at_def)
  with t u show ?thesis by (auto simp: copyList_def split: option.splits)
qed

theorem copyFile_places_build_witness:
  "\<exists>dest'. copy_files [(''js'', Dir [(''main.js'', File ''new'')])] copyList [(''js'', Dir [(''main.js'', File ''old'')])] = Inr dest' \<and>
    entry_at ''js'' ''main.js'' dest' = Some (File ''new'')"
  using copyFile_places_build[of "[(''js'', Dir [(''main.js'', File ''new'')])]" "[(''js'', Dir [(''main.js'', File ''old'')])]"]
  by (auto simp: copyList_def entry_at_def writable_def)

end
