(* ===== verification/Spec2Isabelle.thy ===== *)
theory Spec2Isabelle
  imports Validate_Content Event_Bus Redux_Store Page_Core Layout Namespaces Config_List Config_Editor New_Config Config_Pages Services Authority Region_Group Dialogs Old_Editor
    Sample_Code Views Locales Site_Config List_Session Build_Copy
begin

text \<open>
  The Nacos console, verified in Isabelle/HOL. The program is the browser application under
  \<^verbatim>\<open>src/console/src/main/resources/static/console-fe/src\<close>; file names below are relative to it.

  \<^bold>\<open>The program.\<close> The console is a set of React pages over a few shared modules. \<^verbatim>\<open>globalLib.js\<close> holds
  the state all pages share: the query part of the location hash (\<open>getParams\<close>, \<open>setParams\<close>,
  \<open>removeParams\<close>), an event bus, the loading indicator and the jQuery request pipeline, which \<^verbatim>\<open>lib.js\<close>
  extends by a middleware that adds the namespace, the tenant and the reaction to a denied access.
  \<^verbatim>\<open>utils/request.js\<close> is a second pipeline over axios, used by the redux thunks in \<^verbatim>\<open>reducers\<close> and by the
  editor. The namespace selector writes the current namespace to the location, to \<open>localStorage\<close> and
  to a global variable, from where requests read it. Pages hand parameters to each other in links that
  are written without escaping.

  \<^bold>\<open>Theories.\<close>
  \<^item> \<open>Console_Prelude\<close>: JavaScript values (\<open>jv\<close>: a number is an exact decimal), errors, objects as
    association lists with the order of their keys, splitting and joining of strings.
  \<^item> \<open>Js_Json\<close>, \<open>Js_Uri\<close>: \<open>JSON.parse\<close>, \<open>JSON.stringify\<close> with the round trip between them, and
    \<open>encodeURIComponent\<close>, \<open>decodeURIComponent\<close>, for texts of single-byte characters.
  \<^item> \<open>Validate_Content\<close>: \<^verbatim>\<open>utils/validateContent.js\<close>. The state machine for properties texts is proved
    equal to a line-oriented reading of the format.
  \<^item> \<open>Url_Params\<close>: the browser record and the location functions of \<^verbatim>\<open>globalLib.js\<close>. The locale
    \<open>query_store\<close> states what a client may rely on; it is interpreted on \<open>getParams\<close> and \<open>setParams\<close>.
    Sequences of operations refine a map from names to values.
  \<^item> \<open>Nacos_Util\<close>: \<^verbatim>\<open>utils/nacosutil.js\<close>. \<open>Event_Bus\<close>: the bus and the loading indicator.
  \<^item> \<open>Ajax_Request\<close>: both request pipelines, from the configuration a page passes to the call that
    leaves, and their handling of failures.
  \<^item> \<open>Redux_Store\<close>: \<^verbatim>\<open>constants.js\<close> and \<^verbatim>\<open>reducers\<close>.
  \<^item> \<open>Page_Core\<close>: how pages are modelled. A handler is a function of the page's state and the browser
    that returns the new state with the effects it asks for, or the error it throws; what happens
    when a reply arrives is a function of its own, so interleavings are sequences of these functions.
    It also has the lemmas on links.
  \<^item> \<open>Layout\<close>: \<^verbatim>\<open>layouts\<close>, the routes of \<^verbatim>\<open>index.js\<close> and the login. \<open>Namespaces\<close>: the selector, the
    namespace page and its dialogs. \<open>Config_List\<close>, \<open>Config_Editor\<close>, \<open>New_Config\<close>, \<open>Config_Pages\<close>: the
    pages of \<^verbatim>\<open>pages/ConfigurationManagement\<close>. \<open>Services\<close>: \<^verbatim>\<open>pages/ServiceManagement\<close> and
    \<^verbatim>\<open>pages/ClusterManagement\<close>. \<open>Authority\<close>: \<^verbatim>\<open>pages/AuthorityControl\<close>; its three lists implement the
    locale \<open>list_page\<close>.
  \<^item> \<open>Region_Group\<close>: the region bar, \<^verbatim>\<open>components/RegionGroup\<close>. \<open>Dialogs\<close>: the dialogs for deletion, batch
    handling, cloning, export and import under \<^verbatim>\<open>components\<close>; the locale \<open>policy_form\<close> states what the
    policy field of the last two forms keeps. \<open>Old_Editor\<close>: the former editor \<^verbatim>\<open>ConfigEditor.js\<close>.
    \<open>Sample_Code\<close>: the dialogs of \<^verbatim>\<open>components/ShowCodeing\<close> with the texts they show.
  \<^item> \<open>Views\<close>: what the pages draw as far as it depends on their state: the menu and the header, pagers, the
    tables of listeners and instances, cards and results. The locale \<open>paged_view\<close> extends \<open>list_page\<close> by a pager.
  \<^item> \<open>List_Session\<close>: selector and list of the configuration page as one state machine over the events of the
    user and the server. \<open>Locales\<close>: the tables of texts under \<^verbatim>\<open>locales\<close>, with the texts every component
    reads. \<open>Site_Config\<close>: \<^verbatim>\<open>config.js\<close>. \<open>Build_Copy\<close>: the scripts \<^verbatim>\<open>../build/copy-dist.js\<close> and
    \<^verbatim>\<open>../build/copyFile.js\<close> that put a build in place, over trees of files.
  \<^item> This theory: flows that run through several components, after this header.

  \<^bold>\<open>What is proved.\<close> Round trips: a parameter written to the location reads back; the links from the list
  to the details and to the editor open the right configuration, and lead back to the data identifier and
  group searched for, the namespace and the page, but not to the application and the tags, which no link
  carries; a permission shows the namespace it was granted on; the link of the export dialog carries the
  selection; a click on a region opens the address of that region. Refinement: any sequence of operations
  on the location acts as on a map. Types: every slice of the store keeps the entries it started with
  whatever is dispatched, and users, roles and permissions stay objects. Invariants over all reachable
  states: the loading indicator is visible exactly while the counter is positive, also when listeners open,
  close, register and trigger while an event is dispatched; the namespace is the same everywhere it is
  kept; selector and list of the configuration page agree on it and at most one query of the list is
  under way, however events and answers interleave; the tabs of the editor agree with the beta
  release; the authority lists ask for the page they show; the policy a clone sends and the label
  beside it agree, and so do those of an import unless the policy is changed while the upload runs.
  Flows: a switch in the selector reaches the request of the list and the store; an expired session ends
  at the login page, and the next login starts in the public namespace with the new token. Safety: the
  publish button sends a text that the check rejected only after a confirmation, while the release of a beta
  version is sent unchecked; a new configuration or namespace is created only after the question whether it
  exists; operations on a selection act on the checked rows. Requests leave the pipeline with tenant and
  token, and the two pipelines react alike to a refusal with an object as its body. Views: exactly one entry
  of the menu is marked, a pager shows the page that was asked for, a switch turns the button it was clicked
  on. Texts: in both languages every component finds the texts it reads, with the exceptions listed in the
  theorem, and the menu has no blank label. Build: a copied build is exact and leaves other files alone.
  Some theorems record where the code does not do what it means to: a header that drops valid sessions, a
  removed namespace that stays the tenant, a switch of the namespace that asks nothing, an answer that
  brings back a page the user left, requests without an XSRF token, a once listener that runs twice when
  its event is triggered from a listener, a new configuration published under names changed after the
  question, a tab of sample code that shows the former record, an editor that loses the server on the way
  back, a pager that turns no page, a list stuck on a page without a pager, messages whose text no table has.

  \<^bold>\<open>Parameters.\<close> Code outside these sources is an argument: the XML and YAML parsers, the text editor
  (\<open>env_monaco\<close> gives the text an editor holds), the merge view, \<open>qs.stringify\<close>, the texts of the
  components library, the errors a form library reports, the replies of the server. A page takes its
  section of the texts as an argument, which \<open>Locales\<close> gives. \<open>setState\<close> is applied at once, which is how the handlers read the state. Functions are total; a loop over a list that changes while it is
  walked is a recursion on the visits left, listeners that call the bus again are run to an arbitrary
  depth of nesting (\<open>run_at\<close>, the invariants hold at every depth), and the JSON parser has fuel that grows with the
  text, with a proof in \<open>Js_Json\<close> that it suffices for every text.

  \<^bold>\<open>Not modelled.\<close> Markup and styles that do not depend on a state; the options handed to the bundler
  under \<^verbatim>\<open>../build\<close> and the bundle it produces; the vendored editors under \<^verbatim>\<open>../public\<close>, which are
  third-party code; the server.
\<close>

section \<open>Flows across components\<close>

text \<open>The configuration axios passes to the interceptor for a call; \<open>headers\<close> are the defaults of the library.\<close>

definition axios_of :: "jv \<Rightarrow> api_call \<Rightarrow> axios_config" where
  "axios_of headers call = \<lparr>x_url = api_path call, x_params = api_query call, x_data = api_body call, x_method = api_verb call,
     x_headers = headers\<rparr>"

lemma getConfigs_authorised:
  assumes "read_token b = Inr (b, Str tok)"
  shows "\<exists>x. axios_request qs b (axios_of hs (thunk_call (getConfigs (Obj q)))) = Inr (b, x) \<and> x_url x = ''v1/cs/configs'' \<and>
    x_method x = ''get'' \<and> x_params x = Obj (obj_put ''accessToken'' (Str tok) q)"
  using assms by (simp add: axios_request_def axios_token_same axios_of_def obj_of_def Let_def getConfigs_def get_with_def str_includes_def sublist_def)

lemma session_token:
  assumes "getItem b ''token'' = Some t" "parse_json t = Inr v" "field v ''accessToken'' = Str tok"
  shows "read_token b = Inr (b, Str tok)"
  using assms by (auto simp: read_token_def field_def split: jv.splits)

text \<open>
  C7: a switch of the namespace reaches the list. After a click in the selector the list, unless it
  is waiting for an answer, asks for the configurations of the chosen namespace. The data identifier, the
  group and the selection are cleared; the application and the tags searched for stay in the query.
  The call that leaves the pipeline names that namespace and the token of the session, and once it is
  answered the store holds what the server sent and the list is ready for the next query.
\<close>

theorem namespace_switch_reaches_list:
  assumes "hash_shows path b kvs" and "\<not> st_loading st" and "has_callback props"
    and "getItem b ''token'' = Some t" and "parse_json t = Inr v" and "field v ''accessToken'' = Str tok"
  shows "\<exists>b1 sel1 calls b2 st2 q x.
    changeNameSpace props ns nsName (b, sel) = Inr (b1, sel1, calls) \<and> Callback ''namespaceCallBack'' [Bool True] \<in> set calls \<and>
    cleanAndGetData True b1 st = Inr (b2, st2, [Axios (thunk_call (getConfigs (Obj q)))]) \<and>
    axios_request qs b2 (axios_of hs (thunk_call (getConfigs (Obj q)))) = Inr (b2, x) \<and>
    x_url x = ''v1/cs/configs'' \<and> x_method x = ''get'' \<and> field (x_params x) ''tenant'' = Str ns \<and>
    field (x_params x) ''accessToken'' = Str tok \<and> field (x_params x) ''dataId'' = Str [] \<and> field (x_params x) ''group'' = Str [] \<and>
    field (x_params x) ''appName'' = Str (cm_appName st) \<and> field (x_params x) ''config_tags'' = Str (join '','' (st_config_tags st)) \<and>
    configsTableSelected st2 = [] \<and>
    field (Obj (configuration_slice (run_thunk (getConfigs (Obj q)) (Resolved d) s))) ''configurations'' = d \<and>
    \<not> st_loading (getData_resolved st2)"
proof -
  let ?k = "put_all [(''namespace'', ns), (''namespaceShowName'', nsName)] kvs"
  let ?calls = "calleeParent props True @ tell_namespace props nsName ns"
  obtain b1 sel1 where b1: "changeNameSpace props ns nsName (b, sel) = Inr (b1, sel1, ?calls)"
      "hash_shows path b1 ?k" "getItem b1 ''token'' = Some t"
    using changeNameSpace_ok[OF assms(1), of props ns nsName sel] assms(4) by auto
  have "map_of ?k ''namespace'' = Some ns" by (simp add: update_conv')
  from cleanAndGetData_asks[OF b1(2) assms(2) this] obtain h st2 q where
    c: "cleanAndGetData True b1 st = Inr (b1\<lparr>href := h\<rparr>, st2, [Axios (thunk_call (getConfigs (Obj q)))])"
      "map_of q ''tenant'' = Some (Str ns)" "map_of q ''dataId'' = Some (Str [])" "map_of q ''group'' = Some (Str [])"
      "map_of q ''appName'' = Some (Str (cm_appName st))" "map_of q ''config_tags'' = Some (Str (join '','' (st_config_tags st)))"
      "configsTableSelected st2 = []" by blast
  have "read_token (b1\<lparr>href := h\<rparr>) = Inr (b1\<lparr>href := h\<rparr>, Str tok)" using b1(3) by (intro session_token[OF _ assms(5,6)]) simp
  from getConfigs_authorised[OF this, of qs hs q] obtain x where
    x: "axios_request qs (b1\<lparr>href := h\<rparr>) (axios_of hs (thunk_call (getConfigs (Obj q)))) = Inr (b1\<lparr>href := h\<rparr>, x)"
      "x_url x = ''v1/cs/configs''" "x_method x = ''get''" "x_params x = Obj (obj_put ''accessToken'' (Str tok) q)" by blast
  have q: "field (x_params x) ''tenant'' = Str ns" "field (x_params x) ''accessToken'' = Str tok"
      "field (x_params x) ''dataId'' = Str []" "field (x_params x) ''group'' = Str []"
      "field (x_params x) ''appName'' = Str (cm_appName st)" "field (x_params x) ''config_tags'' = Str (join '','' (st_config_tags st))"
    unfolding x(4) using c(2-6) by (simp_all add: field_def map_of_obj_put)
  have "field (Obj (configuration_slice (run_thunk (getConfigs (Obj q)) (Resolved d) s))) ''configurations'' = d"
    by (simp add: run_thunk_def getConfigs_def dispatch_data_def reducer_defs action_types field_def map_of_obj_put)
  moreover have "Callback ''namespaceCallBack'' [Bool True] \<in> set ?calls" using assms(3) by (simp add: calleeParent_def)
  moreover have "\<not> st_loading (getData_resolved st2)" by (simp add: getData_resolved_def)
  ultimately show ?thesis using b1(1) c(1,7) x(1-3) q by blast
qed

definition list_session :: browser where
  "list_session = setItem ''token'' sample_token sample_list_browser"

theorem namespace_switch_reaches_list_witness:
  "\<exists>b1 sel1 calls b2 st2 q x. changeNameSpace sample_props ''prod'' ''Production'' (list_session, sample_ns_list) = Inr (b1, sel1, calls) \<and>
    cleanAndGetData True b1 sample_cm = Inr (b2, st2, [Axios (thunk_call (getConfigs (Obj q)))]) \<and>
    axios_request to_str b2 (axios_of Null (thunk_call (getConfigs (Obj q)))) = Inr (b2, x) \<and>
    field (x_params x) ''tenant'' = Str ''prod'' \<and> field (x_params x) ''accessToken'' = Str ''abc.def''"
proof -
  have s: "hash_shows ''#/configurationManagement'' list_session [(''namespace'', ''dev''), (''pageNo'', ''3'')]"
    using sample_list_shows by (simp add: list_session_def)
  have p: "parse_json sample_token = Inr (Obj [(''accessToken'', Str ''abc.def'')])" by code_simp
  have "getItem list_session ''token'' = Some sample_token" "has_callback sample_props"
    by (simp_all add: list_session_def sample_props_def)
  from namespace_switch_reaches_list[OF s sample_cm_fields(2) this(2,1) p, of "''abc.def''" "''prod''" "''Production''" sample_ns_list
      to_str Null Null "init_store sample_tables"]
  show ?thesis by (simp add: field_def[of "Obj [_]"]) blast
qed

text \<open>
  C8: an expired session and the next one. When the query of the list is refused with one of the session
  messages, the token is gone and the browser is at the login page, the list is empty and no longer
  loading. The next login leads over the start and welcome pages to a new list, whose location carries
  nothing of the former one: once the namespaces are there it asks with the new token for the public
  namespace, and location, storage, global variable and selector name that one, whatever namespace
  the user was in. \<open>router\<close> is the router of the pages, which shows a path after the number sign.
\<close>

theorem expired_session_restarts:
  assumes "hash_shows path b kvs" and "CHR ''?'' \<notin> set (parentHash b)"
    and "status \<in> {401, 403}" and "field (Obj body) ''message'' \<in> {Str ''unknown user!'', Str ''token invalid!'', Str ''token expired!''}"
    and "tr loc ''getNamespace403'' = Str txt"
    and "plain_json (Obj session)" and "field (Obj session) ''accessToken'' = Str tok"
    and "functionMode \<notin> {Str [], Str ''naming''}" and router: "\<And>url b. router url b = b\<lparr>href := base_url (href b) @ ''#'' @ url\<rparr>"
    and "has_callback props" and "find_show_name [] xs = Inr nm"
  shows "\<exists>b1 page st1 alert b2 start b4 st4 b5 sel5 st5 q x.
    axios_failed (Some (status, Obj body)) b = Inr (b1, field (Obj body) ''message'') \<and>
    getItem b1 ''token'' = None \<and> hash b1 = ''#/login'' \<and>
    getData_rejected loc (Obj [(''status'', num status), (''data'', Obj body)]) configurations st = Inr (page, st1, [alert]) \<and>
    field (Obj page) ''pageItems'' = Arr [] \<and> field (Obj page) ''totalCount'' = num 0 \<and> \<not> st_loading st1 \<and>
    login_replied loc2 (Resolved (Obj session)) b1 = Inr (b2, [Push ''/'']) \<and> welcome_page functionMode = Some start \<and>
    cm_init [] (router start (router ''/welcome'' (router ''/'' b2))) = Inr (b4, st4) \<and>
    list_step props (Namespaces_Loaded (Arr xs)) (b4, sel, st4, [], None) = Inr (b5, sel5, st5, [thunk_call (getConfigs (Obj q))], None) \<and>
    ns_agree b5 sel5 [] \<and>
    axios_request qs b5 (axios_of hs (thunk_call (getConfigs (Obj q)))) = Inr (b5, x) \<and>
    field (x_params x) ''accessToken'' = Str tok \<and> field (x_params x) ''tenant'' = Str []"
proof -
  have f: "axios_failed (Some (status, Obj body)) b = Inr (goLogin b, field (Obj body) ''message'')"
    using assms(3,4) by (auto simp: axios_failed_def axios_login_messages_def axios_goLogin_same)
  obtain t where t: "login_replied loc2 (Resolved (Obj session)) (goLogin b) = Inr (setItem ''token'' t (goLogin b), [Push ''/''])"
    "parse_json t = Inr (Obj session)" using login_stores[OF assms(6)] .
  let ?b2 = "setItem ''token'' t (goLogin b)" and ?start = "''/configurationManagement''"
  let ?b3 = "router ?start (router ''/welcome'' (router ''/'' ?b2))"
  have l: "getItem (goLogin b) ''token'' = None" "hash (goLogin b) = ''#/login''"
    using hash_of_append[OF base_url_prefix, of "''#/login''" "href b"]
    by (simp_all add: goLogin_def hash_def getItem_def removeItem_def delete_conv')
  have rej: "\<exists>page st1 alert. getData_rejected loc (Obj [(''status'', num status), (''data'', Obj body)]) configurations st = Inr (page, st1, [alert]) \<and>
    field (Obj page) ''pageItems'' = Arr [] \<and> field (Obj page) ''totalCount'' = num 0 \<and> \<not> st_loading st1"
    using assms(3,5) by (auto simp: getData_rejected_def Let_def cm_closeLoading_def field_def map_of_obj_put)
  have w: "welcome_page functionMode = Some ?start" using assms(8) by (simp add: welcome_page_def)
  have base: "base_url (href b) = originHref b" "canReplace b" "CHR ''#'' \<notin> set (originHref b)"
    using assms(1) base_url_append[of "originHref b"] by (cases path; auto simp: hash_shows_def)+
  then have b3: "?b3 = ?b2\<lparr>href := originHref b @ ''#'' @ ?start\<rparr>"
    by (simp add: router base_url_append goLogin_def setItem_def removeItem_def)
  have same: "canReplace ?b3" "originHref ?b3 = originHref b" "parentHash ?b3 = parentHash b" "href ?b3 = originHref b @ ''#'' @ ?start"
      "getItem ?b3 ''token'' = Some t"
    unfolding b3 using base by (simp_all add: goLogin_def removeItem_def setItem_def getItem_def update_conv')
  obtain b4 st4 b5 sel5 st5 q where p: "cm_init [] ?b3 = Inr (b4, st4)"
      "list_step props (Namespaces_Loaded (Arr xs)) (b4, sel, st4, [], None) = Inr (b5, sel5, st5, [thunk_call (getConfigs (Obj q))], None)"
      "ns_agree b5 sel5 []" "map_of q ''tenant'' = Some (Str [])" "getItem b5 ''token'' = Some t"
    using bare_page_asks[of ?b3 "''#'' @ ?start" props xs nm sel] same base(3) assms(2,10,11) by auto
  have "read_token b5 = Inr (b5, Str tok)" by (rule session_token[OF p(5) t(2) assms(7)])
  from getConfigs_authorised[OF this, of qs hs q] obtain x where
    x: "axios_request qs b5 (axios_of hs (thunk_call (getConfigs (Obj q)))) = Inr (b5, x)" "x_params x = Obj (obj_put ''accessToken'' (Str tok) q)" by blast
  have "field (x_params x) ''accessToken'' = Str tok" "field (x_params x) ''tenant'' = Str []"
    unfolding x(2) using p(4) by (simp_all add: field_def map_of_obj_put)
  with f l rej t(1) w p(1-3) x(1) show ?thesis by blast
qed

theorem expired_session_restarts_witness:
  "\<exists>b1 b2 b4 st4 b5 sel5 st5 c. axios_failed (Some (403, Obj [(''message'', Str ''token expired!'')])) list_session = Inr (b1, Str ''token expired!'') \<and>
    login_replied Null (Resolved (Obj [(''accessToken'', Str ''new'')])) b1 = Inr (b2, [Push ''/'']) \<and>
    cm_init [] (b2\<lparr>href := ''http://h:8848/nacos/#/configurationManagement''\<rparr>) = Inr (b4, st4) \<and>
    list_step sample_props (Namespaces_Loaded (Arr [])) (b4, sample_ns_list, st4, [], None) = Inr (b5, sel5, st5, [c], None) \<and>
    ns_agree b5 sel5 []"
proof -
  have s: "hash_shows ''#/configurationManagement'' list_session [(''namespace'', ''dev''), (''pageNo'', ''3'')]"
    using sample_list_shows by (simp add: list_session_def)
  have q: "CHR ''?'' \<notin> set (parentHash list_session)" by code_simp
  have j: "plain_json (Obj [(''accessToken'', Str ''new'')])" by code_simp
  have m: "field (Obj [(''message'', Str ''token expired!'')]) ''message'' \<in> {Str ''unknown user!'', Str ''token invalid!'', Str ''token expired!''}" by (simp add: field_def)
  have g: "tr (Obj [(''getNamespace403'', Str ''x'')]) ''getNamespace403'' = Str ''x''" by code_simp
  have k: "field (Obj [(''accessToken'', Str ''new'')]) ''accessToken'' = Str ''new''" by code_simp
  have c: "has_callback sample_props" "find_show_name [] [] = Inr []" "Null \<notin> {Str [], Str ''naming''}" "(403::int) \<in> {401, 403}"
    by (simp_all add: sample_props_def)
  define router where "router url b = b\<lparr>href := base_url (href b) @ ''#'' @ url\<rparr>" for url and b :: browser
  obtain b1 b2 start b4 st4 b5 sel5 st5 q where p:
      "axios_failed (Some (403, Obj [(''message'', Str ''token expired!'')])) list_session = Inr (b1, field (Obj [(''message'', Str ''token expired!'')]) ''message'')"
      "login_replied Null (Resolved (Obj [(''accessToken'', Str ''new'')])) b1 = Inr (b2, [Push ''/''])" "welcome_page Null = Some start"
      "cm_init [] (router start (router ''/welcome'' (router ''/'' b2))) = Inr (b4, st4)"
      "list_step sample_props (Namespaces_Loaded (Arr [])) (b4, sample_ns_list, st4, [], None) = Inr (b5, sel5, st5, [thunk_call (getConfigs (Obj q))], None)"
      "ns_agree b5 sel5 []"
    using expired_session_restarts[OF s q c(4) m g j k c(3) router_def c(1,2), of "[]" sample_cm Null sample_ns_list to_str Null] by blast
  have "start = ''/configurationManagement''" using p(3) by (simp add: welcome_page_def)
  moreover have "b1 = goLogin list_session"
    using p(1) by (simp add: axios_failed_def axios_login_messages_def axios_goLogin_same field_def)
  moreover obtain t where "login_replied Null (Resolved (Obj [(''accessToken'', Str ''new'')])) b1 = Inr (setItem ''token'' t b1, [Push ''/''])"
    using login_stores[OF j] by blast
  then have "b2 = setItem ''token'' t b1" using p(2) by simp
  moreover have "base_url (href list_session) = ''http://h:8848/nacos/''" by code_simp
  ultimately have "router start (router ''/welcome'' (router ''/'' b2)) = b2\<lparr>href := ''http://h:8848/nacos/#/configurationManagement''\<rparr>"
    using base_url_append[of "''http://h:8848/nacos/''"] by (simp add: router_def goLogin_def setItem_def removeItem_def)
  with p show ?thesis by (simp add: field_def)
qed

end
